(* ===== verification/Prelude.thy ===== *)
theory Prelude
  imports Main "HOL-Library.Word"
begin

text \<open>
  Names for the Go types, the error values and the loop shapes that every component of the
  indexer shares.

  \<^item> Go's fixed-width integers are \<open>n word\<close>; a signed integer is the word of the same width, read
    with \<open>sint\<close> (two's complement), so a Go conversion between integer types is \<open>ucast\<close> (or nothing
    when the width is the same) and \<open>+\<close>, \<open>-\<close> wrap around as in Go.
  \<^item> A Go string is a list of characters, a byte slice a list of 8-bit words, a \<open>time.Time\<close> the
    number of microseconds since the Unix epoch.
  \<^item> A Go map built by a loop \<open>for _, x := range xs { m[key(x)] = x }\<close> is \<open>index_by key xs\<close>: the last
    element with a key wins. A loop that appends at most one element per iteration is \<open>collect\<close>.
  \<^item> Errors are values of \<open>go_error\<close>; a call that can fail or panic returns an \<open>outcome\<close>.
\<close>

named_theorems row_simps \<open>what the rows of a change-detecting converter contain\<close>
named_theorems key_inj \<open>injectivity of the keys the converters look states up with\<close>

section \<open>Types\<close>

type_synonym uint64 = "64 word"
type_synonym int64 = "64 word"
type_synonym uint32 = "32 word"
type_synonym int32 = "32 word"
type_synonym uint16 = "16 word"
type_synonym int16 = "16 word"
type_synonym byte = "8 word"
type_synonym bytes = "byte list"
type_synonym time = int

datatype go_error =
    ErrChainNotConfigured
  | ErrNotImplemented
  | ContextCanceled
  | Errorf string
  | WrapErr string go_error

text \<open>\<open>errors.Is\<close> unwraps the \<open>%w\<close> chain.\<close>

fun errors_Is :: "go_error \<Rightarrow> go_error \<Rightarrow> bool" where
  "errors_Is (WrapErr s e) target = (WrapErr s e = target \<or> errors_Is e target)"
| "errors_Is e target = (e = target)"

datatype 'a outcome = Ok 'a | Fail go_error | Panic

fun bind_outcome :: "'a outcome \<Rightarrow> ('a \<Rightarrow> 'b outcome) \<Rightarrow> 'b outcome" where
  "bind_outcome (Ok x) f = f x"
| "bind_outcome (Fail e) f = Fail e"
| "bind_outcome Panic f = Panic"

lemma bind_outcome_Ok_iff [simp]: "bind_outcome r f = Ok y \<longleftrightarrow> (\<exists>x. r = Ok x \<and> f x = Ok y)"
  by (cases r) auto

text \<open>\<open>fmt.Errorf("msg: %w", err)\<close> around the error of a call.\<close>

fun wrap_error :: "string \<Rightarrow> 'a outcome \<Rightarrow> 'a outcome" where
  "wrap_error s (Fail e) = Fail (WrapErr s e)"
| "wrap_error s r = r"

lemma wrap_error_Ok_iff [simp]: "wrap_error s r = Ok x \<longleftrightarrow> r = Ok x"
  by (cases r) auto

lemma wrap_error_Panic_iff [simp]: "wrap_error s r = Panic \<longleftrightarrow> r = Panic"
  by (cases r) auto

section \<open>Loops that append\<close>

fun collect :: "('a \<Rightarrow> 'b option) \<Rightarrow> 'a list \<Rightarrow> 'b list" where
  "collect f [] = []"
| "collect f (x # xs) = (case f x of None \<Rightarrow> collect f xs | Some y \<Rightarrow> y # collect f xs)"

lemma collect_append [simp]: "collect f (xs @ ys) = collect f xs @ collect f ys"
  by (induction xs) (auto split: option.split)

lemma set_collect: "set (collect f xs) = {y. \<exists>x \<in> set xs. f x = Some y}"
  by (induction xs) (auto split: option.split)

lemma in_set_collect [simp]: "y \<in> set (collect f xs) \<longleftrightarrow> (\<exists>x \<in> set xs. f x = Some y)"
  by (simp add: set_collect)

lemma collect_eq_Nil_iff [simp]: "collect f xs = [] \<longleftrightarrow> (\<forall>x \<in> set xs. f x = None)"
  by (induction xs) (auto split: option.split)

lemma collect_cong [fundef_cong]:
  "xs = ys \<Longrightarrow> (\<And>x. x \<in> set ys \<Longrightarrow> f x = g x) \<Longrightarrow> collect f xs = collect g ys"
  by (induction xs arbitrary: ys) (auto split: option.split)

lemma length_collect: "length (collect f xs) = length (filter (\<lambda>x. f x \<noteq> None) xs)"
  by (induction xs) (auto split: option.split)

lemma length_collect_le: "length (collect f xs) \<le> length xs"
  by (simp add: length_collect)

lemma collect_all_Some: "(\<And>x. x \<in> set xs \<Longrightarrow> f x = Some (g x)) \<Longrightarrow> collect f xs = map g xs"
  by (induction xs) auto

lemma map_collect: "map g (collect f xs) = collect (\<lambda>x. map_option g (f x)) xs"
  by (induction xs) (auto split: option.split)

lemma distinct_map_collect:
  assumes "distinct (map k xs)" "\<And>x y. f x = Some y \<Longrightarrow> g y = k x"
  shows "distinct (map g (collect f xs))"
  using assms by (induction xs) (force split: option.split)+

lemma collect_concat_map: "collect f (concat (map g xs)) = concat (map (\<lambda>x. collect f (g x)) xs)"
  by (induction xs) simp_all

lemma collect_map: "collect f (map g xs) = collect (\<lambda>x. f (g x)) xs"
  by (induction xs) (auto split: option.split)

section \<open>Maps built by a loop over a slice\<close>

definition index_by :: "('a \<Rightarrow> 'k) \<Rightarrow> 'a list \<Rightarrow> ('k \<rightharpoonup> 'a)" where
  "index_by key xs = foldl (\<lambda>m x. m(key x \<mapsto> x)) Map.empty xs"

lemma index_by_Nil [simp]: "index_by key [] = Map.empty"
  by (simp add: index_by_def)

lemma index_by_snoc: "index_by key (xs @ [x]) = (index_by key xs)(key x \<mapsto> x)"
  by (simp add: index_by_def)

lemma index_by_append: "index_by key (xs @ ys) = index_by key xs ++ index_by key ys"
proof (induction ys rule: rev_induct)
  case (snoc y ys)
  have "index_by key (xs @ ys @ [y]) = (index_by key (xs @ ys))(key y \<mapsto> y)"
    using index_by_snoc [of key "xs @ ys" y] by simp
  then show ?case by (simp only: snoc index_by_snoc map_add_upd)
qed simp

lemma index_by_Cons: "index_by key (x # xs) = [key x \<mapsto> x] ++ index_by key xs"
  using index_by_append [of key "[x]" xs] index_by_snoc [of key "[]" x] by simp

lemma index_by_SomeD: "index_by key xs k = Some x \<Longrightarrow> x \<in> set xs \<and> key x = k"
  by (induction xs rule: rev_induct) (auto simp: index_by_snoc split: if_splits)

lemma index_by_None_iff: "index_by key xs k = None \<longleftrightarrow> k \<notin> key ` set xs"
  by (induction xs rule: rev_induct) (auto simp: index_by_snoc)

lemma dom_index_by [simp]: "dom (index_by key xs) = key ` set xs"
  using index_by_None_iff [of key xs] by (auto simp: dom_def)

lemma index_by_code [code]:
  "index_by key xs k = List.find (\<lambda>x. key x = k) (rev xs)"
  by (induction xs rule: rev_induct) (auto simp: index_by_snoc)

lemma index_by_mem:
  "distinct (map key xs) \<Longrightarrow> x \<in> set xs \<Longrightarrow> index_by key xs (key x) = Some x"
  by (induction xs rule: rev_induct) (auto simp: index_by_snoc image_iff)

lemma index_by_distinct_iff:
  "distinct (map key xs) \<Longrightarrow> index_by key xs k = Some x \<longleftrightarrow> x \<in> set xs \<and> key x = k"
  using index_by_SomeD [of key xs k x] index_by_mem [of key xs x] by auto

lemma foldl_map_option_upd:
  "foldl (\<lambda>m x. m(k x \<mapsto> f x)) (\<lambda>a. map_option f (m0 a)) xs =
   (\<lambda>a. map_option f (foldl (\<lambda>m x. m(k x \<mapsto> x)) m0 xs a))"
proof (induction xs arbitrary: m0)
  case (Cons x xs)
  have "(\<lambda>a. map_option f (m0 a))(k x \<mapsto> f x) = (\<lambda>a. map_option f ((m0(k x \<mapsto> x)) a))"
    by (rule ext) simp
  then show ?case using Cons [of "m0(k x \<mapsto> x)"] by (simp only: foldl_Cons)
qed simp

lemma foldl_concat_map: "foldl f m (concat (map g xs)) = foldl (\<lambda>m x. foldl f m (g x)) m xs"
  by (induction xs arbitrary: m) simp_all

lemma foldl_map': "foldl f m (map g xs) = foldl (\<lambda>m x. f m (g x)) m xs"
  by (induction xs arbitrary: m) simp_all

text \<open>\<open>for _, x := range xs { m[key(x)] = f(x) }\<close>\<close>

definition index_with :: "('a \<Rightarrow> 'k) \<Rightarrow> ('a \<Rightarrow> 'b) \<Rightarrow> 'a list \<Rightarrow> ('k \<rightharpoonup> 'b)" where
  "index_with key f xs = foldl (\<lambda>m x. m(key x \<mapsto> f x)) Map.empty xs"

lemma index_with_index_by: "index_with key f xs k = map_option f (index_by key xs k)"
  using foldl_map_option_upd [of key f Map.empty xs] by (simp add: index_with_def index_by_def)

text \<open>\<open>for _, x := range xs { m[key(x)] = true }\<close>, read with the zero value false.\<close>

definition flag_all :: "('a \<Rightarrow> 'k) \<Rightarrow> 'a list \<Rightarrow> 'k \<Rightarrow> bool" where
  "flag_all key xs = foldl (\<lambda>m x. m(key x := True)) (\<lambda>_. False) xs"

lemma flag_all_iff [simp]: "flag_all key xs k \<longleftrightarrow> k \<in> key ` set xs"
  unfolding flag_all_def by (induction xs rule: rev_induct) auto

section \<open>Sums and counts\<close>

lemma length_filter_partition:
  assumes "\<And>x. x \<in> set xs \<Longrightarrow> P x \<longleftrightarrow> \<not> Q x"
  shows "length (filter P xs) + length (filter Q xs) = length xs"
proof -
  have "filter Q xs = filter (\<lambda>x. \<not> P x) xs"
    using assms by (intro filter_cong) auto
  then show ?thesis by (simp add: sum_length_filter_compl)
qed

end
