(* ===== verification/GoText.thy ===== *)
theory GoText
  imports Prelude "HOL-Library.Char_ord"
begin

text \<open>
  The text keys the indexer builds: lower-case hexadecimal of a byte slice
  (\<open>transform.BytesToHex\<close>, pkg/transform/hex.go), decimal numbers (\<open>strconv.FormatUint\<close>, \<open>%d\<close>), and
  the composite keys of internal/indexer/conversions.go. Each key is shown to be injective, so a
  Go map over the text is a map over the thing it stands for.
\<close>

section \<open>Hexadecimal\<close>

definition hex_digits :: string where
  "hex_digits = ''0123456789abcdef''"

definition hex_digit :: "nat \<Rightarrow> char" where
  "hex_digit n = hex_digits ! n"

definition EncodeToString :: "bytes \<Rightarrow> string" where
  "EncodeToString bs = concat (map (\<lambda>b. [hex_digit (unat b div 16), hex_digit (unat b mod 16)]) bs)"

definition BytesToHex :: "bytes \<Rightarrow> string" where
  "BytesToHex b = (if length b = 0 then '''' else EncodeToString b)"

lemma BytesToHex_Nil [simp]: "BytesToHex [] = []"
  by (simp add: BytesToHex_def)

lemma BytesToHex_Cons:
  "BytesToHex (b # bs) = hex_digit (unat b div 16) # hex_digit (unat b mod 16) # BytesToHex bs"
  by (simp add: BytesToHex_def EncodeToString_def)

lemma length_BytesToHex [simp]: "length (BytesToHex b) = 2 * length b"
  by (induction b) (simp_all add: BytesToHex_Cons)

lemma distinct_hex_digits: "distinct hex_digits" "length hex_digits = 16"
  by (simp_all add: hex_digits_def)

lemma hex_digit_inj: "m < 16 \<Longrightarrow> n < 16 \<Longrightarrow> hex_digit m = hex_digit n \<longleftrightarrow> m = n"
  unfolding hex_digit_def using distinct_hex_digits by (simp add: nth_eq_iff_index_eq)

lemma hex_digit_in: "n < 16 \<Longrightarrow> hex_digit n \<in> set hex_digits"
  unfolding hex_digit_def using distinct_hex_digits by simp

lemma byte_lt_256: "unat (b :: byte) < 256"
  using unsigned_less [of b] by simp

lemma hex_byte_inj:
  fixes a b :: byte
  assumes "hex_digit (unat a div 16) = hex_digit (unat b div 16)"
    and "hex_digit (unat a mod 16) = hex_digit (unat b mod 16)"
  shows "a = b"
proof -
  have "unat a div 16 < 16" "unat b div 16 < 16"
    using byte_lt_256 [of a] byte_lt_256 [of b] by (simp_all add: less_mult_imp_div_less)
  then have "unat a div 16 = unat b div 16" using assms(1) by (simp add: hex_digit_inj)
  moreover have "unat a mod 16 = unat b mod 16" using assms(2) by (simp add: hex_digit_inj)
  ultimately have "unat a = unat b" by (metis div_mult_mod_eq)
  then show ?thesis by (simp add: word_unat_eq_iff)
qed

lemma BytesToHex_eq_iff [simp, key_inj]: "BytesToHex a = BytesToHex b \<longleftrightarrow> a = b"
proof
  assume "BytesToHex a = BytesToHex b"
  then show "a = b"
  proof (induction a arbitrary: b)
    case Nil
    then show ?case by (cases b) (simp_all add: BytesToHex_Cons)
  next
    case (Cons x a)
    then show ?case by (cases b) (auto simp: BytesToHex_Cons intro: hex_byte_inj)
  qed
qed simp

lemma inj_BytesToHex: "inj BytesToHex"
  by (simp add: inj_def)

lemma set_BytesToHex: "set (BytesToHex b) \<subseteq> set hex_digits"
proof (induction b)
  case (Cons x b)
  have "unat x div 16 < 16" using byte_lt_256 [of x] by (simp add: less_mult_imp_div_less)
  then show ?case using Cons by (simp add: BytesToHex_Cons hex_digit_in)
qed simp

section \<open>Decimal numbers\<close>

fun format_nat :: "nat \<Rightarrow> string" where
  "format_nat n = (if n < 10 then [hex_digit n] else format_nat (n div 10) @ [hex_digit (n mod 10)])"

declare format_nat.simps [simp del]

definition FormatUint :: "uint64 \<Rightarrow> string" where
  "FormatUint n = format_nat (unat n)"

definition decimal_digits :: "char set" where
  "decimal_digits = set ''0123456789''"

lemma hex_digit_decimal: "n < 10 \<Longrightarrow> hex_digit n \<in> decimal_digits"
  by (auto simp: hex_digit_def hex_digits_def decimal_digits_def less_Suc_eq numeral_eq_Suc nth_Cons')

lemma set_format_nat: "set (format_nat n) \<subseteq> decimal_digits"
proof (induction n rule: format_nat.induct)
  case (1 n)
  show ?case
  proof (cases "n < 10")
    case True
    then show ?thesis by (subst format_nat.simps) (simp add: hex_digit_decimal)
  next
    case False
    then show ?thesis using 1 by (subst format_nat.simps) (simp add: hex_digit_decimal)
  qed
qed

lemma format_nat_not_Nil [simp]: "format_nat n \<noteq> []" "[] \<noteq> format_nat n"
  by (subst format_nat.simps, simp)+

lemma format_nat_single: "n < 10 \<Longrightarrow> format_nat n = [hex_digit n]"
  by (subst format_nat.simps) simp

lemma format_nat_more: "\<not> n < 10 \<Longrightarrow> format_nat n = format_nat (n div 10) @ [hex_digit (n mod 10)]"
  by (subst format_nat.simps) simp

lemma format_nat_inj: "format_nat m = format_nat n \<Longrightarrow> m = n"
proof (induction m arbitrary: n rule: format_nat.induct)
  case (1 m)
  show ?case
  proof (cases "m < 10")
    case True
    note m = this
    show ?thesis
    proof (cases "n < 10")
      case True
      then show ?thesis using 1(2) m by (simp add: format_nat_single hex_digit_inj)
    next
      case False
      then show ?thesis using 1(2) m by (simp add: format_nat_single format_nat_more)
    qed
  next
    case False
    note m = this
    show ?thesis
    proof (cases "n < 10")
      case True
      then show ?thesis using 1(2) m by (simp add: format_nat_single format_nat_more)
    next
      case False
      then have "format_nat (m div 10) = format_nat (n div 10)"
        and "hex_digit (m mod 10) = hex_digit (n mod 10)"
        using 1(2) m by (simp_all add: format_nat_more)
      then have "m div 10 = n div 10" and "m mod 10 = n mod 10"
        using 1(1) m by (simp_all add: hex_digit_inj)
      then show ?thesis by (metis div_mult_mod_eq)
    qed
  qed
qed

lemma format_nat_eq_iff [simp]: "format_nat m = format_nat n \<longleftrightarrow> m = n"
  using format_nat_inj by auto

lemma FormatUint_eq_iff [simp, key_inj]: "FormatUint m = FormatUint n \<longleftrightarrow> m = n"
  by (simp add: FormatUint_def word_unat_eq_iff)

lemma set_FormatUint: "set (FormatUint n) \<subseteq> decimal_digits"
  by (simp add: FormatUint_def set_format_nat)

section \<open>Composite keys\<close>

text \<open>Two texts joined by a separator that the first part never contains can be taken apart.\<close>

lemma append_sep_inj:
  assumes "c \<notin> set xs" "c \<notin> set xs'" "xs @ c # ys = xs' @ c # ys'"
  shows "xs = xs' \<and> ys = ys'"
  using assms
proof (induction xs arbitrary: xs')
  case Nil
  then show ?case by (cases xs') auto
next
  case (Cons x xs)
  then show ?case by (cases xs') auto
qed

lemma sep_not_decimal: "CHR '':'' \<notin> decimal_digits" "CHR ''-'' \<notin> decimal_digits"
  by (simp_all add: decimal_digits_def)

lemma colon_notin_FormatUint: "CHR '':'' \<notin> set (FormatUint n)"
  using set_FormatUint [of n] sep_not_decimal(1) by (rule contra_subsetD)

lemma dash_notin_FormatUint: "CHR ''-'' \<notin> set (FormatUint n)"
  using set_FormatUint [of n] sep_not_decimal(2) by (rule contra_subsetD)

definition poolHolderKey :: "uint64 \<Rightarrow> string \<Rightarrow> string" where
  "poolHolderKey poolID address = FormatUint poolID @ '':'' @ address"

lemma poolHolderKey_eq_iff [simp, key_inj]:
  "poolHolderKey p a = poolHolderKey q b \<longleftrightarrow> p = q \<and> a = b"
proof
  assume "poolHolderKey p a = poolHolderKey q b"
  then have eq: "FormatUint p @ CHR '':'' # a = FormatUint q @ CHR '':'' # b"
    by (simp add: poolHolderKey_def)
  from append_sep_inj [OF colon_notin_FormatUint colon_notin_FormatUint eq]
  show "p = q \<and> a = b" by simp
qed simp

text \<open>\<open>fmt.Sprintf("%d-%d", local, remote)\<close>\<close>

definition dexPriceKey :: "uint64 \<Rightarrow> uint64 \<Rightarrow> string" where
  "dexPriceKey l r = FormatUint l @ ''-'' @ FormatUint r"

lemma dexPriceKey_eq_iff [simp, key_inj]: "dexPriceKey a b = dexPriceKey c d \<longleftrightarrow> a = c \<and> b = d"
proof
  assume "dexPriceKey a b = dexPriceKey c d"
  then have eq: "FormatUint a @ CHR ''-'' # FormatUint b = FormatUint c @ CHR ''-'' # FormatUint d"
    by (simp add: dexPriceKey_def)
  from append_sep_inj [OF dash_notin_FormatUint dash_notin_FormatUint eq]
  show "a = c \<and> b = d" by simp
qed simp

end
