(* ===== verification/CanopyTypes.thy ===== *)
theory CanopyTypes
  imports GoText
begin

text \<open>
  The chain's own messages (packages \<open>lib\<close> and \<open>fsm\<close> of github.com/canopy-network/canopy) are not part
  of this repository. They enter the model as records of exactly the fields the indexer reads; a
  pointer that the code tests against nil, or dereferences without a test, is an \<open>option\<close>. The message
  of an event (\<open>Event.Msg\<close>, a protobuf one-of) stays a type variable \<open>'m\<close>: the indexer only hands it to
  \<open>json.Marshal\<close>. What the code relies on of those packages is collected in two parameter records:
  \<open>event_types\<close>, the event type constants, and \<open>'m dex_codec\<close>, the JSON codec of the DEX events.
\<close>

section \<open>Package fsm\<close>

record fsm_Account =
  acc_Address :: bytes
  acc_Amount :: uint64

record fsm_PoolPoints =
  pp_Address :: bytes
  pp_Points :: uint64

record fsm_Pool =
  pool_Id :: uint64
  pool_Amount :: uint64
  pool_Points :: "fsm_PoolPoints list"
  pool_TotalPoolPoints :: uint64

record fsm_Validator =
  val_Address :: bytes
  val_PublicKey :: bytes
  val_NetAddress :: string
  val_StakedAmount :: uint64
  val_Committees :: "uint64 list"
  val_MaxPausedHeight :: uint64
  val_UnstakingHeight :: uint64
  val_Output :: bytes
  val_Delegate :: bool
  val_Compound :: bool

record fsm_NonSigner =
  ns_Address :: bytes
  ns_Counter :: uint64

record fsm_Supply =
  fsup_Total :: uint64
  fsup_Staked :: uint64
  fsup_DelegatedOnly :: uint64

record fsm_ConsensusParams =
  fcp_BlockSize :: uint64
  fcp_ProtocolVersion :: string
  fcp_RootChainId :: uint64

record fsm_ValidatorParams =
  fvp_UnstakingBlocks :: uint64
  fvp_MaxPauseBlocks :: uint64
  fvp_DoubleSignSlashPercentage :: uint64
  fvp_NonSignSlashPercentage :: uint64
  fvp_MaxNonSign :: uint64
  fvp_NonSignWindow :: uint64
  fvp_MaxCommittees :: uint64
  fvp_MaxCommitteeSize :: uint64
  fvp_EarlyWithdrawalPenalty :: uint64
  fvp_DelegateUnstakingBlocks :: uint64
  fvp_MinimumOrderSize :: uint64
  fvp_StakePercentForSubsidizedCommittee :: uint64
  fvp_MaxSlashPerCommittee :: uint64
  fvp_DelegateRewardPercentage :: uint64
  fvp_BuyDeadlineBlocks :: uint64
  fvp_LockOrderFeeMultiplier :: uint64
  fvp_MinimumStakeForValidators :: uint64
  fvp_MinimumStakeForDelegates :: uint64
  fvp_MaximumDelegatesPerCommittee :: uint64

record fsm_FeeParams =
  ffp_SendFee :: uint64
  ffp_StakeFee :: uint64
  ffp_EditStakeFee :: uint64
  ffp_UnstakeFee :: uint64
  ffp_PauseFee :: uint64
  ffp_UnpauseFee :: uint64
  ffp_ChangeParameterFee :: uint64
  ffp_DaoTransferFee :: uint64
  ffp_CertificateResultsFee :: uint64
  ffp_SubsidyFee :: uint64
  ffp_CreateOrderFee :: uint64
  ffp_EditOrderFee :: uint64
  ffp_DeleteOrderFee :: uint64
  ffp_DexLimitOrderFee :: uint64
  ffp_DexLiquidityDepositFee :: uint64
  ffp_DexLiquidityWithdrawFee :: uint64

record fsm_GovernanceParams =
  fgp_DaoRewardPercentage :: uint64

record fsm_Params =
  fp_Consensus :: "fsm_ConsensusParams option"
  fp_Validator :: "fsm_ValidatorParams option"
  fp_Fee :: "fsm_FeeParams option"
  fp_Governance :: "fsm_GovernanceParams option"

section \<open>Package lib\<close>

record lib_DoubleSigner =
  ds_Id :: bytes
  ds_Heights :: "uint64 list"

record lib_SellOrder =
  so_Id :: bytes
  so_Committee :: uint64
  so_Data :: bytes
  so_AmountForSale :: uint64
  so_RequestedAmount :: uint64
  so_SellerReceiveAddress :: bytes
  so_BuyerSendAddress :: bytes
  so_BuyerReceiveAddress :: bytes
  so_BuyerChainDeadline :: uint64
  so_SellersSendAddress :: bytes

record lib_OrderBook =
  ob_Orders :: "lib_SellOrder list"

record lib_DexPrice =
  dp_LocalChainId :: uint64
  dp_RemoteChainId :: uint64
  dp_LocalPool :: uint64
  dp_RemotePool :: uint64
  dp_E6ScaledPrice :: uint64

record lib_PaymentPercents =
  pay_Address :: bytes
  pay_Percent :: uint64

record lib_CommitteeData =
  cd_ChainId :: uint64
  cd_LastRootHeightUpdated :: uint64
  cd_LastChainHeightUpdated :: uint64
  cd_NumberOfSamples :: uint64
  cd_PaymentPercents :: "lib_PaymentPercents list"

record lib_DexLimitOrder =
  dlo_OrderId :: bytes
  dlo_Address :: bytes
  dlo_AmountForSale :: uint64
  dlo_RequestedAmount :: uint64

record lib_DexLiquidityDeposit =
  dld_OrderId :: bytes
  dld_Address :: bytes
  dld_Amount :: uint64

record lib_DexLiquidityWithdraw =
  dlw_OrderId :: bytes
  dlw_Address :: bytes
  dlw_Percent :: uint64

record lib_DexBatch =
  db_Committee :: uint64
  db_LockedHeight :: uint64
  db_Orders :: "lib_DexLimitOrder list"
  db_Deposits :: "lib_DexLiquidityDeposit list"
  db_Withdrawals :: "lib_DexLiquidityWithdraw list"

record 'm lib_Event =
  ev_EventType :: string
  ev_Height :: uint64
  ev_Reference :: string
  ev_ChainId :: uint64
  ev_BlockHeight :: uint64
  ev_Address :: bytes
  ev_Msg :: 'm

record lib_TxResult =
  txr_MessageType :: string

record lib_BlockHeader =
  bh_Height :: uint64
  bh_Hash :: bytes
  bh_Time :: uint64
  bh_NumTxs :: uint64
  bh_TotalTxs :: uint64
  bh_TotalVdfIterations :: uint64
  bh_LastBlockHash :: bytes
  bh_StateRoot :: bytes
  bh_TransactionRoot :: bytes
  bh_ValidatorRoot :: bytes
  bh_NextValidatorRoot :: bytes
  bh_ProposerAddress :: bytes

record lib_BlockResultMeta =
  meta_Size :: uint64

record 'm lib_BlockResult =
  br_BlockHeader :: "lib_BlockHeader option"
  br_Meta :: "lib_BlockResultMeta option"
  br_Transactions :: "lib_TxResult list"
  br_Events :: "'m lib_Event list"

section \<open>What the indexer relies on of those packages\<close>

text \<open>The event type constants \<open>lib.EventTypeAutoPause\<close>, ... as strings.\<close>

record event_types =
  EventTypeAutoPause :: string
  EventTypeAutoBeginUnstaking :: string
  EventTypeSlash :: string
  EventTypeReward :: string

text \<open>The four constants are pairwise different (the Go compiler rejects a switch over equal ones).\<close>

definition distinct_event_types :: "event_types \<Rightarrow> bool" where
  "distinct_event_types et \<longleftrightarrow> distinct
     [EventTypeAutoPause et, EventTypeAutoBeginUnstaking et, EventTypeSlash et, EventTypeReward et]"

record lib_EventDexSwap =
  eds_OrderId :: bytes
  eds_SoldAmount :: uint64
  eds_BoughtAmount :: uint64
  eds_LocalOrigin :: bool
  eds_Success :: bool

record lib_EventDexLiquidityDeposit =
  edd_OrderId :: bytes
  edd_LocalOrigin :: bool
  edd_Points :: uint64

record lib_EventDexLiquidityWithdrawal =
  edw_OrderId :: bytes
  edw_LocalAmount :: uint64
  edw_RemoteAmount :: uint64
  edw_PointsBurned :: uint64

text \<open>\<open>json.Marshal(e.Msg)\<close> and the three \<open>UnmarshalJSON\<close> methods; None is a returned error.\<close>

record 'm dex_codec =
  json_Marshal :: "'m \<Rightarrow> bytes option"
  UnmarshalDexSwap :: "bytes \<Rightarrow> lib_EventDexSwap option"
  UnmarshalDexLiquidityDeposit :: "bytes \<Rightarrow> lib_EventDexLiquidityDeposit option"
  UnmarshalDexLiquidityWithdrawal :: "bytes \<Rightarrow> lib_EventDexLiquidityWithdrawal option"

end
