(* ===== verification/Models.thy ===== *)
theory Models
  imports GoText Complex_Main
begin

text \<open>
  The row structs of pkg/db/models/indexer, field for field and in the source's order. A field
  carries the prefix of its struct because record fields share one name space. \<open>BlockSummary\<close> is in
  the theory Summary. The methods and constants of pool.go and validator.go follow their records.
\<close>

record Block =
  blk_Height :: uint64
  blk_Hash :: string
  blk_Time :: time
  blk_NetworkID :: uint32
  blk_LastBlockHash :: string
  blk_ProposerAddress :: string
  blk_Size :: int32
  blk_NumTxs :: uint64
  blk_TotalTxs :: uint64
  blk_TotalVDFIterations :: int32
  blk_StateRoot :: string
  blk_TransactionRoot :: string
  blk_ValidatorRoot :: string
  blk_NextValidatorRoot :: string

record Transaction =
  tx_Height :: uint64
  tx_TxHash :: string
  tx_TxIndex :: uint16
  tx_Timestamp :: time
  tx_HeightTime :: time
  tx_CreatedHeight :: uint64
  tx_NetworkID :: uint32
  tx_MessageType :: string
  tx_Signer :: string
  tx_Amount :: uint64
  tx_Fee :: uint64
  tx_Memo :: string
  tx_ValidatorAddress :: string
  tx_Commission :: real
  tx_ChainID :: uint16
  tx_SellAmount :: uint64
  tx_BuyAmount :: uint64
  tx_LiquidityAmt :: uint64
  tx_LiquidityPercent :: uint64
  tx_OrderID :: string
  tx_Price :: real
  tx_ParamKey :: string
  tx_ParamValue :: string
  tx_CommitteeID :: uint16
  tx_Recipient :: string
  tx_PollHash :: string
  tx_BuyerReceiveAddress :: string
  tx_BuyerSendAddress :: string
  tx_BuyerChainDeadline :: uint64
  tx_Msg :: string
  tx_PublicKey :: string
  tx_Signature :: string

record Event =
  evr_Height :: uint64
  evr_ChainID :: uint16
  evr_Address :: string
  evr_Reference :: string
  evr_EventType :: string
  evr_BlockHeight :: uint64
  evr_Amount :: uint64
  evr_SoldAmount :: uint64
  evr_BoughtAmount :: uint64
  evr_LocalAmount :: uint64
  evr_RemoteAmount :: uint64
  evr_Success :: bool
  evr_LocalOrigin :: bool
  evr_OrderID :: string
  evr_PointsReceived :: uint64
  evr_PointsBurned :: uint64
  evr_Data :: string
  evr_SellerReceiveAddress :: string
  evr_BuyerSendAddress :: string
  evr_SellersSendAddress :: string
  evr_Msg :: string
  evr_HeightTime :: time

record Account =
  acct_Address :: string
  acct_Amount :: uint64
  acct_Rewards :: uint64
  acct_Slashes :: uint64
  acct_Height :: uint64
  acct_HeightTime :: time

record Validator =
  vld_Address :: string
  vld_PublicKey :: string
  vld_NetAddress :: string
  vld_StakedAmount :: uint64
  vld_Output :: string
  vld_Committees :: "uint64 list"
  vld_MaxPausedHeight :: uint64
  vld_UnstakingHeight :: uint64
  vld_Delegate :: bool
  vld_Compound :: bool
  vld_Status :: string
  vld_Height :: uint64
  vld_HeightTime :: time

record ValidatorNonSigningInfo =
  vns_Address :: string
  vns_MissedBlocksCount :: uint64
  vns_LastSignedHeight :: uint64
  vns_Height :: uint64
  vns_HeightTime :: time

record ValidatorDoubleSigningInfo =
  vds_Address :: string
  vds_EvidenceCount :: uint64
  vds_FirstEvidenceHeight :: uint64
  vds_LastEvidenceHeight :: uint64
  vds_Height :: uint64
  vds_HeightTime :: time

record Pool =
  pol_PoolID :: uint32
  pol_ChainID :: uint16
  pol_Amount :: uint64
  pol_TotalPoints :: uint64
  pol_LPCount :: uint16
  pol_AmountDelta :: int64
  pol_TotalPointsDelta :: int64
  pol_LPCountDelta :: int16
  pol_Height :: uint64
  pol_HeightTime :: time
  pol_LiquidityPoolID :: uint32
  pol_HoldingPoolID :: uint32
  pol_EscrowPoolID :: uint32
  pol_RewardPoolID :: uint32

record PoolPointsByHolder =
  pph_Address :: string
  pph_PoolID :: uint32
  pph_Height :: uint64
  pph_HeightTime :: time
  pph_Committee :: uint16
  pph_Points :: uint64
  pph_LiquidityPoolPoints :: uint64
  pph_LiquidityPoolID :: uint32
  pph_PoolAmount :: uint64

record Order =
  ord_OrderID :: string
  ord_Height :: uint64
  ord_HeightTime :: time
  ord_Committee :: uint16
  ord_Data :: string
  ord_AmountForSale :: uint64
  ord_RequestedAmount :: uint64
  ord_SellerReceiveAddress :: string
  ord_BuyerSendAddress :: string
  ord_BuyerReceiveAddress :: string
  ord_BuyerChainDeadline :: uint64
  ord_SellersSendAddress :: string
  ord_Status :: string

record DexPrice =
  dpx_LocalChainID :: uint16
  dpx_RemoteChainID :: uint16
  dpx_LocalPool :: uint64
  dpx_RemotePool :: uint64
  dpx_PriceE6 :: uint64
  dpx_PriceDelta :: int64
  dpx_LocalPoolDelta :: int64
  dpx_RemotePoolDelta :: int64
  dpx_Height :: uint64
  dpx_HeightTime :: time

record DexOrder =
  dxo_OrderID :: string
  dxo_Height :: uint64
  dxo_HeightTime :: time
  dxo_Committee :: uint16
  dxo_Address :: string
  dxo_AmountForSale :: uint64
  dxo_RequestedAmount :: uint64
  dxo_State :: string
  dxo_Success :: bool
  dxo_SoldAmount :: uint64
  dxo_BoughtAmount :: uint64
  dxo_LocalOrigin :: bool
  dxo_LockedHeight :: uint64

record DexDeposit =
  dxd_OrderID :: string
  dxd_Height :: uint64
  dxd_HeightTime :: time
  dxd_Committee :: uint16
  dxd_Address :: string
  dxd_Amount :: uint64
  dxd_State :: string
  dxd_LocalOrigin :: bool
  dxd_PointsReceived :: uint64

record DexWithdrawal =
  dxw_OrderID :: string
  dxw_Height :: uint64
  dxw_HeightTime :: time
  dxw_Committee :: uint16
  dxw_Address :: string
  dxw_Percent :: uint64
  dxw_State :: string
  dxw_LocalAmount :: uint64
  dxw_RemoteAmount :: uint64
  dxw_PointsBurned :: uint64

record Committee =
  cmt_ChainID :: uint16
  cmt_LastRootHeightUpdated :: uint64
  cmt_LastChainHeightUpdated :: uint64
  cmt_NumberOfSamples :: uint64
  cmt_Subsidized :: byte
  cmt_Retired :: byte
  cmt_Height :: uint64
  cmt_HeightTime :: time

record CommitteeValidator =
  cmv_CommitteeID :: uint64
  cmv_ValidatorAddress :: string
  cmv_StakedAmount :: uint64
  cmv_Status :: string
  cmv_Delegate :: bool
  cmv_Compound :: bool
  cmv_Height :: uint64
  cmv_HeightTime :: time
  cmv_Subsidized :: bool
  cmv_Retired :: bool

record CommitteePayment =
  cmp_CommitteeID :: uint64
  cmp_Address :: string
  cmp_Percent :: uint64
  cmp_Height :: uint64
  cmp_HeightTime :: time

record Params =
  prm_Height :: uint64
  prm_HeightTime :: time
  prm_BlockSize :: uint64
  prm_ProtocolVersion :: string
  prm_RootChainID :: uint16
  prm_Retired :: uint64
  prm_UnstakingBlocks :: uint64
  prm_MaxPauseBlocks :: uint64
  prm_DoubleSignSlashPercentage :: uint64
  prm_NonSignSlashPercentage :: uint64
  prm_MaxNonSign :: uint64
  prm_NonSignWindow :: uint64
  prm_MaxCommittees :: uint64
  prm_MaxCommitteeSize :: uint64
  prm_EarlyWithdrawalPenalty :: uint64
  prm_DelegateUnstakingBlocks :: uint64
  prm_MinimumOrderSize :: uint64
  prm_StakePercentForSubsidized :: uint64
  prm_MaxSlashPerCommittee :: uint64
  prm_DelegateRewardPercentage :: uint64
  prm_BuyDeadlineBlocks :: uint64
  prm_LockOrderFeeMultiplier :: uint64
  prm_MinimumStakeForValidators :: uint64
  prm_MinimumStakeForDelegates :: uint64
  prm_MaximumDelegatesPerCommittee :: uint64
  prm_SendFee :: uint64
  prm_StakeFee :: uint64
  prm_EditStakeFee :: uint64
  prm_UnstakeFee :: uint64
  prm_PauseFee :: uint64
  prm_UnpauseFee :: uint64
  prm_ChangeParameterFee :: uint64
  prm_DaoTransferFee :: uint64
  prm_CertificateResultsFee :: uint64
  prm_SubsidyFee :: uint64
  prm_CreateOrderFee :: uint64
  prm_EditOrderFee :: uint64
  prm_DeleteOrderFee :: uint64
  prm_DexLimitOrderFee :: uint64
  prm_DexLiquidityDepositFee :: uint64
  prm_DexLiquidityWithdrawFee :: uint64
  prm_DaoRewardPercentage :: uint64

record Supply =
  sup_Total :: uint64
  sup_Staked :: uint64
  sup_DelegatedOnly :: uint64
  sup_Height :: uint64
  sup_HeightTime :: time

record PollSnapshot =
  pls_ProposalHash :: string
  pls_ProposalURL :: string
  pls_AccountsApproveTokens :: uint64
  pls_AccountsRejectTokens :: uint64
  pls_AccountsTotalVotedTokens :: uint64
  pls_AccountsTotalTokens :: uint64
  pls_AccountsApprovePercentage :: uint64
  pls_AccountsRejectPercentage :: uint64
  pls_AccountsVotedPercentage :: uint64
  pls_ValidatorsApproveTokens :: uint64
  pls_ValidatorsRejectTokens :: uint64
  pls_ValidatorsTotalVotedTokens :: uint64
  pls_ValidatorsTotalTokens :: uint64
  pls_ValidatorsApprovePercentage :: uint64
  pls_ValidatorsRejectPercentage :: uint64
  pls_ValidatorsVotedPercentage :: uint64
  pls_SnapshotTime :: time

record ProposalSnapshot =
  prs_ProposalHash :: string
  prs_Proposal :: string
  prs_Approve :: bool
  prs_SnapshotTime :: time
  prs_ProposalType :: string
  prs_Signer :: string
  prs_StartHeight :: uint64
  prs_EndHeight :: uint64
  prs_ParameterSpace :: string
  prs_ParameterKey :: string
  prs_ParameterValue :: string
  prs_DaoTransferAddress :: string
  prs_DaoTransferAmount :: uint64

section \<open>Zero values\<close>

text \<open>A Go composite literal leaves the fields it does not name at their zero value; \<open>time.Time{}\<close> is
  the first of January of year 1.\<close>

definition zero_time :: time where
  "zero_time = - 62135596800000000"

definition zero_Transaction :: Transaction where
  "zero_Transaction = \<lparr>
     tx_Height = 0, tx_TxHash = '''', tx_TxIndex = 0, tx_Timestamp = zero_time, tx_HeightTime = zero_time,
     tx_CreatedHeight = 0, tx_NetworkID = 0, tx_MessageType = '''', tx_Signer = '''', tx_Amount = 0,
     tx_Fee = 0, tx_Memo = '''', tx_ValidatorAddress = '''', tx_Commission = 0, tx_ChainID = 0,
     tx_SellAmount = 0, tx_BuyAmount = 0, tx_LiquidityAmt = 0, tx_LiquidityPercent = 0,
     tx_OrderID = '''', tx_Price = 0, tx_ParamKey = '''', tx_ParamValue = '''', tx_CommitteeID = 0,
     tx_Recipient = '''', tx_PollHash = '''', tx_BuyerReceiveAddress = '''', tx_BuyerSendAddress = '''',
     tx_BuyerChainDeadline = 0, tx_Msg = '''', tx_PublicKey = '''', tx_Signature = ''''\<rparr>"

definition zero_Event :: Event where
  "zero_Event = \<lparr>
     evr_Height = 0, evr_ChainID = 0, evr_Address = '''', evr_Reference = '''', evr_EventType = '''',
     evr_BlockHeight = 0, evr_Amount = 0, evr_SoldAmount = 0, evr_BoughtAmount = 0, evr_LocalAmount = 0,
     evr_RemoteAmount = 0, evr_Success = False, evr_LocalOrigin = False, evr_OrderID = '''',
     evr_PointsReceived = 0, evr_PointsBurned = 0, evr_Data = '''', evr_SellerReceiveAddress = '''',
     evr_BuyerSendAddress = '''', evr_SellersSendAddress = '''', evr_Msg = '''', evr_HeightTime = zero_time\<rparr>"

section \<open>DEX states\<close>

definition DexPendingState :: string where "DexPendingState = ''pending''"
definition DexLockedState :: string where "DexLockedState = ''locked''"
definition DexCompleteState :: string where "DexCompleteState = ''complete''"

lemma dex_states_distinct [simp]:
  "DexPendingState \<noteq> DexLockedState" "DexLockedState \<noteq> DexPendingState"
  "DexPendingState \<noteq> DexCompleteState" "DexCompleteState \<noteq> DexPendingState"
  "DexLockedState \<noteq> DexCompleteState" "DexCompleteState \<noteq> DexLockedState"
  by (simp_all add: DexPendingState_def DexLockedState_def DexCompleteState_def)

section \<open>Pool identifiers of the models package\<close>

text \<open>\<open>math.MaxUint16\<close> is 65535 and the constant expressions are untyped, so the divisions are integer
  divisions of 65535, 131070 and 262140 by 4.\<close>

definition MaxUint16 :: nat where "MaxUint16 = 65535"
definition model_MaxChainID :: uint64 where "model_MaxChainID = of_nat (MaxUint16 div 4)"
definition model_HoldingPoolAddend :: uint64 where "model_HoldingPoolAddend = of_nat (1 * MaxUint16 div 4)"
definition model_LiquidityPoolAddend :: uint64 where "model_LiquidityPoolAddend = of_nat (2 * MaxUint16 div 4)"
definition model_EscrowPoolAddend :: uint64 where "model_EscrowPoolAddend = of_nat (4 * MaxUint16 div 4)"

lemma model_addends [simp]:
  "model_MaxChainID = 16383" "model_HoldingPoolAddend = 16383"
  "model_LiquidityPoolAddend = 32767" "model_EscrowPoolAddend = 65535"
  by (simp_all add: model_MaxChainID_def model_HoldingPoolAddend_def model_LiquidityPoolAddend_def
      model_EscrowPoolAddend_def MaxUint16_def)

definition CalculatePoolIDs :: "Pool \<Rightarrow> Pool" where
  "CalculatePoolIDs p =
     (let chainID = ucast (pol_ChainID p) :: uint64
      in p\<lparr>pol_LiquidityPoolID := ucast (model_LiquidityPoolAddend + chainID),
           pol_HoldingPoolID := ucast (model_HoldingPoolAddend + chainID),
           pol_EscrowPoolID := ucast (model_EscrowPoolAddend + chainID),
           pol_RewardPoolID := ucast chainID\<rparr>)"

definition model_ExtractChainIDFromPoolID :: "uint64 \<Rightarrow> uint64" where
  "model_ExtractChainIDFromPoolID poolID =
     (if poolID \<ge> model_EscrowPoolAddend then poolID - model_EscrowPoolAddend
      else if poolID \<ge> model_LiquidityPoolAddend then poolID - model_LiquidityPoolAddend
      else if poolID \<ge> model_HoldingPoolAddend then poolID - model_HoldingPoolAddend
      else poolID)"

section \<open>Validator status\<close>

definition DeriveStatus :: "Validator \<Rightarrow> string" where
  "DeriveStatus v =
     (if vld_UnstakingHeight v > 0 then ''unstaking''
      else if vld_MaxPausedHeight v > 0 then ''paused''
      else ''active'')"

end
