(* ===== verification/SnapshotChange.thy ===== *)
theory SnapshotChange
  imports Prelude
begin

text \<open>
  The contract of snapshot-on-change storage, which the model files of pkg/db/models/indexer state in
  prose: a table keeps a row for an entity only at the heights where the entity changed, and the query
  \<open>WHERE key = ? AND height <= ? ORDER BY height DESC LIMIT 1\<close> still returns the entity's state at any
  height. \<open>latest_at\<close> is that query on a table keyed by (entity key, height). The locale \<open>change_log\<close>
  is the contract: what a change detector has to promise about the rows it emits; its lemma
  \<open>reconstruct\<close> is the time-travel theorem. \<open>snapshot_diff\<close> is the shape most converters of
  internal/indexer/conversions.go share; it is a \<open>change_log\<close>. \<open>counter_log\<close> is the two-phase shape
  (missing means zero, resets are written out). The converters are interpreted in their own theories.
\<close>

section \<open>The historical query\<close>

primrec latest_at :: "('k \<times> uint64 \<rightharpoonup> 'r) \<Rightarrow> 'k \<Rightarrow> nat \<Rightarrow> 'r option" where
  "latest_at t k 0 = t (k, 0)"
| "latest_at t k (Suc h) = (case t (k, of_nat (Suc h)) of None \<Rightarrow> latest_at t k h | Some r \<Rightarrow> Some r)"

lemma latest_at_map: "map_option f (latest_at t k n) = latest_at (\<lambda>x. map_option f (t x)) k n"
  by (induction n) (auto split: option.split)

lemma latest_at_hit: "t (k, of_nat n) = Some r \<Longrightarrow> latest_at t k n = Some r"
  by (cases n) auto

lemma latest_at_miss: "0 < n \<Longrightarrow> t (k, of_nat n) = None \<Longrightarrow> latest_at t k n = latest_at t k (n - 1)"
  by (cases n) auto

lemma latest_at_None: "(\<And>h. h \<le> n \<Longrightarrow> t (k, of_nat h) = None) \<Longrightarrow> latest_at t k n = None"
  by (induction n) (auto split: option.split simp del: of_nat_Suc)

text \<open>What the query means: the row at the greatest height up to the bound that has one.\<close>

lemma latest_at_Some_iff:
  "latest_at t k n = Some r \<longleftrightarrow>
     (\<exists>h \<le> n. t (k, of_nat h) = Some r \<and> (\<forall>h'. h < h' \<longrightarrow> h' \<le> n \<longrightarrow> t (k, of_nat h') = None))"
proof (induction n)
  case (Suc n)
  show ?case
  proof (cases "t (k, of_nat (Suc n))")
    case None
    then have "latest_at t k (Suc n) = latest_at t k n" using latest_at_miss [of "Suc n" t k] by simp
    moreover have "(\<exists>h \<le> Suc n. t (k, of_nat h) = Some r \<and>
        (\<forall>h'. h < h' \<longrightarrow> h' \<le> Suc n \<longrightarrow> t (k, of_nat h') = None)) \<longleftrightarrow>
      (\<exists>h \<le> n. t (k, of_nat h) = Some r \<and> (\<forall>h'. h < h' \<longrightarrow> h' \<le> n \<longrightarrow> t (k, of_nat h') = None))"
      using None by (auto simp: le_Suc_eq simp del: of_nat_Suc)
    ultimately show ?thesis using Suc by simp
  next
    case (Some r')
    then have "latest_at t k (Suc n) = Some r'" by (rule latest_at_hit)
    moreover have "(\<exists>h \<le> Suc n. t (k, of_nat h) = Some r \<and>
        (\<forall>h'. h < h' \<longrightarrow> h' \<le> Suc n \<longrightarrow> t (k, of_nat h') = None)) \<longleftrightarrow> r' = r"
      using Some by (auto simp: le_Suc_eq simp del: of_nat_Suc) (metis le_imp_less_Suc)
    ultimately show ?thesis by simp
  qed
qed auto

section \<open>The contract\<close>

text \<open>\<open>view\<close> reads an entity's stored value off a state snapshot, \<open>emit\<close> is the row value the change
  detector writes for it, given the snapshots of a height and of the height before; \<open>ok\<close> is what the
  detector needs of a snapshot.\<close>

locale change_log =
  fixes view :: "'s \<Rightarrow> 'k \<Rightarrow> 'v option"
    and emit :: "'s \<Rightarrow> 's \<Rightarrow> 'k \<Rightarrow> 'v option"
    and ok :: "'s \<Rightarrow> bool"
  assumes emit_sound: "ok c \<Longrightarrow> ok p \<Longrightarrow> emit c p k = Some v \<Longrightarrow> view c k = Some v"
    and emit_complete:
      "ok c \<Longrightarrow> ok p \<Longrightarrow> emit c p k = None \<Longrightarrow> view c k = Some v \<Longrightarrow> view p k = Some v"
begin

lemma emit_unchanged: "ok c \<Longrightarrow> emit c c k = Some v \<Longrightarrow> view c k = Some v"
  by (rule emit_sound)

text \<open>A table that holds, at each height of the range, exactly what the detector emitted answers the
  historical query with the state of that height.\<close>

lemma reconstruct:
  assumes ok: "\<And>h. h0 \<le> h \<Longrightarrow> h \<le> n \<Longrightarrow> ok (s h)" "ok base"
    and log: "\<And>h. h0 \<le> h \<Longrightarrow> h \<le> n \<Longrightarrow>
      t (k, of_nat h) = emit (s h) (if h = h0 then base else s (h - 1)) k"
    and before: "\<And>h. h < h0 \<Longrightarrow> t (k, of_nat h) = None"
    and range: "h0 \<le> n"
    and v: "view (s n) k = Some v"
  shows "latest_at t k n = Some v \<or> (latest_at t k n = None \<and> view base k = Some v)"
  using range ok(1) log v
proof (induction n arbitrary: v rule: nat_induct_at_least)
  case base
  have oks: "ok (s h0)" using base.prems(1) by simp
  have log0: "t (k, of_nat h0) = emit (s h0) base k" using base.prems(2) by simp
  show ?case
  proof (cases "emit (s h0) base k")
    case None
    then have "view base k = Some v" using emit_complete oks \<open>ok base\<close> base.prems(3) by blast
    moreover have "latest_at t k h0 = None"
    proof (rule latest_at_None)
      fix h assume "h \<le> h0"
      then show "t (k, of_nat h) = None" using None log0 before by (cases "h = h0") auto
    qed
    ultimately show ?thesis by simp
  next
    case (Some v')
    then have "view (s h0) k = Some v'" using emit_sound oks \<open>ok base\<close> by blast
    then show ?thesis using Some log0 base.prems(3) latest_at_hit [of t k h0] by simp
  qed
next
  case (Suc n)
  have oks: "ok (s n)" "ok (s (Suc n))" using Suc.prems(1) Suc.hyps by simp_all
  have log': "t (k, of_nat (Suc n)) = emit (s (Suc n)) (s n) k"
    using Suc.prems(2) [of "Suc n"] Suc.hyps by simp
  show ?case
  proof (cases "emit (s (Suc n)) (s n) k")
    case None
    then have "view (s n) k = Some v" using emit_complete oks Suc.prems(3) by blast
    then have "latest_at t k n = Some v \<or> (latest_at t k n = None \<and> view base k = Some v)"
      using Suc.IH Suc.prems(1,2) by simp
    moreover have "latest_at t k (Suc n) = latest_at t k n"
      using None log' latest_at_miss [of "Suc n" t k] by simp
    ultimately show ?thesis by simp
  next
    case (Some v')
    then have "view (s (Suc n)) k = Some v'" using emit_sound oks by blast
    then show ?thesis using Some log' Suc.prems(3) latest_at_hit [of t k "Suc n"] by simp
  qed
qed

end

text \<open>A detector that writes a row only for a change.\<close>

locale minimal_change_log = change_log +
  assumes emit_minimal: "ok c \<Longrightarrow> ok p \<Longrightarrow> emit c p k = Some v \<Longrightarrow> view p k \<noteq> Some v"
begin

lemma emit_iff:
  "ok c \<Longrightarrow> ok p \<Longrightarrow> emit c p k = Some v \<longleftrightarrow> view c k = Some v \<and> view p k \<noteq> Some v"
  using emit_sound emit_complete emit_minimal by (metis option.exhaust)

lemma emit_same: "ok c \<Longrightarrow> ok p \<Longrightarrow> view c k = view p k \<Longrightarrow> emit c p k = None"
  using emit_iff by (cases "emit c p k") auto

end

section \<open>Snapshot diffs\<close>

text \<open>The loop the converters share: index the previous snapshot by key, then emit a row for each
  current entity that is new or changed.\<close>

definition diff_rows ::
  "('e \<Rightarrow> 'k) \<Rightarrow> ('e \<Rightarrow> 'e \<Rightarrow> bool) \<Rightarrow> ('e option \<Rightarrow> 'e \<Rightarrow> 'r) \<Rightarrow> 'e list \<Rightarrow> 'e list \<Rightarrow> 'r list" where
  "diff_rows key changed row current previous =
     collect (\<lambda>cur. let prev = index_by key previous (key cur) in
        if (case prev of None \<Rightarrow> True | Some p \<Rightarrow> changed cur p) then Some (row prev cur) else None) current"

lemma case_option_all: "(case x of None \<Rightarrow> True | Some p \<Rightarrow> P p) \<longleftrightarrow> (\<forall>p. x = Some p \<longrightarrow> P p)"
  by (cases x) auto

lemma in_diff_rows:
  "r \<in> set (diff_rows key changed row current previous) \<longleftrightarrow>
     (\<exists>c \<in> set current. r = row (index_by key previous (key c)) c \<and>
        (\<forall>p. index_by key previous (key c) = Some p \<longrightarrow> changed c p))"
  by (auto simp: diff_rows_def Let_def case_option_all split: if_splits)

locale snapshot_diff =
  fixes key :: "'e \<Rightarrow> 'k"
    and changed :: "'e \<Rightarrow> 'e \<Rightarrow> bool"
    and row :: "'e option \<Rightarrow> 'e \<Rightarrow> 'r"
    and rkey :: "'r \<Rightarrow> 'q"
    and ekey :: "'e \<Rightarrow> 'q"
    and content :: "'r \<Rightarrow> 'v"
    and stored :: "'e \<Rightarrow> 'v"
    and item_ok :: "'e \<Rightarrow> bool"
  assumes row_key: "rkey (row prev c) = ekey c"
    and row_content: "content (row prev c) = stored c"
    and ekey_eq: "item_ok c \<Longrightarrow> item_ok d \<Longrightarrow> ekey c = ekey d \<longleftrightarrow> key c = key d"
    and unchanged: "key c = key p \<Longrightarrow> \<not> changed c p \<Longrightarrow> stored c = stored p"
begin

definition view :: "'e list \<Rightarrow> 'q \<Rightarrow> 'v option" where
  "view c q = map_option stored (index_by ekey c q)"

definition emit :: "'e list \<Rightarrow> 'e list \<Rightarrow> 'q \<Rightarrow> 'v option" where
  "emit c p q = map_option content (index_by rkey (diff_rows key changed row c p) q)"

definition ok :: "'e list \<Rightarrow> bool" where
  "ok c \<longleftrightarrow> distinct (map key c) \<and> (\<forall>e \<in> set c. item_ok e)"

lemma ok_distinct: "ok c \<Longrightarrow> distinct (map ekey c)"
  unfolding ok_def distinct_map inj_on_def by (metis ekey_eq)

lemma view_mem: "ok c \<Longrightarrow> e \<in> set c \<Longrightarrow> view c (ekey e) = Some (stored e)"
  using index_by_mem [OF ok_distinct] by (simp add: view_def)

lemma view_SomeD: "view c q = Some v \<Longrightarrow> \<exists>e \<in> set c. ekey e = q \<and> stored e = v"
  unfolding view_def by (auto dest: index_by_SomeD)

lemma emit_SomeD:
  assumes "emit c p q = Some v"
  shows "\<exists>e \<in> set c. ekey e = q \<and> stored e = v \<and>
    (\<forall>d. index_by key p (key e) = Some d \<longrightarrow> changed e d)"
proof -
  obtain r where r: "index_by rkey (diff_rows key changed row c p) q = Some r" "content r = v"
    using assms by (auto simp: emit_def)
  then have "r \<in> set (diff_rows key changed row c p)" "rkey r = q"
    using index_by_SomeD by fastforce+
  then show ?thesis using r(2) by (auto simp: in_diff_rows row_key row_content)
qed

lemma emit_NoneD:
  assumes "emit c p q = None" "e \<in> set c" "ekey e = q"
  shows "\<exists>d. index_by key p (key e) = Some d \<and> \<not> changed e d"
proof (rule ccontr)
  assume "\<not> ?thesis"
  then have "row (index_by key p (key e)) e \<in> set (diff_rows key changed row c p)"
    using assms(2) by (auto simp: in_diff_rows)
  moreover have "q \<notin> rkey ` set (diff_rows key changed row c p)"
    using assms(1) by (simp add: emit_def index_by_None_iff)
  ultimately show False using assms(3) row_key by (metis imageI)
qed

end

sublocale snapshot_diff \<subseteq> change_log view emit ok
proof
  fix c p q v
  assume "ok c" "emit c p q = Some v"
  then show "view c q = Some v" using emit_SomeD view_mem by metis
next
  fix c p q v
  assume ok: "ok c" "ok p" and none: "emit c p q = None" and v: "view c q = Some v"
  obtain e where e: "e \<in> set c" "ekey e = q" "stored e = v" using view_SomeD v by blast
  obtain d where d: "index_by key p (key e) = Some d" "\<not> changed e d"
    using emit_NoneD none e by blast
  then have mem: "d \<in> set p" "key d = key e" using index_by_SomeD by fastforce+
  then have "ekey d = q" using ok e ekey_eq unfolding ok_def by metis
  moreover have "stored d = v" using unchanged [of e d] d(2) mem(2) e(3) by simp
  ultimately show "view p q = Some v" using view_mem ok(2) mem(1) by blast
qed

text \<open>When the comparison is exactly a comparison of the stored values, no row is redundant.\<close>

locale exact_snapshot_diff = snapshot_diff +
  assumes changed_stored: "key c = key p \<Longrightarrow> changed c p \<Longrightarrow> stored c \<noteq> stored p"

sublocale exact_snapshot_diff \<subseteq> minimal_change_log view emit ok
proof
  fix c p q v
  assume ok: "ok c" "ok p" and "emit c p q = Some v"
  then obtain e where e: "e \<in> set c" "ekey e = q" "stored e = v"
    "\<And>d. index_by key p (key e) = Some d \<Longrightarrow> changed e d"
    using emit_SomeD by blast
  show "view p q \<noteq> Some v"
  proof
    assume "view p q = Some v"
    then obtain d where d: "d \<in> set p" "ekey d = q" "stored d = v" using view_SomeD by blast
    then have "key d = key e" using ok e ekey_eq unfolding ok_def by metis
    moreover have "index_by key p (key d) = Some d"
      using d(1) ok(2) by (simp add: ok_def index_by_mem)
    ultimately show False using e changed_stored [of e d] d(3) by simp
  qed
qed

section \<open>Counters with resets\<close>

text \<open>The two-phase shape: an entity that is absent counts as zero, phase 1 writes the entities whose
  counter changed, phase 2 writes a zero row for those that disappeared.\<close>

definition reset_rows :: "('e \<Rightarrow> 'k) \<Rightarrow> ('e \<Rightarrow> 'r) \<Rightarrow> 'e list \<Rightarrow> 'e list \<Rightarrow> 'r list" where
  "reset_rows key reset current previous =
     collect (\<lambda>prev. if index_by key current (key prev) = None then Some (reset prev) else None) previous"

definition counter_rows ::
  "('e \<Rightarrow> 'k) \<Rightarrow> ('e option \<Rightarrow> 'e \<Rightarrow> bool) \<Rightarrow> ('e \<Rightarrow> 'r) \<Rightarrow> ('e \<Rightarrow> 'r) \<Rightarrow> 'e list \<Rightarrow> 'e list \<Rightarrow> 'r list" where
  "counter_rows key changed row reset current previous =
     collect (\<lambda>cur. if changed (index_by key previous (key cur)) cur then Some (row cur) else None) current
     @ reset_rows key reset current previous"

locale counter_log =
  fixes key :: "'e \<Rightarrow> 'k"
    and count :: "'e \<Rightarrow> uint64"
    and changed :: "'e option \<Rightarrow> 'e \<Rightarrow> bool"
    and row :: "'e \<Rightarrow> 'r"
    and reset :: "'e \<Rightarrow> 'r"
    and rkey :: "'r \<Rightarrow> 'k"
    and rcount :: "'r \<Rightarrow> uint64"
  assumes row_key: "rkey (row c) = key c" "rkey (reset c) = key c"
    and row_count: "rcount (row c) = count c" "rcount (reset c) = 0"
    and unchanged_new: "\<not> changed None c \<Longrightarrow> count c = 0"
    and unchanged_old: "\<not> changed (Some p) c \<Longrightarrow> count c = count p"
begin

definition view :: "'e list \<Rightarrow> 'k \<Rightarrow> uint64 option" where
  "view c k = Some (case index_by key c k of None \<Rightarrow> 0 | Some e \<Rightarrow> count e)"

definition emit :: "'e list \<Rightarrow> 'e list \<Rightarrow> 'k \<Rightarrow> uint64 option" where
  "emit c p k = map_option rcount (index_by rkey (counter_rows key changed row reset c p) k)"

definition ok :: "'e list \<Rightarrow> bool" where
  "ok c \<longleftrightarrow> distinct (map key c)"

lemma in_counter_rows:
  "r \<in> set (counter_rows key changed row reset c p) \<longleftrightarrow>
     (\<exists>e \<in> set c. changed (index_by key p (key e)) e \<and> r = row e) \<or>
     (\<exists>d \<in> set p. index_by key c (key d) = None \<and> r = reset d)"
  by (auto simp: counter_rows_def reset_rows_def split: if_splits)

lemma emit_Some_cases:
  assumes "emit c p k = Some v"
  obtains e where "e \<in> set c" "key e = k" "v = count e" "changed (index_by key p k) e"
    | "index_by key c k = None" "v = 0" "k \<in> key ` set p"
proof -
  obtain r where r: "index_by rkey (counter_rows key changed row reset c p) k = Some r" "rcount r = v"
    using assms by (auto simp: emit_def)
  then have "r \<in> set (counter_rows key changed row reset c p)" "rkey r = k"
    using index_by_SomeD by fastforce+
  then show ?thesis using r(2) that
    by (auto simp: in_counter_rows row_key row_count)
qed

lemma emit_None_cases:
  assumes "emit c p k = None"
  shows "(\<forall>e \<in> set c. key e = k \<longrightarrow> \<not> changed (index_by key p k) e) \<and>
    (k \<notin> key ` set c \<longrightarrow> k \<notin> key ` set p)"
proof -
  have none: "k \<notin> rkey ` set (counter_rows key changed row reset c p)"
    using assms by (simp add: emit_def index_by_None_iff)
  show ?thesis
  proof (intro conjI ballI impI notI)
    fix e assume "e \<in> set c" "key e = k" "changed (index_by key p k) e"
    then have "row e \<in> set (counter_rows key changed row reset c p)"
      by (auto simp: in_counter_rows)
    then show False using none \<open>key e = k\<close> row_key(1) by (metis imageI)
  next
    assume "k \<notin> key ` set c" "k \<in> key ` set p"
    then obtain d where d: "d \<in> set p" "k = key d" by blast
    then have "reset d \<in> set (counter_rows key changed row reset c p)"
      using \<open>k \<notin> key ` set c\<close> by (auto simp: in_counter_rows index_by_None_iff)
    then show False using none d(2) row_key(2) by (metis imageI)
  qed
qed

end

sublocale counter_log \<subseteq> change_log view emit ok
proof
  fix c p k v
  assume ok: "ok c" "ok p" and "emit c p k = Some v"
  from this(3) show "view c k = Some v"
  proof (cases rule: emit_Some_cases)
    case (1 e)
    then show ?thesis using index_by_mem [of key c e] ok(1) by (auto simp: view_def ok_def)
  next
    case 2
    then show ?thesis by (simp add: view_def)
  qed
next
  fix c p k v
  assume ok: "ok c" "ok p" and none: "emit c p k = None" and v: "view c k = Some v"
  note cases = emit_None_cases [OF none]
  show "view p k = Some v"
  proof (cases "index_by key c k")
    case None
    then have "index_by key p k = None" using cases by (simp add: index_by_None_iff)
    then show ?thesis using v None by (simp add: view_def)
  next
    case (Some e)
    then have "\<not> changed (index_by key p k) e" using cases index_by_SomeD by metis
    then show ?thesis using v Some unchanged_new unchanged_old
      by (cases "index_by key p k") (auto simp: view_def)
  qed
qed

end
