(* ===== verification/ConvSnapshots.thy ===== *)
theory ConvSnapshots
  imports CanopyTypes Models SnapshotChange
begin

text \<open>
  The snapshot-on-change converters of internal/indexer/conversions.go for accounts, orders, DEX prices,
  committees and the supply, with the plain converters beside them. A converter is the loop of the code
  (\<open>index_by\<close> for the previous map, \<open>collect\<close> for the appends); \<open><entity>_row\<close> is the struct literal it
  appends. Each is then interpreted as a \<open>snapshot_diff\<close>, which discharges the contract of SnapshotChange
  for it; \<open><entity>_stored\<close> is a row without its height and time.
\<close>

lemma ucast_uint16_eq_iff:
  fixes a b :: uint64
  assumes "a < 65536" "b < 65536"
  shows "(ucast a :: uint16) = ucast b \<longleftrightarrow> a = b"
proof
  assume eq: "(ucast a :: uint16) = ucast b"
  have "unat a < 2 ^ 16" "unat b < 2 ^ 16"
    using assms by (simp_all add: word_less_nat_alt)
  then have "unat (ucast a :: uint16) = unat a" "unat (ucast b :: uint16) = unat b"
    by (simp_all add: unsigned_ucast_eq take_bit_nat_eq_self)
  then have "unat a = unat b" using eq by simp
  then show "a = b" by (simp add: word_unat_eq_iff)
qed simp

lemma ucast_uint32_eq_iff:
  fixes a b :: uint64
  assumes "a < 4294967296" "b < 4294967296"
  shows "(ucast a :: uint32) = ucast b \<longleftrightarrow> a = b"
proof
  assume eq: "(ucast a :: uint32) = ucast b"
  have "unat a < 2 ^ 32" "unat b < 2 ^ 32"
    using assms by (simp_all add: word_less_nat_alt)
  then have "unat (ucast a :: uint32) = unat a" "unat (ucast b :: uint32) = unat b"
    by (simp_all add: unsigned_ucast_eq take_bit_nat_eq_self)
  then have "unat a = unat b" using eq by simp
  then show "a = b" by (simp add: word_unat_eq_iff)
qed simp

section \<open>Accounts\<close>

definition account_row :: "uint64 \<Rightarrow> time \<Rightarrow> fsm_Account \<Rightarrow> Account" where
  "account_row height blockTime acc = \<lparr>
     acct_Address = BytesToHex (acc_Address acc),
     acct_Amount = acc_Amount acc,
     acct_Rewards = 0,
     acct_Slashes = 0,
     acct_Height = height,
     acct_HeightTime = blockTime\<rparr>"

definition convertAccounts :: "fsm_Account list \<Rightarrow> uint64 \<Rightarrow> time \<Rightarrow> Account list" where
  "convertAccounts accounts height blockTime = map (account_row height blockTime) accounts"

definition ConvertAccountsWithChangeDetection ::
  "fsm_Account list \<Rightarrow> fsm_Account list \<Rightarrow> uint64 \<Rightarrow> time \<Rightarrow> Account list" where
  "ConvertAccountsWithChangeDetection current previous height blockTime =
     (let prevMap = index_by (\<lambda>acc. BytesToHex (acc_Address acc)) previous
      in collect (\<lambda>cur.
           let addrHex = BytesToHex (acc_Address cur);
               prev = prevMap addrHex;
               changed = (case prev of
                   None \<Rightarrow> True
                 | Some p \<Rightarrow> acc_Amount cur \<noteq> acc_Amount p)
           in if changed then Some (account_row height blockTime cur) else None)
         current)"

definition account_stored :: "Account \<Rightarrow> Account" where
  "account_stored r = r\<lparr>acct_Height := 0, acct_HeightTime := zero_time\<rparr>"

interpretation accounts: exact_snapshot_diff
  "\<lambda>acc. BytesToHex (acc_Address acc)" "\<lambda>c p. acc_Amount c \<noteq> acc_Amount p"
  "\<lambda>_ c. account_row height blockTime c" acct_Address "\<lambda>acc. BytesToHex (acc_Address acc)"
  account_stored "account_row 0 zero_time" "\<lambda>_. True"
  for height blockTime
  by unfold_locales (simp_all add: account_row_def account_stored_def)

lemma ConvertAccounts_diff:
  "ConvertAccountsWithChangeDetection current previous height blockTime =
   diff_rows (\<lambda>acc. BytesToHex (acc_Address acc)) (\<lambda>c p. acc_Amount c \<noteq> acc_Amount p)
     (\<lambda>_ c. account_row height blockTime c) current previous"
  by (simp add: ConvertAccountsWithChangeDetection_def diff_rows_def Let_def)

section \<open>Orders\<close>

definition determineOrderStatus :: "lib_SellOrder \<Rightarrow> string" where
  "determineOrderStatus order =
     (if length (so_BuyerSendAddress order) > 0 \<and> length (so_BuyerReceiveAddress order) > 0
      then ''locked'' else ''open'')"

definition convertOrders :: "lib_SellOrder list \<Rightarrow> uint64 \<Rightarrow> time \<Rightarrow> Order list" where
  "convertOrders orders height blockTime = map (\<lambda>order. \<lparr>
     ord_OrderID = '''', ord_Height = height, ord_HeightTime = blockTime, ord_Committee = 0,
     ord_Data = '''', ord_AmountForSale = so_AmountForSale order,
     ord_RequestedAmount = so_RequestedAmount order, ord_SellerReceiveAddress = '''',
     ord_BuyerSendAddress = '''', ord_BuyerReceiveAddress = '''', ord_BuyerChainDeadline = 0,
     ord_SellersSendAddress = '''', ord_Status = ''''\<rparr>) orders"

definition order_row :: "uint64 \<Rightarrow> time \<Rightarrow> lib_SellOrder \<Rightarrow> Order" where
  "order_row height blockTime cur = \<lparr>
     ord_OrderID = BytesToHex (so_Id cur),
     ord_Height = height,
     ord_HeightTime = blockTime,
     ord_Committee = ucast (so_Committee cur),
     ord_Data = BytesToHex (so_Data cur),
     ord_AmountForSale = so_AmountForSale cur,
     ord_RequestedAmount = so_RequestedAmount cur,
     ord_SellerReceiveAddress = BytesToHex (so_SellerReceiveAddress cur),
     ord_BuyerSendAddress = BytesToHex (so_BuyerSendAddress cur),
     ord_BuyerReceiveAddress = BytesToHex (so_BuyerReceiveAddress cur),
     ord_BuyerChainDeadline = so_BuyerChainDeadline cur,
     ord_SellersSendAddress = BytesToHex (so_SellersSendAddress cur),
     ord_Status = determineOrderStatus cur\<rparr>"

definition order_changed :: "lib_SellOrder \<Rightarrow> lib_SellOrder \<Rightarrow> bool" where
  "order_changed cur prev \<longleftrightarrow>
     so_AmountForSale cur \<noteq> so_AmountForSale prev \<or>
     so_RequestedAmount cur \<noteq> so_RequestedAmount prev \<or>
     so_BuyerChainDeadline cur \<noteq> so_BuyerChainDeadline prev \<or>
     BytesToHex (so_BuyerSendAddress cur) \<noteq> BytesToHex (so_BuyerSendAddress prev) \<or>
     BytesToHex (so_BuyerReceiveAddress cur) \<noteq> BytesToHex (so_BuyerReceiveAddress prev)"

definition ConvertOrdersWithChangeDetection ::
  "lib_SellOrder list \<Rightarrow> lib_SellOrder list \<Rightarrow> uint64 \<Rightarrow> time \<Rightarrow> Order list" where
  "ConvertOrdersWithChangeDetection current previous height blockTime =
     (let prevMap = index_by (\<lambda>order. BytesToHex (so_Id order)) previous
      in collect (\<lambda>cur.
           let idHex = BytesToHex (so_Id cur);
               prev = prevMap idHex;
               changed = (case prev of
                   None \<Rightarrow> True
                 | Some p \<Rightarrow> order_changed cur p)
           in if changed then Some (order_row height blockTime cur) else None)
         current)"

text \<open>The fields of an order row that the comparison covers; committee, data and the two seller
  addresses are written but not compared.\<close>

definition order_compared :: "Order \<Rightarrow> uint64 \<times> uint64 \<times> uint64 \<times> string \<times> string \<times> string" where
  "order_compared r = (ord_AmountForSale r, ord_RequestedAmount r, ord_BuyerChainDeadline r,
     ord_BuyerSendAddress r, ord_BuyerReceiveAddress r, ord_Status r)"

interpretation orders: exact_snapshot_diff
  "\<lambda>order. BytesToHex (so_Id order)" order_changed "\<lambda>_ c. order_row height blockTime c" ord_OrderID
  "\<lambda>order. BytesToHex (so_Id order)" order_compared "\<lambda>c. order_compared (order_row 0 zero_time c)" "\<lambda>_. True"
  for height blockTime
  by unfold_locales
    (auto simp: order_row_def order_compared_def order_changed_def determineOrderStatus_def)

lemma ConvertOrders_diff:
  "ConvertOrdersWithChangeDetection current previous height blockTime =
   diff_rows (\<lambda>order. BytesToHex (so_Id order)) order_changed (\<lambda>_ c. order_row height blockTime c)
     current previous"
  by (simp add: ConvertOrdersWithChangeDetection_def diff_rows_def Let_def)

lemma order_status_cases: "ord_Status (order_row height blockTime o1) \<in> {''locked'', ''open''}"
  by (simp add: order_row_def determineOrderStatus_def)

section \<open>DEX prices\<close>

definition convertDexPrices :: "lib_DexPrice list \<Rightarrow> uint64 \<Rightarrow> time \<Rightarrow> DexPrice list" where
  "convertDexPrices prices height blockTime = map (\<lambda>_. \<lparr>
     dpx_LocalChainID = 0, dpx_RemoteChainID = 0, dpx_LocalPool = 0, dpx_RemotePool = 0,
     dpx_PriceE6 = 0, dpx_PriceDelta = 0, dpx_LocalPoolDelta = 0, dpx_RemotePoolDelta = 0,
     dpx_Height = height, dpx_HeightTime = blockTime\<rparr>) prices"

definition dex_price_row :: "uint64 \<Rightarrow> time \<Rightarrow> lib_DexPrice option \<Rightarrow> lib_DexPrice \<Rightarrow> DexPrice" where
  "dex_price_row height blockTime prev cur =
     (let (priceDelta, localPoolDelta, remotePoolDelta) =
        (case prev of
           None \<Rightarrow> (0, 0, 0)
         | Some p \<Rightarrow> (dp_E6ScaledPrice cur - dp_E6ScaledPrice p,
                      dp_LocalPool cur - dp_LocalPool p,
                      dp_RemotePool cur - dp_RemotePool p))
      in \<lparr>dpx_LocalChainID = ucast (dp_LocalChainId cur),
          dpx_RemoteChainID = ucast (dp_RemoteChainId cur),
          dpx_LocalPool = dp_LocalPool cur,
          dpx_RemotePool = dp_RemotePool cur,
          dpx_PriceE6 = dp_E6ScaledPrice cur,
          dpx_PriceDelta = priceDelta,
          dpx_LocalPoolDelta = localPoolDelta,
          dpx_RemotePoolDelta = remotePoolDelta,
          dpx_Height = height,
          dpx_HeightTime = blockTime\<rparr>)"

definition dex_price_changed :: "lib_DexPrice \<Rightarrow> lib_DexPrice \<Rightarrow> bool" where
  "dex_price_changed cur prev \<longleftrightarrow>
     dp_E6ScaledPrice cur \<noteq> dp_E6ScaledPrice prev \<or>
     dp_LocalPool cur \<noteq> dp_LocalPool prev \<or>
     dp_RemotePool cur \<noteq> dp_RemotePool prev"

definition ConvertDexPricesWithChangeDetection ::
  "lib_DexPrice list \<Rightarrow> lib_DexPrice list \<Rightarrow> uint64 \<Rightarrow> time \<Rightarrow> DexPrice list" where
  "ConvertDexPricesWithChangeDetection current previous height blockTime =
     (let prevMap = index_by (\<lambda>price. dexPriceKey (dp_LocalChainId price) (dp_RemoteChainId price)) previous
      in collect (\<lambda>cur.
           let key = dexPriceKey (dp_LocalChainId cur) (dp_RemoteChainId cur);
               prev = prevMap key;
               changed = (case prev of
                   None \<Rightarrow> True
                 | Some p \<Rightarrow> dex_price_changed cur p)
           in if changed then Some (dex_price_row height blockTime prev cur) else None)
         current)"

definition dex_price_stored :: "DexPrice \<Rightarrow> uint16 \<times> uint16 \<times> uint64 \<times> uint64 \<times> uint64" where
  "dex_price_stored r = (dpx_LocalChainID r, dpx_RemoteChainID r, dpx_LocalPool r, dpx_RemotePool r,
     dpx_PriceE6 r)"

definition dex_price_key :: "DexPrice \<Rightarrow> uint16 \<times> uint16" where
  "dex_price_key r = (dpx_LocalChainID r, dpx_RemoteChainID r)"

text \<open>The chain ids of a stored price are 16 bits wide; they identify a pair when the chain's ids fit.\<close>

definition dex_price_ids_fit :: "lib_DexPrice \<Rightarrow> bool" where
  "dex_price_ids_fit p \<longleftrightarrow> dp_LocalChainId p < 65536 \<and> dp_RemoteChainId p < 65536"

interpretation dex_prices: exact_snapshot_diff
  "\<lambda>p. dexPriceKey (dp_LocalChainId p) (dp_RemoteChainId p)" dex_price_changed
  "dex_price_row height blockTime" dex_price_key
  "\<lambda>p. (ucast (dp_LocalChainId p), ucast (dp_RemoteChainId p))" dex_price_stored
  "\<lambda>p. dex_price_stored (dex_price_row 0 zero_time None p)" dex_price_ids_fit
  for height blockTime
  by unfold_locales
    (auto simp: dex_price_row_def dex_price_stored_def dex_price_key_def dex_price_ids_fit_def
      dex_price_changed_def ucast_uint16_eq_iff split: option.splits)

lemma ConvertDexPrices_diff:
  "ConvertDexPricesWithChangeDetection current previous height blockTime =
   diff_rows (\<lambda>p. dexPriceKey (dp_LocalChainId p) (dp_RemoteChainId p)) dex_price_changed
     (dex_price_row height blockTime) current previous"
  by (simp add: ConvertDexPricesWithChangeDetection_def diff_rows_def Let_def)

section \<open>Committees\<close>

definition convertCommittees :: "lib_CommitteeData list \<Rightarrow> uint64 \<Rightarrow> time \<Rightarrow> Committee list" where
  "convertCommittees committees height blockTime = map (\<lambda>_. \<lparr>
     cmt_ChainID = 0, cmt_LastRootHeightUpdated = 0, cmt_LastChainHeightUpdated = 0,
     cmt_NumberOfSamples = 0, cmt_Subsidized = 0, cmt_Retired = 0,
     cmt_Height = height, cmt_HeightTime = blockTime\<rparr>) committees"

definition committee_row :: "uint64 \<Rightarrow> time \<Rightarrow> lib_CommitteeData \<Rightarrow> Committee" where
  "committee_row height blockTime cur = \<lparr>
     cmt_ChainID = ucast (cd_ChainId cur),
     cmt_LastRootHeightUpdated = cd_LastRootHeightUpdated cur,
     cmt_LastChainHeightUpdated = cd_LastChainHeightUpdated cur,
     cmt_NumberOfSamples = cd_NumberOfSamples cur,
     cmt_Subsidized = 0,
     cmt_Retired = 0,
     cmt_Height = height,
     cmt_HeightTime = blockTime\<rparr>"

definition committee_changed :: "lib_CommitteeData \<Rightarrow> lib_CommitteeData \<Rightarrow> bool" where
  "committee_changed cur prev \<longleftrightarrow>
     cd_LastRootHeightUpdated cur \<noteq> cd_LastRootHeightUpdated prev \<or>
     cd_LastChainHeightUpdated cur \<noteq> cd_LastChainHeightUpdated prev \<or>
     cd_NumberOfSamples cur \<noteq> cd_NumberOfSamples prev"

definition ConvertCommitteesWithChangeDetection ::
  "lib_CommitteeData list \<Rightarrow> lib_CommitteeData list \<Rightarrow> uint64 \<Rightarrow> time \<Rightarrow> Committee list" where
  "ConvertCommitteesWithChangeDetection current previous height blockTime =
     (let prevMap = index_by cd_ChainId previous
      in collect (\<lambda>cur.
           let prev = prevMap (cd_ChainId cur);
               changed = (case prev of
                   None \<Rightarrow> True
                 | Some p \<Rightarrow> committee_changed cur p)
           in if changed then Some (committee_row height blockTime cur) else None)
         current)"

definition committee_stored :: "Committee \<Rightarrow> Committee" where
  "committee_stored r = r\<lparr>cmt_Height := 0, cmt_HeightTime := zero_time\<rparr>"

interpretation committees: exact_snapshot_diff
  cd_ChainId committee_changed "\<lambda>_ c. committee_row height blockTime c" cmt_ChainID
  "\<lambda>c. ucast (cd_ChainId c)" committee_stored "committee_row 0 zero_time" "\<lambda>c. cd_ChainId c < 65536"
  for height blockTime
  by unfold_locales
    (auto simp: committee_row_def committee_stored_def committee_changed_def ucast_uint16_eq_iff)

lemma ConvertCommittees_diff:
  "ConvertCommitteesWithChangeDetection current previous height blockTime =
   diff_rows cd_ChainId committee_changed (\<lambda>_ c. committee_row height blockTime c) current previous"
  by (simp add: ConvertCommitteesWithChangeDetection_def diff_rows_def Let_def)

section \<open>Supply\<close>

definition convertSupply :: "fsm_Supply option \<Rightarrow> uint64 \<Rightarrow> time \<Rightarrow> Supply option" where
  "convertSupply supply height blockTime =
     (case supply of
        None \<Rightarrow> None
      | Some s \<Rightarrow> Some \<lparr>
          sup_Total = fsup_Total s,
          sup_Staked = fsup_Staked s,
          sup_DelegatedOnly = fsup_DelegatedOnly s,
          sup_Height = height,
          sup_HeightTime = blockTime\<rparr>)"

definition ConvertSupplyWithChangeDetection ::
  "fsm_Supply option \<Rightarrow> fsm_Supply option \<Rightarrow> uint64 \<Rightarrow> time \<Rightarrow> Supply option" where
  "ConvertSupplyWithChangeDetection current previous height blockTime =
     (case current of
        None \<Rightarrow> None
      | Some c \<Rightarrow>
          (case previous of
             None \<Rightarrow> Some \<lparr>
               sup_Total = fsup_Total c, sup_Staked = fsup_Staked c,
               sup_DelegatedOnly = fsup_DelegatedOnly c,
               sup_Height = height, sup_HeightTime = blockTime\<rparr>
           | Some p \<Rightarrow>
               if fsup_Total c \<noteq> fsup_Total p \<or> fsup_Staked c \<noteq> fsup_Staked p \<or>
                  fsup_DelegatedOnly c \<noteq> fsup_DelegatedOnly p
               then Some \<lparr>
                 sup_Total = fsup_Total c, sup_Staked = fsup_Staked c,
                 sup_DelegatedOnly = fsup_DelegatedOnly c,
                 sup_Height = height, sup_HeightTime = blockTime\<rparr>
               else None))"

definition supply_stored :: "Supply \<Rightarrow> uint64 \<times> uint64 \<times> uint64" where
  "supply_stored r = (sup_Total r, sup_Staked r, sup_DelegatedOnly r)"

interpretation supply_log: minimal_change_log
  "\<lambda>c (_::unit). map_option (\<lambda>s. (fsup_Total s, fsup_Staked s, fsup_DelegatedOnly s)) c"
  "\<lambda>c p _. map_option supply_stored (ConvertSupplyWithChangeDetection c p height blockTime)"
  "\<lambda>_. True"
  for height blockTime
  by unfold_locales
    (auto simp: ConvertSupplyWithChangeDetection_def supply_stored_def split: option.splits if_splits)

end
