(* ===== verification/Transform.thy ===== *)
theory Transform
  imports CanopyTypes Models
begin

text \<open>
  Package pkg/transform: the conversion of single chain messages to flat structs, the pool identifier
  scheme, and the parameter flattening that the change detector of the parameters compares. A struct
  carries the prefix \<open>transform_\<close> and its fields a prefix of their own. Fields that the source leaves
  for the caller (height and time) start at their zero values.
\<close>

section \<open>Blocks (block.go)\<close>

record transform_Block =
  tb_Height :: uint64
  tb_HeightTime :: time
  tb_Hash :: string
  tb_ProposerAddress :: string
  tb_TotalTxs :: uint64
  tb_NumTxs :: uint64

text \<open>\<open>time.UnixMicro(int64(t))\<close>: the 64 bits are read as a signed number of microseconds.\<close>

definition UnixMicro :: "int64 \<Rightarrow> time" where
  "UnixMicro t = sint t"

text \<open>A nil header is dereferenced: the conversion panics.\<close>

definition BlockFromResult :: "'m lib_BlockResult \<Rightarrow> transform_Block outcome" where
  "BlockFromResult result =
     (case br_BlockHeader result of
        None \<Rightarrow> Panic
      | Some h \<Rightarrow> Ok \<lparr>
          tb_Height = bh_Height h,
          tb_HeightTime = UnixMicro (bh_Time h),
          tb_Hash = BytesToHex (bh_Hash h),
          tb_ProposerAddress = BytesToHex (bh_ProposerAddress h),
          tb_TotalTxs = bh_TotalTxs h,
          tb_NumTxs = bh_NumTxs h\<rparr>)"

section \<open>Committees (committee.go)\<close>

record transform_Committee =
  tc_ChainID :: uint64
  tc_LastRootHeightUpdated :: uint64
  tc_LastChainHeightUpdated :: uint64
  tc_NumberOfSamples :: uint64
  tc_Subsidized :: bool
  tc_Retired :: bool
  tc_Height :: uint64
  tc_HeightTime :: time

definition CommitteeFromLib :: "lib_CommitteeData \<Rightarrow> transform_Committee" where
  "CommitteeFromLib c = \<lparr>
     tc_ChainID = cd_ChainId c,
     tc_LastRootHeightUpdated = cd_LastRootHeightUpdated c,
     tc_LastChainHeightUpdated = cd_LastChainHeightUpdated c,
     tc_NumberOfSamples = cd_NumberOfSamples c,
     tc_Subsidized = False, tc_Retired = False, tc_Height = 0, tc_HeightTime = zero_time\<rparr>"

record transform_CommitteePayment =
  tcp_CommitteeID :: uint64
  tcp_Address :: string
  tcp_Percent :: uint64
  tcp_Height :: uint64
  tcp_HeightTime :: time

definition CommitteePaymentsFromLib :: "lib_CommitteeData \<Rightarrow> transform_CommitteePayment list" where
  "CommitteePaymentsFromLib c = map (\<lambda>pp. \<lparr>
     tcp_CommitteeID = cd_ChainId c,
     tcp_Address = BytesToHex (pay_Address pp),
     tcp_Percent = pay_Percent pp,
     tcp_Height = 0, tcp_HeightTime = zero_time\<rparr>) (cd_PaymentPercents c)"

section \<open>DEX prices (dex\_price.go)\<close>

record transform_DexPrice =
  tdp_LocalChainID :: uint64
  tdp_RemoteChainID :: uint64
  tdp_Height :: uint64
  tdp_HeightTime :: time
  tdp_LocalPool :: uint64
  tdp_RemotePool :: uint64
  tdp_PriceE6 :: uint64
  tdp_PriceDelta :: int64
  tdp_LocalDelta :: int64
  tdp_RemoteDelta :: int64

definition DexPriceFromLib :: "lib_DexPrice \<Rightarrow> transform_DexPrice" where
  "DexPriceFromLib r = \<lparr>
     tdp_LocalChainID = dp_LocalChainId r,
     tdp_RemoteChainID = dp_RemoteChainId r,
     tdp_Height = 0, tdp_HeightTime = zero_time,
     tdp_LocalPool = dp_LocalPool r,
     tdp_RemotePool = dp_RemotePool r,
     tdp_PriceE6 = dp_E6ScaledPrice r,
     tdp_PriceDelta = 0, tdp_LocalDelta = 0, tdp_RemoteDelta = 0\<rparr>"

definition DexPriceKey :: "uint64 \<Rightarrow> uint64 \<Rightarrow> string" where
  "DexPriceKey localChainID remoteChainID = FormatUint localChainID @ '':'' @ FormatUint remoteChainID"

lemma DexPriceKey_poolHolderKey: "DexPriceKey l r = poolHolderKey l (FormatUint r)"
  by (simp add: DexPriceKey_def poolHolderKey_def)

lemma DexPriceKey_eq_iff [simp, key_inj]: "DexPriceKey a b = DexPriceKey c d \<longleftrightarrow> a = c \<and> b = d"
  by (simp add: DexPriceKey_poolHolderKey)

section \<open>Events (event.go)\<close>

record transform_Event =
  te_Height :: uint64
  te_HeightTime :: time
  te_ChainID :: uint64
  te_Address :: string
  te_Reference :: string
  te_EventType :: string
  te_BlockHeight :: uint64
  te_Amount :: uint64
  te_Msg :: string

text \<open>The type switch on \<open>e.Msg\<close> reads the amount of three message types of package lib: the functions
  of this record are those cases, None when the message is of another type. \<open>json_Marshal_event\<close> is
  \<open>json.Marshal\<close> of the whole event, None for its error.\<close>

record 'm event_view =
  Event_Reward_Amount :: "'m \<Rightarrow> uint64 option"
  Event_Slash_Amount :: "'m \<Rightarrow> uint64 option"
  Event_DexLiquidityDeposit_Amount :: "'m \<Rightarrow> uint64 option"
  json_Marshal_event :: "'m lib_Event \<Rightarrow> string option"

definition extractEventAmount :: "'m event_view \<Rightarrow> 'm lib_Event \<Rightarrow> transform_Event \<Rightarrow> transform_Event" where
  "extractEventAmount view e evt =
     (case Event_Reward_Amount view (ev_Msg e) of
        Some a \<Rightarrow> evt\<lparr>te_Amount := a\<rparr>
      | None \<Rightarrow>
          (case Event_Slash_Amount view (ev_Msg e) of
             Some a \<Rightarrow> evt\<lparr>te_Amount := a\<rparr>
           | None \<Rightarrow>
               (case Event_DexLiquidityDeposit_Amount view (ev_Msg e) of
                  Some a \<Rightarrow> evt\<lparr>te_Amount := a\<rparr>
                | None \<Rightarrow> evt)))"

definition EventFromLib :: "'m event_view \<Rightarrow> 'm lib_Event \<Rightarrow> transform_Event outcome" where
  "EventFromLib view e =
     (case json_Marshal_event view e of
        None \<Rightarrow> Fail (Errorf ''json marshal'')
      | Some msgJSON \<Rightarrow>
          let evt = \<lparr>
            te_Height = ev_Height e, te_HeightTime = zero_time, te_ChainID = ev_ChainId e,
            te_Address = BytesToHex (ev_Address e), te_Reference = ev_Reference e,
            te_EventType = ev_EventType e, te_BlockHeight = ev_BlockHeight e,
            te_Amount = 0, te_Msg = msgJSON\<rparr>
          in Ok (extractEventAmount view e evt))"

section \<open>Orders (order.go)\<close>

record transform_Order =
  to_OrderID :: string
  to_Committee :: uint64
  to_Data :: string
  to_AmountForSale :: uint64
  to_RequestedAmount :: uint64
  to_SellerReceiveAddress :: string
  to_BuyerSendAddress :: string
  to_BuyerReceiveAddress :: string
  to_BuyerChainDeadline :: uint64
  to_SellersSendAddress :: string
  to_Status :: string
  to_Height :: uint64
  to_HeightTime :: time

definition OrderFromLib :: "lib_SellOrder \<Rightarrow> transform_Order" where
  "OrderFromLib ord = \<lparr>
     to_OrderID = BytesToHex (so_Id ord),
     to_Committee = so_Committee ord,
     to_Data = BytesToHex (so_Data ord),
     to_AmountForSale = so_AmountForSale ord,
     to_RequestedAmount = so_RequestedAmount ord,
     to_SellerReceiveAddress = BytesToHex (so_SellerReceiveAddress ord),
     to_BuyerSendAddress = BytesToHex (so_BuyerSendAddress ord),
     to_BuyerReceiveAddress = BytesToHex (so_BuyerReceiveAddress ord),
     to_BuyerChainDeadline = so_BuyerChainDeadline ord,
     to_SellersSendAddress = BytesToHex (so_SellersSendAddress ord),
     to_Status = ''open'',
     to_Height = 0, to_HeightTime = zero_time\<rparr>"

section \<open>Parameters (params.go)\<close>

record transform_Params =
  tp_Height :: uint64
  tp_HeightTime :: time
  tp_BlockSize :: uint64
  tp_ProtocolVersion :: string
  tp_RootChainID :: uint64
  tp_UnstakingBlocks :: uint64
  tp_MaxPauseBlocks :: uint64
  tp_DoubleSignSlashPercentage :: uint64
  tp_NonSignSlashPercentage :: uint64
  tp_MaxNonSign :: uint64
  tp_NonSignWindow :: uint64
  tp_MaxCommittees :: uint64
  tp_MaxCommitteeSize :: uint64
  tp_EarlyWithdrawalPenalty :: uint64
  tp_DelegateUnstakingBlocks :: uint64
  tp_MinimumOrderSize :: uint64
  tp_StakePercentForSubsidizedCommittee :: uint64
  tp_MaxSlashPerCommittee :: uint64
  tp_DelegateRewardPercentage :: uint64
  tp_BuyDeadlineBlocks :: uint64
  tp_LockOrderFeeMultiplier :: uint64
  tp_MinimumStakeForValidators :: uint64
  tp_MinimumStakeForDelegates :: uint64
  tp_MaximumDelegatesPerCommittee :: uint64
  tp_SendFee :: uint64
  tp_StakeFee :: uint64
  tp_EditStakeFee :: uint64
  tp_UnstakeFee :: uint64
  tp_PauseFee :: uint64
  tp_UnpauseFee :: uint64
  tp_ChangeParameterFee :: uint64
  tp_DaoTransferFee :: uint64
  tp_CertificateResultsFee :: uint64
  tp_SubsidyFee :: uint64
  tp_CreateOrderFee :: uint64
  tp_EditOrderFee :: uint64
  tp_DeleteOrderFee :: uint64
  tp_DexLimitOrderFee :: uint64
  tp_DexLiquidityDepositFee :: uint64
  tp_DexLiquidityWithdrawFee :: uint64
  tp_DaoRewardPercentage :: uint64

text \<open>The zero value of a group of parameters is what a nil group leaves behind.\<close>

definition zero_ConsensusParams :: fsm_ConsensusParams where
  "zero_ConsensusParams = \<lparr>fcp_BlockSize = 0, fcp_ProtocolVersion = '''', fcp_RootChainId = 0\<rparr>"

definition zero_ValidatorParams :: fsm_ValidatorParams where
  "zero_ValidatorParams = \<lparr>fvp_UnstakingBlocks = 0, fvp_MaxPauseBlocks = 0,
     fvp_DoubleSignSlashPercentage = 0, fvp_NonSignSlashPercentage = 0, fvp_MaxNonSign = 0,
     fvp_NonSignWindow = 0, fvp_MaxCommittees = 0, fvp_MaxCommitteeSize = 0,
     fvp_EarlyWithdrawalPenalty = 0, fvp_DelegateUnstakingBlocks = 0, fvp_MinimumOrderSize = 0,
     fvp_StakePercentForSubsidizedCommittee = 0, fvp_MaxSlashPerCommittee = 0,
     fvp_DelegateRewardPercentage = 0, fvp_BuyDeadlineBlocks = 0, fvp_LockOrderFeeMultiplier = 0,
     fvp_MinimumStakeForValidators = 0, fvp_MinimumStakeForDelegates = 0,
     fvp_MaximumDelegatesPerCommittee = 0\<rparr>"

definition zero_FeeParams :: fsm_FeeParams where
  "zero_FeeParams = \<lparr>ffp_SendFee = 0, ffp_StakeFee = 0, ffp_EditStakeFee = 0, ffp_UnstakeFee = 0,
     ffp_PauseFee = 0, ffp_UnpauseFee = 0, ffp_ChangeParameterFee = 0, ffp_DaoTransferFee = 0,
     ffp_CertificateResultsFee = 0, ffp_SubsidyFee = 0, ffp_CreateOrderFee = 0, ffp_EditOrderFee = 0,
     ffp_DeleteOrderFee = 0, ffp_DexLimitOrderFee = 0, ffp_DexLiquidityDepositFee = 0,
     ffp_DexLiquidityWithdrawFee = 0\<rparr>"

definition zero_GovernanceParams :: fsm_GovernanceParams where
  "zero_GovernanceParams = \<lparr>fgp_DaoRewardPercentage = 0\<rparr>"

fun or_zero :: "'a \<Rightarrow> 'a option \<Rightarrow> 'a" where
  "or_zero z None = z"
| "or_zero z (Some x) = x"

definition ParamsFromFSM :: "fsm_Params option \<Rightarrow> transform_Params option" where
  "ParamsFromFSM params =
     (case params of
        None \<Rightarrow> None
      | Some p \<Rightarrow>
          let c = or_zero zero_ConsensusParams (fp_Consensus p);
              v = or_zero zero_ValidatorParams (fp_Validator p);
              f = or_zero zero_FeeParams (fp_Fee p);
              g = or_zero zero_GovernanceParams (fp_Governance p)
          in Some \<lparr>
            tp_Height = 0,
            tp_HeightTime = zero_time,
            tp_BlockSize = fcp_BlockSize c,
            tp_ProtocolVersion = fcp_ProtocolVersion c,
            tp_RootChainID = fcp_RootChainId c,
            tp_UnstakingBlocks = fvp_UnstakingBlocks v,
            tp_MaxPauseBlocks = fvp_MaxPauseBlocks v,
            tp_DoubleSignSlashPercentage = fvp_DoubleSignSlashPercentage v,
            tp_NonSignSlashPercentage = fvp_NonSignSlashPercentage v,
            tp_MaxNonSign = fvp_MaxNonSign v,
            tp_NonSignWindow = fvp_NonSignWindow v,
            tp_MaxCommittees = fvp_MaxCommittees v,
            tp_MaxCommitteeSize = fvp_MaxCommitteeSize v,
            tp_EarlyWithdrawalPenalty = fvp_EarlyWithdrawalPenalty v,
            tp_DelegateUnstakingBlocks = fvp_DelegateUnstakingBlocks v,
            tp_MinimumOrderSize = fvp_MinimumOrderSize v,
            tp_StakePercentForSubsidizedCommittee = fvp_StakePercentForSubsidizedCommittee v,
            tp_MaxSlashPerCommittee = fvp_MaxSlashPerCommittee v,
            tp_DelegateRewardPercentage = fvp_DelegateRewardPercentage v,
            tp_BuyDeadlineBlocks = fvp_BuyDeadlineBlocks v,
            tp_LockOrderFeeMultiplier = fvp_LockOrderFeeMultiplier v,
            tp_MinimumStakeForValidators = fvp_MinimumStakeForValidators v,
            tp_MinimumStakeForDelegates = fvp_MinimumStakeForDelegates v,
            tp_MaximumDelegatesPerCommittee = fvp_MaximumDelegatesPerCommittee v,
            tp_SendFee = ffp_SendFee f,
            tp_StakeFee = ffp_StakeFee f,
            tp_EditStakeFee = ffp_EditStakeFee f,
            tp_UnstakeFee = ffp_UnstakeFee f,
            tp_PauseFee = ffp_PauseFee f,
            tp_UnpauseFee = ffp_UnpauseFee f,
            tp_ChangeParameterFee = ffp_ChangeParameterFee f,
            tp_DaoTransferFee = ffp_DaoTransferFee f,
            tp_CertificateResultsFee = ffp_CertificateResultsFee f,
            tp_SubsidyFee = ffp_SubsidyFee f,
            tp_CreateOrderFee = ffp_CreateOrderFee f,
            tp_EditOrderFee = ffp_EditOrderFee f,
            tp_DeleteOrderFee = ffp_DeleteOrderFee f,
            tp_DexLimitOrderFee = ffp_DexLimitOrderFee f,
            tp_DexLiquidityDepositFee = ffp_DexLiquidityDepositFee f,
            tp_DexLiquidityWithdrawFee = ffp_DexLiquidityWithdrawFee f,
            tp_DaoRewardPercentage = fgp_DaoRewardPercentage g\<rparr>)"

lemma ParamsFromFSM_None_iff [simp]: "ParamsFromFSM p = None \<longleftrightarrow> p = None"
  by (cases p) (simp_all add: ParamsFromFSM_def Let_def)

section \<open>Pools (pool.go)\<close>

definition RewardPoolAddend :: uint64 where "RewardPoolAddend = 0"
definition HoldingPoolAddend :: uint64 where "HoldingPoolAddend = 16384"
definition LiquidityPoolAddend :: uint64 where "LiquidityPoolAddend = 32768"
definition EscrowPoolAddend :: uint64 where "EscrowPoolAddend = 65536"

lemmas pool_addends = RewardPoolAddend_def HoldingPoolAddend_def LiquidityPoolAddend_def EscrowPoolAddend_def

definition ExtractChainIDFromPoolID :: "uint64 \<Rightarrow> uint64" where
  "ExtractChainIDFromPoolID poolID =
     (if poolID \<ge> EscrowPoolAddend then poolID - EscrowPoolAddend
      else if poolID \<ge> LiquidityPoolAddend then poolID - LiquidityPoolAddend
      else if poolID \<ge> HoldingPoolAddend then poolID - HoldingPoolAddend
      else poolID)"

definition GetPoolType :: "uint64 \<Rightarrow> string" where
  "GetPoolType poolID =
     (if poolID \<ge> EscrowPoolAddend then ''escrow''
      else if poolID \<ge> LiquidityPoolAddend then ''liquidity''
      else if poolID \<ge> HoldingPoolAddend then ''holding''
      else ''reward'')"

record transform_Pool =
  tpl_PoolID :: uint64
  tpl_ChainID :: uint64
  tpl_Amount :: uint64
  tpl_TotalPoints :: uint64
  tpl_LPCount :: uint16
  tpl_Height :: uint64
  tpl_HeightTime :: time

definition PoolFromFSM :: "fsm_Pool \<Rightarrow> transform_Pool" where
  "PoolFromFSM p = \<lparr>
     tpl_PoolID = pool_Id p,
     tpl_ChainID = ExtractChainIDFromPoolID (pool_Id p),
     tpl_Amount = pool_Amount p,
     tpl_TotalPoints = pool_TotalPoolPoints p,
     tpl_LPCount = of_nat (length (pool_Points p)),
     tpl_Height = 0, tpl_HeightTime = zero_time\<rparr>"

record transform_PoolPointsHolder =
  tph_Address :: string
  tph_PoolID :: uint64
  tph_Committee :: uint64
  tph_Points :: uint64
  tph_LiquidityPoolPoints :: uint64
  tph_LiquidityPoolID :: uint64
  tph_Height :: uint64
  tph_HeightTime :: time

definition PoolPointsHoldersFromFSM :: "fsm_Pool \<Rightarrow> transform_PoolPointsHolder list" where
  "PoolPointsHoldersFromFSM p =
     (if length (pool_Points p) = 0 then []
      else let committee = ExtractChainIDFromPoolID (pool_Id p)
           in map (\<lambda>pp. \<lparr>
                tph_Address = BytesToHex (pp_Address pp),
                tph_PoolID = pool_Id p,
                tph_Committee = committee,
                tph_Points = pp_Points pp,
                tph_LiquidityPoolPoints = pool_TotalPoolPoints p,
                tph_LiquidityPoolID = LiquidityPoolAddend + committee,
                tph_Height = 0, tph_HeightTime = zero_time\<rparr>) (pool_Points p))"

section \<open>Validators (validator.go)\<close>

record transform_Validator =
  tv_Address :: string
  tv_PublicKey :: string
  tv_NetAddress :: string
  tv_StakedAmount :: uint64
  tv_MaxPausedHeight :: uint64
  tv_UnstakingHeight :: uint64
  tv_Output :: string
  tv_Delegate :: bool
  tv_Compound :: bool
  tv_Status :: string
  tv_Height :: uint64
  tv_HeightTime :: time

definition ValidatorFromFSM :: "fsm_Validator \<Rightarrow> transform_Validator" where
  "ValidatorFromFSM v =
     (let status = (if val_UnstakingHeight v > 0 then ''unstaking''
                    else if val_MaxPausedHeight v > 0 then ''paused''
                    else ''active'')
      in \<lparr>
        tv_Address = BytesToHex (val_Address v),
        tv_PublicKey = BytesToHex (val_PublicKey v),
        tv_NetAddress = val_NetAddress v,
        tv_StakedAmount = val_StakedAmount v,
        tv_MaxPausedHeight = val_MaxPausedHeight v,
        tv_UnstakingHeight = val_UnstakingHeight v,
        tv_Output = BytesToHex (val_Output v),
        tv_Delegate = val_Delegate v,
        tv_Compound = val_Compound v,
        tv_Status = status,
        tv_Height = 0, tv_HeightTime = zero_time\<rparr>)"

record transform_NonSigner =
  tns_Address :: string
  tns_MissedBlocksCount :: uint64
  tns_Height :: uint64
  tns_HeightTime :: time

definition NonSignerFromFSM :: "fsm_NonSigner \<Rightarrow> transform_NonSigner" where
  "NonSignerFromFSM ns = \<lparr>
     tns_Address = BytesToHex (ns_Address ns),
     tns_MissedBlocksCount = ns_Counter ns,
     tns_Height = 0, tns_HeightTime = zero_time\<rparr>"

record transform_DoubleSigner =
  tds_Address :: string
  tds_Heights :: "uint64 list"
  tds_Height :: uint64
  tds_HeightTime :: time

definition DoubleSignerFromLib :: "lib_DoubleSigner \<Rightarrow> transform_DoubleSigner" where
  "DoubleSignerFromLib ds = \<lparr>
     tds_Address = BytesToHex (ds_Id ds),
     tds_Heights = ds_Heights ds,
     tds_Height = 0, tds_HeightTime = zero_time\<rparr>"

section \<open>The pool identifier scheme\<close>

lemma small_word_arith:
  fixes a c :: uint64
  assumes "c < 16384" "unat a \<le> 65536"
  shows "unat (a + c) = unat a + unat c"
proof -
  have "unat c < 16384" using assms(1) by (simp add: word_less_nat_alt)
  then show ?thesis using assms(2) by (simp add: unat_word_ariths)
qed

text \<open>A chain id below 16384 and a pool type determine the pool id, and both can be read back.\<close>

lemma pool_id_ranges:
  fixes c :: uint64
  assumes "c < 16384"
  shows "16384 \<le> 16384 + c" "16384 + c < 32768" "32768 \<le> 32768 + c" "32768 + c < 65536"
    "65536 \<le> 65536 + c"
proof -
  have c: "unat c < 16384" using assms by (simp add: word_less_nat_alt)
  note sum = small_word_arith [OF assms, of 16384] small_word_arith [OF assms, of 32768]
    small_word_arith [OF assms, of 65536]
  show "16384 \<le> 16384 + c" "16384 + c < 32768" "32768 \<le> 32768 + c" "32768 + c < 65536"
    "65536 \<le> 65536 + c"
    using c sum by (simp_all add: word_le_nat_alt word_less_nat_alt)
qed

lemma pool_id_small: "c < 16384 \<Longrightarrow> c < 32768 \<and> c < (65536 :: uint64)"
  by (simp add: word_less_nat_alt)

lemma pool_id_reward:
  "c < 16384 \<Longrightarrow> ExtractChainIDFromPoolID c = c \<and> GetPoolType c = ''reward''"
  using pool_id_small [of c] by (simp add: ExtractChainIDFromPoolID_def GetPoolType_def pool_addends not_le)

lemma pool_id_holding:
  "c < 16384 \<Longrightarrow> ExtractChainIDFromPoolID (HoldingPoolAddend + c) = c \<and>
     GetPoolType (HoldingPoolAddend + c) = ''holding''"
  using pool_id_ranges [of c]
  by (simp add: ExtractChainIDFromPoolID_def GetPoolType_def pool_addends not_le)

lemma pool_id_liquidity:
  "c < 16384 \<Longrightarrow> ExtractChainIDFromPoolID (LiquidityPoolAddend + c) = c \<and>
     GetPoolType (LiquidityPoolAddend + c) = ''liquidity''"
  using pool_id_ranges [of c]
  by (simp add: ExtractChainIDFromPoolID_def GetPoolType_def pool_addends not_le)

lemma pool_id_escrow:
  "c < 16384 \<Longrightarrow> ExtractChainIDFromPoolID (EscrowPoolAddend + c) = c \<and>
     GetPoolType (EscrowPoolAddend + c) = ''escrow''"
  using pool_id_ranges [of c]
  by (simp add: ExtractChainIDFromPoolID_def GetPoolType_def pool_addends not_le)

end
