(* ===== verification/ConvPools.thy ===== *)
theory ConvPools
  imports Transform ConvSnapshots
begin

text \<open>
  \<open>convertPools\<close> (rows with deltas against the previous height) and
  \<open>ConvertPoolPointsWithChangeDetection\<close> (one row per holder) of internal/indexer/conversions.go.
  The deltas are 64-bit and 16-bit differences that wrap around; a delta is zero exactly when the two
  values are equal, so comparing deltas is comparing values. A stored pool id has 32 bits and a stored
  number of liquidity providers 16.
\<close>

section \<open>Pools\<close>

definition pool_row0 :: "uint64 \<Rightarrow> time \<Rightarrow> fsm_Pool \<Rightarrow> Pool" where
  "pool_row0 height blockTime pool = \<lparr>
     pol_PoolID = ucast (pool_Id pool), pol_ChainID = 0,
     pol_Amount = pool_Amount pool, pol_TotalPoints = pool_TotalPoolPoints pool, pol_LPCount = 0,
     pol_AmountDelta = 0, pol_TotalPointsDelta = 0, pol_LPCountDelta = 0,
     pol_Height = height, pol_HeightTime = blockTime,
     pol_LiquidityPoolID = 0, pol_HoldingPoolID = 0, pol_EscrowPoolID = 0, pol_RewardPoolID = 0\<rparr>"

definition pool_with_deltas :: "uint64 \<Rightarrow> time \<Rightarrow> fsm_Pool option \<Rightarrow> fsm_Pool \<Rightarrow> Pool \<times> bool" where
  "pool_with_deltas height blockTime prev pool =
     (let poolModel = pool_row0 height blockTime pool
      in case prev of
           Some prevPool \<Rightarrow>
             (let currentLPCount = of_nat (length (pool_Points pool)) :: uint16;
                  prevLPCount = of_nat (length (pool_Points prevPool)) :: uint16;
                  poolModel = poolModel\<lparr>
                    pol_AmountDelta := pool_Amount pool - pool_Amount prevPool,
                    pol_TotalPointsDelta := pool_TotalPoolPoints pool - pool_TotalPoolPoints prevPool,
                    pol_LPCountDelta := currentLPCount - prevLPCount,
                    pol_LPCount := currentLPCount\<rparr>
              in (poolModel, pol_AmountDelta poolModel \<noteq> 0 \<or> pol_TotalPointsDelta poolModel \<noteq> 0 \<or>
                             pol_LPCountDelta poolModel \<noteq> 0))
         | None \<Rightarrow>
             (poolModel\<lparr>
                pol_AmountDelta := 0, pol_TotalPointsDelta := 0, pol_LPCountDelta := 0,
                pol_LPCount := of_nat (length (pool_Points pool))\<rparr>, True))"

definition convertPools :: "fsm_Pool list \<Rightarrow> fsm_Pool list \<Rightarrow> uint64 \<Rightarrow> time \<Rightarrow> Pool list" where
  "convertPools current previous height blockTime =
     (let prevMap = index_by pool_Id previous
      in collect (\<lambda>pool.
           let (poolModel, changed) = pool_with_deltas height blockTime (prevMap (pool_Id pool)) pool
           in if changed then
                (let chainID = ExtractChainIDFromPoolID (pool_Id pool)
                 in Some (poolModel\<lparr>
                      pol_ChainID := ucast chainID,
                      pol_LiquidityPoolID := ucast (LiquidityPoolAddend + chainID)\<rparr>))
              else None)
         current)"

definition pool_row :: "uint64 \<Rightarrow> time \<Rightarrow> fsm_Pool option \<Rightarrow> fsm_Pool \<Rightarrow> Pool" where
  "pool_row height blockTime prev pool =
     (fst (pool_with_deltas height blockTime prev pool))\<lparr>
        pol_ChainID := ucast (ExtractChainIDFromPoolID (pool_Id pool)),
        pol_LiquidityPoolID := ucast (LiquidityPoolAddend + ExtractChainIDFromPoolID (pool_Id pool))\<rparr>"

definition pool_changed :: "fsm_Pool \<Rightarrow> fsm_Pool \<Rightarrow> bool" where
  "pool_changed c p \<longleftrightarrow> pool_Amount c \<noteq> pool_Amount p \<or>
     pool_TotalPoolPoints c \<noteq> pool_TotalPoolPoints p \<or>
     (of_nat (length (pool_Points c)) :: uint16) \<noteq> of_nat (length (pool_Points p))"

definition pool_stored :: "Pool \<Rightarrow> Pool" where
  "pool_stored r = r\<lparr>pol_Height := 0, pol_HeightTime := zero_time,
     pol_AmountDelta := 0, pol_TotalPointsDelta := 0, pol_LPCountDelta := 0\<rparr>"

lemma convertPools_diff:
  "convertPools current previous height blockTime =
   diff_rows pool_Id pool_changed (pool_row height blockTime) current previous"
  unfolding convertPools_def diff_rows_def Let_def
  by (rule collect_cong)
    (auto simp: pool_with_deltas_def pool_row_def pool_changed_def Let_def split: option.splits)

interpretation pools: exact_snapshot_diff
  pool_Id pool_changed "pool_row height blockTime" pol_PoolID "\<lambda>p. ucast (pool_Id p)"
  pool_stored "\<lambda>p. pool_stored (pool_row 0 zero_time None p)" "\<lambda>p. pool_Id p < 4294967296"
  for height blockTime
proof unfold_locales
  fix prev c
  show "pol_PoolID (pool_row height blockTime prev c) = ucast (pool_Id c)"
    by (simp add: pool_row_def pool_with_deltas_def pool_row0_def Let_def split: option.split)
  show "pool_stored (pool_row height blockTime prev c) = pool_stored (pool_row 0 zero_time None c)"
    by (simp add: pool_row_def pool_with_deltas_def pool_row0_def pool_stored_def Let_def
        split: option.split)
next
  fix c d
  assume "pool_Id c < 4294967296" "pool_Id d < 4294967296"
  then show "(ucast (pool_Id c) :: uint32) = ucast (pool_Id d) \<longleftrightarrow> pool_Id c = pool_Id d"
    by (rule ucast_uint32_eq_iff)
qed (auto simp: pool_row_def pool_with_deltas_def pool_row0_def pool_stored_def pool_changed_def Let_def)

section \<open>Pool points\<close>

record prevHolder =
  points :: uint64
  totalPoolPoints :: uint64

text \<open>The nested loop over the previous pools and their holders writes one map.\<close>

definition prev_holders :: "fsm_Pool list \<Rightarrow> (string \<rightharpoonup> prevHolder)" where
  "prev_holders previousPools =
     foldl (\<lambda>m p. foldl (\<lambda>m pp.
         m(poolHolderKey (pool_Id p) (BytesToHex (pp_Address pp)) \<mapsto>
             \<lparr>points = pp_Points pp, totalPoolPoints = pool_TotalPoolPoints p\<rparr>)) m (pool_Points p))
       Map.empty previousPools"

definition pool_points_row ::
  "uint64 \<Rightarrow> time \<Rightarrow> fsm_Pool \<Rightarrow> fsm_PoolPoints \<Rightarrow> PoolPointsByHolder" where
  "pool_points_row height blockTime pool pp =
     (let committee = ucast (ExtractChainIDFromPoolID (pool_Id pool)) :: uint16
      in \<lparr>pph_Address = BytesToHex (pp_Address pp),
          pph_PoolID = ucast (pool_Id pool),
          pph_Height = height,
          pph_HeightTime = blockTime,
          pph_Committee = committee,
          pph_Points = pp_Points pp,
          pph_LiquidityPoolPoints = pool_TotalPoolPoints pool,
          pph_LiquidityPoolID = ucast (LiquidityPoolAddend + (ucast committee :: uint64)),
          pph_PoolAmount = pool_Amount pool\<rparr>)"

definition ConvertPoolPointsWithChangeDetection ::
  "fsm_Pool list \<Rightarrow> fsm_Pool list \<Rightarrow> uint64 \<Rightarrow> time \<Rightarrow> PoolPointsByHolder list" where
  "ConvertPoolPointsWithChangeDetection currentPools previousPools height blockTime =
     (let prevMap = prev_holders previousPools
      in concat (map (\<lambda>pool.
           collect (\<lambda>pp.
             let addrHex = BytesToHex (pp_Address pp);
                 key = poolHolderKey (pool_Id pool) addrHex;
                 shouldSnapshot = (case prevMap key of
                     None \<Rightarrow> True
                   | Some prev \<Rightarrow> pp_Points pp \<noteq> points prev \<or>
                                  pool_TotalPoolPoints pool \<noteq> totalPoolPoints prev)
             in if shouldSnapshot then Some (pool_points_row height blockTime pool pp) else None)
           (pool_Points pool)) currentPools))"

text \<open>The holders of all pools as one list, which makes the nested loops a snapshot diff.\<close>

definition holders :: "fsm_Pool list \<Rightarrow> (fsm_Pool \<times> fsm_PoolPoints) list" where
  "holders pools = concat (map (\<lambda>p. map (Pair p) (pool_Points p)) pools)"

definition holder_key :: "fsm_Pool \<times> fsm_PoolPoints \<Rightarrow> string" where
  "holder_key h = poolHolderKey (pool_Id (fst h)) (BytesToHex (pp_Address (snd h)))"

definition holder_changed :: "fsm_Pool \<times> fsm_PoolPoints \<Rightarrow> fsm_Pool \<times> fsm_PoolPoints \<Rightarrow> bool" where
  "holder_changed c p \<longleftrightarrow> pp_Points (snd c) \<noteq> pp_Points (snd p) \<or>
     pool_TotalPoolPoints (fst c) \<noteq> pool_TotalPoolPoints (fst p)"

definition holder_prev :: "fsm_Pool \<times> fsm_PoolPoints \<Rightarrow> prevHolder" where
  "holder_prev h = \<lparr>points = pp_Points (snd h), totalPoolPoints = pool_TotalPoolPoints (fst h)\<rparr>"

lemma prev_holders_index: "prev_holders pools k = map_option holder_prev (index_by holder_key (holders pools) k)"
proof -
  have "prev_holders pools = foldl (\<lambda>m h. m(holder_key h \<mapsto> holder_prev h)) Map.empty (holders pools)"
    by (simp add: prev_holders_def holders_def foldl_concat_map foldl_map' holder_key_def holder_prev_def)
  also have "\<dots> = (\<lambda>a. map_option holder_prev (index_by holder_key (holders pools) a))"
    using foldl_map_option_upd [of holder_key holder_prev Map.empty "holders pools"]
    by (simp add: index_by_def)
  finally show ?thesis by simp
qed

lemma ConvertPoolPoints_diff:
  "ConvertPoolPointsWithChangeDetection current previous height blockTime =
   diff_rows holder_key holder_changed (\<lambda>_ h. pool_points_row height blockTime (fst h) (snd h))
     (holders current) (holders previous)"
  unfolding ConvertPoolPointsWithChangeDetection_def diff_rows_def Let_def prev_holders_index
    holders_def [of current] collect_concat_map collect_map
  by (intro arg_cong [where f = concat] map_cong refl collect_cong)
    (auto simp: holder_key_def holder_changed_def holder_prev_def split: option.split)

definition pool_points_key :: "PoolPointsByHolder \<Rightarrow> string \<times> uint32" where
  "pool_points_key r = (pph_Address r, pph_PoolID r)"

text \<open>What the comparison covers: the holder's points and the pool's total. The pool amount is stored
  with the row but not compared.\<close>

definition pool_points_stored :: "PoolPointsByHolder \<Rightarrow> string \<times> uint32 \<times> uint64 \<times> uint64" where
  "pool_points_stored r = (pph_Address r, pph_PoolID r, pph_Points r, pph_LiquidityPoolPoints r)"

interpretation pool_points: exact_snapshot_diff
  holder_key holder_changed "\<lambda>_ h. pool_points_row height blockTime (fst h) (snd h)" pool_points_key
  "\<lambda>h. (BytesToHex (pp_Address (snd h)), ucast (pool_Id (fst h)))" pool_points_stored
  "\<lambda>h. (BytesToHex (pp_Address (snd h)), ucast (pool_Id (fst h)), pp_Points (snd h),
        pool_TotalPoolPoints (fst h))"
  "\<lambda>h. pool_Id (fst h) < 4294967296"
  for height blockTime
  by unfold_locales
    (auto simp: pool_points_row_def pool_points_key_def pool_points_stored_def holder_key_def
      holder_changed_def ucast_uint32_eq_iff Let_def)

end
