(* ===== verification/ConvParams.thy ===== *)
theory ConvParams
  imports Transform SnapshotChange
begin

text \<open>
  Change detection of the governance parameters (internal/indexer/conversions.go): the parameters are
  flattened by \<open>ParamsFromFSM\<close>, compared field by field (\<open>paramsChanged\<close>) and written as one row
  (\<open>fsmParamsToIndexerParams\<close>). The comparison is shown to miss no field, so a missing row means that
  the parameters are the ones of the height before.
\<close>

definition convertParams_row :: "uint64 \<Rightarrow> time \<Rightarrow> Params" where
  "convertParams_row height blockTime = \<lparr>
     prm_Height = height, prm_HeightTime = blockTime,
     prm_BlockSize = 0, prm_ProtocolVersion = '''', prm_RootChainID = 0, prm_Retired = 0,
     prm_UnstakingBlocks = 0, prm_MaxPauseBlocks = 0, prm_DoubleSignSlashPercentage = 0,
     prm_NonSignSlashPercentage = 0, prm_MaxNonSign = 0, prm_NonSignWindow = 0,
     prm_MaxCommittees = 0, prm_MaxCommitteeSize = 0, prm_EarlyWithdrawalPenalty = 0,
     prm_DelegateUnstakingBlocks = 0, prm_MinimumOrderSize = 0, prm_StakePercentForSubsidized = 0,
     prm_MaxSlashPerCommittee = 0, prm_DelegateRewardPercentage = 0, prm_BuyDeadlineBlocks = 0,
     prm_LockOrderFeeMultiplier = 0, prm_MinimumStakeForValidators = 0, prm_MinimumStakeForDelegates = 0,
     prm_MaximumDelegatesPerCommittee = 0, prm_SendFee = 0, prm_StakeFee = 0,
     prm_EditStakeFee = 0, prm_UnstakeFee = 0, prm_PauseFee = 0,
     prm_UnpauseFee = 0, prm_ChangeParameterFee = 0, prm_DaoTransferFee = 0,
     prm_CertificateResultsFee = 0, prm_SubsidyFee = 0, prm_CreateOrderFee = 0,
     prm_EditOrderFee = 0, prm_DeleteOrderFee = 0, prm_DexLimitOrderFee = 0,
     prm_DexLiquidityDepositFee = 0, prm_DexLiquidityWithdrawFee = 0, prm_DaoRewardPercentage = 0\<rparr>"

definition convertParams :: "fsm_Params option \<Rightarrow> uint64 \<Rightarrow> time \<Rightarrow> Params option" where
  "convertParams params height blockTime =
     (case params of None \<Rightarrow> None | Some _ \<Rightarrow> Some (convertParams_row height blockTime))"

definition fsmParamsToIndexerParams :: "transform_Params \<Rightarrow> uint64 \<Rightarrow> time \<Rightarrow> Params" where
  "fsmParamsToIndexerParams p height blockTime = \<lparr>
     prm_Height = height,
     prm_HeightTime = blockTime,
     prm_BlockSize = tp_BlockSize p,
     prm_ProtocolVersion = tp_ProtocolVersion p,
     prm_RootChainID = ucast (tp_RootChainID p),
     prm_Retired = 0,
     prm_UnstakingBlocks = tp_UnstakingBlocks p,
     prm_MaxPauseBlocks = tp_MaxPauseBlocks p,
     prm_DoubleSignSlashPercentage = tp_DoubleSignSlashPercentage p,
     prm_NonSignSlashPercentage = tp_NonSignSlashPercentage p,
     prm_MaxNonSign = tp_MaxNonSign p,
     prm_NonSignWindow = tp_NonSignWindow p,
     prm_MaxCommittees = tp_MaxCommittees p,
     prm_MaxCommitteeSize = tp_MaxCommitteeSize p,
     prm_EarlyWithdrawalPenalty = tp_EarlyWithdrawalPenalty p,
     prm_DelegateUnstakingBlocks = tp_DelegateUnstakingBlocks p,
     prm_MinimumOrderSize = tp_MinimumOrderSize p,
     prm_StakePercentForSubsidized = tp_StakePercentForSubsidizedCommittee p,
     prm_MaxSlashPerCommittee = tp_MaxSlashPerCommittee p,
     prm_DelegateRewardPercentage = tp_DelegateRewardPercentage p,
     prm_BuyDeadlineBlocks = tp_BuyDeadlineBlocks p,
     prm_LockOrderFeeMultiplier = tp_LockOrderFeeMultiplier p,
     prm_MinimumStakeForValidators = tp_MinimumStakeForValidators p,
     prm_MinimumStakeForDelegates = tp_MinimumStakeForDelegates p,
     prm_MaximumDelegatesPerCommittee = tp_MaximumDelegatesPerCommittee p,
     prm_SendFee = tp_SendFee p,
     prm_StakeFee = tp_StakeFee p,
     prm_EditStakeFee = tp_EditStakeFee p,
     prm_UnstakeFee = tp_UnstakeFee p,
     prm_PauseFee = tp_PauseFee p,
     prm_UnpauseFee = tp_UnpauseFee p,
     prm_ChangeParameterFee = tp_ChangeParameterFee p,
     prm_DaoTransferFee = tp_DaoTransferFee p,
     prm_CertificateResultsFee = tp_CertificateResultsFee p,
     prm_SubsidyFee = tp_SubsidyFee p,
     prm_CreateOrderFee = tp_CreateOrderFee p,
     prm_EditOrderFee = tp_EditOrderFee p,
     prm_DeleteOrderFee = tp_DeleteOrderFee p,
     prm_DexLimitOrderFee = tp_DexLimitOrderFee p,
     prm_DexLiquidityDepositFee = tp_DexLiquidityDepositFee p,
     prm_DexLiquidityWithdrawFee = tp_DexLiquidityWithdrawFee p,
     prm_DaoRewardPercentage = tp_DaoRewardPercentage p\<rparr>"

definition paramsChanged :: "transform_Params \<Rightarrow> transform_Params \<Rightarrow> bool" where
  "paramsChanged current previous \<longleftrightarrow>
     (if
        tp_BlockSize current \<noteq> tp_BlockSize previous \<or>
        tp_ProtocolVersion current \<noteq> tp_ProtocolVersion previous \<or>
        tp_RootChainID current \<noteq> tp_RootChainID previous
      then True
      else if
        tp_UnstakingBlocks current \<noteq> tp_UnstakingBlocks previous \<or>
        tp_MaxPauseBlocks current \<noteq> tp_MaxPauseBlocks previous \<or>
        tp_DoubleSignSlashPercentage current \<noteq> tp_DoubleSignSlashPercentage previous \<or>
        tp_NonSignSlashPercentage current \<noteq> tp_NonSignSlashPercentage previous \<or>
        tp_MaxNonSign current \<noteq> tp_MaxNonSign previous \<or>
        tp_NonSignWindow current \<noteq> tp_NonSignWindow previous \<or>
        tp_MaxCommittees current \<noteq> tp_MaxCommittees previous \<or>
        tp_MaxCommitteeSize current \<noteq> tp_MaxCommitteeSize previous \<or>
        tp_EarlyWithdrawalPenalty current \<noteq> tp_EarlyWithdrawalPenalty previous \<or>
        tp_DelegateUnstakingBlocks current \<noteq> tp_DelegateUnstakingBlocks previous \<or>
        tp_MinimumOrderSize current \<noteq> tp_MinimumOrderSize previous \<or>
        tp_StakePercentForSubsidizedCommittee current \<noteq> tp_StakePercentForSubsidizedCommittee previous \<or>
        tp_MaxSlashPerCommittee current \<noteq> tp_MaxSlashPerCommittee previous \<or>
        tp_DelegateRewardPercentage current \<noteq> tp_DelegateRewardPercentage previous \<or>
        tp_BuyDeadlineBlocks current \<noteq> tp_BuyDeadlineBlocks previous \<or>
        tp_LockOrderFeeMultiplier current \<noteq> tp_LockOrderFeeMultiplier previous \<or>
        tp_MinimumStakeForValidators current \<noteq> tp_MinimumStakeForValidators previous \<or>
        tp_MinimumStakeForDelegates current \<noteq> tp_MinimumStakeForDelegates previous \<or>
        tp_MaximumDelegatesPerCommittee current \<noteq> tp_MaximumDelegatesPerCommittee previous
      then True
      else if
        tp_SendFee current \<noteq> tp_SendFee previous \<or>
        tp_StakeFee current \<noteq> tp_StakeFee previous \<or>
        tp_EditStakeFee current \<noteq> tp_EditStakeFee previous \<or>
        tp_UnstakeFee current \<noteq> tp_UnstakeFee previous \<or>
        tp_PauseFee current \<noteq> tp_PauseFee previous \<or>
        tp_UnpauseFee current \<noteq> tp_UnpauseFee previous \<or>
        tp_ChangeParameterFee current \<noteq> tp_ChangeParameterFee previous \<or>
        tp_DaoTransferFee current \<noteq> tp_DaoTransferFee previous \<or>
        tp_CertificateResultsFee current \<noteq> tp_CertificateResultsFee previous \<or>
        tp_SubsidyFee current \<noteq> tp_SubsidyFee previous \<or>
        tp_CreateOrderFee current \<noteq> tp_CreateOrderFee previous \<or>
        tp_EditOrderFee current \<noteq> tp_EditOrderFee previous \<or>
        tp_DeleteOrderFee current \<noteq> tp_DeleteOrderFee previous \<or>
        tp_DexLimitOrderFee current \<noteq> tp_DexLimitOrderFee previous \<or>
        tp_DexLiquidityDepositFee current \<noteq> tp_DexLiquidityDepositFee previous \<or>
        tp_DexLiquidityWithdrawFee current \<noteq> tp_DexLiquidityWithdrawFee previous
      then True
      else if
        tp_DaoRewardPercentage current \<noteq> tp_DaoRewardPercentage previous
      then True
      else False)"

definition ConvertParamsWithChangeDetection ::
  "fsm_Params option \<Rightarrow> fsm_Params option \<Rightarrow> uint64 \<Rightarrow> time \<Rightarrow> Params option" where
  "ConvertParamsWithChangeDetection current previous height blockTime =
     (if current = None then None
      else case ParamsFromFSM current of
             None \<Rightarrow> None
           | Some currentConverted \<Rightarrow>
               (if previous = None
                then Some (fsmParamsToIndexerParams currentConverted height blockTime)
                else case ParamsFromFSM previous of
                       None \<Rightarrow> Some (fsmParamsToIndexerParams currentConverted height blockTime)
                     | Some previousConverted \<Rightarrow>
                         if paramsChanged currentConverted previousConverted
                         then Some (fsmParamsToIndexerParams currentConverted height blockTime)
                         else None))"

section \<open>The comparison covers every field\<close>

lemma paramsChanged_iff:
  "tp_Height c = tp_Height p \<Longrightarrow> tp_HeightTime c = tp_HeightTime p \<Longrightarrow> paramsChanged c p \<longleftrightarrow> c \<noteq> p"
  unfolding paramsChanged_def by (cases c, cases p) (simp, blast?)

lemma ParamsFromFSM_None [simp]: "ParamsFromFSM None = None"
  by simp

lemma ParamsFromFSM_times:
  "ParamsFromFSM p = Some t \<Longrightarrow> tp_Height t = 0 \<and> tp_HeightTime t = zero_time"
  by (auto simp: ParamsFromFSM_def Let_def split: option.splits)

lemma paramsChanged_FSM:
  assumes "ParamsFromFSM c = Some tc" "ParamsFromFSM p = Some tp"
  shows "paramsChanged tc tp \<longleftrightarrow> tc \<noteq> tp"
  using assms [THEN ParamsFromFSM_times] by (intro paramsChanged_iff) simp_all

lemma ConvertParams_iff:
  "ConvertParamsWithChangeDetection current previous height blockTime =
   (if current = None \<or> ParamsFromFSM current = ParamsFromFSM previous then None
    else map_option (\<lambda>t. fsmParamsToIndexerParams t height blockTime) (ParamsFromFSM current))"
  using paramsChanged_FSM [of current _ previous]
  by (auto simp: ConvertParamsWithChangeDetection_def split: option.split)

definition params_stored :: "Params \<Rightarrow> Params" where
  "params_stored r = r\<lparr>prm_Height := 0, prm_HeightTime := zero_time\<rparr>"

lemma params_stored_row [simp]:
  "params_stored (fsmParamsToIndexerParams t height blockTime) = fsmParamsToIndexerParams t 0 zero_time"
  by (simp add: params_stored_def fsmParamsToIndexerParams_def)

interpretation params_log: change_log
  "\<lambda>c (_::unit). map_option (\<lambda>t. fsmParamsToIndexerParams t 0 zero_time) (ParamsFromFSM c)"
  "\<lambda>c p _. map_option params_stored (ConvertParamsWithChangeDetection c p height blockTime)"
  "\<lambda>_. True"
  for height blockTime
  by unfold_locales (auto simp: ConvertParams_iff split: if_splits dest: sym [of "Some _"])

end
