(* ===== verification/ConvValidators.thy ===== *)
theory ConvValidators
  imports CanopyTypes Models SnapshotChange
begin

text \<open>
  The validator converters of internal/indexer/conversions.go: change detection of validators with
  lifecycle events (\<open>ConvertValidatorsWithChangeDetection\<close>, which also writes the committee
  assignments), the comparison of committee lists, and the two-phase converters of non-signers and
  double-signers, which are interpreted as \<open>counter_log\<close>s.
\<close>

section \<open>Lifecycle events\<close>

record lifecycle =
  pauseEvents :: "string \<Rightarrow> bool"
  beginUnstakingEvents :: "string \<Rightarrow> bool"
  slashEvents :: "string \<Rightarrow> bool"
  rewardEvents :: "string \<Rightarrow> bool"

definition lifecycle_step :: "event_types \<Rightarrow> lifecycle \<Rightarrow> 'm lib_Event \<Rightarrow> lifecycle" where
  "lifecycle_step et m e =
     (if ev_EventType e \<noteq> EventTypeAutoPause et \<and>
         ev_EventType e \<noteq> EventTypeAutoBeginUnstaking et \<and>
         ev_EventType e \<noteq> EventTypeSlash et \<and>
         ev_EventType e \<noteq> EventTypeReward et then m
      else if length (ev_Address e) = 0 then m
      else let addrHex = BytesToHex (ev_Address e)
           in if ev_EventType e = EventTypeAutoPause et
              then m\<lparr>pauseEvents := (pauseEvents m)(addrHex := True)\<rparr>
              else if ev_EventType e = EventTypeAutoBeginUnstaking et
              then m\<lparr>beginUnstakingEvents := (beginUnstakingEvents m)(addrHex := True)\<rparr>
              else if ev_EventType e = EventTypeSlash et
              then m\<lparr>slashEvents := (slashEvents m)(addrHex := True)\<rparr>
              else if ev_EventType e = EventTypeReward et
              then m\<lparr>rewardEvents := (rewardEvents m)(addrHex := True)\<rparr>
              else m)"

definition parseValidatorLifecycleEvents :: "event_types \<Rightarrow> 'm lib_Event list \<Rightarrow> lifecycle" where
  "parseValidatorLifecycleEvents et events =
     foldl (lifecycle_step et)
       \<lparr>pauseEvents = \<lambda>_. False, beginUnstakingEvents = \<lambda>_. False,
        slashEvents = \<lambda>_. False, rewardEvents = \<lambda>_. False\<rparr> events"

definition lifecycle_event :: "event_types \<Rightarrow> 'm lib_Event \<Rightarrow> bool" where
  "lifecycle_event et e \<longleftrightarrow> ev_EventType e \<in> {EventTypeAutoPause et, EventTypeAutoBeginUnstaking et,
     EventTypeSlash et, EventTypeReward et} \<and> ev_Address e \<noteq> []"

definition any_lifecycle :: "lifecycle \<Rightarrow> string \<Rightarrow> bool" where
  "any_lifecycle m a \<longleftrightarrow> pauseEvents m a \<or> beginUnstakingEvents m a \<or> slashEvents m a \<or> rewardEvents m a"

lemma any_lifecycle_step:
  "any_lifecycle (lifecycle_step et m e) a \<longleftrightarrow>
     any_lifecycle m a \<or> (lifecycle_event et e \<and> a = BytesToHex (ev_Address e))"
  by (auto simp: any_lifecycle_def lifecycle_step_def lifecycle_event_def Let_def)

text \<open>An address has a lifecycle flag exactly when one of the four event types names it.\<close>

lemma any_lifecycle_parse:
  "any_lifecycle (parseValidatorLifecycleEvents et events) a \<longleftrightarrow>
     (\<exists>e \<in> set events. lifecycle_event et e \<and> a = BytesToHex (ev_Address e))"
proof (induction events rule: rev_induct)
  case Nil
  then show ?case by (simp add: parseValidatorLifecycleEvents_def any_lifecycle_def)
next
  case (snoc e events)
  have "parseValidatorLifecycleEvents et (events @ [e]) =
      lifecycle_step et (parseValidatorLifecycleEvents et events) e"
    by (simp add: parseValidatorLifecycleEvents_def)
  then show ?case using snoc by (auto simp: any_lifecycle_step)
qed

section \<open>Committee lists\<close>

definition equalCommittees :: "uint64 list \<Rightarrow> uint64 list \<Rightarrow> bool" where
  "equalCommittees a b =
     (if length a \<noteq> length b then False
      else let aMap = flag_all (\<lambda>c. c) a
           in list_all (\<lambda>c. aMap c) b)"

lemma equalCommittees_iff: "equalCommittees a b \<longleftrightarrow> length a = length b \<and> set b \<subseteq> set a"
  by (auto simp: equalCommittees_def list_all_iff Let_def)

text \<open>On lists without repetition the comparison is equality of the sets of committees.\<close>

lemma equalCommittees_distinct:
  assumes "distinct a" "distinct b"
  shows "equalCommittees a b \<longleftrightarrow> set a = set b"
  using assms by (auto simp: equalCommittees_iff distinct_card [symmetric] dest: card_subset_eq [rotated])

section \<open>Validators\<close>

definition validator_status :: "fsm_Validator \<Rightarrow> string" where
  "validator_status cur =
     (if val_UnstakingHeight cur > 0 then ''unstaking''
      else if val_MaxPausedHeight cur > 0 then ''paused''
      else ''active'')"

definition validator_row :: "uint64 \<Rightarrow> time \<Rightarrow> fsm_Validator \<Rightarrow> Validator" where
  "validator_row height blockTime cur = \<lparr>
     vld_Address = BytesToHex (val_Address cur),
     vld_PublicKey = BytesToHex (val_PublicKey cur),
     vld_NetAddress = val_NetAddress cur,
     vld_StakedAmount = val_StakedAmount cur,
     vld_Output = BytesToHex (val_Output cur),
     vld_Committees = [],
     vld_MaxPausedHeight = val_MaxPausedHeight cur,
     vld_UnstakingHeight = val_UnstakingHeight cur,
     vld_Delegate = val_Delegate cur,
     vld_Compound = val_Compound cur,
     vld_Status = validator_status cur,
     vld_Height = height,
     vld_HeightTime = blockTime\<rparr>"

definition committee_validator_row ::
  "(uint64 \<Rightarrow> bool) \<Rightarrow> (uint64 \<Rightarrow> bool) \<Rightarrow> uint64 \<Rightarrow> time \<Rightarrow> fsm_Validator \<Rightarrow> uint64 \<Rightarrow> CommitteeValidator" where
  "committee_validator_row subsidizedMap retiredMap height blockTime cur committeeID = \<lparr>
     cmv_CommitteeID = committeeID,
     cmv_ValidatorAddress = BytesToHex (val_Address cur),
     cmv_StakedAmount = val_StakedAmount cur,
     cmv_Status = validator_status cur,
     cmv_Delegate = val_Delegate cur,
     cmv_Compound = val_Compound cur,
     cmv_Height = height,
     cmv_HeightTime = blockTime,
     cmv_Subsidized = subsidizedMap committeeID,
     cmv_Retired = retiredMap committeeID\<rparr>"

definition validator_fields_changed :: "fsm_Validator \<Rightarrow> fsm_Validator \<Rightarrow> bool" where
  "validator_fields_changed cur prev \<longleftrightarrow>
     val_StakedAmount cur \<noteq> val_StakedAmount prev \<or>
     BytesToHex (val_PublicKey cur) \<noteq> BytesToHex (val_PublicKey prev) \<or>
     val_NetAddress cur \<noteq> val_NetAddress prev \<or>
     val_MaxPausedHeight cur \<noteq> val_MaxPausedHeight prev \<or>
     val_UnstakingHeight cur \<noteq> val_UnstakingHeight prev \<or>
     BytesToHex (val_Output cur) \<noteq> BytesToHex (val_Output prev) \<or>
     val_Delegate cur \<noteq> val_Delegate prev \<or>
     val_Compound cur \<noteq> val_Compound prev \<or>
     \<not> equalCommittees (val_Committees cur) (val_Committees prev)"

text \<open>The three phases of the change decision, in the code's order.\<close>

definition validator_changed :: "lifecycle \<Rightarrow> fsm_Validator option \<Rightarrow> fsm_Validator \<Rightarrow> bool" where
  "validator_changed lc prev cur =
     (let addrHex = BytesToHex (val_Address cur);
          hasEvent = pauseEvents lc addrHex \<or> beginUnstakingEvents lc addrHex \<or>
                     slashEvents lc addrHex \<or> rewardEvents lc addrHex;
          changed = hasEvent;
          changed = (if prev = None then True else changed)
      in case prev of
           Some p \<Rightarrow> if \<not> hasEvent \<and> validator_fields_changed cur p then True else changed
         | None \<Rightarrow> changed)"

definition ConvertValidatorsWithChangeDetection ::
  "event_types \<Rightarrow> fsm_Validator list \<Rightarrow> fsm_Validator list \<Rightarrow> 'm lib_Event list \<Rightarrow>
   uint64 list \<Rightarrow> uint64 list \<Rightarrow> uint64 \<Rightarrow> time \<Rightarrow> Validator list \<times> CommitteeValidator list" where
  "ConvertValidatorsWithChangeDetection et current previous events
     subsidizedCommittees retiredCommittees height blockTime =
     (let prevMap = index_by (\<lambda>v. BytesToHex (val_Address v)) previous;
          lc = parseValidatorLifecycleEvents et events;
          subsidizedMap = flag_all (\<lambda>id. id) subsidizedCommittees;
          retiredMap = flag_all (\<lambda>id. id) retiredCommittees;
          appended = collect (\<lambda>cur.
            let prev = prevMap (BytesToHex (val_Address cur))
            in if validator_changed lc prev cur
               then Some (validator_row height blockTime cur,
                      map (committee_validator_row subsidizedMap retiredMap height blockTime cur)
                        (val_Committees cur))
               else None) current
      in (map fst appended, concat (map snd appended)))"

definition validator_stored :: "Validator \<Rightarrow> Validator" where
  "validator_stored r = r\<lparr>vld_Height := 0, vld_HeightTime := zero_time\<rparr>"

definition validator_differs :: "lifecycle \<Rightarrow> fsm_Validator \<Rightarrow> fsm_Validator \<Rightarrow> bool" where
  "validator_differs lc cur prev \<longleftrightarrow>
     any_lifecycle lc (BytesToHex (val_Address cur)) \<or> validator_fields_changed cur prev"

lemma validator_changed_iff:
  "validator_changed lc prev cur \<longleftrightarrow>
     (case prev of None \<Rightarrow> True | Some p \<Rightarrow> validator_differs lc cur p)"
  by (auto simp: validator_changed_def validator_differs_def any_lifecycle_def Let_def split: option.split)

lemma ConvertValidators_diff:
  "fst (ConvertValidatorsWithChangeDetection et current previous events subs rets height blockTime) =
   diff_rows (\<lambda>v. BytesToHex (val_Address v))
     (validator_differs (parseValidatorLifecycleEvents et events))
     (\<lambda>_ c. validator_row height blockTime c) current previous"
  unfolding ConvertValidatorsWithChangeDetection_def diff_rows_def Let_def fst_conv map_collect
  by (rule collect_cong) (auto simp: validator_changed_iff split: option.split)

interpretation validators: snapshot_diff
  "\<lambda>v. BytesToHex (val_Address v)" "validator_differs lc" "\<lambda>_ c. validator_row height blockTime c"
  vld_Address "\<lambda>v. BytesToHex (val_Address v)" validator_stored "validator_row 0 zero_time" "\<lambda>_. True"
  for lc height blockTime
  by unfold_locales
    (auto simp: validator_row_def validator_stored_def validator_differs_def
      validator_fields_changed_def validator_status_def)

lemma validator_status_DeriveStatus:
  "vld_Status (validator_row height blockTime v) = DeriveStatus (validator_row height blockTime v)"
  by (simp add: validator_row_def validator_status_def DeriveStatus_def)

section \<open>Committee assignments\<close>

lemma if_Some_eq: "(if P then Some x else None) = Some y \<longleftrightarrow> P \<and> y = x"
  by auto

lemma in_concat_collect:
  "r \<in> set (concat (map g (collect f xs))) \<longleftrightarrow> (\<exists>x \<in> set xs. \<exists>y. f x = Some y \<and> r \<in> set (g y))"
  by (auto simp: set_collect) (metis in_set_collect)?

lemma in_ConvertValidators_committees:
  "r \<in> set (snd (ConvertValidatorsWithChangeDetection et current previous events subs rets height blockTime)) \<longleftrightarrow>
     (\<exists>v \<in> set current. \<exists>c \<in> set (val_Committees v).
        validator_changed (parseValidatorLifecycleEvents et events)
          (index_by (\<lambda>v. BytesToHex (val_Address v)) previous (BytesToHex (val_Address v))) v \<and>
        r = committee_validator_row (flag_all (\<lambda>id. id) subs) (flag_all (\<lambda>id. id) rets) height blockTime v c)"
    unfolding ConvertValidatorsWithChangeDetection_def Let_def snd_conv in_concat_collect if_Some_eq
  by (simp add: image_iff)

definition assignment_key :: "CommitteeValidator \<Rightarrow> uint64 \<times> string" where
  "assignment_key r = (cmv_CommitteeID r, cmv_ValidatorAddress r)"

text \<open>What a committee row records of the validator itself; the subsidized and retired flags belong to
  the committee and are not compared.\<close>

definition assignment_stored :: "CommitteeValidator \<Rightarrow> uint64 \<times> string \<times> bool \<times> bool" where
  "assignment_stored r = (cmv_StakedAmount r, cmv_Status r, cmv_Delegate r, cmv_Compound r)"

definition assignment_view ::
  "fsm_Validator list \<Rightarrow> uint64 \<times> string \<Rightarrow> (uint64 \<times> string \<times> bool \<times> bool) option" where
  "assignment_view vs k =
     (case index_by (\<lambda>v. BytesToHex (val_Address v)) vs (snd k) of
        None \<Rightarrow> None
      | Some v \<Rightarrow> if fst k \<in> set (val_Committees v)
                  then Some (val_StakedAmount v, validator_status v, val_Delegate v, val_Compound v)
                  else None)"

definition assignments_ok :: "fsm_Validator list \<Rightarrow> bool" where
  "assignments_ok vs \<longleftrightarrow> distinct (map val_Address vs) \<and> (\<forall>v \<in> set vs. distinct (val_Committees v))"

definition assignment_emit ::
  "event_types \<Rightarrow> 'm lib_Event list \<Rightarrow> uint64 list \<Rightarrow> uint64 list \<Rightarrow> uint64 \<Rightarrow> time \<Rightarrow>
   fsm_Validator list \<Rightarrow> fsm_Validator list \<Rightarrow> uint64 \<times> string \<Rightarrow> (uint64 \<times> string \<times> bool \<times> bool) option" where
  "assignment_emit et events subs rets height blockTime c p k =
     map_option assignment_stored (index_by assignment_key
       (snd (ConvertValidatorsWithChangeDetection et c p events subs rets height blockTime)) k)"

lemma distinct_hex_addresses:
  "distinct (map (\<lambda>v. BytesToHex (val_Address v)) vs) \<longleftrightarrow> distinct (map val_Address vs)"
  by (simp add: distinct_map inj_on_def)

lemma assignments_ok_index:
  assumes "assignments_ok vs" "v \<in> set vs"
  shows "index_by (\<lambda>v. BytesToHex (val_Address v)) vs (BytesToHex (val_Address v)) = Some v"
  using assms index_by_mem [of "\<lambda>v. BytesToHex (val_Address v)" vs v]
  by (simp add: assignments_ok_def distinct_hex_addresses)

interpretation assignments: change_log
  assignment_view "assignment_emit et events subs rets height blockTime" assignments_ok
  for et events subs rets height blockTime
proof
  fix c p :: "fsm_Validator list" and k v
  assume ok: "assignments_ok c" and "assignment_emit et events subs rets height blockTime c p k = Some v"
  then obtain r where r: "index_by assignment_key
      (snd (ConvertValidatorsWithChangeDetection et c p events subs rets height blockTime)) k = Some r"
    "assignment_stored r = v"
    by (auto simp: assignment_emit_def)
  obtain w cid where w: "w \<in> set c" "cid \<in> set (val_Committees w)"
    "r = committee_validator_row (flag_all (\<lambda>id. id) subs) (flag_all (\<lambda>id. id) rets) height blockTime w cid"
    using index_by_SomeD [OF r(1)] unfolding in_ConvertValidators_committees by blast
  have "k = (cid, BytesToHex (val_Address w))"
    using index_by_SomeD [OF r(1)] w(3) by (auto simp: assignment_key_def committee_validator_row_def)
  then show "assignment_view c k = Some v"
    using r(2) w assignments_ok_index [OF ok w(1)]
    by (auto simp: assignment_view_def assignment_stored_def committee_validator_row_def)
next
  fix c p :: "fsm_Validator list" and k v
  assume ok: "assignments_ok c" "assignments_ok p"
    and none: "assignment_emit et events subs rets height blockTime c p k = None"
    and v: "assignment_view c k = Some v"
  obtain w where w: "index_by (\<lambda>v. BytesToHex (val_Address v)) c (snd k) = Some w"
    "fst k \<in> set (val_Committees w)"
    "v = (val_StakedAmount w, validator_status w, val_Delegate w, val_Compound w)"
    using v by (auto simp: assignment_view_def split: option.splits if_splits)
  then have wc: "w \<in> set c" "snd k = BytesToHex (val_Address w)" using index_by_SomeD by fastforce+
  let ?r = "committee_validator_row (flag_all (\<lambda>id. id) subs) (flag_all (\<lambda>id. id) rets) height blockTime w (fst k)"
  have "assignment_key ?r = k"
    using wc(2) by (simp add: assignment_key_def committee_validator_row_def prod_eq_iff)
  moreover have "k \<notin> assignment_key ` set (snd (ConvertValidatorsWithChangeDetection et c p events subs rets height blockTime))"
    using none by (simp add: assignment_emit_def index_by_None_iff)
  ultimately have "?r \<notin> set (snd (ConvertValidatorsWithChangeDetection et c p events subs rets height blockTime))"
    by (metis imageI)
  then have "\<not> validator_changed (parseValidatorLifecycleEvents et events)
      (index_by (\<lambda>v. BytesToHex (val_Address v)) p (snd k)) w"
    using wc w(2) unfolding in_ConvertValidators_committees by auto
  then obtain q where q: "index_by (\<lambda>v. BytesToHex (val_Address v)) p (snd k) = Some q"
    "\<not> validator_fields_changed w q"
    by (auto simp: validator_changed_iff validator_differs_def split: option.splits)
  then have "q \<in> set p" using index_by_SomeD by fastforce
  then have "set (val_Committees w) = set (val_Committees q)"
    using q(2) ok wc(1)
    by (simp add: validator_fields_changed_def assignments_ok_def equalCommittees_distinct)
  then show "assignment_view p k = Some v"
    using q w by (auto simp: assignment_view_def validator_fields_changed_def validator_status_def)
qed

section \<open>Non-signers\<close>

definition ConvertNonSignersWithChangeDetection ::
  "fsm_NonSigner list \<Rightarrow> fsm_NonSigner list \<Rightarrow> uint64 \<Rightarrow> time \<Rightarrow> ValidatorNonSigningInfo list" where
  "ConvertNonSignersWithChangeDetection current previous height blockTime =
     (let prevMap = index_by (\<lambda>ns. BytesToHex (ns_Address ns)) previous;
          currMap = index_by (\<lambda>ns. BytesToHex (ns_Address ns)) current;
          phase1 = collect (\<lambda>cur.
            let addrHex = BytesToHex (ns_Address cur);
                changed = (case prevMap addrHex of
                    None \<Rightarrow> True
                  | Some prev \<Rightarrow> ns_Counter cur \<noteq> ns_Counter prev)
            in if changed then Some \<lparr>
                 vns_Address = addrHex,
                 vns_MissedBlocksCount = ns_Counter cur,
                 vns_LastSignedHeight = height,
                 vns_Height = height,
                 vns_HeightTime = blockTime\<rparr> else None) current;
          phase2 = collect (\<lambda>prev.
            let addrHex = BytesToHex (ns_Address prev)
            in if currMap addrHex = None then Some \<lparr>
                 vns_Address = addrHex,
                 vns_MissedBlocksCount = 0,
                 vns_LastSignedHeight = height,
                 vns_Height = height,
                 vns_HeightTime = blockTime\<rparr> else None) previous
      in phase1 @ phase2)"

definition non_signer_row :: "uint64 \<Rightarrow> time \<Rightarrow> uint64 \<Rightarrow> fsm_NonSigner \<Rightarrow> ValidatorNonSigningInfo" where
  "non_signer_row height blockTime n ns = \<lparr>
     vns_Address = BytesToHex (ns_Address ns), vns_MissedBlocksCount = n,
     vns_LastSignedHeight = height, vns_Height = height, vns_HeightTime = blockTime\<rparr>"

definition non_signer_changed :: "fsm_NonSigner option \<Rightarrow> fsm_NonSigner \<Rightarrow> bool" where
  "non_signer_changed prev cur =
     (case prev of None \<Rightarrow> True | Some p \<Rightarrow> ns_Counter cur \<noteq> ns_Counter p)"

lemma ConvertNonSigners_counter:
  "ConvertNonSignersWithChangeDetection current previous height blockTime =
   counter_rows (\<lambda>ns. BytesToHex (ns_Address ns)) non_signer_changed
     (\<lambda>ns. non_signer_row height blockTime (ns_Counter ns) ns) (non_signer_row height blockTime 0)
     current previous"
  unfolding ConvertNonSignersWithChangeDetection_def counter_rows_def reset_rows_def Let_def
  by (intro arg_cong2 [where f = "(@)"] collect_cong refl)
    (auto simp: non_signer_changed_def non_signer_row_def split: option.splits)

interpretation non_signers: counter_log
  "\<lambda>ns. BytesToHex (ns_Address ns)" ns_Counter non_signer_changed
  "\<lambda>ns. non_signer_row height blockTime (ns_Counter ns) ns" "non_signer_row height blockTime 0"
  vns_Address vns_MissedBlocksCount
  for height blockTime
  by unfold_locales (simp_all add: non_signer_row_def non_signer_changed_def)

section \<open>Double-signers\<close>

definition ConvertDoubleSignersWithChangeDetection ::
  "lib_DoubleSigner list \<Rightarrow> lib_DoubleSigner list \<Rightarrow> uint64 \<Rightarrow> time \<Rightarrow> ValidatorDoubleSigningInfo list" where
  "ConvertDoubleSignersWithChangeDetection current previous height blockTime =
     (let prevCountMap = index_with (\<lambda>ds. BytesToHex (ds_Id ds))
            (\<lambda>ds. of_nat (length (ds_Heights ds)) :: uint64) previous;
          currMap = index_by (\<lambda>ds. BytesToHex (ds_Id ds)) current;
          phase1 = collect (\<lambda>cur.
            let addrHex = BytesToHex (ds_Id cur);
                currentCount = of_nat (length (ds_Heights cur)) :: uint64;
                prevCount = (case prevCountMap addrHex of None \<Rightarrow> 0 | Some n \<Rightarrow> n)
            in if currentCount \<noteq> prevCount then
                 (let (firstHeight, lastHeight) =
                    (if length (ds_Heights cur) > 0
                     then (ds_Heights cur ! 0, ds_Heights cur ! (length (ds_Heights cur) - 1))
                     else (0, 0))
                  in Some \<lparr>
                    vds_Address = addrHex,
                    vds_EvidenceCount = currentCount,
                    vds_FirstEvidenceHeight = firstHeight,
                    vds_LastEvidenceHeight = lastHeight,
                    vds_Height = height,
                    vds_HeightTime = blockTime\<rparr>)
               else None) current;
          phase2 = collect (\<lambda>prev.
            let addrHex = BytesToHex (ds_Id prev)
            in if currMap addrHex = None then Some \<lparr>
                 vds_Address = addrHex,
                 vds_EvidenceCount = 0,
                 vds_FirstEvidenceHeight = 0,
                 vds_LastEvidenceHeight = 0,
                 vds_Height = height,
                 vds_HeightTime = blockTime\<rparr> else None) previous
      in phase1 @ phase2)"

definition evidence_count :: "lib_DoubleSigner \<Rightarrow> uint64" where
  "evidence_count ds = of_nat (length (ds_Heights ds))"

definition double_signer_row :: "uint64 \<Rightarrow> time \<Rightarrow> uint64 list \<Rightarrow> lib_DoubleSigner \<Rightarrow> ValidatorDoubleSigningInfo" where
  "double_signer_row height blockTime hs ds = \<lparr>
     vds_Address = BytesToHex (ds_Id ds), vds_EvidenceCount = of_nat (length hs),
     vds_FirstEvidenceHeight = (if hs = [] then 0 else hd hs),
     vds_LastEvidenceHeight = (if hs = [] then 0 else last hs),
     vds_Height = height, vds_HeightTime = blockTime\<rparr>"

definition double_signer_changed :: "lib_DoubleSigner option \<Rightarrow> lib_DoubleSigner \<Rightarrow> bool" where
  "double_signer_changed prev cur \<longleftrightarrow>
     evidence_count cur \<noteq> (case prev of None \<Rightarrow> 0 | Some p \<Rightarrow> evidence_count p)"

lemma ConvertDoubleSigners_counter:
  "ConvertDoubleSignersWithChangeDetection current previous height blockTime =
   counter_rows (\<lambda>ds. BytesToHex (ds_Id ds)) double_signer_changed
     (\<lambda>ds. double_signer_row height blockTime (ds_Heights ds) ds) (double_signer_row height blockTime [])
     current previous"
  unfolding ConvertDoubleSignersWithChangeDetection_def counter_rows_def reset_rows_def Let_def
  by (intro arg_cong2 [where f = "(@)"] collect_cong refl)
    (auto simp: double_signer_changed_def double_signer_row_def evidence_count_def
      index_with_index_by hd_conv_nth last_conv_nth split: option.splits)

interpretation double_signers: counter_log
  "\<lambda>ds. BytesToHex (ds_Id ds)" evidence_count double_signer_changed
  "\<lambda>ds. double_signer_row height blockTime (ds_Heights ds) ds" "double_signer_row height blockTime []"
  vds_Address vds_EvidenceCount
  for height blockTime
  by unfold_locales (simp_all add: double_signer_row_def double_signer_changed_def evidence_count_def)

end
