(* ===== verification/Blob.thy ===== *)
theory Blob
  imports CanopyTypes Transform
begin

text \<open>
  Package pkg/blob: decoding of the node's blob (block and state of a height, with the state of the
  height before) into \<open>BlockData\<close>. The protobuf decoder \<open>lib.Unmarshal\<close> is the parameter record
  \<open>blob_codec\<close>. A slice of the blob that is nil and one that is empty decode to the same empty list.
\<close>

section \<open>Data\<close>

text \<open>\<open>fsm.IndexerBlob\<close> and \<open>fsm.IndexerBlobs\<close>: the fields the decoder reads.\<close>

record fsm_IndexerBlob =
  ib_Block :: bytes
  ib_Accounts :: "bytes list"
  ib_Pools :: "bytes list"
  ib_Validators :: "bytes list"
  ib_DexPrices :: "bytes list"
  ib_NonSigners :: "bytes list"
  ib_DoubleSigners :: "bytes list"
  ib_Orders :: bytes
  ib_Params :: bytes
  ib_DexBatches :: "bytes list"
  ib_NextDexBatches :: "bytes list"
  ib_CommitteesData :: bytes
  ib_SubsidizedCommittees :: "uint64 list"
  ib_RetiredCommittees :: "uint64 list"
  ib_Supply :: bytes

record fsm_IndexerBlobs =
  ibs_Current :: "fsm_IndexerBlob option"
  ibs_Previous :: "fsm_IndexerBlob option"

record 'm blob_codec =
  Unmarshal_BlockResult :: "bytes \<Rightarrow> go_error + 'm lib_BlockResult"
  Unmarshal_Params :: "bytes \<Rightarrow> go_error + fsm_Params"
  Unmarshal_Supply :: "bytes \<Rightarrow> go_error + fsm_Supply"
  Unmarshal_CommitteesData :: "bytes \<Rightarrow> go_error + lib_CommitteeData list"
  Unmarshal_Account :: "bytes \<Rightarrow> go_error + fsm_Account"
  Unmarshal_Pool :: "bytes \<Rightarrow> go_error + fsm_Pool"
  Unmarshal_Validator :: "bytes \<Rightarrow> go_error + fsm_Validator"
  Unmarshal_DexPrice :: "bytes \<Rightarrow> go_error + lib_DexPrice"
  Unmarshal_NonSigner :: "bytes \<Rightarrow> go_error + fsm_NonSigner"
  Unmarshal_DoubleSigner :: "bytes \<Rightarrow> go_error + lib_DoubleSigner"
  Unmarshal_OrderBooks :: "bytes \<Rightarrow> go_error + lib_OrderBook list"
  Unmarshal_DexBatch :: "bytes \<Rightarrow> go_error + lib_DexBatch"

record 'm decodedBlob =
  dec_block :: "'m lib_BlockResult option"
  dec_accounts :: "fsm_Account list"
  dec_pools :: "fsm_Pool list"
  dec_validators :: "fsm_Validator list"
  dec_dexPrices :: "lib_DexPrice list"
  dec_nonSigners :: "fsm_NonSigner list"
  dec_doubleSigners :: "lib_DoubleSigner list"
  dec_orders :: "lib_SellOrder list"
  dec_params :: "fsm_Params option"
  dec_dexBatches :: "lib_DexBatch list"
  dec_nextDexBatches :: "lib_DexBatch list"
  dec_committeesData :: "lib_CommitteeData list"
  dec_subsidizedCommittees :: "uint64 list"
  dec_retiredCommittees :: "uint64 list"
  dec_supply :: "fsm_Supply option"

record 'm blob_BlockData =
  bd_ChainID :: uint64
  bd_Height :: uint64
  bd_BlockTime :: time
  bd_Block :: "'m lib_BlockResult option"
  bd_Transactions :: "lib_TxResult list"
  bd_Events :: "'m lib_Event list"
  bd_Accounts :: "fsm_Account list"
  bd_AccountsPrevious :: "fsm_Account list"
  bd_Orders :: "lib_SellOrder list"
  bd_OrdersPrevious :: "lib_SellOrder list"
  bd_DexPrices :: "lib_DexPrice list"
  bd_DexPricesPrevious :: "lib_DexPrice list"
  bd_Params :: "fsm_Params option"
  bd_ParamsPrevious :: "fsm_Params option"
  bd_Supply :: "fsm_Supply option"
  bd_SupplyPrevious :: "fsm_Supply option"
  bd_Committees :: "lib_CommitteeData list"
  bd_CommitteesPrevious :: "lib_CommitteeData list"
  bd_SubsidizedCommittees :: "uint64 list"
  bd_RetiredCommittees :: "uint64 list"
  bd_ValidatorsCurrent :: "fsm_Validator list"
  bd_ValidatorsPrevious :: "fsm_Validator list"
  bd_PoolsCurrent :: "fsm_Pool list"
  bd_PoolsPrevious :: "fsm_Pool list"
  bd_NonSignersCurrent :: "fsm_NonSigner list"
  bd_NonSignersPrevious :: "fsm_NonSigner list"
  bd_DoubleSignersCurrent :: "lib_DoubleSigner list"
  bd_DoubleSignersPrevious :: "lib_DoubleSigner list"
  bd_DexBatchesCurrent :: "lib_DexBatch list"
  bd_DexBatchesNext :: "lib_DexBatch list"
  bd_DexBatchesPreviousCurr :: "lib_DexBatch list"
  bd_DexBatchesPreviousNext :: "lib_DexBatch list"

section \<open>Decoding\<close>

text \<open>\<open>if len(raw) > 0 { unmarshal }\<close>; an empty field stays nil.\<close>

definition unmarshal_opt :: "string \<Rightarrow> (bytes \<Rightarrow> go_error + 'a) \<Rightarrow> bytes \<Rightarrow> 'a option outcome" where
  "unmarshal_opt what unmarshal raw =
     (if length raw > 0 then
        (case unmarshal raw of
           Inl err \<Rightarrow> Fail (WrapErr (''unmarshal '' @ what) err)
         | Inr x \<Rightarrow> Ok (Some x))
      else Ok None)"

text \<open>The loop over a slice of raw messages, which stops at the first one that does not decode.\<close>

fun unmarshal_all :: "string \<Rightarrow> (bytes \<Rightarrow> go_error + 'a) \<Rightarrow> bytes list \<Rightarrow> 'a list outcome" where
  "unmarshal_all what unmarshal [] = Ok []"
| "unmarshal_all what unmarshal (raw # raws) =
     (case unmarshal raw of
        Inl err \<Rightarrow> Fail (WrapErr (''unmarshal '' @ what) err)
      | Inr x \<Rightarrow> bind_outcome (unmarshal_all what unmarshal raws) (\<lambda>xs. Ok (x # xs)))"

definition decodeBlob :: "'m blob_codec \<Rightarrow> fsm_IndexerBlob option \<Rightarrow> 'm decodedBlob outcome" where
  "decodeBlob cc blob =
     (case blob of
        None \<Rightarrow> Fail (Errorf ''blob is nil'')
      | Some b \<Rightarrow>
         bind_outcome (unmarshal_opt ''block'' (Unmarshal_BlockResult cc) (ib_Block b)) (\<lambda>block.
         bind_outcome (unmarshal_opt ''params'' (Unmarshal_Params cc) (ib_Params b)) (\<lambda>params.
         bind_outcome (unmarshal_opt ''supply'' (Unmarshal_Supply cc) (ib_Supply b)) (\<lambda>supply.
         bind_outcome (unmarshal_opt ''committees data'' (Unmarshal_CommitteesData cc) (ib_CommitteesData b))
           (\<lambda>committees.
         bind_outcome (unmarshal_all ''account'' (Unmarshal_Account cc) (ib_Accounts b)) (\<lambda>accounts.
         bind_outcome (unmarshal_all ''pool'' (Unmarshal_Pool cc) (ib_Pools b)) (\<lambda>pools.
         bind_outcome (unmarshal_all ''validator'' (Unmarshal_Validator cc) (ib_Validators b)) (\<lambda>validators.
         bind_outcome (unmarshal_all ''dex price'' (Unmarshal_DexPrice cc) (ib_DexPrices b)) (\<lambda>prices.
         bind_outcome (unmarshal_all ''non-signer'' (Unmarshal_NonSigner cc) (ib_NonSigners b)) (\<lambda>nonSigners.
         bind_outcome (unmarshal_all ''double-signer'' (Unmarshal_DoubleSigner cc) (ib_DoubleSigners b))
           (\<lambda>doubleSigners.
         bind_outcome (unmarshal_opt ''orders'' (Unmarshal_OrderBooks cc) (ib_Orders b)) (\<lambda>books.
         bind_outcome (unmarshal_all ''dex batch'' (Unmarshal_DexBatch cc) (ib_DexBatches b)) (\<lambda>batches.
         bind_outcome (unmarshal_all ''next dex batch'' (Unmarshal_DexBatch cc) (ib_NextDexBatches b))
           (\<lambda>nextBatches.
         Ok \<lparr>
           dec_block = block,
           dec_accounts = accounts,
           dec_pools = pools,
           dec_validators = validators,
           dec_dexPrices = prices,
           dec_nonSigners = nonSigners,
           dec_doubleSigners = doubleSigners,
           dec_orders = concat (map ob_Orders (or_zero [] books)),
           dec_params = params,
           dec_dexBatches = batches,
           dec_nextDexBatches = nextBatches,
           dec_committeesData = or_zero [] committees,
           dec_subsidizedCommittees = ib_SubsidizedCommittees b,
           dec_retiredCommittees = ib_RetiredCommittees b,
           dec_supply = supply\<rparr>))))))))))))))"

text \<open>The height is read through the header before the header is compared with nil, so a block without
  a header panics.\<close>

definition buildBlockData ::
  "uint64 \<Rightarrow> 'm decodedBlob option \<Rightarrow> 'm decodedBlob option \<Rightarrow> 'm blob_BlockData outcome" where
  "buildBlockData chainID current previous =
     (case current of
        None \<Rightarrow> Fail (Errorf ''current blob has no block data'')
      | Some cur \<Rightarrow>
     (case dec_block cur of
        None \<Rightarrow> Fail (Errorf ''current blob has no block data'')
      | Some block \<Rightarrow>
     (case br_BlockHeader block of
        None \<Rightarrow> Panic
      | Some header \<Rightarrow>
          let data = \<lparr>
            bd_ChainID = chainID,
            bd_Height = bh_Height header,
            bd_BlockTime = UnixMicro (bh_Time header),
            bd_Block = Some block,
            bd_Transactions = br_Transactions block,
            bd_Events = br_Events block,
            bd_Accounts = dec_accounts cur, bd_AccountsPrevious = [],
            bd_Orders = dec_orders cur, bd_OrdersPrevious = [],
            bd_DexPrices = dec_dexPrices cur, bd_DexPricesPrevious = [],
            bd_Params = dec_params cur, bd_ParamsPrevious = None,
            bd_Supply = dec_supply cur, bd_SupplyPrevious = None,
            bd_Committees = dec_committeesData cur, bd_CommitteesPrevious = [],
            bd_SubsidizedCommittees = dec_subsidizedCommittees cur,
            bd_RetiredCommittees = dec_retiredCommittees cur,
            bd_ValidatorsCurrent = dec_validators cur, bd_ValidatorsPrevious = [],
            bd_PoolsCurrent = dec_pools cur, bd_PoolsPrevious = [],
            bd_NonSignersCurrent = dec_nonSigners cur, bd_NonSignersPrevious = [],
            bd_DoubleSignersCurrent = dec_doubleSigners cur, bd_DoubleSignersPrevious = [],
            bd_DexBatchesCurrent = dec_dexBatches cur,
            bd_DexBatchesNext = dec_nextDexBatches cur,
            bd_DexBatchesPreviousCurr = [], bd_DexBatchesPreviousNext = []\<rparr>
          in Ok (case previous of
               None \<Rightarrow> data
             | Some p \<Rightarrow> data\<lparr>
                 bd_AccountsPrevious := dec_accounts p,
                 bd_OrdersPrevious := dec_orders p,
                 bd_DexPricesPrevious := dec_dexPrices p,
                 bd_ParamsPrevious := dec_params p,
                 bd_SupplyPrevious := dec_supply p,
                 bd_CommitteesPrevious := dec_committeesData p,
                 bd_ValidatorsPrevious := dec_validators p,
                 bd_PoolsPrevious := dec_pools p,
                 bd_NonSignersPrevious := dec_nonSigners p,
                 bd_DoubleSignersPrevious := dec_doubleSigners p,
                 bd_DexBatchesPreviousCurr := dec_dexBatches p,
                 bd_DexBatchesPreviousNext := dec_nextDexBatches p\<rparr>))))"

definition Decode :: "'m blob_codec \<Rightarrow> fsm_IndexerBlobs option \<Rightarrow> uint64 \<Rightarrow> 'm blob_BlockData outcome" where
  "Decode cc blobs chainID =
     (case blobs of
        None \<Rightarrow> Fail (Errorf ''blobs or current blob is nil'')
      | Some bs \<Rightarrow>
          if ibs_Current bs = None then Fail (Errorf ''blobs or current blob is nil'')
          else
            bind_outcome (wrap_error ''decode current blob'' (decodeBlob cc (ibs_Current bs))) (\<lambda>current.
            if ibs_Previous bs \<noteq> None then
              bind_outcome (wrap_error ''decode previous blob'' (decodeBlob cc (ibs_Previous bs))) (\<lambda>previous.
              buildBlockData chainID (Some current) (Some previous))
            else buildBlockData chainID (Some current) None))"

section \<open>Facts about decoding\<close>

lemma unmarshal_all_Ok_iff:
  "unmarshal_all what u raws = Ok xs \<longleftrightarrow> list_all2 (\<lambda>raw x. u raw = Inr x) raws xs"
  by (induction raws arbitrary: xs) (auto split: sum.splits simp: list_all2_Cons1)

lemma unmarshal_all_not_Panic [simp]: "unmarshal_all what u raws \<noteq> Panic"
proof (induction raws)
  case (Cons r raws)
  then show ?case by (cases "unmarshal_all what u raws") (auto split: sum.splits)
qed simp

lemma unmarshal_opt_not_Panic [simp]: "unmarshal_opt what u raw \<noteq> Panic"
  by (auto simp: unmarshal_opt_def split: sum.splits)

lemma bind_outcome_Panic_iff [simp]:
  "bind_outcome r f = Panic \<longleftrightarrow> r = Panic \<or> (\<exists>x. r = Ok x \<and> f x = Panic)"
  by (cases r) auto

lemma decodeBlob_not_Panic [simp]: "decodeBlob cc b \<noteq> Panic"
  by (cases b) (simp_all add: decodeBlob_def)

lemma buildBlockData_Ok_cases:
  assumes "buildBlockData chainID c p = Ok data"
  obtains cur block header where "c = Some cur" "dec_block cur = Some block"
    "br_BlockHeader block = Some header" "bd_Block data = Some block"
    "bd_ChainID data = chainID" "bd_Height data = bh_Height header"
    "bd_Transactions data = br_Transactions block" "bd_Events data = br_Events block"
  using assms by (auto simp: buildBlockData_def Let_def split: option.splits)

lemma buildBlockData_no_previous:
  assumes "buildBlockData chainID c None = Ok data"
  shows "bd_AccountsPrevious data = [] \<and> bd_OrdersPrevious data = [] \<and> bd_DexPricesPrevious data = [] \<and>
    bd_ParamsPrevious data = None \<and> bd_SupplyPrevious data = None \<and> bd_CommitteesPrevious data = [] \<and>
    bd_ValidatorsPrevious data = [] \<and> bd_PoolsPrevious data = [] \<and> bd_NonSignersPrevious data = [] \<and>
    bd_DoubleSignersPrevious data = [] \<and> bd_DexBatchesPreviousCurr data = [] \<and>
    bd_DexBatchesPreviousNext data = []"
  using assms by (auto simp: buildBlockData_def Let_def split: option.splits)

lemma Decode_Ok_block:
  assumes "Decode cc blobs chainID = Ok data"
  shows "\<exists>block header. bd_Block data = Some block \<and> br_BlockHeader block = Some header \<and>
    bd_Height data = bh_Height header \<and> bd_ChainID data = chainID"
  using assms unfolding Decode_def
  by (auto split: option.splits if_splits elim!: buildBlockData_Ok_cases)

end
