(* ===== verification/ConvDex.thy ===== *)
theory ConvDex
  imports Blob
begin

text \<open>
  The DEX state machine converters of internal/indexer/conversions.go. An order, deposit or withdrawal
  is \<open>pending\<close> while it waits in the next batch, \<open>locked\<close> in the current batch, and \<open>complete\<close> when the
  batch of the height before held it and a DEX event of this height names it. \<open>parseDexEventsFromSlice\<close>
  collects those events, \<open>buildH1Maps\<close> the batches of the height before; locked and pending items are
  written only when new or changed. JSON decoding of an event's message is the parameter \<open>dex_codec\<close>.
\<close>

section \<open>DEX events\<close>

record dexEvent =
  de_OrderID :: string
  de_EventType :: string
  de_SoldAmount :: uint64
  de_BoughtAmount :: uint64
  de_LocalOrigin :: bool
  de_Success :: bool
  de_PointsReceived :: uint64
  de_LocalAmount :: uint64
  de_RemoteAmount :: uint64
  de_PointsBurned :: uint64

definition zero_dexEvent :: dexEvent where
  "zero_dexEvent = \<lparr>de_OrderID = '''', de_EventType = '''', de_SoldAmount = 0, de_BoughtAmount = 0,
     de_LocalOrigin = False, de_Success = False, de_PointsReceived = 0, de_LocalAmount = 0,
     de_RemoteAmount = 0, de_PointsBurned = 0\<rparr>"

text \<open>None is the returned error.\<close>

definition parseDexEvent :: "'m dex_codec \<Rightarrow> string \<Rightarrow> bytes \<Rightarrow> dexEvent option" where
  "parseDexEvent dc eventType msg =
     (let event = zero_dexEvent\<lparr>de_EventType := eventType\<rparr>
      in if eventType = ''dex-swap'' then
           (case UnmarshalDexSwap dc msg of
              None \<Rightarrow> None
            | Some e \<Rightarrow> Some (event\<lparr>
                de_OrderID := BytesToHex (eds_OrderId e),
                de_SoldAmount := eds_SoldAmount e,
                de_BoughtAmount := eds_BoughtAmount e,
                de_LocalOrigin := eds_LocalOrigin e,
                de_Success := eds_Success e\<rparr>))
         else if eventType = ''dex-liquidity-deposit'' then
           (case UnmarshalDexLiquidityDeposit dc msg of
              None \<Rightarrow> None
            | Some e \<Rightarrow> Some (event\<lparr>
                de_OrderID := BytesToHex (edd_OrderId e),
                de_LocalOrigin := edd_LocalOrigin e,
                de_PointsReceived := edd_Points e\<rparr>))
         else if eventType = ''dex-liquidity-withdraw'' then
           (case UnmarshalDexLiquidityWithdrawal dc msg of
              None \<Rightarrow> None
            | Some e \<Rightarrow> Some (event\<lparr>
                de_OrderID := BytesToHex (edw_OrderId e),
                de_LocalAmount := edw_LocalAmount e,
                de_RemoteAmount := edw_RemoteAmount e,
                de_PointsBurned := edw_PointsBurned e\<rparr>))
         else Some event)"

record dex_event_maps =
  swapEvents :: "string \<rightharpoonup> dexEvent"
  depositEvents :: "string \<rightharpoonup> dexEvent"
  withdrawalEvents :: "string \<rightharpoonup> dexEvent"

definition dex_event_step :: "'m dex_codec \<Rightarrow> dex_event_maps \<Rightarrow> 'm lib_Event \<Rightarrow> dex_event_maps" where
  "dex_event_step dc m e =
     (if ev_EventType e \<noteq> ''dex-swap'' \<and>
         ev_EventType e \<noteq> ''dex-liquidity-deposit'' \<and>
         ev_EventType e \<noteq> ''dex-liquidity-withdraw'' then m
      else case json_Marshal dc (ev_Msg e) of
        None \<Rightarrow> m
      | Some msgJSON \<Rightarrow>
     (case parseDexEvent dc (ev_EventType e) msgJSON of
        None \<Rightarrow> m
      | Some event \<Rightarrow>
          if de_OrderID event = '''' then m
          else if ev_EventType e = ''dex-swap''
          then m\<lparr>swapEvents := (swapEvents m)(de_OrderID event \<mapsto> event)\<rparr>
          else if ev_EventType e = ''dex-liquidity-deposit''
          then m\<lparr>depositEvents := (depositEvents m)(de_OrderID event \<mapsto> event)\<rparr>
          else if ev_EventType e = ''dex-liquidity-withdraw''
          then m\<lparr>withdrawalEvents := (withdrawalEvents m)(de_OrderID event \<mapsto> event)\<rparr>
          else m))"

definition parseDexEventsFromSlice :: "'m dex_codec \<Rightarrow> 'm lib_Event list \<Rightarrow> dex_event_maps" where
  "parseDexEventsFromSlice dc events =
     foldl (dex_event_step dc)
       \<lparr>swapEvents = Map.empty, depositEvents = Map.empty, withdrawalEvents = Map.empty\<rparr> events"

section \<open>The batches of the height before\<close>

record h1Maps =
  OrdersLocked :: "string \<rightharpoonup> lib_DexLimitOrder"
  OrdersPending :: "string \<rightharpoonup> lib_DexLimitOrder"
  DepositsLocked :: "string \<rightharpoonup> lib_DexLiquidityDeposit"
  DepositsPending :: "string \<rightharpoonup> lib_DexLiquidityDeposit"
  WithdrawalsLocked :: "string \<rightharpoonup> lib_DexLiquidityWithdraw"
  WithdrawalsPending :: "string \<rightharpoonup> lib_DexLiquidityWithdraw"

definition batch_orders :: "lib_DexBatch list \<Rightarrow> lib_DexLimitOrder list" where
  "batch_orders bs = concat (map db_Orders bs)"

definition batch_deposits :: "lib_DexBatch list \<Rightarrow> lib_DexLiquidityDeposit list" where
  "batch_deposits bs = concat (map db_Deposits bs)"

definition batch_withdrawals :: "lib_DexBatch list \<Rightarrow> lib_DexLiquidityWithdraw list" where
  "batch_withdrawals bs = concat (map db_Withdrawals bs)"

definition buildH1Maps :: "lib_DexBatch list \<Rightarrow> lib_DexBatch list \<Rightarrow> h1Maps" where
  "buildH1Maps currentBatchesH1 nextBatchesH1 = \<lparr>
     OrdersLocked = index_by (\<lambda>o1. BytesToHex (dlo_OrderId o1)) (batch_orders currentBatchesH1),
     OrdersPending = index_by (\<lambda>o1. BytesToHex (dlo_OrderId o1)) (batch_orders nextBatchesH1),
     DepositsLocked = index_by (\<lambda>d. BytesToHex (dld_OrderId d)) (batch_deposits currentBatchesH1),
     DepositsPending = index_by (\<lambda>d. BytesToHex (dld_OrderId d)) (batch_deposits nextBatchesH1),
     WithdrawalsLocked = index_by (\<lambda>w. BytesToHex (dlw_OrderId w)) (batch_withdrawals currentBatchesH1),
     WithdrawalsPending = index_by (\<lambda>w. BytesToHex (dlw_OrderId w)) (batch_withdrawals nextBatchesH1)\<rparr>"

section \<open>Orders\<close>

definition order_same :: "lib_DexLimitOrder \<Rightarrow> lib_DexLimitOrder \<Rightarrow> bool" where
  "order_same orderH1 order \<longleftrightarrow>
     dlo_AmountForSale orderH1 = dlo_AmountForSale order \<and>
     dlo_RequestedAmount orderH1 = dlo_RequestedAmount order \<and>
     BytesToHex (dlo_Address orderH1) = BytesToHex (dlo_Address order)"

definition dex_order_row ::
  "'m blob_BlockData \<Rightarrow> lib_DexBatch \<Rightarrow> string \<Rightarrow> uint64 \<Rightarrow> lib_DexLimitOrder \<Rightarrow> DexOrder" where
  "dex_order_row data b state lockedHeight order = \<lparr>
     dxo_OrderID = BytesToHex (dlo_OrderId order),
     dxo_Height = bd_Height data,
     dxo_HeightTime = bd_BlockTime data,
     dxo_Committee = ucast (db_Committee b),
     dxo_Address = BytesToHex (dlo_Address order),
     dxo_AmountForSale = dlo_AmountForSale order,
     dxo_RequestedAmount = dlo_RequestedAmount order,
     dxo_State = state,
     dxo_Success = False,
     dxo_SoldAmount = 0,
     dxo_BoughtAmount = 0,
     dxo_LocalOrigin = False,
     dxo_LockedHeight = lockedHeight\<rparr>"

definition dex_order_complete_row ::
  "'m blob_BlockData \<Rightarrow> lib_DexBatch \<Rightarrow> dexEvent \<Rightarrow> lib_DexLimitOrder \<Rightarrow> DexOrder" where
  "dex_order_complete_row data b event order =
     (dex_order_row data b DexCompleteState (db_LockedHeight b) order)\<lparr>
       dxo_Success := de_Success event,
       dxo_SoldAmount := de_SoldAmount event,
       dxo_BoughtAmount := de_BoughtAmount event,
       dxo_LocalOrigin := de_LocalOrigin event\<rparr>"

definition ConvertDexOrdersWithStateMachine ::
  "'m dex_codec \<Rightarrow> 'm blob_BlockData \<Rightarrow> DexOrder list" where
  "ConvertDexOrdersWithStateMachine dc data =
     (let swaps = swapEvents (parseDexEventsFromSlice dc (bd_Events data));
          h1 = buildH1Maps (bd_DexBatchesPreviousCurr data) (bd_DexBatchesPreviousNext data);
          complete = concat (map (\<lambda>b. collect (\<lambda>order.
              case swaps (BytesToHex (dlo_OrderId order)) of
                Some event \<Rightarrow> Some (dex_order_complete_row data b event order)
              | None \<Rightarrow> None) (db_Orders b)) (bd_DexBatchesPreviousCurr data));
          locked = concat (map (\<lambda>b. collect (\<lambda>order.
              let changed = (case OrdersLocked h1 (BytesToHex (dlo_OrderId order)) of
                  Some orderH1 \<Rightarrow> if order_same orderH1 order then False else True
                | None \<Rightarrow> True)
              in if changed then Some (dex_order_row data b DexLockedState (db_LockedHeight b) order)
                 else None) (db_Orders b)) (bd_DexBatchesCurrent data));
          future = concat (map (\<lambda>b. collect (\<lambda>order.
              let changed = (case OrdersPending h1 (BytesToHex (dlo_OrderId order)) of
                  Some orderH1 \<Rightarrow> if order_same orderH1 order then False else True
                | None \<Rightarrow> True)
              in if changed then Some (dex_order_row data b DexPendingState 0 order)
                 else None) (db_Orders b)) (bd_DexBatchesNext data))
      in complete @ locked @ future)"

section \<open>Deposits\<close>

definition deposit_same :: "lib_DexLiquidityDeposit \<Rightarrow> lib_DexLiquidityDeposit \<Rightarrow> bool" where
  "deposit_same depH1 dep \<longleftrightarrow>
     dld_Amount depH1 = dld_Amount dep \<and>
     BytesToHex (dld_Address depH1) = BytesToHex (dld_Address dep)"

definition dex_deposit_row ::
  "'m blob_BlockData \<Rightarrow> lib_DexBatch \<Rightarrow> string \<Rightarrow> bool \<Rightarrow> uint64 \<Rightarrow> lib_DexLiquidityDeposit \<Rightarrow> DexDeposit" where
  "dex_deposit_row data b state localOrigin pointsReceived dep = \<lparr>
     dxd_OrderID = BytesToHex (dld_OrderId dep),
     dxd_Height = bd_Height data,
     dxd_HeightTime = bd_BlockTime data,
     dxd_Committee = ucast (db_Committee b),
     dxd_Address = BytesToHex (dld_Address dep),
     dxd_Amount = dld_Amount dep,
     dxd_State = state,
     dxd_LocalOrigin = localOrigin,
     dxd_PointsReceived = pointsReceived\<rparr>"

definition ConvertDexDepositsWithStateMachine ::
  "'m dex_codec \<Rightarrow> 'm blob_BlockData \<Rightarrow> DexDeposit list" where
  "ConvertDexDepositsWithStateMachine dc data =
     (let deposits = depositEvents (parseDexEventsFromSlice dc (bd_Events data));
          h1 = buildH1Maps (bd_DexBatchesPreviousCurr data) (bd_DexBatchesPreviousNext data);
          complete = concat (map (\<lambda>b. collect (\<lambda>dep.
              case deposits (BytesToHex (dld_OrderId dep)) of
                Some event \<Rightarrow> Some (dex_deposit_row data b DexCompleteState
                    (de_LocalOrigin event) (de_PointsReceived event) dep)
              | None \<Rightarrow> None) (db_Deposits b)) (bd_DexBatchesPreviousCurr data));
          locked = concat (map (\<lambda>b. collect (\<lambda>dep.
              let changed = (case DepositsLocked h1 (BytesToHex (dld_OrderId dep)) of
                  Some depH1 \<Rightarrow> if deposit_same depH1 dep then False else True
                | None \<Rightarrow> True)
              in if changed then Some (dex_deposit_row data b DexLockedState False 0 dep)
                 else None) (db_Deposits b)) (bd_DexBatchesCurrent data));
          pending = concat (map (\<lambda>b. collect (\<lambda>dep.
              let changed = (case DepositsPending h1 (BytesToHex (dld_OrderId dep)) of
                  Some depH1 \<Rightarrow> if deposit_same depH1 dep then False else True
                | None \<Rightarrow> True)
              in if changed then Some (dex_deposit_row data b DexPendingState False 0 dep)
                 else None) (db_Deposits b)) (bd_DexBatchesNext data))
      in complete @ locked @ pending)"

section \<open>Withdrawals\<close>

definition withdrawal_same :: "lib_DexLiquidityWithdraw \<Rightarrow> lib_DexLiquidityWithdraw \<Rightarrow> bool" where
  "withdrawal_same wH1 w \<longleftrightarrow>
     dlw_Percent wH1 = dlw_Percent w \<and>
     BytesToHex (dlw_Address wH1) = BytesToHex (dlw_Address w)"

definition dex_withdrawal_row ::
  "'m blob_BlockData \<Rightarrow> lib_DexBatch \<Rightarrow> string \<Rightarrow> uint64 \<Rightarrow> uint64 \<Rightarrow> uint64 \<Rightarrow> lib_DexLiquidityWithdraw \<Rightarrow>
   DexWithdrawal" where
  "dex_withdrawal_row data b state localAmount remoteAmount pointsBurned w = \<lparr>
     dxw_OrderID = BytesToHex (dlw_OrderId w),
     dxw_Height = bd_Height data,
     dxw_HeightTime = bd_BlockTime data,
     dxw_Committee = ucast (db_Committee b),
     dxw_Address = BytesToHex (dlw_Address w),
     dxw_Percent = dlw_Percent w,
     dxw_State = state,
     dxw_LocalAmount = localAmount,
     dxw_RemoteAmount = remoteAmount,
     dxw_PointsBurned = pointsBurned\<rparr>"

definition ConvertDexWithdrawalsWithStateMachine ::
  "'m dex_codec \<Rightarrow> 'm blob_BlockData \<Rightarrow> DexWithdrawal list" where
  "ConvertDexWithdrawalsWithStateMachine dc data =
     (let withdrawals = withdrawalEvents (parseDexEventsFromSlice dc (bd_Events data));
          h1 = buildH1Maps (bd_DexBatchesPreviousCurr data) (bd_DexBatchesPreviousNext data);
          complete = concat (map (\<lambda>b. collect (\<lambda>w.
              case withdrawals (BytesToHex (dlw_OrderId w)) of
                Some event \<Rightarrow> Some (dex_withdrawal_row data b DexCompleteState
                    (de_LocalAmount event) (de_RemoteAmount event) (de_PointsBurned event) w)
              | None \<Rightarrow> None) (db_Withdrawals b)) (bd_DexBatchesPreviousCurr data));
          locked = concat (map (\<lambda>b. collect (\<lambda>w.
              let changed = (case WithdrawalsLocked h1 (BytesToHex (dlw_OrderId w)) of
                  Some wH1 \<Rightarrow> if withdrawal_same wH1 w then False else True
                | None \<Rightarrow> True)
              in if changed then Some (dex_withdrawal_row data b DexLockedState 0 0 0 w)
                 else None) (db_Withdrawals b)) (bd_DexBatchesCurrent data));
          pending = concat (map (\<lambda>b. collect (\<lambda>w.
              let changed = (case WithdrawalsPending h1 (BytesToHex (dlw_OrderId w)) of
                  Some wH1 \<Rightarrow> if withdrawal_same wH1 w then False else True
                | None \<Rightarrow> True)
              in if changed then Some (dex_withdrawal_row data b DexPendingState 0 0 0 w)
                 else None) (db_Withdrawals b)) (bd_DexBatchesNext data))
      in complete @ locked @ pending)"

section \<open>What the event maps hold\<close>

text \<open>The events of a type that decode and name an order, in order.\<close>

definition decoded_event :: "'m dex_codec \<Rightarrow> string \<Rightarrow> 'm lib_Event \<Rightarrow> dexEvent option" where
  "decoded_event dc ty e =
     (if ev_EventType e \<noteq> ty then None
      else case json_Marshal dc (ev_Msg e) of
        None \<Rightarrow> None
      | Some j \<Rightarrow> (case parseDexEvent dc ty j of
          None \<Rightarrow> None
        | Some d \<Rightarrow> if de_OrderID d = '''' then None else Some d))"

lemma swapEvents_step:
  "swapEvents (dex_event_step dc m e) = (case decoded_event dc ''dex-swap'' e of
     None \<Rightarrow> swapEvents m | Some d \<Rightarrow> (swapEvents m)(de_OrderID d \<mapsto> d))"
  by (cases "ev_EventType e = ''dex-swap''")
    (simp_all add: dex_event_step_def decoded_event_def split: option.split)

lemma depositEvents_step:
  "depositEvents (dex_event_step dc m e) = (case decoded_event dc ''dex-liquidity-deposit'' e of
     None \<Rightarrow> depositEvents m | Some d \<Rightarrow> (depositEvents m)(de_OrderID d \<mapsto> d))"
  by (cases "ev_EventType e = ''dex-liquidity-deposit''")
    (simp_all add: dex_event_step_def decoded_event_def split: option.split)

lemma withdrawalEvents_step:
  "withdrawalEvents (dex_event_step dc m e) = (case decoded_event dc ''dex-liquidity-withdraw'' e of
     None \<Rightarrow> withdrawalEvents m | Some d \<Rightarrow> (withdrawalEvents m)(de_OrderID d \<mapsto> d))"
  by (cases "ev_EventType e = ''dex-liquidity-withdraw''")
    (simp_all add: dex_event_step_def decoded_event_def split: option.split)

lemma collect_snoc: "collect f (xs @ [x]) = collect f xs @ (case f x of None \<Rightarrow> [] | Some y \<Rightarrow> [y])"
  by (simp split: option.split)

lemma parseDexEvents_snoc:
  "parseDexEventsFromSlice dc (events @ [e]) = dex_event_step dc (parseDexEventsFromSlice dc events) e"
  by (simp add: parseDexEventsFromSlice_def)

lemma parseDexEvents_maps:
  shows "swapEvents (parseDexEventsFromSlice dc events) =
     index_by de_OrderID (collect (decoded_event dc ''dex-swap'') events)"
  and "depositEvents (parseDexEventsFromSlice dc events) =
     index_by de_OrderID (collect (decoded_event dc ''dex-liquidity-deposit'') events)"
  and "withdrawalEvents (parseDexEventsFromSlice dc events) =
     index_by de_OrderID (collect (decoded_event dc ''dex-liquidity-withdraw'') events)"
proof (induction events rule: rev_induct)
  case Nil
  {
    case 1
    show ?case by (simp add: parseDexEventsFromSlice_def)
  next
    case 2
    show ?case by (simp add: parseDexEventsFromSlice_def)
  next
    case 3
    show ?case by (simp add: parseDexEventsFromSlice_def)
  }
next
  case (snoc e events)
  {
    case 1
    show ?case
      by (simp only: parseDexEvents_snoc swapEvents_step snoc.IH collect_snoc)
        (auto simp: index_by_snoc fun_eq_iff split: option.split)
  next
    case 2
    show ?case
      by (simp only: parseDexEvents_snoc depositEvents_step snoc.IH collect_snoc)
        (auto simp: index_by_snoc fun_eq_iff split: option.split)
  next
    case 3
    show ?case
      by (simp only: parseDexEvents_snoc withdrawalEvents_step snoc.IH collect_snoc)
        (auto simp: index_by_snoc fun_eq_iff split: option.split)
  }
qed

lemma swap_event_Some:
  assumes "swapEvents (parseDexEventsFromSlice dc events) k = Some d"
  shows "de_OrderID d = k \<and> (\<exists>e \<in> set events. decoded_event dc ''dex-swap'' e = Some d)"
  using assms unfolding parseDexEvents_maps by (auto dest!: index_by_SomeD)

lemma swap_event_None_iff:
  "swapEvents (parseDexEventsFromSlice dc events) k = None \<longleftrightarrow>
     (\<forall>e \<in> set events. \<forall>d. decoded_event dc ''dex-swap'' e = Some d \<longrightarrow> de_OrderID d \<noteq> k)"
  unfolding parseDexEvents_maps by (force simp: index_by_None_iff set_collect)

section \<open>Which rows the converters write\<close>

lemma in_concat_collect_batches:
  "r \<in> set (concat (map (\<lambda>b. collect (f b) (items b)) bs)) \<longleftrightarrow>
     (\<exists>b \<in> set bs. \<exists>x \<in> set (items b). f b x = Some r)"
  by auto

definition order_is_new :: "('k \<rightharpoonup> 'a) \<Rightarrow> ('a \<Rightarrow> 'a \<Rightarrow> bool) \<Rightarrow> 'k \<Rightarrow> 'a \<Rightarrow> bool" where
  "order_is_new h1 same k x \<longleftrightarrow> (\<forall>y. h1 k = Some y \<longrightarrow> \<not> same y x)"

lemma changed_iff_new:
  "(case h1 k of Some y \<Rightarrow> if same y x then False else True | None \<Rightarrow> True) \<longleftrightarrow> order_is_new h1 same k x"
  by (auto simp: order_is_new_def split: option.split)

lemma in_ConvertDexOrders:
  "r \<in> set (ConvertDexOrdersWithStateMachine dc data) \<longleftrightarrow>
     (\<exists>b \<in> set (bd_DexBatchesPreviousCurr data). \<exists>x \<in> set (db_Orders b). \<exists>ev.
        swapEvents (parseDexEventsFromSlice dc (bd_Events data)) (BytesToHex (dlo_OrderId x)) = Some ev \<and>
        r = dex_order_complete_row data b ev x) \<or>
     (\<exists>b \<in> set (bd_DexBatchesCurrent data). \<exists>x \<in> set (db_Orders b).
        order_is_new (OrdersLocked (buildH1Maps (bd_DexBatchesPreviousCurr data) (bd_DexBatchesPreviousNext data)))
          order_same (BytesToHex (dlo_OrderId x)) x \<and>
        r = dex_order_row data b DexLockedState (db_LockedHeight b) x) \<or>
     (\<exists>b \<in> set (bd_DexBatchesNext data). \<exists>x \<in> set (db_Orders b).
        order_is_new (OrdersPending (buildH1Maps (bd_DexBatchesPreviousCurr data) (bd_DexBatchesPreviousNext data)))
          order_same (BytesToHex (dlo_OrderId x)) x \<and>
        r = dex_order_row data b DexPendingState 0 x)"
  unfolding ConvertDexOrdersWithStateMachine_def Let_def changed_iff_new set_append Un_iff
    in_concat_collect_batches
  by (auto split: option.splits if_splits) (metis option.distinct(1) option.sel)+

lemma in_ConvertDexDeposits:
  "r \<in> set (ConvertDexDepositsWithStateMachine dc data) \<longleftrightarrow>
     (\<exists>b \<in> set (bd_DexBatchesPreviousCurr data). \<exists>x \<in> set (db_Deposits b). \<exists>ev.
        depositEvents (parseDexEventsFromSlice dc (bd_Events data)) (BytesToHex (dld_OrderId x)) = Some ev \<and>
        r = dex_deposit_row data b DexCompleteState (de_LocalOrigin ev) (de_PointsReceived ev) x) \<or>
     (\<exists>b \<in> set (bd_DexBatchesCurrent data). \<exists>x \<in> set (db_Deposits b).
        order_is_new (DepositsLocked (buildH1Maps (bd_DexBatchesPreviousCurr data) (bd_DexBatchesPreviousNext data)))
          deposit_same (BytesToHex (dld_OrderId x)) x \<and>
        r = dex_deposit_row data b DexLockedState False 0 x) \<or>
     (\<exists>b \<in> set (bd_DexBatchesNext data). \<exists>x \<in> set (db_Deposits b).
        order_is_new (DepositsPending (buildH1Maps (bd_DexBatchesPreviousCurr data) (bd_DexBatchesPreviousNext data)))
          deposit_same (BytesToHex (dld_OrderId x)) x \<and>
        r = dex_deposit_row data b DexPendingState False 0 x)"
  unfolding ConvertDexDepositsWithStateMachine_def Let_def changed_iff_new set_append Un_iff
    in_concat_collect_batches
  by (auto split: option.splits if_splits) (metis option.distinct(1) option.sel)+

lemma in_ConvertDexWithdrawals:
  "r \<in> set (ConvertDexWithdrawalsWithStateMachine dc data) \<longleftrightarrow>
     (\<exists>b \<in> set (bd_DexBatchesPreviousCurr data). \<exists>x \<in> set (db_Withdrawals b). \<exists>ev.
        withdrawalEvents (parseDexEventsFromSlice dc (bd_Events data)) (BytesToHex (dlw_OrderId x)) = Some ev \<and>
        r = dex_withdrawal_row data b DexCompleteState (de_LocalAmount ev) (de_RemoteAmount ev) (de_PointsBurned ev) x) \<or>
     (\<exists>b \<in> set (bd_DexBatchesCurrent data). \<exists>x \<in> set (db_Withdrawals b).
        order_is_new (WithdrawalsLocked (buildH1Maps (bd_DexBatchesPreviousCurr data) (bd_DexBatchesPreviousNext data)))
          withdrawal_same (BytesToHex (dlw_OrderId x)) x \<and>
        r = dex_withdrawal_row data b DexLockedState 0 0 0 x) \<or>
     (\<exists>b \<in> set (bd_DexBatchesNext data). \<exists>x \<in> set (db_Withdrawals b).
        order_is_new (WithdrawalsPending (buildH1Maps (bd_DexBatchesPreviousCurr data) (bd_DexBatchesPreviousNext data)))
          withdrawal_same (BytesToHex (dlw_OrderId x)) x \<and>
        r = dex_withdrawal_row data b DexPendingState 0 0 0 x)"
  unfolding ConvertDexWithdrawalsWithStateMachine_def Let_def changed_iff_new set_append Un_iff
    in_concat_collect_batches
  by (auto split: option.splits if_splits) (metis option.distinct(1) option.sel)+

lemma dex_order_row_simps [simp]:
  "dxo_State (dex_order_row data b st h x) = st"
  "dxo_OrderID (dex_order_row data b st h x) = BytesToHex (dlo_OrderId x)"
  "dxo_State (dex_order_complete_row data b ev x) = DexCompleteState"
  "dxo_OrderID (dex_order_complete_row data b ev x) = BytesToHex (dlo_OrderId x)"
  "dxo_Height (dex_order_row data b st h x) = bd_Height data"
  "dxo_Height (dex_order_complete_row data b ev x) = bd_Height data"
  by (simp_all add: dex_order_row_def dex_order_complete_row_def)

lemma dex_deposit_row_simps [simp]:
  "dxd_State (dex_deposit_row data b st lo pts x) = st"
  "dxd_OrderID (dex_deposit_row data b st lo pts x) = BytesToHex (dld_OrderId x)"
  "dxd_Height (dex_deposit_row data b st lo pts x) = bd_Height data"
  by (simp_all add: dex_deposit_row_def)

lemma dex_withdrawal_row_simps [simp]:
  "dxw_State (dex_withdrawal_row data b st la ra pb x) = st"
  "dxw_OrderID (dex_withdrawal_row data b st la ra pb x) = BytesToHex (dlw_OrderId x)"
  "dxw_Height (dex_withdrawal_row data b st la ra pb x) = bd_Height data"
  by (simp_all add: dex_withdrawal_row_def)

lemma dex_order_states:
  "r \<in> set (ConvertDexOrdersWithStateMachine dc data) \<Longrightarrow>
     dxo_State r \<in> {DexCompleteState, DexLockedState, DexPendingState}"
  by (auto simp: in_ConvertDexOrders)

end
