(* ===== verification/Convert.thy ===== *)
theory Convert
  imports ConvSnapshots ConvPools ConvParams ConvValidators ConvDex
begin

text \<open>
  The direct conversions of internal/indexer/conversions.go (block, transactions, events), the
  \<open>BlockData\<close> of internal/indexer/types.go and \<open>convertToBlockData\<close> of internal/indexer/indexer.go,
  which runs every converter of a block.
\<close>

section \<open>Direct conversions\<close>

text \<open>The block's header and its meta data are dereferenced without a test.\<close>

definition convertBlock :: "'m lib_BlockResult \<Rightarrow> uint64 \<Rightarrow> time \<Rightarrow> Block outcome" where
  "convertBlock block chainID blockTime =
     (case br_BlockHeader block of
        None \<Rightarrow> Panic
      | Some h \<Rightarrow>
     (case br_Meta block of
        None \<Rightarrow> Panic
      | Some meta \<Rightarrow> Ok \<lparr>
          blk_Height = bh_Height h,
          blk_Hash = BytesToHex (bh_Hash h),
          blk_Time = blockTime,
          blk_NetworkID = ucast chainID,
          blk_LastBlockHash = BytesToHex (bh_LastBlockHash h),
          blk_ProposerAddress = BytesToHex (bh_ProposerAddress h),
          blk_Size = ucast (meta_Size meta),
          blk_NumTxs = bh_NumTxs h,
          blk_TotalTxs = bh_TotalTxs h,
          blk_TotalVDFIterations = ucast (bh_TotalVdfIterations h),
          blk_StateRoot = BytesToHex (bh_StateRoot h),
          blk_TransactionRoot = BytesToHex (bh_TransactionRoot h),
          blk_ValidatorRoot = BytesToHex (bh_ValidatorRoot h),
          blk_NextValidatorRoot = BytesToHex (bh_NextValidatorRoot h)\<rparr>))"

definition convertTransactions :: "lib_TxResult list \<Rightarrow> uint64 \<Rightarrow> uint64 \<Rightarrow> time \<Rightarrow> Transaction list" where
  "convertTransactions txs chainID height blockTime =
     map (\<lambda>tx. zero_Transaction\<lparr>
       tx_Height := height,
       tx_HeightTime := blockTime,
       tx_MessageType := txr_MessageType tx\<rparr>) txs"

definition convertEvents :: "'m lib_Event list \<Rightarrow> uint64 \<Rightarrow> uint64 \<Rightarrow> time \<Rightarrow> Event list" where
  "convertEvents events chainID height blockTime =
     map (\<lambda>event. zero_Event\<lparr>
       evr_Height := height,
       evr_HeightTime := blockTime,
       evr_EventType := ev_EventType event\<rparr>) events"

section \<open>The converted block\<close>

text \<open>The field \<open>BlockSummary\<close> of the struct is never read or written by the code and is left out.\<close>

record BlockData =
  ibd_ChainID :: uint64
  ibd_Height :: uint64
  ibd_BlockTime :: time
  ibd_Block :: Block
  ibd_Transactions :: "Transaction list"
  ibd_Events :: "Event list"
  ibd_Accounts :: "Account list"
  ibd_AccountsPrevious :: "fsm_Account list"
  ibd_Params :: "Params option"
  ibd_Supply :: "Supply option"
  ibd_Validators :: "Validator list"
  ibd_ValidatorNonSigningInfo :: "ValidatorNonSigningInfo list"
  ibd_ValidatorDoubleSigningInfo :: "ValidatorDoubleSigningInfo list"
  ibd_Pools :: "Pool list"
  ibd_PoolPointsByHolder :: "PoolPointsByHolder list"
  ibd_Orders :: "Order list"
  ibd_DexPrices :: "DexPrice list"
  ibd_DexOrders :: "DexOrder list"
  ibd_DexDeposits :: "DexDeposit list"
  ibd_DexWithdrawals :: "DexWithdrawal list"
  ibd_Committees :: "Committee list"
  ibd_CommitteeValidators :: "CommitteeValidator list"
  ibd_CommitteePayments :: "CommitteePayment list"

text \<open>What the code relies on of the chain's packages, in one record.\<close>

record 'm canopy_lib =
  lib_event_types :: event_types
  lib_dex_codec :: "'m dex_codec"
  lib_blob_codec :: "'m blob_codec"

definition converted_validators ::
  "'m canopy_lib \<Rightarrow> 'm blob_BlockData \<Rightarrow> Validator list \<times> CommitteeValidator list" where
  "converted_validators cl data = ConvertValidatorsWithChangeDetection (lib_event_types cl)
     (bd_ValidatorsCurrent data) (bd_ValidatorsPrevious data) (bd_Events data)
     (bd_SubsidizedCommittees data) (bd_RetiredCommittees data) (bd_Height data) (bd_BlockTime data)"

definition converted_data ::
  "'m canopy_lib \<Rightarrow> 'm blob_BlockData \<Rightarrow> fsm_Account list \<Rightarrow> Block \<Rightarrow> BlockData" where
  "converted_data cl data accountsPrevious block = \<lparr>
     ibd_ChainID = bd_ChainID data,
     ibd_Height = bd_Height data,
     ibd_BlockTime = bd_BlockTime data,
     ibd_Block = block,
     ibd_Transactions = convertTransactions (bd_Transactions data) (bd_ChainID data) (bd_Height data) (bd_BlockTime data),
     ibd_Events = convertEvents (bd_Events data) (bd_ChainID data) (bd_Height data) (bd_BlockTime data),
     ibd_Accounts = ConvertAccountsWithChangeDetection
       (bd_Accounts data) (bd_AccountsPrevious data) (bd_Height data) (bd_BlockTime data),
     ibd_AccountsPrevious = accountsPrevious,
     ibd_Params = ConvertParamsWithChangeDetection
       (bd_Params data) (bd_ParamsPrevious data) (bd_Height data) (bd_BlockTime data),
     ibd_Supply = ConvertSupplyWithChangeDetection
       (bd_Supply data) (bd_SupplyPrevious data) (bd_Height data) (bd_BlockTime data),
     ibd_Validators = fst (converted_validators cl data),
     ibd_ValidatorNonSigningInfo = ConvertNonSignersWithChangeDetection
       (bd_NonSignersCurrent data) (bd_NonSignersPrevious data) (bd_Height data) (bd_BlockTime data),
     ibd_ValidatorDoubleSigningInfo = ConvertDoubleSignersWithChangeDetection
       (bd_DoubleSignersCurrent data) (bd_DoubleSignersPrevious data) (bd_Height data) (bd_BlockTime data),
     ibd_Pools = convertPools (bd_PoolsCurrent data) (bd_PoolsPrevious data) (bd_Height data) (bd_BlockTime data),
     ibd_PoolPointsByHolder = ConvertPoolPointsWithChangeDetection
       (bd_PoolsCurrent data) (bd_PoolsPrevious data) (bd_Height data) (bd_BlockTime data),
     ibd_Orders = ConvertOrdersWithChangeDetection
       (bd_Orders data) (bd_OrdersPrevious data) (bd_Height data) (bd_BlockTime data),
     ibd_DexPrices = ConvertDexPricesWithChangeDetection
       (bd_DexPrices data) (bd_DexPricesPrevious data) (bd_Height data) (bd_BlockTime data),
     ibd_DexOrders = ConvertDexOrdersWithStateMachine (lib_dex_codec cl) data,
     ibd_DexDeposits = ConvertDexDepositsWithStateMachine (lib_dex_codec cl) data,
     ibd_DexWithdrawals = ConvertDexWithdrawalsWithStateMachine (lib_dex_codec cl) data,
     ibd_Committees = ConvertCommitteesWithChangeDetection
       (bd_Committees data) (bd_CommitteesPrevious data) (bd_Height data) (bd_BlockTime data),
     ibd_CommitteeValidators = snd (converted_validators cl data),
     ibd_CommitteePayments = []\<rparr>"

definition convertToBlockData ::
  "'m canopy_lib \<Rightarrow> 'm blob_BlockData \<Rightarrow> fsm_Account list \<Rightarrow> BlockData outcome" where
  "convertToBlockData cl data accountsPrevious =
     (case bd_Block data of
        None \<Rightarrow> Panic
      | Some result \<Rightarrow>
          bind_outcome (convertBlock result (bd_ChainID data) (bd_BlockTime data)) (\<lambda>block.
            Ok (converted_data cl data accountsPrevious block)))"

section \<open>Facts\<close>

lemma convertBlock_Ok_iff:
  "(\<exists>b. convertBlock r chainID t = Ok b) \<longleftrightarrow> br_BlockHeader r \<noteq> None \<and> br_Meta r \<noteq> None"
  by (auto simp: convertBlock_def split: option.splits)

lemma convertBlock_height:
  "convertBlock r chainID t = Ok b \<Longrightarrow> \<exists>h. br_BlockHeader r = Some h \<and> blk_Height b = bh_Height h"
  by (auto simp: convertBlock_def split: option.splits)

lemma convertToBlockData_Ok:
  "convertToBlockData cl data ap = Ok d \<longleftrightarrow>
     (\<exists>r b. bd_Block data = Some r \<and> convertBlock r (bd_ChainID data) (bd_BlockTime data) = Ok b \<and>
        d = converted_data cl data ap b)"
  by (auto simp: convertToBlockData_def split: option.split)

lemma convertToBlockData_fields:
  assumes "convertToBlockData cl data ap = Ok d"
  shows "ibd_ChainID d = bd_ChainID data" "ibd_Height d = bd_Height data"
    "\<exists>r. bd_Block data = Some r \<and> convertBlock r (bd_ChainID data) (bd_BlockTime data) = Ok (ibd_Block d)"
  using assms by (auto simp: convertToBlockData_Ok converted_data_def)

lemma convertToBlockData_Ok_iff:
  "(\<exists>d. convertToBlockData cl data ap = Ok d) \<longleftrightarrow>
     (\<exists>r. bd_Block data = Some r \<and> br_BlockHeader r \<noteq> None \<and> br_Meta r \<noteq> None)"
  by (auto simp: convertToBlockData_def convertBlock_def split: option.splits)

lemma convertToBlockData_not_Fail: "convertToBlockData cl data ap \<noteq> Fail e"
  by (auto simp: convertToBlockData_def convertBlock_def split: option.splits)

end
