(* ===== verification/Summary.thy ===== *)
theory Summary
  imports Convert
begin

text \<open>
  The block summary: the struct \<open>BlockSummary\<close> (pkg/db/models/indexer/block\_summary.go) and the counting
  loops of \<open>buildBlockSummary\<close> (internal/indexer/indexer.go). Every counter is a 32-bit word that a loop
  increments; the summary is computed by the loops one after the other on the same struct. The insert of
  the finished summary is in the theory Indexer.
\<close>

record BlockSummary =
  bs_Height :: uint64
  bs_HeightTime :: time
  bs_TotalTransactions :: uint64
  bs_NumTxs :: uint32
  bs_NumTxsSend :: uint32
  bs_NumTxsStake :: uint32
  bs_NumTxsUnstake :: uint32
  bs_NumTxsEditStake :: uint32
  bs_NumTxsStartPoll :: uint32
  bs_NumTxsVotePoll :: uint32
  bs_NumTxsLockOrder :: uint32
  bs_NumTxsCloseOrder :: uint32
  bs_NumTxsUnknown :: uint32
  bs_NumTxsPause :: uint32
  bs_NumTxsUnpause :: uint32
  bs_NumTxsChangeParameter :: uint32
  bs_NumTxsDaoTransfer :: uint32
  bs_NumTxsCertificateResults :: uint32
  bs_NumTxsSubsidy :: uint32
  bs_NumTxsCreateOrder :: uint32
  bs_NumTxsEditOrder :: uint32
  bs_NumTxsDeleteOrder :: uint32
  bs_NumTxsDexLimitOrder :: uint32
  bs_NumTxsDexLiquidityDeposit :: uint32
  bs_NumTxsDexLiquidityWithdraw :: uint32
  bs_NumAccounts :: uint32
  bs_NumAccountsNew :: uint32
  bs_NumEvents :: uint32
  bs_NumEventsReward :: uint32
  bs_NumEventsSlash :: uint32
  bs_NumEventsDexLiquidityDeposit :: uint32
  bs_NumEventsDexLiquidityWithdraw :: uint32
  bs_NumEventsDexSwap :: uint32
  bs_NumEventsOrderBookSwap :: uint32
  bs_NumEventsAutomaticPause :: uint32
  bs_NumEventsAutomaticBeginUnstaking :: uint32
  bs_NumEventsAutomaticFinishUnstaking :: uint32
  bs_NumOrders :: uint32
  bs_NumOrdersNew :: uint32
  bs_NumOrdersOpen :: uint32
  bs_NumOrdersFilled :: uint32
  bs_NumOrdersCancelled :: uint32
  bs_NumPools :: uint32
  bs_NumPoolsNew :: uint32
  bs_NumDexPrices :: uint32
  bs_NumDexOrders :: uint32
  bs_NumDexOrdersFuture :: uint32
  bs_NumDexOrdersLocked :: uint32
  bs_NumDexOrdersComplete :: uint32
  bs_NumDexOrdersSuccess :: uint32
  bs_NumDexOrdersFailed :: uint32
  bs_NumDexDeposits :: uint32
  bs_NumDexDepositsPending :: uint32
  bs_NumDexDepositsLocked :: uint32
  bs_NumDexDepositsComplete :: uint32
  bs_NumDexWithdrawals :: uint32
  bs_NumDexWithdrawalsPending :: uint32
  bs_NumDexWithdrawalsLocked :: uint32
  bs_NumDexWithdrawalsComplete :: uint32
  bs_NumDexPoolPointsHolders :: uint32
  bs_NumDexPoolPointsHoldersNew :: uint32
  bs_ParamsChanged :: bool
  bs_NumValidators :: uint32
  bs_NumValidatorsNew :: uint32
  bs_NumValidatorsActive :: uint32
  bs_NumValidatorsPaused :: uint32
  bs_NumValidatorsUnstaking :: uint32
  bs_NumValidatorNonSigningInfo :: uint32
  bs_NumValidatorNonSigningInfoNew :: uint32
  bs_NumValidatorDoubleSigningInfo :: uint32
  bs_NumCommittees :: uint32
  bs_NumCommitteesNew :: uint32
  bs_NumCommitteesSubsidized :: uint32
  bs_NumCommitteesRetired :: uint32
  bs_NumCommitteeValidators :: uint32
  bs_NumCommitteePayments :: uint32
  bs_SupplyChanged :: bool
  bs_SupplyTotal :: uint64
  bs_SupplyStaked :: uint64
  bs_SupplyDelegatedOnly :: uint64

definition summary_init :: "BlockData \<Rightarrow> BlockSummary" where
  "summary_init data = \<lparr>
     bs_Height = ibd_Height data, bs_HeightTime = ibd_BlockTime data, bs_TotalTransactions = blk_TotalTxs
     (ibd_Block data), bs_NumTxs = of_nat (length (ibd_Transactions data)), bs_NumTxsSend = 0,
     bs_NumTxsStake = 0, bs_NumTxsUnstake = 0, bs_NumTxsEditStake = 0, bs_NumTxsStartPoll = 0,
     bs_NumTxsVotePoll = 0, bs_NumTxsLockOrder = 0, bs_NumTxsCloseOrder = 0, bs_NumTxsUnknown = 0,
     bs_NumTxsPause = 0, bs_NumTxsUnpause = 0, bs_NumTxsChangeParameter = 0, bs_NumTxsDaoTransfer = 0,
     bs_NumTxsCertificateResults = 0, bs_NumTxsSubsidy = 0, bs_NumTxsCreateOrder = 0, bs_NumTxsEditOrder
     = 0, bs_NumTxsDeleteOrder = 0, bs_NumTxsDexLimitOrder = 0, bs_NumTxsDexLiquidityDeposit = 0,
     bs_NumTxsDexLiquidityWithdraw = 0, bs_NumAccounts = of_nat (length (ibd_Accounts data)),
     bs_NumAccountsNew = 0, bs_NumEvents = of_nat (length (ibd_Events data)), bs_NumEventsReward = 0,
     bs_NumEventsSlash = 0, bs_NumEventsDexLiquidityDeposit = 0, bs_NumEventsDexLiquidityWithdraw = 0,
     bs_NumEventsDexSwap = 0, bs_NumEventsOrderBookSwap = 0, bs_NumEventsAutomaticPause = 0,
     bs_NumEventsAutomaticBeginUnstaking = 0, bs_NumEventsAutomaticFinishUnstaking = 0, bs_NumOrders =
     of_nat (length (ibd_Orders data)), bs_NumOrdersNew = 0, bs_NumOrdersOpen = 0, bs_NumOrdersFilled =
     0, bs_NumOrdersCancelled = 0, bs_NumPools = of_nat (length (ibd_Pools data)), bs_NumPoolsNew = 0,
     bs_NumDexPrices = of_nat (length (ibd_DexPrices data)), bs_NumDexOrders = of_nat (length
     (ibd_DexOrders data)), bs_NumDexOrdersFuture = 0, bs_NumDexOrdersLocked = 0, bs_NumDexOrdersComplete
     = 0, bs_NumDexOrdersSuccess = 0, bs_NumDexOrdersFailed = 0, bs_NumDexDeposits = of_nat (length
     (ibd_DexDeposits data)), bs_NumDexDepositsPending = 0, bs_NumDexDepositsLocked = 0,
     bs_NumDexDepositsComplete = 0, bs_NumDexWithdrawals = of_nat (length (ibd_DexWithdrawals data)),
     bs_NumDexWithdrawalsPending = 0, bs_NumDexWithdrawalsLocked = 0, bs_NumDexWithdrawalsComplete = 0,
     bs_NumDexPoolPointsHolders = 0, bs_NumDexPoolPointsHoldersNew = 0, bs_ParamsChanged = False,
     bs_NumValidators = of_nat (length (ibd_Validators data)), bs_NumValidatorsNew = 0,
     bs_NumValidatorsActive = 0, bs_NumValidatorsPaused = 0, bs_NumValidatorsUnstaking = 0,
     bs_NumValidatorNonSigningInfo = 0, bs_NumValidatorNonSigningInfoNew = 0,
     bs_NumValidatorDoubleSigningInfo = 0, bs_NumCommittees = of_nat (length (ibd_Committees data)),
     bs_NumCommitteesNew = 0, bs_NumCommitteesSubsidized = 0, bs_NumCommitteesRetired = 0,
     bs_NumCommitteeValidators = 0, bs_NumCommitteePayments = 0, bs_SupplyChanged = False, bs_SupplyTotal
     = 0, bs_SupplyStaked = 0, bs_SupplyDelegatedOnly = 0\<rparr>"

section \<open>The counting loops\<close>

definition count_tx :: "BlockSummary \<Rightarrow> Transaction \<Rightarrow> BlockSummary" where
  "count_tx s tx = (
     if tx_MessageType tx = ''send'' then s\<lparr>bs_NumTxsSend := bs_NumTxsSend s + 1\<rparr>
     else if tx_MessageType tx = ''stake'' then s\<lparr>bs_NumTxsStake := bs_NumTxsStake s + 1\<rparr>
     else if tx_MessageType tx = ''unstake'' then s\<lparr>bs_NumTxsUnstake := bs_NumTxsUnstake s + 1\<rparr>
     else if tx_MessageType tx = ''edit_stake'' then s\<lparr>bs_NumTxsEditStake := bs_NumTxsEditStake s + 1\<rparr>
     else if tx_MessageType tx = ''start_poll'' then s\<lparr>bs_NumTxsStartPoll := bs_NumTxsStartPoll s + 1\<rparr>
     else if tx_MessageType tx = ''vote_poll'' then s\<lparr>bs_NumTxsVotePoll := bs_NumTxsVotePoll s + 1\<rparr>
     else if tx_MessageType tx = ''lock_order'' then s\<lparr>bs_NumTxsLockOrder := bs_NumTxsLockOrder s + 1\<rparr>
     else if tx_MessageType tx = ''close_order'' then s\<lparr>bs_NumTxsCloseOrder := bs_NumTxsCloseOrder s + 1\<rparr>
     else if tx_MessageType tx = ''unknown'' then s\<lparr>bs_NumTxsUnknown := bs_NumTxsUnknown s + 1\<rparr>
     else if tx_MessageType tx = ''pause'' then s\<lparr>bs_NumTxsPause := bs_NumTxsPause s + 1\<rparr>
     else if tx_MessageType tx = ''unpause'' then s\<lparr>bs_NumTxsUnpause := bs_NumTxsUnpause s + 1\<rparr>
     else if tx_MessageType tx = ''change_parameter'' then s\<lparr>bs_NumTxsChangeParameter := bs_NumTxsChangeParameter s + 1\<rparr>
     else if tx_MessageType tx = ''dao_transfer'' then s\<lparr>bs_NumTxsDaoTransfer := bs_NumTxsDaoTransfer s + 1\<rparr>
     else if tx_MessageType tx = ''certificate_results'' then s\<lparr>bs_NumTxsCertificateResults := bs_NumTxsCertificateResults s + 1\<rparr>
     else if tx_MessageType tx = ''subsidy'' then s\<lparr>bs_NumTxsSubsidy := bs_NumTxsSubsidy s + 1\<rparr>
     else if tx_MessageType tx = ''create_order'' then s\<lparr>bs_NumTxsCreateOrder := bs_NumTxsCreateOrder s + 1\<rparr>
     else if tx_MessageType tx = ''edit_order'' then s\<lparr>bs_NumTxsEditOrder := bs_NumTxsEditOrder s + 1\<rparr>
     else if tx_MessageType tx = ''delete_order'' then s\<lparr>bs_NumTxsDeleteOrder := bs_NumTxsDeleteOrder s + 1\<rparr>
     else if tx_MessageType tx = ''dex_limit_order'' then s\<lparr>bs_NumTxsDexLimitOrder := bs_NumTxsDexLimitOrder s + 1\<rparr>
     else if tx_MessageType tx = ''dex_liquidity_deposit'' then s\<lparr>bs_NumTxsDexLiquidityDeposit := bs_NumTxsDexLiquidityDeposit s + 1\<rparr>
     else if tx_MessageType tx = ''dex_liquidity_withdraw'' then s\<lparr>bs_NumTxsDexLiquidityWithdraw := bs_NumTxsDexLiquidityWithdraw s + 1\<rparr>
     else s)"

definition count_event :: "BlockSummary \<Rightarrow> Event \<Rightarrow> BlockSummary" where
  "count_event s event = (
     if evr_EventType event = ''reward'' then s\<lparr>bs_NumEventsReward := bs_NumEventsReward s + 1\<rparr>
     else if evr_EventType event = ''slash'' then s\<lparr>bs_NumEventsSlash := bs_NumEventsSlash s + 1\<rparr>
     else if evr_EventType event = ''dex_liquidity_deposit'' then s\<lparr>bs_NumEventsDexLiquidityDeposit := bs_NumEventsDexLiquidityDeposit s + 1\<rparr>
     else if evr_EventType event = ''dex_liquidity_withdraw'' then s\<lparr>bs_NumEventsDexLiquidityWithdraw := bs_NumEventsDexLiquidityWithdraw s + 1\<rparr>
     else if evr_EventType event = ''dex_swap'' then s\<lparr>bs_NumEventsDexSwap := bs_NumEventsDexSwap s + 1\<rparr>
     else if evr_EventType event = ''order_book_swap'' then s\<lparr>bs_NumEventsOrderBookSwap := bs_NumEventsOrderBookSwap s + 1\<rparr>
     else if evr_EventType event = ''automatic_pause'' then s\<lparr>bs_NumEventsAutomaticPause := bs_NumEventsAutomaticPause s + 1\<rparr>
     else if evr_EventType event = ''automatic_begin_unstaking'' then s\<lparr>bs_NumEventsAutomaticBeginUnstaking := bs_NumEventsAutomaticBeginUnstaking s + 1\<rparr>
     else if evr_EventType event = ''automatic_finish_unstaking'' then s\<lparr>bs_NumEventsAutomaticFinishUnstaking := bs_NumEventsAutomaticFinishUnstaking s + 1\<rparr>
     else s)"

definition count_dex_order :: "BlockSummary \<Rightarrow> DexOrder \<Rightarrow> BlockSummary" where
  "count_dex_order s order = (
     if dxo_State order = ''future'' then s\<lparr>bs_NumDexOrdersFuture := bs_NumDexOrdersFuture s + 1\<rparr>
     else if dxo_State order = ''locked'' then s\<lparr>bs_NumDexOrdersLocked := bs_NumDexOrdersLocked s + 1\<rparr>
     else if dxo_State order = ''complete'' then
       (let s = s\<lparr>bs_NumDexOrdersComplete := bs_NumDexOrdersComplete s + 1\<rparr>
        in if dxo_Success order then s\<lparr>bs_NumDexOrdersSuccess := bs_NumDexOrdersSuccess s + 1\<rparr>
           else s\<lparr>bs_NumDexOrdersFailed := bs_NumDexOrdersFailed s + 1\<rparr>)
     else s)"

definition count_dex_deposit :: "BlockSummary \<Rightarrow> DexDeposit \<Rightarrow> BlockSummary" where
  "count_dex_deposit s deposit = (
     if dxd_State deposit = ''pending'' then s\<lparr>bs_NumDexDepositsPending := bs_NumDexDepositsPending s + 1\<rparr>
     else if dxd_State deposit = ''complete'' then s\<lparr>bs_NumDexDepositsComplete := bs_NumDexDepositsComplete s + 1\<rparr>
     else s)"

definition count_dex_withdrawal :: "BlockSummary \<Rightarrow> DexWithdrawal \<Rightarrow> BlockSummary" where
  "count_dex_withdrawal s withdrawal = (
     if dxw_State withdrawal = ''pending'' then s\<lparr>bs_NumDexWithdrawalsPending := bs_NumDexWithdrawalsPending s + 1\<rparr>
     else if dxw_State withdrawal = ''complete'' then s\<lparr>bs_NumDexWithdrawalsComplete := bs_NumDexWithdrawalsComplete s + 1\<rparr>
     else s)"

definition count_order :: "BlockSummary \<Rightarrow> Order \<Rightarrow> BlockSummary" where
  "count_order s order = (
     if ord_Status order = ''open'' then s\<lparr>bs_NumOrdersOpen := bs_NumOrdersOpen s + 1\<rparr>
     else if ord_Status order = ''complete'' then s\<lparr>bs_NumOrdersFilled := bs_NumOrdersFilled s + 1\<rparr>
     else if ord_Status order = ''canceled'' then s\<lparr>bs_NumOrdersCancelled := bs_NumOrdersCancelled s + 1\<rparr>
     else s)"

definition count_validator :: "BlockSummary \<Rightarrow> Validator \<Rightarrow> BlockSummary" where
  "count_validator s validator = (
     if vld_Status validator = ''active'' then s\<lparr>bs_NumValidatorsActive := bs_NumValidatorsActive s + 1\<rparr>
     else if vld_Status validator = ''paused'' then s\<lparr>bs_NumValidatorsPaused := bs_NumValidatorsPaused s + 1\<rparr>
     else if vld_Status validator = ''unstaking'' then s\<lparr>bs_NumValidatorsUnstaking := bs_NumValidatorsUnstaking s + 1\<rparr>
     else s)"

definition summary_supply :: "Supply option \<Rightarrow> BlockSummary \<Rightarrow> BlockSummary" where
  "summary_supply spl s =
     (case spl of
        None \<Rightarrow> s
      | Some p \<Rightarrow> s\<lparr>bs_SupplyChanged := True,
                    bs_SupplyTotal := sup_Total p,
                    bs_SupplyStaked := sup_Staked p,
                    bs_SupplyDelegatedOnly := sup_DelegatedOnly p\<rparr>)"

definition summarize :: "BlockData \<Rightarrow> BlockSummary" where
  "summarize data =
     (let s = summary_init data;
          s = foldl count_tx s (ibd_Transactions data);
          s = foldl count_event s (ibd_Events data);
          s = foldl count_dex_order s (ibd_DexOrders data);
          s = foldl count_dex_deposit s (ibd_DexDeposits data);
          s = foldl count_dex_withdrawal s (ibd_DexWithdrawals data);
          s = foldl count_order s (ibd_Orders data);
          s = foldl count_validator s (ibd_Validators data)
      in summary_supply (ibd_Supply data) s)"

section \<open>What a counting loop computes\<close>

lemma foldl_counter:
  fixes g :: "'s \<Rightarrow> uint32"
  assumes "\<And>s x. g (step s x) = g s + (if P x then 1 else 0)"
  shows "g (foldl step s xs) = g s + of_nat (length (filter P xs))"
  by (induction xs arbitrary: s) (simp_all add: assms)

lemma foldl_frame:
  assumes "\<And>s x. g (step s x) = g s"
  shows "g (foldl step s xs) = g s"
  by (induction xs arbitrary: s) (simp_all add: assms)

end
