(* ===== verification/ChainStore.thy ===== *)
theory ChainStore
  imports Summary
begin

text \<open>
  The per-chain database (pkg/db/postgres/chain): its tables, the inserts (inserts.go), the deletes
  (deletes.go), \<open>HasBlock\<close> (queries.go), the transaction wrapper \<open>BeginFunc\<close> (pkg/db/postgres/client.go)
  and \<open>writeBlockData\<close> (internal/indexer/indexer.go).

  A table is a partial map from its primary key to its row. An insert is
  \<open>INSERT ... ON CONFLICT (primary key) DO UPDATE SET\<close> of every other column, so it overwrites the row
  under the key of the new one. PostgreSQL itself is a parameter: \<open>sql_env\<close> says which statement of
  which table fails, whether the transaction can be opened and how its commit ends. A commit whose
  acknowledgement is lost leaves the data written although an error is returned.
\<close>

section \<open>Tables\<close>

text \<open>The row of the committees table: the two counts of the model are stored as flags.\<close>

record CommitteeRow =
  cmr_ChainID :: uint16
  cmr_LastRootHeightUpdated :: uint64
  cmr_LastChainHeightUpdated :: uint64
  cmr_NumberOfSamples :: uint64
  cmr_Subsidized :: bool
  cmr_Retired :: bool
  cmr_Height :: uint64
  cmr_HeightTime :: time

record chain_tables =
  t_blocks :: "uint64 \<rightharpoonup> Block"
  t_txs :: "uint64 \<times> string \<rightharpoonup> Transaction"
  t_events :: "uint64 \<times> uint16 \<times> string \<times> string \<times> string \<rightharpoonup> Event"
  t_accounts :: "string \<times> uint64 \<rightharpoonup> Account"
  t_validators :: "string \<times> uint64 \<rightharpoonup> Validator"
  t_validator_non_signing_info :: "string \<times> uint64 \<rightharpoonup> ValidatorNonSigningInfo"
  t_validator_double_signing_info :: "string \<times> uint64 \<rightharpoonup> ValidatorDoubleSigningInfo"
  t_pools :: "uint32 \<times> uint64 \<rightharpoonup> Pool"
  t_orders :: "string \<times> uint64 \<rightharpoonup> Order"
  t_dex_prices :: "(uint16 \<times> uint16) \<times> uint64 \<rightharpoonup> DexPrice"
  t_dex_orders :: "string \<times> uint64 \<rightharpoonup> DexOrder"
  t_dex_deposits :: "string \<times> uint64 \<rightharpoonup> DexDeposit"
  t_dex_withdrawals :: "string \<times> uint64 \<rightharpoonup> DexWithdrawal"
  t_pool_points_by_holder :: "(string \<times> uint32) \<times> uint64 \<rightharpoonup> PoolPointsByHolder"
  t_params :: "uint64 \<rightharpoonup> Params"
  t_supply :: "uint64 \<rightharpoonup> Supply"
  t_committees :: "uint16 \<times> uint64 \<rightharpoonup> CommitteeRow"
  t_committee_validators :: "(uint64 \<times> string) \<times> uint64 \<rightharpoonup> CommitteeValidator"
  t_committee_payments :: "(uint64 \<times> string) \<times> uint64 \<rightharpoonup> CommitteePayment"
  t_block_summaries :: "uint64 \<rightharpoonup> BlockSummary"
  t_poll_snapshots :: "string \<times> time \<rightharpoonup> PollSnapshot"
  t_proposal_snapshots :: "string \<times> time \<rightharpoonup> ProposalSnapshot"

definition empty_tables :: chain_tables where
  "empty_tables = \<lparr>
     t_blocks = Map.empty,
     t_txs = Map.empty,
     t_events = Map.empty,
     t_accounts = Map.empty,
     t_validators = Map.empty,
     t_validator_non_signing_info = Map.empty,
     t_validator_double_signing_info = Map.empty,
     t_pools = Map.empty,
     t_orders = Map.empty,
     t_dex_prices = Map.empty,
     t_dex_orders = Map.empty,
     t_dex_deposits = Map.empty,
     t_dex_withdrawals = Map.empty,
     t_pool_points_by_holder = Map.empty,
     t_params = Map.empty,
     t_supply = Map.empty,
     t_committees = Map.empty,
     t_committee_validators = Map.empty,
     t_committee_payments = Map.empty,
     t_block_summaries = Map.empty,
     t_poll_snapshots = Map.empty,
     t_proposal_snapshots = Map.empty\<rparr>"

section \<open>Primary keys\<close>

definition blocks_key :: "Block \<Rightarrow> uint64" where
  "blocks_key r = blk_Height r"

definition txs_key :: "Transaction \<Rightarrow> uint64 \<times> string" where
  "txs_key r = (tx_Height r, tx_TxHash r)"

definition events_key :: "Event \<Rightarrow> uint64 \<times> uint16 \<times> string \<times> string \<times> string" where
  "events_key r = (evr_Height r, evr_ChainID r, evr_Address r, evr_Reference r, evr_EventType r)"

definition accounts_key :: "Account \<Rightarrow> string \<times> uint64" where
  "accounts_key r = (acct_Address r, acct_Height r)"

definition validators_key :: "Validator \<Rightarrow> string \<times> uint64" where
  "validators_key r = (vld_Address r, vld_Height r)"

definition validator_non_signing_info_key :: "ValidatorNonSigningInfo \<Rightarrow> string \<times> uint64" where
  "validator_non_signing_info_key r = (vns_Address r, vns_Height r)"

definition validator_double_signing_info_key :: "ValidatorDoubleSigningInfo \<Rightarrow> string \<times> uint64" where
  "validator_double_signing_info_key r = (vds_Address r, vds_Height r)"

definition pools_key :: "Pool \<Rightarrow> uint32 \<times> uint64" where
  "pools_key r = (pol_PoolID r, pol_Height r)"

definition orders_key :: "Order \<Rightarrow> string \<times> uint64" where
  "orders_key r = (ord_OrderID r, ord_Height r)"

definition dex_prices_key :: "DexPrice \<Rightarrow> (uint16 \<times> uint16) \<times> uint64" where
  "dex_prices_key r = ((dpx_LocalChainID r, dpx_RemoteChainID r), dpx_Height r)"

definition dex_orders_key :: "DexOrder \<Rightarrow> string \<times> uint64" where
  "dex_orders_key r = (dxo_OrderID r, dxo_Height r)"

definition dex_deposits_key :: "DexDeposit \<Rightarrow> string \<times> uint64" where
  "dex_deposits_key r = (dxd_OrderID r, dxd_Height r)"

definition dex_withdrawals_key :: "DexWithdrawal \<Rightarrow> string \<times> uint64" where
  "dex_withdrawals_key r = (dxw_OrderID r, dxw_Height r)"

definition pool_points_by_holder_key :: "PoolPointsByHolder \<Rightarrow> (string \<times> uint32) \<times> uint64" where
  "pool_points_by_holder_key r = ((pph_Address r, pph_PoolID r), pph_Height r)"

definition params_key :: "Params \<Rightarrow> uint64" where
  "params_key r = prm_Height r"

definition supply_key :: "Supply \<Rightarrow> uint64" where
  "supply_key r = sup_Height r"

definition committees_key :: "CommitteeRow \<Rightarrow> uint16 \<times> uint64" where
  "committees_key r = (cmr_ChainID r, cmr_Height r)"

definition committee_validators_key :: "CommitteeValidator \<Rightarrow> (uint64 \<times> string) \<times> uint64" where
  "committee_validators_key r = ((cmv_CommitteeID r, cmv_ValidatorAddress r), cmv_Height r)"

definition committee_payments_key :: "CommitteePayment \<Rightarrow> (uint64 \<times> string) \<times> uint64" where
  "committee_payments_key r = ((cmp_CommitteeID r, cmp_Address r), cmp_Height r)"

definition block_summaries_key :: "BlockSummary \<Rightarrow> uint64" where
  "block_summaries_key r = bs_Height r"

definition poll_snapshots_key :: "PollSnapshot \<Rightarrow> string \<times> time" where
  "poll_snapshots_key r = (pls_ProposalHash r, pls_SnapshotTime r)"

definition proposal_snapshots_key :: "ProposalSnapshot \<Rightarrow> string \<times> time" where
  "proposal_snapshots_key r = (prs_ProposalHash r, prs_SnapshotTime r)"

lemmas table_keys = blocks_key_def txs_key_def events_key_def accounts_key_def validators_key_def validator_non_signing_info_key_def validator_double_signing_info_key_def pools_key_def orders_key_def dex_prices_key_def dex_orders_key_def dex_deposits_key_def dex_withdrawals_key_def pool_points_by_holder_key_def params_key_def supply_key_def committees_key_def committee_validators_key_def committee_payments_key_def block_summaries_key_def poll_snapshots_key_def proposal_snapshots_key_def

section \<open>The database connection\<close>

datatype commit = Committed | NotCommitted go_error | CommitLost go_error

record sql_env =
  sql_statement :: "string \<Rightarrow> nat \<Rightarrow> go_error option"
  sql_begin :: "go_error option"
  sql_commit :: commit
  sql_query :: "go_error option"

text \<open>A database that answers every statement.\<close>

definition sql_ok :: sql_env where
  "sql_ok = \<lparr>sql_statement = \<lambda>_ _. None, sql_begin = None, sql_commit = Committed, sql_query = None\<rparr>"

text \<open>\<open>pgx.BeginFunc\<close>: the function runs in a transaction, which is committed when it returns without
  an error and rolled back when it returns one or panics.\<close>

definition BeginFunc :: "sql_env \<Rightarrow> ('s \<Rightarrow> 's outcome) \<Rightarrow> 's \<Rightarrow> 's \<times> unit outcome" where
  "BeginFunc env fn s =
     (case sql_begin env of
        Some e \<Rightarrow> (s, Fail e)
      | None \<Rightarrow>
     (case fn s of
        Fail e \<Rightarrow> (s, Fail e)
      | Panic \<Rightarrow> (s, Panic)
      | Ok s' \<Rightarrow>
     (case sql_commit env of
        Committed \<Rightarrow> (s', Ok ())
      | NotCommitted e \<Rightarrow> (s, Fail e)
      | CommitLost e \<Rightarrow> (s', Fail e))))"

lemma BeginFunc_atomic: "fst (BeginFunc env fn s) = s \<or> fn s = Ok (fst (BeginFunc env fn s))"
  by (auto simp: BeginFunc_def split: option.split outcome.split commit.split)

lemma BeginFunc_Ok_iff:
  "BeginFunc env fn s = (s', Ok ()) \<longleftrightarrow> sql_begin env = None \<and> fn s = Ok s' \<and> sql_commit env = Committed"
  by (auto simp: BeginFunc_def split: option.split outcome.split commit.split)

lemma BeginFunc_snd_Ok_iff:
  "snd (BeginFunc env fn s) = Ok () \<longleftrightarrow>
     sql_begin env = None \<and> (\<exists>s'. fn s = Ok s') \<and> sql_commit env = Committed"
  by (auto simp: BeginFunc_def split: option.split outcome.split commit.split)

section \<open>Batches\<close>

text \<open>\<open>executeBatch\<close>: the queued upserts run in order and the first that fails ends the batch.\<close>

fun executeBatch ::
  "(nat \<Rightarrow> go_error option) \<Rightarrow> ('r \<Rightarrow> 'k) \<Rightarrow> nat \<Rightarrow> 'r list \<Rightarrow> ('k \<rightharpoonup> 'r) \<Rightarrow> ('k \<rightharpoonup> 'r) outcome" where
  "executeBatch fault key i [] t = Ok t"
| "executeBatch fault key i (r # rs) t =
     (case fault i of
        Some err \<Rightarrow> Fail (WrapErr (''batch statement '' @ format_nat i @ '' failed'') err)
      | None \<Rightarrow> executeBatch fault key (Suc i) rs (t(key r \<mapsto> r)))"

lemma executeBatch_Ok: "executeBatch fault key i rs t = Ok t' \<Longrightarrow> t' = t ++ index_by key rs"
proof (induction rs arbitrary: i t)
  case (Cons r rs)
  then have "t' = t(key r \<mapsto> r) ++ index_by key rs" by (auto split: option.splits)
  also have "\<dots> = t ++ ([key r \<mapsto> r] ++ index_by key rs)"
    by (simp only: map_add_assoc map_add_upd map_add_empty)
  finally show ?case by (simp add: index_by_Cons)
qed simp

lemma executeBatch_no_fault:
  "(\<And>j. fault j = None) \<Longrightarrow> executeBatch fault key i rs t = Ok (t ++ index_by key rs)"
proof -
  assume "\<And>j. fault j = None"
  then have "\<exists>t'. executeBatch fault key i rs t = Ok t'" by (induction rs arbitrary: i t) auto
  then show ?thesis using executeBatch_Ok by blast
qed

lemma executeBatch_not_Panic [simp]: "executeBatch fault key i rs t \<noteq> Panic"
  by (induction rs arbitrary: i t) (auto split: option.splits)

text \<open>One statement outside a batch.\<close>

definition execOne :: "go_error option \<Rightarrow> ('r \<Rightarrow> 'k) \<Rightarrow> 'r \<Rightarrow> ('k \<rightharpoonup> 'r) \<Rightarrow> ('k \<rightharpoonup> 'r) outcome" where
  "execOne fault key r t = (case fault of Some err \<Rightarrow> Fail err | None \<Rightarrow> Ok (t(key r \<mapsto> r)))"

section \<open>Inserts\<close>

definition committee_db_row :: "Committee \<Rightarrow> CommitteeRow" where
  "committee_db_row c = \<lparr>
     cmr_ChainID = cmt_ChainID c,
     cmr_LastRootHeightUpdated = cmt_LastRootHeightUpdated c,
     cmr_LastChainHeightUpdated = cmt_LastChainHeightUpdated c,
     cmr_NumberOfSamples = cmt_NumberOfSamples c,
     cmr_Subsidized = (cmt_Subsidized c > 0),
     cmr_Retired = (cmt_Retired c > 0),
     cmr_Height = cmt_Height c,
     cmr_HeightTime = cmt_HeightTime c\<rparr>"

definition insertBlock :: "sql_env \<Rightarrow> Block \<Rightarrow> chain_tables \<Rightarrow> chain_tables outcome" where
  "insertBlock env r s =
     bind_outcome (execOne (sql_statement env ''blocks'' 0) blocks_key r (t_blocks s))
       (\<lambda>t. Ok (s\<lparr>t_blocks := t\<rparr>))"

definition insertTransactions :: "sql_env \<Rightarrow> Transaction list \<Rightarrow> chain_tables \<Rightarrow> chain_tables outcome" where
  "insertTransactions env rows s =
     (if length rows = 0 then Ok s
      else bind_outcome (executeBatch (sql_statement env ''txs'') txs_key 0 rows (t_txs s))
        (\<lambda>t. Ok (s\<lparr>t_txs := t\<rparr>)))"

definition insertEvents :: "sql_env \<Rightarrow> Event list \<Rightarrow> chain_tables \<Rightarrow> chain_tables outcome" where
  "insertEvents env rows s =
     (if length rows = 0 then Ok s
      else bind_outcome (executeBatch (sql_statement env ''events'') events_key 0 rows (t_events s))
        (\<lambda>t. Ok (s\<lparr>t_events := t\<rparr>)))"

definition insertAccounts :: "sql_env \<Rightarrow> Account list \<Rightarrow> chain_tables \<Rightarrow> chain_tables outcome" where
  "insertAccounts env rows s =
     (if length rows = 0 then Ok s
      else bind_outcome (executeBatch (sql_statement env ''accounts'') accounts_key 0 rows (t_accounts s))
        (\<lambda>t. Ok (s\<lparr>t_accounts := t\<rparr>)))"

definition insertValidators :: "sql_env \<Rightarrow> Validator list \<Rightarrow> chain_tables \<Rightarrow> chain_tables outcome" where
  "insertValidators env rows s =
     (if length rows = 0 then Ok s
      else bind_outcome (executeBatch (sql_statement env ''validators'') validators_key 0 rows (t_validators s))
        (\<lambda>t. Ok (s\<lparr>t_validators := t\<rparr>)))"

definition insertValidatorNonSigningInfo :: "sql_env \<Rightarrow> ValidatorNonSigningInfo list \<Rightarrow> chain_tables \<Rightarrow> chain_tables outcome" where
  "insertValidatorNonSigningInfo env rows s =
     (if length rows = 0 then Ok s
      else bind_outcome (executeBatch (sql_statement env ''validator_non_signing_info'') validator_non_signing_info_key 0 rows (t_validator_non_signing_info s))
        (\<lambda>t. Ok (s\<lparr>t_validator_non_signing_info := t\<rparr>)))"

definition insertValidatorDoubleSigningInfo :: "sql_env \<Rightarrow> ValidatorDoubleSigningInfo list \<Rightarrow> chain_tables \<Rightarrow> chain_tables outcome" where
  "insertValidatorDoubleSigningInfo env rows s =
     (if length rows = 0 then Ok s
      else bind_outcome (executeBatch (sql_statement env ''validator_double_signing_info'') validator_double_signing_info_key 0 rows (t_validator_double_signing_info s))
        (\<lambda>t. Ok (s\<lparr>t_validator_double_signing_info := t\<rparr>)))"

definition insertPools :: "sql_env \<Rightarrow> Pool list \<Rightarrow> chain_tables \<Rightarrow> chain_tables outcome" where
  "insertPools env rows s =
     (if length rows = 0 then Ok s
      else bind_outcome (executeBatch (sql_statement env ''pools'') pools_key 0 rows (t_pools s))
        (\<lambda>t. Ok (s\<lparr>t_pools := t\<rparr>)))"

definition insertOrders :: "sql_env \<Rightarrow> Order list \<Rightarrow> chain_tables \<Rightarrow> chain_tables outcome" where
  "insertOrders env rows s =
     (if length rows = 0 then Ok s
      else bind_outcome (executeBatch (sql_statement env ''orders'') orders_key 0 rows (t_orders s))
        (\<lambda>t. Ok (s\<lparr>t_orders := t\<rparr>)))"

definition insertDexPrices :: "sql_env \<Rightarrow> DexPrice list \<Rightarrow> chain_tables \<Rightarrow> chain_tables outcome" where
  "insertDexPrices env rows s =
     (if length rows = 0 then Ok s
      else bind_outcome (executeBatch (sql_statement env ''dex_prices'') dex_prices_key 0 rows (t_dex_prices s))
        (\<lambda>t. Ok (s\<lparr>t_dex_prices := t\<rparr>)))"

definition insertDexOrders :: "sql_env \<Rightarrow> DexOrder list \<Rightarrow> chain_tables \<Rightarrow> chain_tables outcome" where
  "insertDexOrders env rows s =
     (if length rows = 0 then Ok s
      else bind_outcome (executeBatch (sql_statement env ''dex_orders'') dex_orders_key 0 rows (t_dex_orders s))
        (\<lambda>t. Ok (s\<lparr>t_dex_orders := t\<rparr>)))"

definition insertDexDeposits :: "sql_env \<Rightarrow> DexDeposit list \<Rightarrow> chain_tables \<Rightarrow> chain_tables outcome" where
  "insertDexDeposits env rows s =
     (if length rows = 0 then Ok s
      else bind_outcome (executeBatch (sql_statement env ''dex_deposits'') dex_deposits_key 0 rows (t_dex_deposits s))
        (\<lambda>t. Ok (s\<lparr>t_dex_deposits := t\<rparr>)))"

definition insertDexWithdrawals :: "sql_env \<Rightarrow> DexWithdrawal list \<Rightarrow> chain_tables \<Rightarrow> chain_tables outcome" where
  "insertDexWithdrawals env rows s =
     (if length rows = 0 then Ok s
      else bind_outcome (executeBatch (sql_statement env ''dex_withdrawals'') dex_withdrawals_key 0 rows (t_dex_withdrawals s))
        (\<lambda>t. Ok (s\<lparr>t_dex_withdrawals := t\<rparr>)))"

definition insertPoolPointsByHolder :: "sql_env \<Rightarrow> PoolPointsByHolder list \<Rightarrow> chain_tables \<Rightarrow> chain_tables outcome" where
  "insertPoolPointsByHolder env rows s =
     (if length rows = 0 then Ok s
      else bind_outcome (executeBatch (sql_statement env ''pool_points_by_holder'') pool_points_by_holder_key 0 rows (t_pool_points_by_holder s))
        (\<lambda>t. Ok (s\<lparr>t_pool_points_by_holder := t\<rparr>)))"

definition insertParams :: "sql_env \<Rightarrow> Params \<Rightarrow> chain_tables \<Rightarrow> chain_tables outcome" where
  "insertParams env r s =
     bind_outcome (execOne (sql_statement env ''params'' 0) params_key r (t_params s))
       (\<lambda>t. Ok (s\<lparr>t_params := t\<rparr>))"

definition insertSupply :: "sql_env \<Rightarrow> Supply \<Rightarrow> chain_tables \<Rightarrow> chain_tables outcome" where
  "insertSupply env r s =
     bind_outcome (execOne (sql_statement env ''supply'' 0) supply_key r (t_supply s))
       (\<lambda>t. Ok (s\<lparr>t_supply := t\<rparr>))"

definition insertCommittees :: "sql_env \<Rightarrow> Committee list \<Rightarrow> chain_tables \<Rightarrow> chain_tables outcome" where
  "insertCommittees env rows s =
     (if length rows = 0 then Ok s
      else bind_outcome (executeBatch (sql_statement env ''committees'') committees_key 0 (map committee_db_row rows) (t_committees s))
        (\<lambda>t. Ok (s\<lparr>t_committees := t\<rparr>)))"

definition insertCommitteeValidators :: "sql_env \<Rightarrow> CommitteeValidator list \<Rightarrow> chain_tables \<Rightarrow> chain_tables outcome" where
  "insertCommitteeValidators env rows s =
     (if length rows = 0 then Ok s
      else bind_outcome (executeBatch (sql_statement env ''committee_validators'') committee_validators_key 0 rows (t_committee_validators s))
        (\<lambda>t. Ok (s\<lparr>t_committee_validators := t\<rparr>)))"

definition insertCommitteePayments :: "sql_env \<Rightarrow> CommitteePayment list \<Rightarrow> chain_tables \<Rightarrow> chain_tables outcome" where
  "insertCommitteePayments env rows s =
     (if length rows = 0 then Ok s
      else bind_outcome (executeBatch (sql_statement env ''committee_payments'') committee_payments_key 0 rows (t_committee_payments s))
        (\<lambda>t. Ok (s\<lparr>t_committee_payments := t\<rparr>)))"

definition insertBlockSummary :: "sql_env \<Rightarrow> BlockSummary \<Rightarrow> chain_tables \<Rightarrow> chain_tables outcome" where
  "insertBlockSummary env r s =
     bind_outcome (execOne (sql_statement env ''block_summaries'' 0) block_summaries_key r (t_block_summaries s))
       (\<lambda>t. Ok (s\<lparr>t_block_summaries := t\<rparr>))"

definition insertPollSnapshots :: "sql_env \<Rightarrow> PollSnapshot list \<Rightarrow> chain_tables \<Rightarrow> chain_tables outcome" where
  "insertPollSnapshots env rows s =
     (if length rows = 0 then Ok s
      else bind_outcome (executeBatch (sql_statement env ''poll_snapshots'') poll_snapshots_key 0 rows (t_poll_snapshots s))
        (\<lambda>t. Ok (s\<lparr>t_poll_snapshots := t\<rparr>)))"

definition insertProposalSnapshots :: "sql_env \<Rightarrow> ProposalSnapshot list \<Rightarrow> chain_tables \<Rightarrow> chain_tables outcome" where
  "insertProposalSnapshots env rows s =
     (if length rows = 0 then Ok s
      else bind_outcome (executeBatch (sql_statement env ''proposal_snapshots'') proposal_snapshots_key 0 rows (t_proposal_snapshots s))
        (\<lambda>t. Ok (s\<lparr>t_proposal_snapshots := t\<rparr>)))"

text \<open>\<open>insertSupplies\<close> is the batched form; \<open>InsertSupply\<close> of store.go writes its rows one by one.\<close>

definition insertSupplies :: "sql_env \<Rightarrow> Supply list \<Rightarrow> chain_tables \<Rightarrow> chain_tables outcome" where
  "insertSupplies env rows s =
     (if length rows = 0 then Ok s
      else bind_outcome (executeBatch (sql_statement env ''supply'') supply_key 0 rows (t_supply s))
        (\<lambda>t. Ok (s\<lparr>t_supply := t\<rparr>)))"

fun InsertSupply :: "sql_env \<Rightarrow> Supply list \<Rightarrow> chain_tables \<Rightarrow> chain_tables outcome" where
  "InsertSupply env [] s = Ok s"
| "InsertSupply env (r # rs) s = bind_outcome (insertSupply env r s) (InsertSupply env rs)"

section \<open>Writing a block\<close>

definition write_ops :: "sql_env \<Rightarrow> BlockData \<Rightarrow> chain_tables \<Rightarrow> chain_tables outcome" where
  "write_ops env data s0 =
     bind_outcome (wrap_error ''insert block'' (insertBlock env (ibd_Block data) s0)) (\<lambda>s1.
     bind_outcome (wrap_error ''insert transactions'' (insertTransactions env (ibd_Transactions data) s1)) (\<lambda>s2.
     bind_outcome (wrap_error ''insert events'' (insertEvents env (ibd_Events data) s2)) (\<lambda>s3.
     bind_outcome (wrap_error ''insert accounts'' (insertAccounts env (ibd_Accounts data) s3)) (\<lambda>s4.
     bind_outcome (wrap_error ''insert validators'' (insertValidators env (ibd_Validators data) s4)) (\<lambda>s5.
     bind_outcome (wrap_error ''insert validator non-signing info'' (insertValidatorNonSigningInfo env (ibd_ValidatorNonSigningInfo data) s5)) (\<lambda>s6.
     bind_outcome (wrap_error ''insert validator double-signing info'' (insertValidatorDoubleSigningInfo env (ibd_ValidatorDoubleSigningInfo data) s6)) (\<lambda>s7.
     bind_outcome (wrap_error ''insert pools'' (insertPools env (ibd_Pools data) s7)) (\<lambda>s8.
     bind_outcome (wrap_error ''insert orders'' (insertOrders env (ibd_Orders data) s8)) (\<lambda>s9.
     bind_outcome (wrap_error ''insert dex prices'' (insertDexPrices env (ibd_DexPrices data) s9)) (\<lambda>s10.
     bind_outcome (wrap_error ''insert dex orders'' (insertDexOrders env (ibd_DexOrders data) s10)) (\<lambda>s11.
     bind_outcome (wrap_error ''insert dex deposits'' (insertDexDeposits env (ibd_DexDeposits data) s11)) (\<lambda>s12.
     bind_outcome (wrap_error ''insert dex withdrawals'' (insertDexWithdrawals env (ibd_DexWithdrawals data) s12)) (\<lambda>s13.
     bind_outcome (wrap_error ''insert pool points'' (insertPoolPointsByHolder env (ibd_PoolPointsByHolder data) s13)) (\<lambda>s14.
     bind_outcome (wrap_error ''insert params'' (case ibd_Params data of None \<Rightarrow> Ok s14 | Some p \<Rightarrow> insertParams env p s14)) (\<lambda>s15.
     bind_outcome (wrap_error ''insert supply'' (case ibd_Supply data of None \<Rightarrow> Ok s15 | Some p \<Rightarrow> InsertSupply env [p] s15)) (\<lambda>s16.
     bind_outcome (wrap_error ''insert committees'' (insertCommittees env (ibd_Committees data) s16)) (\<lambda>s17.
     bind_outcome (wrap_error ''insert committee validators'' (insertCommitteeValidators env (ibd_CommitteeValidators data) s17)) (\<lambda>s18.
     wrap_error ''insert committee payments'' (insertCommitteePayments env (ibd_CommitteePayments data) s18)))))))))))))))))))"

definition writeBlockData :: "sql_env \<Rightarrow> BlockData \<Rightarrow> chain_tables \<Rightarrow> chain_tables \<times> unit outcome" where
  "writeBlockData env data = BeginFunc env (write_ops env data)"

text \<open>The tables after a block is written: every table overlaid with the rows of the block.\<close>

definition opt_rows :: "'a option \<Rightarrow> 'a list" where
  "opt_rows x = (case x of None \<Rightarrow> [] | Some y \<Rightarrow> [y])"

definition written :: "BlockData \<Rightarrow> chain_tables \<Rightarrow> chain_tables" where
  "written data s = s\<lparr>
     t_blocks := t_blocks s ++ index_by blocks_key [ibd_Block data],
     t_txs := t_txs s ++ index_by txs_key (ibd_Transactions data),
     t_events := t_events s ++ index_by events_key (ibd_Events data),
     t_accounts := t_accounts s ++ index_by accounts_key (ibd_Accounts data),
     t_validators := t_validators s ++ index_by validators_key (ibd_Validators data),
     t_validator_non_signing_info := t_validator_non_signing_info s ++ index_by validator_non_signing_info_key (ibd_ValidatorNonSigningInfo data),
     t_validator_double_signing_info := t_validator_double_signing_info s ++ index_by validator_double_signing_info_key (ibd_ValidatorDoubleSigningInfo data),
     t_pools := t_pools s ++ index_by pools_key (ibd_Pools data),
     t_orders := t_orders s ++ index_by orders_key (ibd_Orders data),
     t_dex_prices := t_dex_prices s ++ index_by dex_prices_key (ibd_DexPrices data),
     t_dex_orders := t_dex_orders s ++ index_by dex_orders_key (ibd_DexOrders data),
     t_dex_deposits := t_dex_deposits s ++ index_by dex_deposits_key (ibd_DexDeposits data),
     t_dex_withdrawals := t_dex_withdrawals s ++ index_by dex_withdrawals_key (ibd_DexWithdrawals data),
     t_pool_points_by_holder := t_pool_points_by_holder s ++ index_by pool_points_by_holder_key (ibd_PoolPointsByHolder data),
     t_params := t_params s ++ index_by params_key (opt_rows (ibd_Params data)),
     t_supply := t_supply s ++ index_by supply_key (opt_rows (ibd_Supply data)),
     t_committees := t_committees s ++ index_by committees_key (map committee_db_row (ibd_Committees data)),
     t_committee_validators := t_committee_validators s ++ index_by committee_validators_key (ibd_CommitteeValidators data),
     t_committee_payments := t_committee_payments s ++ index_by committee_payments_key (ibd_CommitteePayments data)\<rparr>"

section \<open>Deletes\<close>

text \<open>\<open>DELETE FROM t WHERE height = h\<close>, and the range form; \<open>ht\<close> reads the height column of a key.\<close>

definition delete_at :: "('k \<Rightarrow> uint64) \<Rightarrow> uint64 \<Rightarrow> ('k \<rightharpoonup> 'r) \<Rightarrow> ('k \<rightharpoonup> 'r)" where
  "delete_at ht h t = (\<lambda>k. if ht k = h then None else t k)"

definition delete_range :: "('k \<Rightarrow> uint64) \<Rightarrow> uint64 \<Rightarrow> uint64 \<Rightarrow> ('k \<rightharpoonup> 'r) \<Rightarrow> ('k \<rightharpoonup> 'r)" where
  "delete_range ht lo hi t = (\<lambda>k. if lo \<le> ht k \<and> ht k \<le> hi then None else t k)"

text \<open>A delete of one table: it fails or applies the deletion \<open>f\<close>.\<close>

definition delete_stmt :: "go_error option \<Rightarrow> (chain_tables \<Rightarrow> chain_tables) \<Rightarrow> chain_tables \<Rightarrow> chain_tables outcome" where
  "delete_stmt fault f s = (case fault of Some err \<Rightarrow> Fail err | None \<Rightarrow> Ok (f s))"

definition deleteBlocksAtHeight :: "sql_env \<Rightarrow> uint64 \<Rightarrow> chain_tables \<Rightarrow> chain_tables outcome" where
  "deleteBlocksAtHeight env h = delete_stmt (sql_statement env ''blocks'' 0)
     (\<lambda>s. s\<lparr>t_blocks := delete_at id h (t_blocks s)\<rparr>)"

definition deleteBlockSummariesAtHeight :: "sql_env \<Rightarrow> uint64 \<Rightarrow> chain_tables \<Rightarrow> chain_tables outcome" where
  "deleteBlockSummariesAtHeight env h = delete_stmt (sql_statement env ''block_summaries'' 0)
     (\<lambda>s. s\<lparr>t_block_summaries := delete_at id h (t_block_summaries s)\<rparr>)"

definition deleteTransactionsAtHeight :: "sql_env \<Rightarrow> uint64 \<Rightarrow> chain_tables \<Rightarrow> chain_tables outcome" where
  "deleteTransactionsAtHeight env h = delete_stmt (sql_statement env ''txs'' 0)
     (\<lambda>s. s\<lparr>t_txs := delete_at fst h (t_txs s)\<rparr>)"

definition deleteEventsAtHeight :: "sql_env \<Rightarrow> uint64 \<Rightarrow> chain_tables \<Rightarrow> chain_tables outcome" where
  "deleteEventsAtHeight env h = delete_stmt (sql_statement env ''events'' 0)
     (\<lambda>s. s\<lparr>t_events := delete_at fst h (t_events s)\<rparr>)"

definition deleteAccountsAtHeight :: "sql_env \<Rightarrow> uint64 \<Rightarrow> chain_tables \<Rightarrow> chain_tables outcome" where
  "deleteAccountsAtHeight env h = delete_stmt (sql_statement env ''accounts'' 0)
     (\<lambda>s. s\<lparr>t_accounts := delete_at snd h (t_accounts s)\<rparr>)"

definition deleteValidatorsAtHeight :: "sql_env \<Rightarrow> uint64 \<Rightarrow> chain_tables \<Rightarrow> chain_tables outcome" where
  "deleteValidatorsAtHeight env h = delete_stmt (sql_statement env ''validators'' 0)
     (\<lambda>s. s\<lparr>t_validators := delete_at snd h (t_validators s)\<rparr>)"

definition deleteValidatorNonSigningInfoAtHeight :: "sql_env \<Rightarrow> uint64 \<Rightarrow> chain_tables \<Rightarrow> chain_tables outcome" where
  "deleteValidatorNonSigningInfoAtHeight env h = delete_stmt (sql_statement env ''validator_non_signing_info'' 0)
     (\<lambda>s. s\<lparr>t_validator_non_signing_info := delete_at snd h (t_validator_non_signing_info s)\<rparr>)"

definition deleteValidatorDoubleSigningInfoAtHeight :: "sql_env \<Rightarrow> uint64 \<Rightarrow> chain_tables \<Rightarrow> chain_tables outcome" where
  "deleteValidatorDoubleSigningInfoAtHeight env h = delete_stmt (sql_statement env ''validator_double_signing_info'' 0)
     (\<lambda>s. s\<lparr>t_validator_double_signing_info := delete_at snd h (t_validator_double_signing_info s)\<rparr>)"

definition deletePoolsAtHeight :: "sql_env \<Rightarrow> uint64 \<Rightarrow> chain_tables \<Rightarrow> chain_tables outcome" where
  "deletePoolsAtHeight env h = delete_stmt (sql_statement env ''pools'' 0)
     (\<lambda>s. s\<lparr>t_pools := delete_at snd h (t_pools s)\<rparr>)"

definition deletePoolPointsByHolderAtHeight :: "sql_env \<Rightarrow> uint64 \<Rightarrow> chain_tables \<Rightarrow> chain_tables outcome" where
  "deletePoolPointsByHolderAtHeight env h = delete_stmt (sql_statement env ''pool_points_by_holder'' 0)
     (\<lambda>s. s\<lparr>t_pool_points_by_holder := delete_at snd h (t_pool_points_by_holder s)\<rparr>)"

definition deleteOrdersAtHeight :: "sql_env \<Rightarrow> uint64 \<Rightarrow> chain_tables \<Rightarrow> chain_tables outcome" where
  "deleteOrdersAtHeight env h = delete_stmt (sql_statement env ''orders'' 0)
     (\<lambda>s. s\<lparr>t_orders := delete_at snd h (t_orders s)\<rparr>)"

definition deleteDexOrdersAtHeight :: "sql_env \<Rightarrow> uint64 \<Rightarrow> chain_tables \<Rightarrow> chain_tables outcome" where
  "deleteDexOrdersAtHeight env h = delete_stmt (sql_statement env ''dex_orders'' 0)
     (\<lambda>s. s\<lparr>t_dex_orders := delete_at snd h (t_dex_orders s)\<rparr>)"

definition deleteDexDepositsAtHeight :: "sql_env \<Rightarrow> uint64 \<Rightarrow> chain_tables \<Rightarrow> chain_tables outcome" where
  "deleteDexDepositsAtHeight env h = delete_stmt (sql_statement env ''dex_deposits'' 0)
     (\<lambda>s. s\<lparr>t_dex_deposits := delete_at snd h (t_dex_deposits s)\<rparr>)"

definition deleteDexWithdrawalsAtHeight :: "sql_env \<Rightarrow> uint64 \<Rightarrow> chain_tables \<Rightarrow> chain_tables outcome" where
  "deleteDexWithdrawalsAtHeight env h = delete_stmt (sql_statement env ''dex_withdrawals'' 0)
     (\<lambda>s. s\<lparr>t_dex_withdrawals := delete_at snd h (t_dex_withdrawals s)\<rparr>)"

definition deleteDexPricesAtHeight :: "sql_env \<Rightarrow> uint64 \<Rightarrow> chain_tables \<Rightarrow> chain_tables outcome" where
  "deleteDexPricesAtHeight env h = delete_stmt (sql_statement env ''dex_prices'' 0)
     (\<lambda>s. s\<lparr>t_dex_prices := delete_at snd h (t_dex_prices s)\<rparr>)"

definition deleteCommitteesAtHeight :: "sql_env \<Rightarrow> uint64 \<Rightarrow> chain_tables \<Rightarrow> chain_tables outcome" where
  "deleteCommitteesAtHeight env h = delete_stmt (sql_statement env ''committees'' 0)
     (\<lambda>s. s\<lparr>t_committees := delete_at snd h (t_committees s)\<rparr>)"

definition deleteCommitteeValidatorsAtHeight :: "sql_env \<Rightarrow> uint64 \<Rightarrow> chain_tables \<Rightarrow> chain_tables outcome" where
  "deleteCommitteeValidatorsAtHeight env h = delete_stmt (sql_statement env ''committee_validators'' 0)
     (\<lambda>s. s\<lparr>t_committee_validators := delete_at snd h (t_committee_validators s)\<rparr>)"

definition deleteCommitteePaymentsAtHeight :: "sql_env \<Rightarrow> uint64 \<Rightarrow> chain_tables \<Rightarrow> chain_tables outcome" where
  "deleteCommitteePaymentsAtHeight env h = delete_stmt (sql_statement env ''committee_payments'' 0)
     (\<lambda>s. s\<lparr>t_committee_payments := delete_at snd h (t_committee_payments s)\<rparr>)"

definition deleteParamsAtHeight :: "sql_env \<Rightarrow> uint64 \<Rightarrow> chain_tables \<Rightarrow> chain_tables outcome" where
  "deleteParamsAtHeight env h = delete_stmt (sql_statement env ''params'' 0)
     (\<lambda>s. s\<lparr>t_params := delete_at id h (t_params s)\<rparr>)"

definition deleteSupplyAtHeight :: "sql_env \<Rightarrow> uint64 \<Rightarrow> chain_tables \<Rightarrow> chain_tables outcome" where
  "deleteSupplyAtHeight env h = delete_stmt (sql_statement env ''supply'' 0)
     (\<lambda>s. s\<lparr>t_supply := delete_at id h (t_supply s)\<rparr>)"

text \<open>The loop over the named delete functions stops at the first that fails.\<close>

fun run_deletes :: "(string \<Rightarrow> string) \<Rightarrow> (string \<times> (chain_tables \<Rightarrow> chain_tables outcome)) list \<Rightarrow>
    chain_tables \<Rightarrow> chain_tables outcome" where
  "run_deletes msg [] s = Ok s"
| "run_deletes msg ((name, fn) # fs) s =
     bind_outcome (wrap_error (msg name) (fn s)) (run_deletes msg fs)"

definition delete_funcs :: "sql_env \<Rightarrow> uint64 \<Rightarrow> (string \<times> (chain_tables \<Rightarrow> chain_tables outcome)) list" where
  "delete_funcs env height = [
     (''events'', deleteEventsAtHeight env height),
     (''transactions'', deleteTransactionsAtHeight env height),
     (''accounts'', deleteAccountsAtHeight env height),
     (''validators'', deleteValidatorsAtHeight env height),
     (''validator_non_signing_info'', deleteValidatorNonSigningInfoAtHeight env height),
     (''validator_double_signing_info'', deleteValidatorDoubleSigningInfoAtHeight env height),
     (''pools'', deletePoolsAtHeight env height),
     (''pool_points_by_holder'', deletePoolPointsByHolderAtHeight env height),
     (''orders'', deleteOrdersAtHeight env height),
     (''dex_orders'', deleteDexOrdersAtHeight env height),
     (''dex_deposits'', deleteDexDepositsAtHeight env height),
     (''dex_withdrawals'', deleteDexWithdrawalsAtHeight env height),
     (''dex_prices'', deleteDexPricesAtHeight env height),
     (''committees'', deleteCommitteesAtHeight env height),
     (''committee_validators'', deleteCommitteeValidatorsAtHeight env height),
     (''committee_payments'', deleteCommitteePaymentsAtHeight env height),
     (''params'', deleteParamsAtHeight env height),
     (''supply'', deleteSupplyAtHeight env height),
     (''block_summaries'', deleteBlockSummariesAtHeight env height),
     (''blocks'', deleteBlocksAtHeight env height)]"

definition DeleteAllAtHeight :: "sql_env \<Rightarrow> uint64 \<Rightarrow> chain_tables \<Rightarrow> chain_tables \<times> unit outcome" where
  "DeleteAllAtHeight env height = BeginFunc env
     (run_deletes (\<lambda>name. ''failed to delete '' @ name @ '' at height '' @ FormatUint height)
        (delete_funcs env height))"

definition range_funcs ::
  "sql_env \<Rightarrow> uint64 \<Rightarrow> uint64 \<Rightarrow> (string \<times> (chain_tables \<Rightarrow> chain_tables outcome)) list" where
  "range_funcs env lo hi = [
     (''events'', delete_stmt (sql_statement env ''events'' 0)
        (\<lambda>s. s\<lparr>t_events := delete_range fst lo hi (t_events s)\<rparr>)),
     (''txs'', delete_stmt (sql_statement env ''txs'' 0)
        (\<lambda>s. s\<lparr>t_txs := delete_range fst lo hi (t_txs s)\<rparr>)),
     (''accounts'', delete_stmt (sql_statement env ''accounts'' 0)
        (\<lambda>s. s\<lparr>t_accounts := delete_range snd lo hi (t_accounts s)\<rparr>)),
     (''validators'', delete_stmt (sql_statement env ''validators'' 0)
        (\<lambda>s. s\<lparr>t_validators := delete_range snd lo hi (t_validators s)\<rparr>)),
     (''validator_non_signing_info'', delete_stmt (sql_statement env ''validator_non_signing_info'' 0)
        (\<lambda>s. s\<lparr>t_validator_non_signing_info := delete_range snd lo hi (t_validator_non_signing_info s)\<rparr>)),
     (''validator_double_signing_info'', delete_stmt (sql_statement env ''validator_double_signing_info'' 0)
        (\<lambda>s. s\<lparr>t_validator_double_signing_info := delete_range snd lo hi (t_validator_double_signing_info s)\<rparr>)),
     (''pools'', delete_stmt (sql_statement env ''pools'' 0)
        (\<lambda>s. s\<lparr>t_pools := delete_range snd lo hi (t_pools s)\<rparr>)),
     (''pool_points_by_holder'', delete_stmt (sql_statement env ''pool_points_by_holder'' 0)
        (\<lambda>s. s\<lparr>t_pool_points_by_holder := delete_range snd lo hi (t_pool_points_by_holder s)\<rparr>)),
     (''orders'', delete_stmt (sql_statement env ''orders'' 0)
        (\<lambda>s. s\<lparr>t_orders := delete_range snd lo hi (t_orders s)\<rparr>)),
     (''dex_orders'', delete_stmt (sql_statement env ''dex_orders'' 0)
        (\<lambda>s. s\<lparr>t_dex_orders := delete_range snd lo hi (t_dex_orders s)\<rparr>)),
     (''dex_deposits'', delete_stmt (sql_statement env ''dex_deposits'' 0)
        (\<lambda>s. s\<lparr>t_dex_deposits := delete_range snd lo hi (t_dex_deposits s)\<rparr>)),
     (''dex_withdrawals'', delete_stmt (sql_statement env ''dex_withdrawals'' 0)
        (\<lambda>s. s\<lparr>t_dex_withdrawals := delete_range snd lo hi (t_dex_withdrawals s)\<rparr>)),
     (''dex_prices'', delete_stmt (sql_statement env ''dex_prices'' 0)
        (\<lambda>s. s\<lparr>t_dex_prices := delete_range snd lo hi (t_dex_prices s)\<rparr>)),
     (''committees'', delete_stmt (sql_statement env ''committees'' 0)
        (\<lambda>s. s\<lparr>t_committees := delete_range snd lo hi (t_committees s)\<rparr>)),
     (''committee_validators'', delete_stmt (sql_statement env ''committee_validators'' 0)
        (\<lambda>s. s\<lparr>t_committee_validators := delete_range snd lo hi (t_committee_validators s)\<rparr>)),
     (''committee_payments'', delete_stmt (sql_statement env ''committee_payments'' 0)
        (\<lambda>s. s\<lparr>t_committee_payments := delete_range snd lo hi (t_committee_payments s)\<rparr>)),
     (''params'', delete_stmt (sql_statement env ''params'' 0)
        (\<lambda>s. s\<lparr>t_params := delete_range id lo hi (t_params s)\<rparr>)),
     (''supply'', delete_stmt (sql_statement env ''supply'' 0)
        (\<lambda>s. s\<lparr>t_supply := delete_range id lo hi (t_supply s)\<rparr>)),
     (''block_summaries'', delete_stmt (sql_statement env ''block_summaries'' 0)
        (\<lambda>s. s\<lparr>t_block_summaries := delete_range id lo hi (t_block_summaries s)\<rparr>)),
     (''blocks'', delete_stmt (sql_statement env ''blocks'' 0)
        (\<lambda>s. s\<lparr>t_blocks := delete_range id lo hi (t_blocks s)\<rparr>))]"

definition DeleteBlockRange :: "sql_env \<Rightarrow> uint64 \<Rightarrow> uint64 \<Rightarrow> chain_tables \<Rightarrow> chain_tables \<times> unit outcome" where
  "DeleteBlockRange env fromHeight toHeight s =
     (if fromHeight > toHeight
      then (s, Fail (Errorf (''invalid range: fromHeight ('' @ FormatUint fromHeight @
             '') > toHeight ('' @ FormatUint toHeight @ '')'')))
      else BeginFunc env
        (run_deletes (\<lambda>name. ''failed to delete from '' @ name) (range_funcs env fromHeight toHeight)) s)"

definition DeleteBlock :: "sql_env \<Rightarrow> uint64 \<Rightarrow> chain_tables \<Rightarrow> chain_tables \<times> unit outcome" where
  "DeleteBlock env height = DeleteAllAtHeight env height"

section \<open>Queries\<close>

definition HasBlock :: "sql_env \<Rightarrow> uint64 \<Rightarrow> chain_tables \<Rightarrow> bool outcome" where
  "HasBlock env height s =
     (case sql_query env of
        Some err \<Rightarrow> Fail (WrapErr ''failed to check block existence'' err)
      | None \<Rightarrow> Ok (t_blocks s height \<noteq> None))"

text \<open>\<open>QueryRow(...).Scan\<close> of pgx reports a missing row as \<open>pgx.ErrNoRows\<close>; the code compares the error
  with \<open>sql.ErrNoRows\<close> of the standard library, which is another value.\<close>

definition pgx_ErrNoRows :: go_error where "pgx_ErrNoRows = Errorf ''no rows in result set''"
definition sql_ErrNoRows :: go_error where "sql_ErrNoRows = Errorf ''sql: no rows in result set''"

definition query_row :: "sql_env \<Rightarrow> 'a option \<Rightarrow> go_error + 'a" where
  "query_row env row =
     (case sql_query env of
        Some err \<Rightarrow> Inl err
      | None \<Rightarrow> (case row of None \<Rightarrow> Inl pgx_ErrNoRows | Some r \<Rightarrow> Inr r))"

definition GetBlock :: "sql_env \<Rightarrow> uint64 \<Rightarrow> chain_tables \<Rightarrow> Block outcome" where
  "GetBlock env height s =
     (case query_row env (t_blocks s height) of
        Inl err \<Rightarrow> (if err = sql_ErrNoRows
           then Fail (Errorf (''block not found at height '' @ FormatUint height))
           else Fail (WrapErr ''failed to get block'' err))
      | Inr b \<Rightarrow> Ok b)"

definition GetBlockTime :: "sql_env \<Rightarrow> uint64 \<Rightarrow> chain_tables \<Rightarrow> time outcome" where
  "GetBlockTime env height s =
     (case query_row env (map_option blk_Time (t_blocks s height)) of
        Inl err \<Rightarrow> (if err = sql_ErrNoRows
           then Fail (Errorf (''block not found at height '' @ FormatUint height))
           else Fail (WrapErr ''failed to get block time'' err))
      | Inr t \<Rightarrow> Ok t)"

definition GetBlockSummary :: "sql_env \<Rightarrow> uint64 \<Rightarrow> bool \<Rightarrow> chain_tables \<Rightarrow> BlockSummary outcome" where
  "GetBlockSummary env height staging s =
     (case query_row env (t_block_summaries s height) of
        Inl err \<Rightarrow> (if err = sql_ErrNoRows
           then Fail (Errorf (''block summary not found at height '' @ FormatUint height))
           else Fail (WrapErr ''failed to get block summary'' err))
      | Inr b \<Rightarrow> Ok b)"

section \<open>The contract of an insert\<close>

text \<open>Every insert operation fails without a change the caller keeps, or overlays one table; the overlay
  is the same however often it is applied.\<close>

locale upsert_op =
  fixes insert_op :: "sql_env \<Rightarrow> 'i \<Rightarrow> chain_tables \<Rightarrow> chain_tables outcome"
    and overlay :: "'i \<Rightarrow> chain_tables \<Rightarrow> chain_tables"
  assumes insert_Ok: "insert_op env x s = Ok s' \<Longrightarrow> s' = overlay x s"
    and insert_total: "(\<And>t i. sql_statement env t i = None) \<Longrightarrow> \<exists>s'. insert_op env x s = Ok s'"
    and insert_no_Panic: "insert_op env x s \<noteq> Panic"
    and overlay_idem: "overlay x (overlay x s) = overlay x s"
begin

lemma insert_no_fault:
  "(\<And>t i. sql_statement env t i = None) \<Longrightarrow> insert_op env x s = Ok (overlay x s)"
  using insert_total insert_Ok by metis

lemma insert_twice:
  "insert_op env x s = Ok s1 \<Longrightarrow> insert_op env' x s1 = Ok s2 \<Longrightarrow> s2 = s1"
  using insert_Ok overlay_idem by metis

end

lemma overlay_same [simp]: "(t ++ m) ++ m = t ++ m"
  by (rule ext) (auto simp: map_add_def split: option.split)

lemma overlay_upd: "t(key r \<mapsto> r) = t ++ index_by key [r]"
  by (simp add: index_by_Cons)

interpretation insertBlock: upsert_op insertBlock
  "\<lambda>r. t_blocks_update (\<lambda>t. t ++ index_by blocks_key [r])"
  by unfold_locales (auto simp: insertBlock_def execOne_def overlay_upd split: option.splits)

interpretation insertTransactions: upsert_op insertTransactions
  "\<lambda>rows. t_txs_update (\<lambda>t. t ++ index_by txs_key rows)"
  by unfold_locales (auto simp: insertTransactions_def executeBatch_no_fault split: if_splits dest!: executeBatch_Ok)

interpretation insertEvents: upsert_op insertEvents
  "\<lambda>rows. t_events_update (\<lambda>t. t ++ index_by events_key rows)"
  by unfold_locales (auto simp: insertEvents_def executeBatch_no_fault split: if_splits dest!: executeBatch_Ok)

interpretation insertAccounts: upsert_op insertAccounts
  "\<lambda>rows. t_accounts_update (\<lambda>t. t ++ index_by accounts_key rows)"
  by unfold_locales (auto simp: insertAccounts_def executeBatch_no_fault split: if_splits dest!: executeBatch_Ok)

interpretation insertValidators: upsert_op insertValidators
  "\<lambda>rows. t_validators_update (\<lambda>t. t ++ index_by validators_key rows)"
  by unfold_locales (auto simp: insertValidators_def executeBatch_no_fault split: if_splits dest!: executeBatch_Ok)

interpretation insertValidatorNonSigningInfo: upsert_op insertValidatorNonSigningInfo
  "\<lambda>rows. t_validator_non_signing_info_update (\<lambda>t. t ++ index_by validator_non_signing_info_key rows)"
  by unfold_locales (auto simp: insertValidatorNonSigningInfo_def executeBatch_no_fault split: if_splits dest!: executeBatch_Ok)

interpretation insertValidatorDoubleSigningInfo: upsert_op insertValidatorDoubleSigningInfo
  "\<lambda>rows. t_validator_double_signing_info_update (\<lambda>t. t ++ index_by validator_double_signing_info_key rows)"
  by unfold_locales (auto simp: insertValidatorDoubleSigningInfo_def executeBatch_no_fault split: if_splits dest!: executeBatch_Ok)

interpretation insertPools: upsert_op insertPools
  "\<lambda>rows. t_pools_update (\<lambda>t. t ++ index_by pools_key rows)"
  by unfold_locales (auto simp: insertPools_def executeBatch_no_fault split: if_splits dest!: executeBatch_Ok)

interpretation insertOrders: upsert_op insertOrders
  "\<lambda>rows. t_orders_update (\<lambda>t. t ++ index_by orders_key rows)"
  by unfold_locales (auto simp: insertOrders_def executeBatch_no_fault split: if_splits dest!: executeBatch_Ok)

interpretation insertDexPrices: upsert_op insertDexPrices
  "\<lambda>rows. t_dex_prices_update (\<lambda>t. t ++ index_by dex_prices_key rows)"
  by unfold_locales (auto simp: insertDexPrices_def executeBatch_no_fault split: if_splits dest!: executeBatch_Ok)

interpretation insertDexOrders: upsert_op insertDexOrders
  "\<lambda>rows. t_dex_orders_update (\<lambda>t. t ++ index_by dex_orders_key rows)"
  by unfold_locales (auto simp: insertDexOrders_def executeBatch_no_fault split: if_splits dest!: executeBatch_Ok)

interpretation insertDexDeposits: upsert_op insertDexDeposits
  "\<lambda>rows. t_dex_deposits_update (\<lambda>t. t ++ index_by dex_deposits_key rows)"
  by unfold_locales (auto simp: insertDexDeposits_def executeBatch_no_fault split: if_splits dest!: executeBatch_Ok)

interpretation insertDexWithdrawals: upsert_op insertDexWithdrawals
  "\<lambda>rows. t_dex_withdrawals_update (\<lambda>t. t ++ index_by dex_withdrawals_key rows)"
  by unfold_locales (auto simp: insertDexWithdrawals_def executeBatch_no_fault split: if_splits dest!: executeBatch_Ok)

interpretation insertPoolPointsByHolder: upsert_op insertPoolPointsByHolder
  "\<lambda>rows. t_pool_points_by_holder_update (\<lambda>t. t ++ index_by pool_points_by_holder_key rows)"
  by unfold_locales (auto simp: insertPoolPointsByHolder_def executeBatch_no_fault split: if_splits dest!: executeBatch_Ok)

interpretation insertParams: upsert_op insertParams
  "\<lambda>r. t_params_update (\<lambda>t. t ++ index_by params_key [r])"
  by unfold_locales (auto simp: insertParams_def execOne_def overlay_upd split: option.splits)

interpretation insertSupply: upsert_op insertSupply
  "\<lambda>r. t_supply_update (\<lambda>t. t ++ index_by supply_key [r])"
  by unfold_locales (auto simp: insertSupply_def execOne_def overlay_upd split: option.splits)

interpretation insertCommittees: upsert_op insertCommittees
  "\<lambda>rows. t_committees_update (\<lambda>t. t ++ index_by committees_key (map committee_db_row rows))"
  by unfold_locales (auto simp: insertCommittees_def executeBatch_no_fault split: if_splits dest!: executeBatch_Ok)

interpretation insertCommitteeValidators: upsert_op insertCommitteeValidators
  "\<lambda>rows. t_committee_validators_update (\<lambda>t. t ++ index_by committee_validators_key rows)"
  by unfold_locales (auto simp: insertCommitteeValidators_def executeBatch_no_fault split: if_splits dest!: executeBatch_Ok)

interpretation insertCommitteePayments: upsert_op insertCommitteePayments
  "\<lambda>rows. t_committee_payments_update (\<lambda>t. t ++ index_by committee_payments_key rows)"
  by unfold_locales (auto simp: insertCommitteePayments_def executeBatch_no_fault split: if_splits dest!: executeBatch_Ok)

interpretation insertBlockSummary: upsert_op insertBlockSummary
  "\<lambda>r. t_block_summaries_update (\<lambda>t. t ++ index_by block_summaries_key [r])"
  by unfold_locales (auto simp: insertBlockSummary_def execOne_def overlay_upd split: option.splits)

interpretation insertPollSnapshots: upsert_op insertPollSnapshots
  "\<lambda>rows. t_poll_snapshots_update (\<lambda>t. t ++ index_by poll_snapshots_key rows)"
  by unfold_locales (auto simp: insertPollSnapshots_def executeBatch_no_fault split: if_splits dest!: executeBatch_Ok)

interpretation insertProposalSnapshots: upsert_op insertProposalSnapshots
  "\<lambda>rows. t_proposal_snapshots_update (\<lambda>t. t ++ index_by proposal_snapshots_key rows)"
  by unfold_locales (auto simp: insertProposalSnapshots_def executeBatch_no_fault split: if_splits dest!: executeBatch_Ok)

lemma insertSupply_single: "InsertSupply env [r] s = insertSupply env r s"
  by (cases "insertSupply env r s") simp_all

section \<open>What a write does\<close>

lemma insert_opt_Ok:
  "(case x of None \<Rightarrow> Ok s | Some p \<Rightarrow> insertParams env p s) = Ok s' \<Longrightarrow>
     s' = t_params_update (\<lambda>t. t ++ index_by params_key (opt_rows x)) s"
  "(case y of None \<Rightarrow> Ok s | Some q \<Rightarrow> InsertSupply env [q] s) = Ok s' \<Longrightarrow>
     s' = t_supply_update (\<lambda>t. t ++ index_by supply_key (opt_rows y)) s"
  by (auto simp: opt_rows_def insertSupply_single split: option.splits
      dest!: insertParams.insert_Ok insertSupply.insert_Ok)

lemma written_updates:
  "written data s =
     t_committee_payments_update (\<lambda>t. t ++ index_by committee_payments_key (ibd_CommitteePayments data)) (
     t_committee_validators_update (\<lambda>t. t ++ index_by committee_validators_key (ibd_CommitteeValidators data)) (
     t_committees_update (\<lambda>t. t ++ index_by committees_key (map committee_db_row (ibd_Committees data))) (
     t_supply_update (\<lambda>t. t ++ index_by supply_key (opt_rows (ibd_Supply data))) (
     t_params_update (\<lambda>t. t ++ index_by params_key (opt_rows (ibd_Params data))) (
     t_pool_points_by_holder_update (\<lambda>t. t ++ index_by pool_points_by_holder_key (ibd_PoolPointsByHolder data)) (
     t_dex_withdrawals_update (\<lambda>t. t ++ index_by dex_withdrawals_key (ibd_DexWithdrawals data)) (
     t_dex_deposits_update (\<lambda>t. t ++ index_by dex_deposits_key (ibd_DexDeposits data)) (
     t_dex_orders_update (\<lambda>t. t ++ index_by dex_orders_key (ibd_DexOrders data)) (
     t_dex_prices_update (\<lambda>t. t ++ index_by dex_prices_key (ibd_DexPrices data)) (
     t_orders_update (\<lambda>t. t ++ index_by orders_key (ibd_Orders data)) (
     t_pools_update (\<lambda>t. t ++ index_by pools_key (ibd_Pools data)) (
     t_validator_double_signing_info_update (\<lambda>t. t ++ index_by validator_double_signing_info_key (ibd_ValidatorDoubleSigningInfo data)) (
     t_validator_non_signing_info_update (\<lambda>t. t ++ index_by validator_non_signing_info_key (ibd_ValidatorNonSigningInfo data)) (
     t_validators_update (\<lambda>t. t ++ index_by validators_key (ibd_Validators data)) (
     t_accounts_update (\<lambda>t. t ++ index_by accounts_key (ibd_Accounts data)) (
     t_events_update (\<lambda>t. t ++ index_by events_key (ibd_Events data)) (
     t_txs_update (\<lambda>t. t ++ index_by txs_key (ibd_Transactions data)) (
     t_blocks_update (\<lambda>t. t ++ index_by blocks_key [ibd_Block data]) ( s)))))))))))))))))))"
  by (cases s) (simp add: written_def)

lemmas insert_Ok_all = insertBlock.insert_Ok insertTransactions.insert_Ok insertEvents.insert_Ok insertAccounts.insert_Ok insertValidators.insert_Ok insertValidatorNonSigningInfo.insert_Ok insertValidatorDoubleSigningInfo.insert_Ok insertPools.insert_Ok insertOrders.insert_Ok insertDexPrices.insert_Ok insertDexOrders.insert_Ok insertDexDeposits.insert_Ok insertDexWithdrawals.insert_Ok insertPoolPointsByHolder.insert_Ok insertCommittees.insert_Ok insertCommitteeValidators.insert_Ok insertCommitteePayments.insert_Ok insert_opt_Ok

lemma write_ops_Ok: "write_ops env data s = Ok s' \<Longrightarrow> s' = written data s"
  unfolding write_ops_def bind_outcome_Ok_iff wrap_error_Ok_iff
  by (elim exE conjE, (drule insert_Ok_all)+, hypsubst) (simp only: written_updates)

lemma write_ops_no_fault:
  assumes "\<And>t i. sql_statement env t i = None"
  shows "write_ops env data s = Ok (written data s)"
proof -
  note no_faults = insertBlock.insert_no_fault [OF assms]
    insertTransactions.insert_no_fault [OF assms]
    insertEvents.insert_no_fault [OF assms]
    insertAccounts.insert_no_fault [OF assms]
    insertValidators.insert_no_fault [OF assms]
    insertValidatorNonSigningInfo.insert_no_fault [OF assms]
    insertValidatorDoubleSigningInfo.insert_no_fault [OF assms]
    insertPools.insert_no_fault [OF assms]
    insertOrders.insert_no_fault [OF assms]
    insertDexPrices.insert_no_fault [OF assms]
    insertDexOrders.insert_no_fault [OF assms]
    insertDexDeposits.insert_no_fault [OF assms]
    insertDexWithdrawals.insert_no_fault [OF assms]
    insertPoolPointsByHolder.insert_no_fault [OF assms]
    insertParams.insert_no_fault [OF assms]
    insertSupply.insert_no_fault [OF assms]
    insertCommittees.insert_no_fault [OF assms]
    insertCommitteeValidators.insert_no_fault [OF assms]
    insertCommitteePayments.insert_no_fault [OF assms]
  have "\<exists>s'. write_ops env data s = Ok s'"
    unfolding write_ops_def
    by (simp add: no_faults insertSupply_single split: option.split del: InsertSupply.simps)
  then show ?thesis using write_ops_Ok by blast
qed

text \<open>Either nothing of the block is in the database or all of it is.\<close>

lemma writeBlockData_cases:
  "fst (writeBlockData env data s) = s \<or> fst (writeBlockData env data s) = written data s"
  using BeginFunc_atomic [of env "write_ops env data" s] write_ops_Ok
  by (auto simp: writeBlockData_def)

lemma writeBlockData_Ok:
  "writeBlockData env data s = (s', Ok ()) \<Longrightarrow> s' = written data s"
  by (auto simp: writeBlockData_def BeginFunc_Ok_iff dest: write_ops_Ok)

lemma writeBlockData_no_fault:
  "(\<And>t i. sql_statement env t i = None) \<Longrightarrow> sql_begin env = None \<Longrightarrow> sql_commit env = Committed \<Longrightarrow>
     writeBlockData env data s = (written data s, Ok ())"
  by (simp add: writeBlockData_def BeginFunc_Ok_iff write_ops_no_fault)

lemma write_ops_not_Panic [simp]: "write_ops env data s \<noteq> Panic"
proof -
  note no_Panic = insertBlock.insert_no_Panic
    insertTransactions.insert_no_Panic
    insertEvents.insert_no_Panic
    insertAccounts.insert_no_Panic
    insertValidators.insert_no_Panic
    insertValidatorNonSigningInfo.insert_no_Panic
    insertValidatorDoubleSigningInfo.insert_no_Panic
    insertPools.insert_no_Panic
    insertOrders.insert_no_Panic
    insertDexPrices.insert_no_Panic
    insertDexOrders.insert_no_Panic
    insertDexDeposits.insert_no_Panic
    insertDexWithdrawals.insert_no_Panic
    insertPoolPointsByHolder.insert_no_Panic
    insertParams.insert_no_Panic
    insertSupply.insert_no_Panic
    insertCommittees.insert_no_Panic
    insertCommitteeValidators.insert_no_Panic
    insertCommitteePayments.insert_no_Panic
  show ?thesis
    unfolding write_ops_def
    by (simp add: no_Panic bind_outcome_Panic_iff insertSupply_single split: option.split
        del: InsertSupply.simps)
qed

lemma written_idem: "written data (written data s) = written data s"
  by (simp add: written_def)

lemma written_block: "t_blocks (written data s) (blk_Height (ibd_Block data)) = Some (ibd_Block data)"
  by (simp add: written_def index_by_Cons blocks_key_def)

section \<open>Rows of one height\<close>

definition rows_at :: "uint64 \<Rightarrow> BlockData \<Rightarrow> bool" where
  "rows_at h data \<longleftrightarrow>
     (\<forall>r \<in> set [ibd_Block data]. id (blocks_key r) = h) \<and>
     (\<forall>r \<in> set (ibd_Transactions data). fst (txs_key r) = h) \<and>
     (\<forall>r \<in> set (ibd_Events data). fst (events_key r) = h) \<and>
     (\<forall>r \<in> set (ibd_Accounts data). snd (accounts_key r) = h) \<and>
     (\<forall>r \<in> set (ibd_Validators data). snd (validators_key r) = h) \<and>
     (\<forall>r \<in> set (ibd_ValidatorNonSigningInfo data). snd (validator_non_signing_info_key r) = h) \<and>
     (\<forall>r \<in> set (ibd_ValidatorDoubleSigningInfo data). snd (validator_double_signing_info_key r) = h) \<and>
     (\<forall>r \<in> set (ibd_Pools data). snd (pools_key r) = h) \<and>
     (\<forall>r \<in> set (ibd_Orders data). snd (orders_key r) = h) \<and>
     (\<forall>r \<in> set (ibd_DexPrices data). snd (dex_prices_key r) = h) \<and>
     (\<forall>r \<in> set (ibd_DexOrders data). snd (dex_orders_key r) = h) \<and>
     (\<forall>r \<in> set (ibd_DexDeposits data). snd (dex_deposits_key r) = h) \<and>
     (\<forall>r \<in> set (ibd_DexWithdrawals data). snd (dex_withdrawals_key r) = h) \<and>
     (\<forall>r \<in> set (ibd_PoolPointsByHolder data). snd (pool_points_by_holder_key r) = h) \<and>
     (\<forall>r \<in> set (opt_rows (ibd_Params data)). id (params_key r) = h) \<and>
     (\<forall>r \<in> set (opt_rows (ibd_Supply data)). id (supply_key r) = h) \<and>
     (\<forall>r \<in> set (map committee_db_row (ibd_Committees data)). snd (committees_key r) = h) \<and>
     (\<forall>r \<in> set (ibd_CommitteeValidators data). snd (committee_validators_key r) = h) \<and>
     (\<forall>r \<in> set (ibd_CommitteePayments data). snd (committee_payments_key r) = h)"

definition delete_where :: "('k \<Rightarrow> uint64) \<Rightarrow> (uint64 \<Rightarrow> bool) \<Rightarrow> ('k \<rightharpoonup> 'r) \<Rightarrow> ('k \<rightharpoonup> 'r)" where
  "delete_where ht P t = (\<lambda>k. if P (ht k) then None else t k)"

lemma delete_at_where: "delete_at ht h = delete_where ht (\<lambda>x. x = h)"
  by (simp add: delete_at_def delete_where_def fun_eq_iff)

lemma delete_range_where: "delete_range ht lo hi = delete_where ht (\<lambda>x. lo \<le> x \<and> x \<le> hi)"
  by (simp add: delete_range_def delete_where_def fun_eq_iff)

lemma delete_where_overlay:
  assumes "\<forall>r \<in> set rows. P (ht (key r))"
  shows "delete_where ht P (t ++ index_by key rows) = delete_where ht P t"
proof
  fix k
  show "delete_where ht P (t ++ index_by key rows) k = delete_where ht P t k"
  proof (cases "P (ht k)")
    case False
    then have "k \<notin> key ` set rows" using assms by auto
    then have "index_by key rows k = None" by (simp add: index_by_None_iff)
    then show ?thesis by (simp add: delete_where_def map_add_def)
  qed (simp add: delete_where_def)
qed

lemma delete_where_delete_where:
  "delete_where ht P (delete_where ht Q t) = delete_where ht (\<lambda>x. P x \<or> Q x) t"
  by (auto simp: delete_where_def fun_eq_iff)

lemma overlay_commute:
  assumes "\<forall>r \<in> set rows1. ht (key r) = h1" "\<forall>r \<in> set rows2. ht (key r) = h2" "h1 \<noteq> (h2 :: uint64)"
  shows "(t ++ index_by key rows1) ++ index_by key rows2 = (t ++ index_by key rows2) ++ index_by key rows1"
proof -
  have "key ` set rows1 \<inter> key ` set rows2 = {}" using assms by auto
  then have "index_by key rows1 ++ index_by key rows2 = index_by key rows2 ++ index_by key rows1"
    by (intro map_add_comm) simp
  then show ?thesis by (metis map_add_assoc)
qed

text \<open>The tables without the rows of the heights in \<open>P\<close>: what the deletes implement.\<close>

definition cleared :: "(uint64 \<Rightarrow> bool) \<Rightarrow> chain_tables \<Rightarrow> chain_tables" where
  "cleared P s = s\<lparr>
     t_blocks := delete_where id P (t_blocks s),
     t_block_summaries := delete_where id P (t_block_summaries s),
     t_txs := delete_where fst P (t_txs s),
     t_events := delete_where fst P (t_events s),
     t_accounts := delete_where snd P (t_accounts s),
     t_validators := delete_where snd P (t_validators s),
     t_validator_non_signing_info := delete_where snd P (t_validator_non_signing_info s),
     t_validator_double_signing_info := delete_where snd P (t_validator_double_signing_info s),
     t_pools := delete_where snd P (t_pools s),
     t_pool_points_by_holder := delete_where snd P (t_pool_points_by_holder s),
     t_orders := delete_where snd P (t_orders s),
     t_dex_orders := delete_where snd P (t_dex_orders s),
     t_dex_deposits := delete_where snd P (t_dex_deposits s),
     t_dex_withdrawals := delete_where snd P (t_dex_withdrawals s),
     t_dex_prices := delete_where snd P (t_dex_prices s),
     t_committees := delete_where snd P (t_committees s),
     t_committee_validators := delete_where snd P (t_committee_validators s),
     t_committee_payments := delete_where snd P (t_committee_payments s),
     t_params := delete_where id P (t_params s),
     t_supply := delete_where id P (t_supply s)\<rparr>"

lemma cleared_cleared: "cleared P (cleared Q s) = cleared (\<lambda>x. P x \<or> Q x) s"
  by (simp add: cleared_def delete_where_delete_where)

lemma cleared_written: "rows_at h data \<Longrightarrow> P h \<Longrightarrow> cleared P (written data s) = cleared P s"
  unfolding rows_at_def cleared_def written_def
  by (simp add: delete_where_overlay)

lemma written_simps:
  "t_blocks (written data s) = t_blocks s ++ index_by blocks_key [ibd_Block data]"
  "t_txs (written data s) = t_txs s ++ index_by txs_key (ibd_Transactions data)"
  "t_events (written data s) = t_events s ++ index_by events_key (ibd_Events data)"
  "t_accounts (written data s) = t_accounts s ++ index_by accounts_key (ibd_Accounts data)"
  "t_validators (written data s) = t_validators s ++ index_by validators_key (ibd_Validators data)"
  "t_validator_non_signing_info (written data s) = t_validator_non_signing_info s ++ index_by validator_non_signing_info_key (ibd_ValidatorNonSigningInfo data)"
  "t_validator_double_signing_info (written data s) = t_validator_double_signing_info s ++ index_by validator_double_signing_info_key (ibd_ValidatorDoubleSigningInfo data)"
  "t_pools (written data s) = t_pools s ++ index_by pools_key (ibd_Pools data)"
  "t_orders (written data s) = t_orders s ++ index_by orders_key (ibd_Orders data)"
  "t_dex_prices (written data s) = t_dex_prices s ++ index_by dex_prices_key (ibd_DexPrices data)"
  "t_dex_orders (written data s) = t_dex_orders s ++ index_by dex_orders_key (ibd_DexOrders data)"
  "t_dex_deposits (written data s) = t_dex_deposits s ++ index_by dex_deposits_key (ibd_DexDeposits data)"
  "t_dex_withdrawals (written data s) = t_dex_withdrawals s ++ index_by dex_withdrawals_key (ibd_DexWithdrawals data)"
  "t_pool_points_by_holder (written data s) = t_pool_points_by_holder s ++ index_by pool_points_by_holder_key (ibd_PoolPointsByHolder data)"
  "t_params (written data s) = t_params s ++ index_by params_key (opt_rows (ibd_Params data))"
  "t_supply (written data s) = t_supply s ++ index_by supply_key (opt_rows (ibd_Supply data))"
  "t_committees (written data s) = t_committees s ++ index_by committees_key (map committee_db_row (ibd_Committees data))"
  "t_committee_validators (written data s) = t_committee_validators s ++ index_by committee_validators_key (ibd_CommitteeValidators data)"
  "t_committee_payments (written data s) = t_committee_payments s ++ index_by committee_payments_key (ibd_CommitteePayments data)"
  "t_block_summaries (written data s) = t_block_summaries s"
  "t_poll_snapshots (written data s) = t_poll_snapshots s"
  "t_proposal_snapshots (written data s) = t_proposal_snapshots s"
  "chain_tables.more (written data s) = chain_tables.more s"
  by (simp_all add: written_def)

lemma rows_atD:
  assumes "rows_at h data"
  shows "\<forall>r \<in> set [ibd_Block data]. id (blocks_key r) = h"
    "\<forall>r \<in> set (ibd_Transactions data). fst (txs_key r) = h"
    "\<forall>r \<in> set (ibd_Events data). fst (events_key r) = h"
    "\<forall>r \<in> set (ibd_Accounts data). snd (accounts_key r) = h"
    "\<forall>r \<in> set (ibd_Validators data). snd (validators_key r) = h"
    "\<forall>r \<in> set (ibd_ValidatorNonSigningInfo data). snd (validator_non_signing_info_key r) = h"
    "\<forall>r \<in> set (ibd_ValidatorDoubleSigningInfo data). snd (validator_double_signing_info_key r) = h"
    "\<forall>r \<in> set (ibd_Pools data). snd (pools_key r) = h"
    "\<forall>r \<in> set (ibd_Orders data). snd (orders_key r) = h"
    "\<forall>r \<in> set (ibd_DexPrices data). snd (dex_prices_key r) = h"
    "\<forall>r \<in> set (ibd_DexOrders data). snd (dex_orders_key r) = h"
    "\<forall>r \<in> set (ibd_DexDeposits data). snd (dex_deposits_key r) = h"
    "\<forall>r \<in> set (ibd_DexWithdrawals data). snd (dex_withdrawals_key r) = h"
    "\<forall>r \<in> set (ibd_PoolPointsByHolder data). snd (pool_points_by_holder_key r) = h"
    "\<forall>r \<in> set (opt_rows (ibd_Params data)). id (params_key r) = h"
    "\<forall>r \<in> set (opt_rows (ibd_Supply data)). id (supply_key r) = h"
    "\<forall>r \<in> set (map committee_db_row (ibd_Committees data)). snd (committees_key r) = h"
    "\<forall>r \<in> set (ibd_CommitteeValidators data). snd (committee_validators_key r) = h"
    "\<forall>r \<in> set (ibd_CommitteePayments data). snd (committee_payments_key r) = h"
  using assms unfolding rows_at_def by - (elim conjE, assumption)+

lemma written_commute:
  assumes "rows_at h1 d1" "rows_at h2 d2" "h1 \<noteq> h2"
  shows "written d1 (written d2 s) = written d2 (written d1 s)"
proof -
  have ne: "h2 \<noteq> h1" using assms(3) by simp
  note c =
    overlay_commute [where ht = id and key = blocks_key, OF rows_atD(1) [OF assms(2)] rows_atD(1) [OF assms(1)] ne]
    overlay_commute [where ht = fst and key = txs_key, OF rows_atD(2) [OF assms(2)] rows_atD(2) [OF assms(1)] ne]
    overlay_commute [where ht = fst and key = events_key, OF rows_atD(3) [OF assms(2)] rows_atD(3) [OF assms(1)] ne]
    overlay_commute [where ht = snd and key = accounts_key, OF rows_atD(4) [OF assms(2)] rows_atD(4) [OF assms(1)] ne]
    overlay_commute [where ht = snd and key = validators_key, OF rows_atD(5) [OF assms(2)] rows_atD(5) [OF assms(1)] ne]
    overlay_commute [where ht = snd and key = validator_non_signing_info_key, OF rows_atD(6) [OF assms(2)] rows_atD(6) [OF assms(1)] ne]
    overlay_commute [where ht = snd and key = validator_double_signing_info_key, OF rows_atD(7) [OF assms(2)] rows_atD(7) [OF assms(1)] ne]
    overlay_commute [where ht = snd and key = pools_key, OF rows_atD(8) [OF assms(2)] rows_atD(8) [OF assms(1)] ne]
    overlay_commute [where ht = snd and key = orders_key, OF rows_atD(9) [OF assms(2)] rows_atD(9) [OF assms(1)] ne]
    overlay_commute [where ht = snd and key = dex_prices_key, OF rows_atD(10) [OF assms(2)] rows_atD(10) [OF assms(1)] ne]
    overlay_commute [where ht = snd and key = dex_orders_key, OF rows_atD(11) [OF assms(2)] rows_atD(11) [OF assms(1)] ne]
    overlay_commute [where ht = snd and key = dex_deposits_key, OF rows_atD(12) [OF assms(2)] rows_atD(12) [OF assms(1)] ne]
    overlay_commute [where ht = snd and key = dex_withdrawals_key, OF rows_atD(13) [OF assms(2)] rows_atD(13) [OF assms(1)] ne]
    overlay_commute [where ht = snd and key = pool_points_by_holder_key, OF rows_atD(14) [OF assms(2)] rows_atD(14) [OF assms(1)] ne]
    overlay_commute [where ht = id and key = params_key, OF rows_atD(15) [OF assms(2)] rows_atD(15) [OF assms(1)] ne]
    overlay_commute [where ht = id and key = supply_key, OF rows_atD(16) [OF assms(2)] rows_atD(16) [OF assms(1)] ne]
    overlay_commute [where ht = snd and key = committees_key, OF rows_atD(17) [OF assms(2)] rows_atD(17) [OF assms(1)] ne]
    overlay_commute [where ht = snd and key = committee_validators_key, OF rows_atD(18) [OF assms(2)] rows_atD(18) [OF assms(1)] ne]
    overlay_commute [where ht = snd and key = committee_payments_key, OF rows_atD(19) [OF assms(2)] rows_atD(19) [OF assms(1)] ne]
  show ?thesis
    by (intro chain_tables.equality) (simp_all only: written_simps c unit_eq)
qed

section \<open>What the deletes do\<close>

lemma delete_updates:
  "s\<lparr>t_events := delete_at fst h (t_events s)\<rparr> = t_events_update (delete_where fst (\<lambda>x. x = h)) s"
  "s\<lparr>t_txs := delete_at fst h (t_txs s)\<rparr> = t_txs_update (delete_where fst (\<lambda>x. x = h)) s"
  "s\<lparr>t_accounts := delete_at snd h (t_accounts s)\<rparr> = t_accounts_update (delete_where snd (\<lambda>x. x = h)) s"
  "s\<lparr>t_validators := delete_at snd h (t_validators s)\<rparr> = t_validators_update (delete_where snd (\<lambda>x. x = h)) s"
  "s\<lparr>t_validator_non_signing_info := delete_at snd h (t_validator_non_signing_info s)\<rparr> = t_validator_non_signing_info_update (delete_where snd (\<lambda>x. x = h)) s"
  "s\<lparr>t_validator_double_signing_info := delete_at snd h (t_validator_double_signing_info s)\<rparr> = t_validator_double_signing_info_update (delete_where snd (\<lambda>x. x = h)) s"
  "s\<lparr>t_pools := delete_at snd h (t_pools s)\<rparr> = t_pools_update (delete_where snd (\<lambda>x. x = h)) s"
  "s\<lparr>t_pool_points_by_holder := delete_at snd h (t_pool_points_by_holder s)\<rparr> = t_pool_points_by_holder_update (delete_where snd (\<lambda>x. x = h)) s"
  "s\<lparr>t_orders := delete_at snd h (t_orders s)\<rparr> = t_orders_update (delete_where snd (\<lambda>x. x = h)) s"
  "s\<lparr>t_dex_orders := delete_at snd h (t_dex_orders s)\<rparr> = t_dex_orders_update (delete_where snd (\<lambda>x. x = h)) s"
  "s\<lparr>t_dex_deposits := delete_at snd h (t_dex_deposits s)\<rparr> = t_dex_deposits_update (delete_where snd (\<lambda>x. x = h)) s"
  "s\<lparr>t_dex_withdrawals := delete_at snd h (t_dex_withdrawals s)\<rparr> = t_dex_withdrawals_update (delete_where snd (\<lambda>x. x = h)) s"
  "s\<lparr>t_dex_prices := delete_at snd h (t_dex_prices s)\<rparr> = t_dex_prices_update (delete_where snd (\<lambda>x. x = h)) s"
  "s\<lparr>t_committees := delete_at snd h (t_committees s)\<rparr> = t_committees_update (delete_where snd (\<lambda>x. x = h)) s"
  "s\<lparr>t_committee_validators := delete_at snd h (t_committee_validators s)\<rparr> = t_committee_validators_update (delete_where snd (\<lambda>x. x = h)) s"
  "s\<lparr>t_committee_payments := delete_at snd h (t_committee_payments s)\<rparr> = t_committee_payments_update (delete_where snd (\<lambda>x. x = h)) s"
  "s\<lparr>t_params := delete_at id h (t_params s)\<rparr> = t_params_update (delete_where id (\<lambda>x. x = h)) s"
  "s\<lparr>t_supply := delete_at id h (t_supply s)\<rparr> = t_supply_update (delete_where id (\<lambda>x. x = h)) s"
  "s\<lparr>t_block_summaries := delete_at id h (t_block_summaries s)\<rparr> = t_block_summaries_update (delete_where id (\<lambda>x. x = h)) s"
  "s\<lparr>t_blocks := delete_at id h (t_blocks s)\<rparr> = t_blocks_update (delete_where id (\<lambda>x. x = h)) s"
  "s\<lparr>t_events := delete_range fst lo hi (t_events s)\<rparr> = t_events_update (delete_where fst (\<lambda>x. lo \<le> x \<and> x \<le> hi)) s"
  "s\<lparr>t_txs := delete_range fst lo hi (t_txs s)\<rparr> = t_txs_update (delete_where fst (\<lambda>x. lo \<le> x \<and> x \<le> hi)) s"
  "s\<lparr>t_accounts := delete_range snd lo hi (t_accounts s)\<rparr> = t_accounts_update (delete_where snd (\<lambda>x. lo \<le> x \<and> x \<le> hi)) s"
  "s\<lparr>t_validators := delete_range snd lo hi (t_validators s)\<rparr> = t_validators_update (delete_where snd (\<lambda>x. lo \<le> x \<and> x \<le> hi)) s"
  "s\<lparr>t_validator_non_signing_info := delete_range snd lo hi (t_validator_non_signing_info s)\<rparr> = t_validator_non_signing_info_update (delete_where snd (\<lambda>x. lo \<le> x \<and> x \<le> hi)) s"
  "s\<lparr>t_validator_double_signing_info := delete_range snd lo hi (t_validator_double_signing_info s)\<rparr> = t_validator_double_signing_info_update (delete_where snd (\<lambda>x. lo \<le> x \<and> x \<le> hi)) s"
  "s\<lparr>t_pools := delete_range snd lo hi (t_pools s)\<rparr> = t_pools_update (delete_where snd (\<lambda>x. lo \<le> x \<and> x \<le> hi)) s"
  "s\<lparr>t_pool_points_by_holder := delete_range snd lo hi (t_pool_points_by_holder s)\<rparr> = t_pool_points_by_holder_update (delete_where snd (\<lambda>x. lo \<le> x \<and> x \<le> hi)) s"
  "s\<lparr>t_orders := delete_range snd lo hi (t_orders s)\<rparr> = t_orders_update (delete_where snd (\<lambda>x. lo \<le> x \<and> x \<le> hi)) s"
  "s\<lparr>t_dex_orders := delete_range snd lo hi (t_dex_orders s)\<rparr> = t_dex_orders_update (delete_where snd (\<lambda>x. lo \<le> x \<and> x \<le> hi)) s"
  "s\<lparr>t_dex_deposits := delete_range snd lo hi (t_dex_deposits s)\<rparr> = t_dex_deposits_update (delete_where snd (\<lambda>x. lo \<le> x \<and> x \<le> hi)) s"
  "s\<lparr>t_dex_withdrawals := delete_range snd lo hi (t_dex_withdrawals s)\<rparr> = t_dex_withdrawals_update (delete_where snd (\<lambda>x. lo \<le> x \<and> x \<le> hi)) s"
  "s\<lparr>t_dex_prices := delete_range snd lo hi (t_dex_prices s)\<rparr> = t_dex_prices_update (delete_where snd (\<lambda>x. lo \<le> x \<and> x \<le> hi)) s"
  "s\<lparr>t_committees := delete_range snd lo hi (t_committees s)\<rparr> = t_committees_update (delete_where snd (\<lambda>x. lo \<le> x \<and> x \<le> hi)) s"
  "s\<lparr>t_committee_validators := delete_range snd lo hi (t_committee_validators s)\<rparr> = t_committee_validators_update (delete_where snd (\<lambda>x. lo \<le> x \<and> x \<le> hi)) s"
  "s\<lparr>t_committee_payments := delete_range snd lo hi (t_committee_payments s)\<rparr> = t_committee_payments_update (delete_where snd (\<lambda>x. lo \<le> x \<and> x \<le> hi)) s"
  "s\<lparr>t_params := delete_range id lo hi (t_params s)\<rparr> = t_params_update (delete_where id (\<lambda>x. lo \<le> x \<and> x \<le> hi)) s"
  "s\<lparr>t_supply := delete_range id lo hi (t_supply s)\<rparr> = t_supply_update (delete_where id (\<lambda>x. lo \<le> x \<and> x \<le> hi)) s"
  "s\<lparr>t_block_summaries := delete_range id lo hi (t_block_summaries s)\<rparr> = t_block_summaries_update (delete_where id (\<lambda>x. lo \<le> x \<and> x \<le> hi)) s"
  "s\<lparr>t_blocks := delete_range id lo hi (t_blocks s)\<rparr> = t_blocks_update (delete_where id (\<lambda>x. lo \<le> x \<and> x \<le> hi)) s"
  by (simp_all add: delete_at_where delete_range_where chain_tables.splits)

lemma cleared_updates:
  "cleared P s =
     t_blocks_update (delete_where id P) (
     t_block_summaries_update (delete_where id P) (
     t_supply_update (delete_where id P) (
     t_params_update (delete_where id P) (
     t_committee_payments_update (delete_where snd P) (
     t_committee_validators_update (delete_where snd P) (
     t_committees_update (delete_where snd P) (
     t_dex_prices_update (delete_where snd P) (
     t_dex_withdrawals_update (delete_where snd P) (
     t_dex_deposits_update (delete_where snd P) (
     t_dex_orders_update (delete_where snd P) (
     t_orders_update (delete_where snd P) (
     t_pool_points_by_holder_update (delete_where snd P) (
     t_pools_update (delete_where snd P) (
     t_validator_double_signing_info_update (delete_where snd P) (
     t_validator_non_signing_info_update (delete_where snd P) (
     t_validators_update (delete_where snd P) (
     t_accounts_update (delete_where snd P) (
     t_txs_update (delete_where fst P) (
     t_events_update (delete_where fst P) ( s))))))))))))))))))))"
  by (cases s) (simp add: cleared_def)

lemma delete_stmt_Ok_iff: "delete_stmt fault f s = Ok s' \<longleftrightarrow> fault = None \<and> s' = f s"
  by (auto simp: delete_stmt_def split: option.split)

lemma delete_stmt_None: "delete_stmt None f s = Ok (f s)"
  by (simp add: delete_stmt_def)

lemma delete_stmt_not_Panic: "delete_stmt fault f s \<noteq> Panic"
  by (simp add: delete_stmt_def split: option.split)

lemmas delete_defs = deleteEventsAtHeight_def
  deleteTransactionsAtHeight_def
  deleteAccountsAtHeight_def
  deleteValidatorsAtHeight_def
  deleteValidatorNonSigningInfoAtHeight_def
  deleteValidatorDoubleSigningInfoAtHeight_def
  deletePoolsAtHeight_def
  deletePoolPointsByHolderAtHeight_def
  deleteOrdersAtHeight_def
  deleteDexOrdersAtHeight_def
  deleteDexDepositsAtHeight_def
  deleteDexWithdrawalsAtHeight_def
  deleteDexPricesAtHeight_def
  deleteCommitteesAtHeight_def
  deleteCommitteeValidatorsAtHeight_def
  deleteCommitteePaymentsAtHeight_def
  deleteParamsAtHeight_def
  deleteSupplyAtHeight_def
  deleteBlockSummariesAtHeight_def
  deleteBlocksAtHeight_def

lemma run_deletes_Ok:
  "run_deletes msg (delete_funcs env h) s = Ok s' \<Longrightarrow> s' = cleared (\<lambda>x. x = h) s"
  unfolding delete_funcs_def run_deletes.simps bind_outcome_Ok_iff wrap_error_Ok_iff delete_defs
    delete_stmt_Ok_iff delete_updates
  by (elim exE conjE, hypsubst) (simp add: cleared_updates)

lemma run_range_Ok:
  "run_deletes msg (range_funcs env lo hi) s = Ok s' \<Longrightarrow> s' = cleared (\<lambda>x. lo \<le> x \<and> x \<le> hi) s"
  unfolding range_funcs_def run_deletes.simps bind_outcome_Ok_iff wrap_error_Ok_iff
    delete_stmt_Ok_iff delete_updates
  by (elim exE conjE, hypsubst) (simp add: cleared_updates)

lemma run_deletes_no_fault:
  assumes "\<And>t i. sql_statement env t i = None"
  shows "run_deletes msg (delete_funcs env h) s = Ok (cleared (\<lambda>x. x = h) s)"
    and "run_deletes msg (range_funcs env lo hi) s = Ok (cleared (\<lambda>x. lo \<le> x \<and> x \<le> hi) s)"
  by (simp_all only: delete_funcs_def range_funcs_def run_deletes.simps delete_defs assms delete_stmt_None
      delete_updates cleared_updates wrap_error.simps bind_outcome.simps)

lemma DeleteAllAtHeight_cases:
  "fst (DeleteAllAtHeight env h s) = s \<or> fst (DeleteAllAtHeight env h s) = cleared (\<lambda>x. x = h) s"
  unfolding DeleteAllAtHeight_def
  by (rule disjE [OF BeginFunc_atomic]) (blast dest: run_deletes_Ok)+

lemma DeleteAllAtHeight_Ok:
  "DeleteAllAtHeight env h s = (s', Ok ()) \<Longrightarrow> s' = cleared (\<lambda>x. x = h) s"
  by (auto simp: DeleteAllAtHeight_def BeginFunc_Ok_iff dest: run_deletes_Ok)

lemma DeleteBlockRange_Ok:
  "DeleteBlockRange env lo hi s = (s', Ok ()) \<Longrightarrow> lo \<le> hi \<and> s' = cleared (\<lambda>x. lo \<le> x \<and> x \<le> hi) s"
  by (auto simp: DeleteBlockRange_def BeginFunc_Ok_iff not_less split: if_splits dest: run_range_Ok)

lemma DeleteAllAtHeight_no_fault:
  "(\<And>t i. sql_statement env t i = None) \<Longrightarrow> sql_begin env = None \<Longrightarrow> sql_commit env = Committed \<Longrightarrow>
     DeleteAllAtHeight env h s = (cleared (\<lambda>x. x = h) s, Ok ())"
  by (simp add: DeleteAllAtHeight_def BeginFunc_Ok_iff run_deletes_no_fault)

lemma DeleteBlockRange_no_fault:
  "(\<And>t i. sql_statement env t i = None) \<Longrightarrow> sql_begin env = None \<Longrightarrow> sql_commit env = Committed \<Longrightarrow>
     lo \<le> hi \<Longrightarrow> DeleteBlockRange env lo hi s = (cleared (\<lambda>x. lo \<le> x \<and> x \<le> hi) s, Ok ())"
  by (simp add: DeleteBlockRange_def BeginFunc_Ok_iff run_deletes_no_fault)

end
