(* ===== verification/Queue.thy ===== *)
theory Queue
  imports Prelude
begin

unbundle bit_operations_syntax

text \<open>
  The message of the block queue (internal/publisher/publisher.go, internal/worker/worker.go): 16 bytes,
  the chain id and the height as big-endian 64-bit words (\<open>encoding/binary\<close>). The queue itself, a Redis
  stream, is the list of the payloads published to it.
\<close>

definition PutUint64 :: "uint64 \<Rightarrow> bytes" where
  "PutUint64 v = [ucast (drop_bit 56 v), ucast (drop_bit 48 v), ucast (drop_bit 40 v), ucast (drop_bit 32 v),
     ucast (drop_bit 24 v), ucast (drop_bit 16 v), ucast (drop_bit 8 v), ucast v]"

definition Uint64 :: "bytes \<Rightarrow> uint64" where
  "Uint64 b = ucast (b ! 7) OR push_bit 8 (ucast (b ! 6)) OR push_bit 16 (ucast (b ! 5)) OR
     push_bit 24 (ucast (b ! 4)) OR push_bit 32 (ucast (b ! 3)) OR push_bit 40 (ucast (b ! 2)) OR
     push_bit 48 (ucast (b ! 1)) OR push_bit 56 (ucast (b ! 0))"

lemma length_PutUint64 [simp]: "length (PutUint64 v) = 8"
  by (simp add: PutUint64_def)

lemma byte_split:
  assumes "n < 64"
  shows "n < 8 \<or> (8 \<le> n \<and> n < 16) \<or> (16 \<le> n \<and> n < 24) \<or> (24 \<le> n \<and> n < 32) \<or> (32 \<le> n \<and> n < 40) \<or>
    (40 \<le> n \<and> n < 48) \<or> (48 \<le> n \<and> n < 56) \<or> (56 \<le> n \<and> n < (64 :: nat))"
  using assms by arith

lemma bit_byte:
  "bit (push_bit k (ucast (ucast (drop_bit k v) :: byte)) :: uint64) n \<longleftrightarrow> n < 64 \<and> k \<le> n \<and> n < k + 8 \<and> bit v n"
  for v :: uint64
  by (auto simp: bit_simps)

lemmas bit_bytes = bit_byte [of 56] bit_byte [of 48] bit_byte [of 40] bit_byte [of 32] bit_byte [of 24]
  bit_byte [of 16] bit_byte [of 8] bit_byte [of 0]

lemma Uint64_PutUint64 [simp]: "Uint64 (PutUint64 v) = v"
proof (rule bit_word_eqI)
  fix n assume "n < LENGTH(64)"
  then have n: "n < 64" by simp
  have bytes: "Uint64 (PutUint64 v) = push_bit 0 (ucast (ucast (drop_bit 0 v) :: byte)) OR
      push_bit 8 (ucast (ucast (drop_bit 8 v) :: byte)) OR push_bit 16 (ucast (ucast (drop_bit 16 v) :: byte)) OR
      push_bit 24 (ucast (ucast (drop_bit 24 v) :: byte)) OR push_bit 32 (ucast (ucast (drop_bit 32 v) :: byte)) OR
      push_bit 40 (ucast (ucast (drop_bit 40 v) :: byte)) OR push_bit 48 (ucast (ucast (drop_bit 48 v) :: byte)) OR
      push_bit 56 (ucast (ucast (drop_bit 56 v) :: byte))"
    by (simp add: Uint64_def PutUint64_def)
  show "bit (Uint64 (PutUint64 v)) n \<longleftrightarrow> bit v n"
    unfolding bytes bit_or_iff bit_bytes using byte_split [OF n] n by (elim disjE) simp_all
qed

text \<open>\<open>PublishBlock\<close>: the payload, and the stream after publishing; the publisher's own failure is a
  parameter.\<close>

definition block_payload :: "uint64 \<Rightarrow> uint64 \<Rightarrow> bytes" where
  "block_payload chainID height = PutUint64 chainID @ PutUint64 height"

definition PublishBlock ::
  "go_error option \<Rightarrow> uint64 \<Rightarrow> uint64 \<Rightarrow> bytes list \<Rightarrow> bytes list \<times> unit outcome" where
  "PublishBlock fault chainID height stream =
     (let payload = block_payload chainID height
      in case fault of
           Some err \<Rightarrow> (stream, Fail err)
         | None \<Rightarrow> (stream @ [payload], Ok ()))"

text \<open>What the worker reads off a payload; None is the invalid payload it acknowledges and drops.\<close>

definition decode_payload :: "bytes \<Rightarrow> (uint64 \<times> uint64) option" where
  "decode_payload payload =
     (if length payload < 16 then None
      else Some (Uint64 (take 8 payload), Uint64 (take 8 (drop 8 payload))))"

lemma decode_block_payload [simp]: "decode_payload (block_payload c h) = Some (c, h)"
  by (simp add: decode_payload_def block_payload_def)

end
