(* ===== verification/Indexer.thy ===== *)
theory Indexer
  imports Complex_Main "HOL-Library.AList" ChainStore Queue
begin

text \<open>
  Indexing one block (internal/indexer/indexer.go): \<open>IndexBlockWithData\<close> checks the registry of chains
  and the blocks table, converts the block, writes it in one transaction, inserts its summary, records
  the progress and publishes the height; \<open>IndexBlock\<close> fetches and decodes the blob first. The outside
  world is a parameter of each run: \<open>index_env\<close> holds what the databases, the clock and Redis do,
  \<open>fetch\<close> what the RPC client returned. The chain registry's own operations are in the theory Registry.
\<close>

section \<open>State\<close>

text \<open>\<open>chain.DB\<close>: the handle of a chain's schema.\<close>

record chain_DB =
  cdb_Name :: string
  cdb_Schema :: string
  cdb_ChainID :: uint64

text \<open>A row of the admin table \<open>index_progress\<close> (Go's float64 as a real; the durations stored are whole
  milliseconds).\<close>

record progress_row =
  ipr_IndexedAt :: time
  ipr_IndexingTime :: real
  ipr_IndexingTimeMs :: real
  ipr_IndexingDetail :: string

text \<open>The fields of \<open>Indexer\<close> that indexing uses, and the stores behind them: the chains' schemas, the
  index progress table of the admin database (its rows by primary key) and the Redis stream. An RPC client is known by its
  endpoints. Listener bookkeeping belongs to the registry.\<close>

record indexer_state =
  idx_rpcClients :: "uint64 \<rightharpoonup> string list"
  idx_chains :: "uint64 \<rightharpoonup> chain_DB"
  idx_publisher :: bool
  db_chain :: "uint64 \<Rightarrow> chain_tables"
  db_progress :: "((uint64 \<times> uint64) \<times> progress_row) list"
  redis_stream :: "bytes list"

record index_env =
  env_has :: sql_env
  env_write :: sql_env
  env_summary :: sql_env
  env_progress :: "go_error option"
  env_publish :: "go_error option"
  env_elapsed_ms :: int
  env_now :: time

definition env_ok :: index_env where
  "env_ok = \<lparr>env_has = sql_ok, env_write = sql_ok, env_summary = sql_ok, env_progress = None,
     env_publish = None, env_elapsed_ms = 0, env_now = 0\<rparr>"

section \<open>Operations\<close>

definition rpcForChain :: "uint64 \<Rightarrow> indexer_state \<Rightarrow> (string list) outcome" where
  "rpcForChain chainID st =
     (case idx_rpcClients st chainID of
        None \<Rightarrow> Fail (Errorf (''no RPC client configured for chain '' @ FormatUint chainID))
      | Some client \<Rightarrow> Ok client)"

definition SetRPCClient :: "uint64 \<Rightarrow> string list \<Rightarrow> indexer_state \<Rightarrow> indexer_state" where
  "SetRPCClient chainID client st = st\<lparr>idx_rpcClients := (idx_rpcClients st)(chainID \<mapsto> client)\<rparr>"

definition buildBlockSummary :: "sql_env \<Rightarrow> BlockData \<Rightarrow> chain_tables \<Rightarrow> chain_tables outcome" where
  "buildBlockSummary env data s = insertBlockSummary env (summarize data) s"

definition RecordIndexed ::
  "go_error option \<Rightarrow> time \<Rightarrow> uint64 \<Rightarrow> uint64 \<Rightarrow> real \<Rightarrow> string \<Rightarrow> indexer_state \<Rightarrow>
   indexer_state \<times> unit outcome" where
  "RecordIndexed fault now chainID height ms detail st =
     (case fault of
        Some err \<Rightarrow> (st, Fail err)
      | None \<Rightarrow> (st\<lparr>db_progress := AList.update (chainID, height)
                     \<lparr>ipr_IndexedAt = now, ipr_IndexingTime = ms / 1000, ipr_IndexingTimeMs = ms,
                      ipr_IndexingDetail = detail\<rparr> (db_progress st)\<rparr>, Ok ()))"

definition updateProgress ::
  "index_env \<Rightarrow> uint64 \<Rightarrow> uint64 \<Rightarrow> indexer_state \<Rightarrow> indexer_state \<times> unit outcome" where
  "updateProgress env chainID height st =
     RecordIndexed (env_progress env) (env_now env) chainID height
       (real_of_int (env_elapsed_ms env)) ''indexed'' st"

text \<open>The tables of one chain replaced.\<close>

definition set_chain :: "uint64 \<Rightarrow> chain_tables \<Rightarrow> indexer_state \<Rightarrow> indexer_state" where
  "set_chain c t st = st\<lparr>db_chain := (db_chain st)(c := t)\<rparr>"

text \<open>After the writes: progress and publishing, whose errors are only logged.\<close>

definition finish_block :: "index_env \<Rightarrow> uint64 \<Rightarrow> uint64 \<Rightarrow> indexer_state \<Rightarrow> indexer_state" where
  "finish_block env chainID height st =
     (let (st, _) = updateProgress env chainID height st
      in if idx_publisher st then
           (let (stream, _) = PublishBlock (env_publish env) chainID height (redis_stream st)
            in st\<lparr>redis_stream := stream\<rparr>)
         else st)"

definition IndexBlockWithData ::
  "'m canopy_lib \<Rightarrow> index_env \<Rightarrow> 'm blob_BlockData option \<Rightarrow> indexer_state \<Rightarrow> indexer_state \<times> unit outcome" where
  "IndexBlockWithData cl env data_ptr st =
     (case data_ptr of
        None \<Rightarrow> (st, Fail (Errorf ''block data is nil''))
      | Some data \<Rightarrow>
     (case idx_chains st (bd_ChainID data) of
        None \<Rightarrow> (st, Fail ErrChainNotConfigured)
      | Some db \<Rightarrow>
     (case HasBlock (env_has env) (bd_Height data) (db_chain st (cdb_ChainID db)) of
        Fail err \<Rightarrow> (st, Fail (WrapErr ''check if block exists'' err))
      | Panic \<Rightarrow> (st, Panic)
      | Ok True \<Rightarrow> (st, Ok ())
      | Ok False \<Rightarrow>
     (case convertToBlockData cl data [] of
        Fail err \<Rightarrow> (st, Fail err)
      | Panic \<Rightarrow> (st, Panic)
      | Ok blockData \<Rightarrow>
     (case writeBlockData (env_write env) blockData (db_chain st (cdb_ChainID db)) of
        (t, Fail err) \<Rightarrow> (set_chain (cdb_ChainID db) t st, Fail (WrapErr ''write data'' err))
      | (t, Panic) \<Rightarrow> (set_chain (cdb_ChainID db) t st, Panic)
      | (t, Ok _) \<Rightarrow>
     (case buildBlockSummary (env_summary env) blockData t of
        Fail err \<Rightarrow> (set_chain (cdb_ChainID db) t st, Fail (WrapErr ''build block summary'' err))
      | Panic \<Rightarrow> (set_chain (cdb_ChainID db) t st, Panic)
      | Ok t' \<Rightarrow>
          (finish_block env (bd_ChainID data) (bd_Height data) (set_chain (cdb_ChainID db) t' st),
           Ok ())))))))"

definition IndexBlock ::
  "'m canopy_lib \<Rightarrow> index_env \<Rightarrow> (uint64 \<Rightarrow> go_error + fsm_IndexerBlobs) \<Rightarrow> uint64 \<Rightarrow> uint64 \<Rightarrow>
   indexer_state \<Rightarrow> indexer_state \<times> unit outcome" where
  "IndexBlock cl env fetch chainID height st =
     (case rpcForChain chainID st of
        Fail err \<Rightarrow> (st, Fail err)
      | Panic \<Rightarrow> (st, Panic)
      | Ok rpcClient \<Rightarrow>
     (case fetch height of
        Inl err \<Rightarrow> (st, Fail (WrapErr ''fetch blob'' err))
      | Inr blobs \<Rightarrow>
     (case Decode (lib_blob_codec cl) (Some blobs) chainID of
        Fail err \<Rightarrow> (st, Fail (WrapErr ''decode blob'' err))
      | Panic \<Rightarrow> (st, Panic)
      | Ok data \<Rightarrow> IndexBlockWithData cl env (Some data) st)))"

section \<open>The rows of a converted block carry its height\<close>

lemma diff_rows_allI:
  "(\<And>prev c. P (row prev c)) \<Longrightarrow> \<forall>r \<in> set (diff_rows key changed row cur previous). P r"
  by (auto simp: in_diff_rows)

lemma heights_snapshots:
  "\<forall>r \<in> set (ConvertAccountsWithChangeDetection c p h t). acct_Height r = h"
  "\<forall>r \<in> set (ConvertOrdersWithChangeDetection c1 p1 h t). ord_Height r = h"
  "\<forall>r \<in> set (ConvertDexPricesWithChangeDetection c2 p2 h t). dpx_Height r = h"
  "\<forall>r \<in> set (ConvertCommitteesWithChangeDetection c3 p3 h t). cmt_Height r = h"
  "\<forall>r \<in> set (convertPools c4 p4 h t). pol_Height r = h"
  "\<forall>r \<in> set (ConvertPoolPointsWithChangeDetection c5 p5 h t). pph_Height r = h"
  unfolding ConvertAccounts_diff ConvertOrders_diff ConvertDexPrices_diff ConvertCommittees_diff
    convertPools_diff ConvertPoolPoints_diff
  by (rule diff_rows_allI, simp add: account_row_def order_row_def dex_price_row_def committee_row_def
      pool_row_def pool_with_deltas_def pool_row0_def pool_points_row_def Let_def split: option.split)+

lemma signer_row_heights [simp]:
  "vns_Height (non_signer_row h t n x) = h" "vds_Height (double_signer_row h t hs y) = h"
  by (simp_all add: non_signer_row_def double_signer_row_def)

lemma heights_validators:
  "\<forall>r \<in> set (fst (ConvertValidatorsWithChangeDetection et c p ev subs rets h t)). vld_Height r = h"
  "\<forall>r \<in> set (snd (ConvertValidatorsWithChangeDetection et c p ev subs rets h t)). cmv_Height r = h"
  "\<forall>r \<in> set (ConvertNonSignersWithChangeDetection c1 p1 h t). vns_Height r = h"
  "\<forall>r \<in> set (ConvertDoubleSignersWithChangeDetection c2 p2 h t). vds_Height r = h"
proof -
  show "\<forall>r \<in> set (fst (ConvertValidatorsWithChangeDetection et c p ev subs rets h t)). vld_Height r = h"
    unfolding ConvertValidators_diff by (rule diff_rows_allI) (simp add: validator_row_def)
  show "\<forall>r \<in> set (snd (ConvertValidatorsWithChangeDetection et c p ev subs rets h t)). cmv_Height r = h"
    by (auto simp: in_ConvertValidators_committees committee_validator_row_def)
  show "\<forall>r \<in> set (ConvertNonSignersWithChangeDetection c1 p1 h t). vns_Height r = h"
    unfolding ConvertNonSigners_counter by (auto simp: non_signers.in_counter_rows)
  show "\<forall>r \<in> set (ConvertDoubleSignersWithChangeDetection c2 p2 h t). vds_Height r = h"
    unfolding ConvertDoubleSigners_counter by (auto simp: double_signers.in_counter_rows)
qed

lemma heights_dex:
  "\<forall>r \<in> set (ConvertDexOrdersWithStateMachine dc data). dxo_Height r = bd_Height data"
  "\<forall>r \<in> set (ConvertDexDepositsWithStateMachine dc data). dxd_Height r = bd_Height data"
  "\<forall>r \<in> set (ConvertDexWithdrawalsWithStateMachine dc data). dxw_Height r = bd_Height data"
  by (auto simp: in_ConvertDexOrders in_ConvertDexDeposits in_ConvertDexWithdrawals)

lemma set_opt_rows: "set (opt_rows x) = set_option x"
  by (cases x) (simp_all add: opt_rows_def)

lemma prm_Height_row [simp]: "prm_Height (fsmParamsToIndexerParams p h t) = h"
  by (simp add: fsmParamsToIndexerParams_def)

lemma heights_options:
  "\<forall>r \<in> set (opt_rows (ConvertParamsWithChangeDetection c p h t)). prm_Height r = h"
  "\<forall>r \<in> set (opt_rows (ConvertSupplyWithChangeDetection c1 p1 h t)). sup_Height r = h"
proof -
  show "\<forall>r \<in> set (opt_rows (ConvertParamsWithChangeDetection c p h t)). prm_Height r = h"
    by (auto simp: set_opt_rows ConvertParams_iff)
  show "\<forall>r \<in> set (opt_rows (ConvertSupplyWithChangeDetection c1 p1 h t)). sup_Height r = h"
    by (auto simp: set_opt_rows ConvertSupplyWithChangeDetection_def split: option.splits if_splits)
qed

lemma converted_rows_at:
  assumes "convertToBlockData cl data ap = Ok d" "blk_Height (ibd_Block d) = bd_Height data"
  shows "rows_at (bd_Height data) d"
proof -
  obtain b where d: "d = converted_data cl data ap b"
    using assms(1) by (auto simp: convertToBlockData_Ok)
  have bh: "blk_Height b = bd_Height data" using assms(2) by (simp add: d converted_data_def)
  show ?thesis
    unfolding rows_at_def table_keys
    by (intro conjI; simp add: d bh converted_data_def converted_validators_def convertTransactions_def
        convertEvents_def committee_db_row_def;
      (rule heights_snapshots heights_validators heights_dex heights_options)?)
qed

text \<open>Data that was decoded from a blob has the height of its block's header.\<close>

definition header_height :: "'m blob_BlockData \<Rightarrow> bool" where
  "header_height data \<longleftrightarrow>
     (\<exists>r hd. bd_Block data = Some r \<and> br_BlockHeader r = Some hd \<and> bh_Height hd = bd_Height data)"

lemma Decode_header_height: "Decode cc blobs chainID = Ok data \<Longrightarrow> header_height data"
  by (drule Decode_Ok_block) (auto simp: header_height_def)

lemma convert_block_height:
  assumes "convertToBlockData cl data ap = Ok d" "header_height data"
  shows "blk_Height (ibd_Block d) = bd_Height data"
  using convertToBlockData_fields(3) [OF assms(1)] assms(2)
  by (auto simp: header_height_def dest: convertBlock_height)

section \<open>What one run does\<close>

lemma set_chain_simps [simp]:
  "db_chain (set_chain c t st) c' = (if c' = c then t else db_chain st c')"
  "idx_chains (set_chain c t st) = idx_chains st"
  "idx_rpcClients (set_chain c t st) = idx_rpcClients st"
  "idx_publisher (set_chain c t st) = idx_publisher st"
  "db_progress (set_chain c t st) = db_progress st"
  "redis_stream (set_chain c t st) = redis_stream st"
  by (simp_all add: set_chain_def)

lemma set_chain_same [simp]: "set_chain c (db_chain st c) st = st"
  by (simp add: set_chain_def)

lemma finish_block_simps [simp]:
  "db_chain (finish_block env c h st) = db_chain st"
  "idx_chains (finish_block env c h st) = idx_chains st"
  "idx_rpcClients (finish_block env c h st) = idx_rpcClients st"
  "idx_publisher (finish_block env c h st) = idx_publisher st"
  by (simp_all add: finish_block_def updateProgress_def RecordIndexed_def PublishBlock_def Let_def
      split: option.split)

lemma finish_block_published:
  "redis_stream (finish_block env c h st) =
     (if idx_publisher st \<and> env_publish env = None then redis_stream st @ [block_payload c h]
      else redis_stream st)"
  by (simp add: finish_block_def updateProgress_def RecordIndexed_def PublishBlock_def Let_def
      split: option.split)

lemma finish_block_progress:
  "map_of (db_progress (finish_block env c h st)) (c, h) \<noteq> None \<longleftrightarrow>
     env_progress env = None \<or> map_of (db_progress st) (c, h) \<noteq> None"
  by (simp add: finish_block_def updateProgress_def RecordIndexed_def PublishBlock_def Let_def
      AList.update_conv' split: option.split)

definition summarized :: "BlockData \<Rightarrow> chain_tables \<Rightarrow> chain_tables" where
  "summarized d = t_block_summaries_update (\<lambda>t. t ++ index_by block_summaries_key [summarize d])"

lemma buildBlockSummary_Ok: "buildBlockSummary env d t = Ok t' \<Longrightarrow> t' = summarized d t"
  unfolding buildBlockSummary_def summarized_def by (rule insertBlockSummary.insert_Ok)

lemma buildBlockSummary_not_Panic [simp]: "buildBlockSummary env d t \<noteq> Panic"
  unfolding buildBlockSummary_def by (rule insertBlockSummary.insert_no_Panic)

lemma HasBlock_Ok_iff [simp]:
  "HasBlock env h t = Ok b \<longleftrightarrow> sql_query env = None \<and> b = (t_blocks t h \<noteq> None)"
  by (auto simp: HasBlock_def split: option.split)

lemma HasBlock_not_Panic [simp]: "HasBlock env h t \<noteq> Panic"
  by (auto simp: HasBlock_def split: option.split)

text \<open>The outcomes of \<open>IndexBlockWithData\<close> for a configured chain, one per exit of the function.\<close>

lemma IndexBlockWithData_cases:
  assumes run: "IndexBlockWithData cl env (Some data) st = (st', r)"
    and db: "idx_chains st (bd_ChainID data) = Some db"
  obtains
    (query_failed) e where "st' = st" "r = Fail (WrapErr ''check if block exists'' e)"
  | (skipped) "st' = st" "r = Ok ()" "t_blocks (db_chain st (cdb_ChainID db)) (bd_Height data) \<noteq> None"
  | (panicked) "st' = st" "r = Panic" "convertToBlockData cl data [] = Panic"
  | (write_failed) e d t where "convertToBlockData cl data [] = Ok d"
      "writeBlockData (env_write env) d (db_chain st (cdb_ChainID db)) = (t, Fail e)"
      "st' = set_chain (cdb_ChainID db) t st" "r = Fail (WrapErr ''write data'' e)"
      "t_blocks (db_chain st (cdb_ChainID db)) (bd_Height data) = None"
  | (summary_failed) e d where "convertToBlockData cl data [] = Ok d"
      "st' = set_chain (cdb_ChainID db) (written d (db_chain st (cdb_ChainID db))) st"
      "r = Fail (WrapErr ''build block summary'' e)"
      "t_blocks (db_chain st (cdb_ChainID db)) (bd_Height data) = None"
  | (indexed) d where "convertToBlockData cl data [] = Ok d"
      "st' = finish_block env (bd_ChainID data) (bd_Height data)
         (set_chain (cdb_ChainID db) (summarized d (written d (db_chain st (cdb_ChainID db)))) st)"
      "r = Ok ()" "t_blocks (db_chain st (cdb_ChainID db)) (bd_Height data) = None"
proof -
  let ?t0 = "db_chain st (cdb_ChainID db)"
  note def = IndexBlockWithData_def [of cl env "Some data" st] db
  show thesis
  proof (cases "HasBlock (env_has env) (bd_Height data) ?t0")
    case (Fail e)
    then show ?thesis using run query_failed [of e] by (auto simp: def)
  next
    case Panic
    then show ?thesis by simp
  next
    case (Ok b)
    show ?thesis
    proof (cases b)
      case True
      then show ?thesis using run Ok skipped by (auto simp: def)
    next
      case False
      then have has: "HasBlock (env_has env) (bd_Height data) ?t0 = outcome.Ok False"
        and none: "t_blocks ?t0 (bd_Height data) = None" using Ok by auto
      show ?thesis
      proof (cases "convertToBlockData cl data []")
        case (Ok d)
        obtain t w where w: "writeBlockData (env_write env) d ?t0 = (t, w)" by fastforce
        show ?thesis
        proof (cases w)
          case Ok': (Ok u)
          then have t: "t = written d ?t0" using w writeBlockData_Ok by fastforce
          show ?thesis
          proof (cases "buildBlockSummary (env_summary env) d t")
            case s: (Ok t')
            then have "t' = summarized d t" by (rule buildBlockSummary_Ok)
            then show ?thesis using run has Ok w Ok' s t none indexed [of d] by (auto simp: def)
          qed (use run has Ok w Ok' t none summary_failed in \<open>auto simp: def\<close>)
        next
          case (Fail e)
          then show ?thesis using run has Ok w none write_failed [of d t e] by (auto simp: def)
        next
          case Panic
          then show ?thesis using w
            by (auto simp: writeBlockData_def BeginFunc_def split: option.splits outcome.splits commit.splits)
        qed
      next
        case (Fail e)
        then show ?thesis by (simp add: convertToBlockData_not_Fail)
      next
        case Panic
        then show ?thesis using run has panicked by (auto simp: def)
      qed
    qed
  qed
qed

end
