(* ===== verification/TimeTravel.thy ===== *)
theory TimeTravel
  imports Indexer
begin

text \<open>
  Indexing a range of heights, in any order, and what the per-chain tables hold afterwards. This is the
  bridge between the contract of SnapshotChange, which speaks of a table that holds what a change
  detector emitted, and the code: \<open>index_all\<close> runs \<open>IndexBlockWithData\<close> block after block, and
  \<open>indexed_tables\<close> shows that each table ends up with exactly the rows the converters wrote for each
  height. The properties that quote it are the time-travel theorems of the entities.
\<close>

section \<open>A run over several blocks\<close>

fun index_all ::
  "'m canopy_lib \<Rightarrow> index_env \<Rightarrow> 'm blob_BlockData list \<Rightarrow> indexer_state \<Rightarrow> indexer_state" where
  "index_all cl env [] st = st"
| "index_all cl env (d # ds) st = index_all cl env ds (fst (IndexBlockWithData cl env (Some d) st))"

lemma index_all_append: "index_all cl env (ds @ es) st = index_all cl env es (index_all cl env ds st)"
  by (induction ds arbitrary: st) simp_all

text \<open>The converted form of a block's data and the tables with one more block.\<close>

definition converted :: "'m canopy_lib \<Rightarrow> 'm blob_BlockData \<Rightarrow> BlockData" where
  "converted cl data = (case convertToBlockData cl data [] of Ok d \<Rightarrow> d)"

definition block_ok :: "'m blob_BlockData \<Rightarrow> bool" where
  "block_ok data \<longleftrightarrow> (case bd_Block data of
     None \<Rightarrow> False
   | Some r \<Rightarrow> br_Meta r \<noteq> None \<and>
       (case br_BlockHeader r of None \<Rightarrow> False | Some h \<Rightarrow> bh_Height h = bd_Height data))"

definition add_block :: "'m canopy_lib \<Rightarrow> 'm blob_BlockData \<Rightarrow> chain_tables \<Rightarrow> chain_tables" where
  "add_block cl data t = summarized (converted cl data) (written (converted cl data) t)"

lemma block_ok_header: "block_ok data \<Longrightarrow> header_height data"
  by (auto simp: block_ok_def header_height_def split: option.splits)

lemma block_ok_converts:
  assumes "block_ok data"
  shows "convertToBlockData cl data [] = Ok (converted cl data)"
proof -
  have "\<exists>d. convertToBlockData cl data [] = Ok d"
    using assms by (auto simp: convertToBlockData_Ok_iff block_ok_def split: option.splits)
  then show ?thesis by (auto simp: converted_def)
qed

lemma converted_record:
  assumes "block_ok data"
  shows "\<exists>b. converted cl data = converted_data cl data [] b"
  using block_ok_converts [OF assms, of cl] by (auto simp: convertToBlockData_Ok)

lemma block_ok_height:
  assumes "block_ok data"
  shows "blk_Height (ibd_Block (converted cl data)) = bd_Height data"
  by (rule convert_block_height [OF block_ok_converts [OF assms] block_ok_header [OF assms]])

lemma block_ok_rows:
  assumes "block_ok data"
  shows "rows_at (bd_Height data) (converted cl data)"
  by (rule converted_rows_at [OF block_ok_converts [OF assms] block_ok_height [OF assms]])

lemma summarized_simps [simp]:
  "t_blocks (summarized d t) = t_blocks t" "t_txs (summarized d t) = t_txs t"
  "t_events (summarized d t) = t_events t" "t_accounts (summarized d t) = t_accounts t"
  "t_validators (summarized d t) = t_validators t"
  "t_validator_non_signing_info (summarized d t) = t_validator_non_signing_info t"
  "t_validator_double_signing_info (summarized d t) = t_validator_double_signing_info t"
  "t_pools (summarized d t) = t_pools t" "t_orders (summarized d t) = t_orders t"
  "t_dex_prices (summarized d t) = t_dex_prices t" "t_dex_orders (summarized d t) = t_dex_orders t"
  "t_dex_deposits (summarized d t) = t_dex_deposits t"
  "t_dex_withdrawals (summarized d t) = t_dex_withdrawals t"
  "t_pool_points_by_holder (summarized d t) = t_pool_points_by_holder t"
  "t_params (summarized d t) = t_params t" "t_supply (summarized d t) = t_supply t"
  "t_committees (summarized d t) = t_committees t"
  "t_committee_validators (summarized d t) = t_committee_validators t"
  "t_committee_payments (summarized d t) = t_committee_payments t"
  by (simp_all add: summarized_def)

text \<open>With a database that works, a configured chain and a block that is not there yet, one run adds
  exactly the block.\<close>

lemma IndexBlockWithData_ok:
  assumes "idx_chains st (bd_ChainID data) = Some db" "block_ok data"
    "t_blocks (db_chain st (cdb_ChainID db)) (bd_Height data) = None"
  shows "IndexBlockWithData cl env_ok (Some data) st =
    (finish_block env_ok (bd_ChainID data) (bd_Height data)
       (set_chain (cdb_ChainID db) (add_block cl data (db_chain st (cdb_ChainID db))) st), Ok ())"
proof -
  have w: "writeBlockData sql_ok d t = (written d t, Ok ())" for d t
    by (rule writeBlockData_no_fault) (simp_all add: sql_ok_def)
  have b: "buildBlockSummary sql_ok d t = Ok (summarized d t)" for d t
    unfolding buildBlockSummary_def summarized_def
    by (rule insertBlockSummary.insert_no_fault) (simp add: sql_ok_def)
  have h: "HasBlock (env_has env_ok) (bd_Height data) (db_chain st (cdb_ChainID db)) = Ok False"
    using assms(3) by (simp add: env_ok_def sql_ok_def)
  have e: "env_write env_ok = sql_ok" "env_summary env_ok = sql_ok" by (simp_all add: env_ok_def)
  show ?thesis
    unfolding IndexBlockWithData_def option.case assms(1) h outcome.case
      block_ok_converts [OF assms(2), of cl] e w b prod.case add_block_def
    by simp
qed

lemma add_block_blocks:
  assumes "block_ok data"
  shows "t_blocks (add_block cl data t) h =
    (if h = bd_Height data then Some (ibd_Block (converted cl data)) else t_blocks t h)"
  using block_ok_height [OF assms, of cl]
  by (auto simp: add_block_def written_def index_by_Cons blocks_key_def map_add_def)

lemma index_all_ok:
  assumes "idx_chains st c = Some db"
    and "\<And>d. d \<in> set ds \<Longrightarrow> bd_ChainID d = c \<and> block_ok d"
    and "distinct (map bd_Height ds)"
    and "\<And>d. d \<in> set ds \<Longrightarrow> t_blocks (db_chain st (cdb_ChainID db)) (bd_Height d) = None"
  shows "db_chain (index_all cl env_ok ds st) (cdb_ChainID db) =
    fold (add_block cl) ds (db_chain st (cdb_ChainID db))"
  using assms
proof (induction ds arbitrary: st)
  case (Cons d ds)
  let ?st = "finish_block env_ok (bd_ChainID d) (bd_Height d)
       (set_chain (cdb_ChainID db) (add_block cl d (db_chain st (cdb_ChainID db))) st)"
  have c: "bd_ChainID d = c" and ok: "block_ok d" using Cons.prems(2) by simp_all
  have run: "fst (IndexBlockWithData cl env_ok (Some d) st) = ?st"
    using IndexBlockWithData_ok [of st d db cl] c ok Cons.prems(1,4) by simp
  have "db_chain (index_all cl env_ok ds ?st) (cdb_ChainID db) =
      fold (add_block cl) ds (db_chain ?st (cdb_ChainID db))"
  proof (rule Cons.IH)
    show "idx_chains ?st c = Some db" using Cons.prems(1) by simp
    show "distinct (map bd_Height ds)" using Cons.prems(3) by simp
  next
    fix e assume e: "e \<in> set ds"
    then show "bd_ChainID e = c \<and> block_ok e" using Cons.prems(2) by simp
    have "bd_Height e \<in> bd_Height ` set ds" using e by (rule imageI)
    then have "bd_Height e \<noteq> bd_Height d" using Cons.prems(3) by auto
    then show "t_blocks (db_chain ?st (cdb_ChainID db)) (bd_Height e) = None"
      using Cons.prems(4) e ok by (simp add: add_block_blocks)
  qed
  then show ?case using run by simp
qed simp

section \<open>The tables after a run\<close>

text \<open>A table of rows keyed by (entity, height): after overlaying the rows of pairwise different heights,
  the rows of one height are the ones of its block, in whatever order the blocks came.\<close>

lemma fold_overlay_lookup:
  assumes "\<And>d r. d \<in> set ds \<Longrightarrow> r \<in> set (rows d) \<Longrightarrow> snd (key r) = ht d"
    and "distinct (map ht ds)" and "d \<in> set ds"
    and "t0 (k, ht d) = None"
  shows "fold (\<lambda>d t. t ++ index_by key (rows d)) ds t0 (k, ht d) = index_by key (rows d) (k, ht d)"
proof -
  have other: "index_by key (rows e) (k, ht d) = None" if "e \<in> set ds" "ht e \<noteq> ht d" for e
  proof -
    have "(k, ht d) \<notin> key ` set (rows e)" using assms(1) [OF that(1)] that(2) by (metis imageE snd_conv)
    then show ?thesis by (simp add: index_by_None_iff)
  qed
  have skip: "fold (\<lambda>d t. t ++ index_by key (rows d)) es t (k, ht d) = t (k, ht d)"
    if "set es \<subseteq> set ds" "ht d \<notin> ht ` set es" for es t
    using that
  proof (induction es arbitrary: t)
    case (Cons e es)
    then have "index_by key (rows e) (k, ht d) = None" using other [of e] by auto
    then show ?case using Cons by (simp add: map_add_def)
  qed simp
  obtain as bs where ds: "ds = as @ d # bs" using assms(3) by (meson split_list)
  then have fresh: "ht d \<notin> ht ` set as" "ht d \<notin> ht ` set bs" using assms(2) by auto
  have "fold (\<lambda>d t. t ++ index_by key (rows d)) ds t0 (k, ht d) =
      (fold (\<lambda>d t. t ++ index_by key (rows d)) as t0 ++ index_by key (rows d)) (k, ht d)"
    unfolding ds by (simp add: skip [OF _ fresh(2), of _] ds subset_insertI2)
  moreover have "fold (\<lambda>d t. t ++ index_by key (rows d)) as t0 (k, ht d) = None"
    using skip [OF _ fresh(1), of t0] assms(4) ds by auto
  then have "(fold (\<lambda>d t. t ++ index_by key (rows d)) as t0 ++ index_by key (rows d)) (k, ht d) =
      index_by key (rows d) (k, ht d)"
    by (simp add: map_add_def split: option.split)
  ultimately show ?thesis by simp
qed

lemma fold_field:
  assumes "\<And>d s. f (step d s) = g d (f s)"
  shows "f (fold step ds s) = fold g ds (f s)"
  by (induction ds arbitrary: s) (simp_all add: assms)

lemma index_by_height:
  assumes "\<And>r. r \<in> set rows \<Longrightarrow> ht r = h"
  shows "index_by (\<lambda>r. (k r, ht r)) rows (x, h) = index_by k rows x"
  using assms by (induction rows rule: rev_induct) (auto simp: index_by_snoc)

section \<open>A history of a chain\<close>

text \<open>\<open>history c h0 n blocks\<close>: the data of the heights h0 to n of chain c, as decoded from its blobs.\<close>

definition history :: "uint64 \<Rightarrow> nat \<Rightarrow> nat \<Rightarrow> (nat \<Rightarrow> 'm blob_BlockData) \<Rightarrow> bool" where
  "history c h0 n blocks \<longleftrightarrow> h0 \<le> n \<and> n < 2 ^ 64 \<and>
     (\<forall>h \<in> {h0..n}. bd_ChainID (blocks h) = c \<and> bd_Height (blocks h) = of_nat h \<and> block_ok (blocks h))"

text \<open>\<open>linked cur prev h0 n blocks\<close>: each block carries the snapshot of the height before as its previous
  one; the first has none.\<close>

definition linked :: "('m blob_BlockData \<Rightarrow> 's) \<Rightarrow> ('m blob_BlockData \<Rightarrow> 's) \<Rightarrow> 's \<Rightarrow> nat \<Rightarrow> nat \<Rightarrow>
    (nat \<Rightarrow> 'm blob_BlockData) \<Rightarrow> bool" where
  "linked cur prev none h0 n blocks \<longleftrightarrow>
     (\<forall>h \<in> {h0..n}. prev (blocks h) = (if h = h0 then none else cur (blocks (h - 1))))"

text \<open>The heights in the order in which they are indexed.\<close>

definition any_order :: "nat list \<Rightarrow> nat \<Rightarrow> nat \<Rightarrow> bool" where
  "any_order hs h0 n \<longleftrightarrow> distinct hs \<and> set hs = {h0..n}"

lemma of_nat_uint64_inj:
  assumes "a < 2 ^ 64" "b < 2 ^ 64" "(of_nat a :: uint64) = of_nat b"
  shows "a = b"
proof -
  have "a mod 2 ^ 64 = a" "b mod 2 ^ 64 = b" using assms(1,2) by (simp_all only: mod_less)
  then have a: "unat (of_nat a :: uint64) = a" and b: "unat (of_nat b :: uint64) = b"
    by (simp_all add: unat_of_nat)
  have "a = unat (of_nat a :: uint64)" by (rule a [symmetric])
  also have "\<dots> = unat (of_nat b :: uint64)" by (rule arg_cong [OF assms(3)])
  also have "\<dots> = b" by (rule b)
  finally show ?thesis .
qed

text \<open>The tables of the chain after its history was indexed in some order, into an empty schema.\<close>

definition run_history ::
  "'m canopy_lib \<Rightarrow> (nat \<Rightarrow> 'm blob_BlockData) \<Rightarrow> nat list \<Rightarrow> uint64 \<Rightarrow> indexer_state \<Rightarrow> chain_tables" where
  "run_history cl blocks hs c st =
     (case idx_chains st c of
        None \<Rightarrow> empty_tables
      | Some db \<Rightarrow> db_chain (index_all cl env_ok (map blocks hs) st) (cdb_ChainID db))"

definition fresh_chain :: "uint64 \<Rightarrow> indexer_state \<Rightarrow> bool" where
  "fresh_chain c st \<longleftrightarrow> (case idx_chains st c of
     None \<Rightarrow> False | Some db \<Rightarrow> db_chain st (cdb_ChainID db) = empty_tables)"

lemma run_history_fold:
  assumes "history c h0 n blocks" "any_order hs h0 n" "fresh_chain c st"
  shows "run_history cl blocks hs c st = fold (add_block cl) (map blocks hs) empty_tables"
    and "distinct (map bd_Height (map blocks hs))"
proof -
  have blk: "bd_ChainID (blocks h) = c" "bd_Height (blocks h) = of_nat h" "block_ok (blocks h)" "h < 2 ^ 64"
    if "h \<in> set hs" for h
    using assms(1,2) that by (auto simp: history_def any_order_def)
  show dist: "distinct (map bd_Height (map blocks hs))"
  proof -
    have "inj_on (\<lambda>h. bd_Height (blocks h)) (set hs)"
    proof (rule inj_onI)
      fix a b assume ab: "a \<in> set hs" "b \<in> set hs" "bd_Height (blocks a) = bd_Height (blocks b)"
      then have "(of_nat a :: uint64) = of_nat b" using blk(2) by simp
      with blk(4) [OF ab(1)] blk(4) [OF ab(2)] show "a = b" by (rule of_nat_uint64_inj)
    qed
    then show ?thesis using assms(2) by (simp add: any_order_def distinct_map o_def)
  qed
  obtain db where db: "idx_chains st c = Some db" "db_chain st (cdb_ChainID db) = empty_tables"
    using assms(3) by (auto simp: fresh_chain_def split: option.splits)
  have "db_chain (index_all cl env_ok (map blocks hs) st) (cdb_ChainID db) =
      fold (add_block cl) (map blocks hs) (db_chain st (cdb_ChainID db))"
  proof (rule index_all_ok [OF db(1) _ dist])
    fix d assume "d \<in> set (map blocks hs)"
    then obtain h where h: "h \<in> set hs" "d = blocks h" by auto
    show "bd_ChainID d = c \<and> block_ok d"
      unfolding h(2) by (intro conjI blk(1) [OF h(1)] blk(3) [OF h(1)])
    show "t_blocks (db_chain st (cdb_ChainID db)) (bd_Height d) = None"
      unfolding db(2) empty_tables_def by simp
  qed
  then show "run_history cl blocks hs c st = fold (add_block cl) (map blocks hs) empty_tables"
    using db by (simp add: run_history_def)
qed

text \<open>One table of such a run, at one height. \<open>tbl\<close> is the table, \<open>rows\<close> the rows of a block for it.\<close>

lemma run_history_lookup:
  fixes tbl :: "chain_tables \<Rightarrow> ('k \<times> uint64 \<rightharpoonup> 'r)"
  assumes hist: "history c h0 n blocks" "any_order hs h0 n" "fresh_chain c st"
    and step: "\<And>d s. tbl (add_block cl d s) = tbl s ++ index_by (\<lambda>r. (key r, ht r)) (rows d)"
    and rows: "\<And>d r. block_ok d \<Longrightarrow> r \<in> set (rows d) \<Longrightarrow> ht r = bd_Height d"
    and empty: "tbl empty_tables = Map.empty"
  shows "h0 \<le> h \<Longrightarrow> h \<le> n \<Longrightarrow>
      tbl (run_history cl blocks hs c st) (k, of_nat h) = index_by key (rows (blocks h)) k"
    and "h < h0 \<Longrightarrow> tbl (run_history cl blocks hs c st) (k, of_nat h) = None"
proof -
  let ?key = "\<lambda>r. (key r, ht r)"
  have run: "tbl (run_history cl blocks hs c st) =
      fold (\<lambda>d t. t ++ index_by ?key (rows d)) (map blocks hs) Map.empty"
    using run_history_fold(1) [OF hist, of cl] fold_field [of tbl "add_block cl", OF step] empty by simp
  have blk: "bd_Height (blocks h) = of_nat h" "block_ok (blocks h)" "h < 2 ^ 64" "h0 \<le> h" if "h \<in> set hs" for h
    using hist(1,2) that by (auto simp: history_def any_order_def)
  have hts: "\<And>d r. d \<in> set (map blocks hs) \<Longrightarrow> r \<in> set (rows d) \<Longrightarrow> snd (?key r) = bd_Height d"
  proof -
    fix d r assume "d \<in> set (map blocks hs)" "r \<in> set (rows d)"
    then obtain x where "x \<in> set hs" "d = blocks x" by auto
    then show "snd (?key r) = bd_Height d" using rows [of d r] blk(2) \<open>r \<in> set (rows d)\<close> by simp
  qed
  show "tbl (run_history cl blocks hs c st) (k, of_nat h) = index_by key (rows (blocks h)) k"
    if h: "h0 \<le> h" "h \<le> n"
  proof -
    have mem: "h \<in> set hs" using hist(2) h by (simp add: any_order_def)
    then have d: "blocks h \<in> set (map blocks hs)" by simp
    have "tbl (run_history cl blocks hs c st) (k, bd_Height (blocks h)) =
        index_by ?key (rows (blocks h)) (k, bd_Height (blocks h))"
      unfolding run
      by (rule fold_overlay_lookup [OF hts run_history_fold(2) [OF hist] d]) simp_all
    also have "\<dots> = index_by key (rows (blocks h)) k"
      using rows blk(2) [OF mem] by (intro index_by_height) simp
    finally show ?thesis using blk(1) [OF mem] by simp
  qed
  show "tbl (run_history cl blocks hs c st) (k, of_nat h) = None" if h: "h < h0"
  proof -
    have ne: "bd_Height d \<noteq> of_nat h" if d: "d \<in> set (map blocks hs)" for d
    proof -
      obtain h' where h': "h' \<in> set hs" "d = blocks h'" using d by auto
      then have "h' \<noteq> h" "h < 2 ^ 64" using blk(3,4) [OF h'(1)] h by auto
      then show ?thesis using of_nat_uint64_inj [of h' h] blk [OF h'(1)] h'(2) by auto
    qed
    have "fold (\<lambda>d t. t ++ index_by ?key (rows d)) ds t (k, of_nat h) = t (k, of_nat h)"
      if "set ds \<subseteq> set (map blocks hs)" for ds t
      using that
    proof (induction ds arbitrary: t)
      case (Cons d ds)
      have "(k, of_nat h) \<notin> ?key ` set (rows d)" using hts [of d] ne [of d] Cons.prems by fastforce
      then have "index_by ?key (rows d) (k, of_nat h) = None" by (simp add: index_by_None_iff)
      then show ?case using Cons by (simp add: map_add_def)
    qed simp
    then show ?thesis unfolding run by simp
  qed
qed

section \<open>The history of an entity\<close>

text \<open>What ties a table to a change detector: \<open>tbl\<close> is the table keyed by entity and height, \<open>rows\<close> the
  rows that a converted block has for it, \<open>cur\<close> and \<open>prev\<close> the two snapshots the detector compares and
  \<open>emit\<close> its change log, which may depend on the block (its height, its time, its events).\<close>

locale entity_history =
  fixes cl :: "'m canopy_lib"
    and tbl :: "chain_tables \<Rightarrow> ('k \<times> uint64 \<rightharpoonup> 'r)"
    and rows :: "BlockData \<Rightarrow> 'r list"
    and key :: "'r \<Rightarrow> 'k"
    and ht :: "'r \<Rightarrow> uint64"
    and content :: "'r \<Rightarrow> 'v"
    and cur :: "'m blob_BlockData \<Rightarrow> 's"
    and prev :: "'m blob_BlockData \<Rightarrow> 's"
    and view :: "'s \<Rightarrow> 'k \<Rightarrow> 'v option"
    and emit :: "'m blob_BlockData \<Rightarrow> 's \<Rightarrow> 's \<Rightarrow> 'k \<Rightarrow> 'v option"
    and ok :: "'s \<Rightarrow> bool"
  assumes log: "change_log view (emit d) ok"
    and stored: "tbl (written x s) = tbl s ++ index_by (\<lambda>r. (key r, ht r)) (rows x)"
    and kept: "tbl (summarized x s) = tbl s"
    and heights: "rows_at h x \<Longrightarrow> r \<in> set (rows x) \<Longrightarrow> ht r = h"
    and empty: "tbl empty_tables = Map.empty"
    and emitted: "map_option content (index_by key (rows (converted_data cl d [] b)) k) =
        emit d (cur d) (prev d) k"
begin

lemma detector: "change_log (\<lambda>(d, s). view s) (\<lambda>(d, c) (_, p). emit d c p) (\<lambda>(d, s). ok s)"
  using log unfolding change_log_def by (auto; blast)

lemma lookup:
  assumes "history c h0 n blocks" "any_order hs h0 n" "fresh_chain c st"
  shows "h0 \<le> h \<Longrightarrow> h \<le> n \<Longrightarrow> map_option content (tbl (run_history cl blocks hs c st) (k, of_nat h)) =
      emit (blocks h) (cur (blocks h)) (prev (blocks h)) k"
    and "h < h0 \<Longrightarrow> tbl (run_history cl blocks hs c st) (k, of_nat h) = None"
proof -
  have step: "tbl (add_block cl d s) = tbl s ++ index_by (\<lambda>r. (key r, ht r)) (rows (converted cl d))" for d s
    by (simp add: add_block_def kept stored)
  have rows: "ht r = bd_Height d" if "block_ok d" "r \<in> set (rows (converted cl d))" for d :: "'m blob_BlockData" and r
    by (rule heights [OF block_ok_rows [OF that(1)] that(2)])
  have run: "tbl (run_history cl blocks hs c st) (k, of_nat h) =
      index_by key (rows (converted cl (blocks h))) k" if "h0 \<le> h" "h \<le> n"
    by (rule run_history_lookup(1) [where rows = "\<lambda>d. rows (converted cl d)"])
      (fact assms step rows empty that)+
  show "map_option content (tbl (run_history cl blocks hs c st) (k, of_nat h)) =
      emit (blocks h) (cur (blocks h)) (prev (blocks h)) k" if h: "h0 \<le> h" "h \<le> n"
  proof -
    have "block_ok (blocks h)" using assms(1) h by (simp add: history_def)
    then obtain b where b: "converted cl (blocks h) = converted_data cl (blocks h) [] b"
      using converted_record by blast
    show ?thesis unfolding run [OF h] b by (rule emitted)
  qed
  show "tbl (run_history cl blocks hs c st) (k, of_nat h) = None" if "h < h0"
    by (rule run_history_lookup(2) [where rows = "\<lambda>d. rows (converted cl d)"])
      (fact assms step rows empty that)+
qed

text \<open>The time-travel theorem: whatever the order in which the heights were indexed, the historical
  query at the last height answers with the state of the entity at that height.\<close>

lemma time_travel:
  assumes hist: "history c h0 n blocks" "any_order hs h0 n" "fresh_chain c st"
    and link: "linked cur prev none h0 n blocks"
    and oks: "ok none" "\<And>h. h0 \<le> h \<Longrightarrow> h \<le> n \<Longrightarrow> ok (cur (blocks h))"
    and m: "h0 \<le> m" "m \<le> n" and v: "view (cur (blocks m)) k = Some v"
  shows "map_option content (latest_at (tbl (run_history cl blocks hs c st)) k m) = Some v \<or>
    (latest_at (tbl (run_history cl blocks hs c st)) k m = None \<and> view none k = Some v)"
proof -
  let ?t = "\<lambda>x. map_option content (tbl (run_history cl blocks hs c st) x)"
  let ?s = "\<lambda>h. (blocks h, cur (blocks h))"
  have "latest_at ?t k m = Some v \<or>
      (latest_at ?t k m = None \<and> (\<lambda>(d, s). view s) (blocks h0, none) k = Some v)"
  proof (rule change_log.reconstruct [OF detector, where s = ?s and ?h0.0 = h0])
    fix h assume h: "h0 \<le> h" "h \<le> m"
    then show "(\<lambda>(d, s). ok s) (?s h)" using oks(2) m(2) by simp
    have p: "prev (blocks h) = (if h = h0 then none else cur (blocks (h - 1)))"
      using link h m(2) by (simp add: linked_def)
    show "?t (k, of_nat h) = (\<lambda>(d, c) (_, p). emit d c p) (?s h) (if h = h0 then (blocks h0, none) else ?s (h - 1)) k"
      using lookup(1) [OF hist h(1), of k] h(2) m(2) p by simp
  next
    fix h assume "h < h0"
    then show "?t (k, of_nat h) = None" using lookup(2) [OF hist] by simp
  qed (use oks(1) m v in simp_all)
  then show ?thesis unfolding latest_at_map [symmetric] by simp
qed

text \<open>An entity that left the state is not recorded: the query keeps answering with its last row.\<close>

lemma absent_keeps:
  assumes hist: "history c h0 n blocks" "any_order hs h0 n" "fresh_chain c st"
    and link: "linked cur prev none h0 n blocks"
    and oks: "ok none" "\<And>h. h0 \<le> h \<Longrightarrow> h \<le> n \<Longrightarrow> ok (cur (blocks h))"
    and m: "h0 \<le> m" "m \<le> m'" "m' \<le> n"
    and absent: "\<And>h. m < h \<Longrightarrow> h \<le> m' \<Longrightarrow> view (cur (blocks h)) k = None"
  shows "latest_at (tbl (run_history cl blocks hs c st)) k m' =
    latest_at (tbl (run_history cl blocks hs c st)) k m"
  using m(2,3) absent
proof (induction m' rule: nat_induct_at_least)
  case (Suc m')
  let ?t = "tbl (run_history cl blocks hs c st)"
  have h: "h0 \<le> Suc m'" "Suc m' \<le> n" using Suc m(1) by simp_all
  have "prev (blocks (Suc m')) = (if Suc m' = h0 then none else cur (blocks m'))"
    using link h by (simp add: linked_def)
  then have okp: "ok (prev (blocks (Suc m')))" using oks Suc.hyps m(1) h(2) by (simp split: if_split)
  have none: "view (cur (blocks (Suc m'))) k = None" using Suc.prems(2) Suc.hyps by simp
  have "emit (blocks (Suc m')) (cur (blocks (Suc m'))) (prev (blocks (Suc m'))) k = None"
  proof (rule ccontr)
    assume "\<not> ?thesis"
    then obtain v where "emit (blocks (Suc m')) (cur (blocks (Suc m'))) (prev (blocks (Suc m'))) k = Some v"
      by auto
    from change_log.emit_sound [OF log oks(2) [OF h] okp this] none show False by simp
  qed
  then have "?t (k, of_nat (Suc m')) = None" using lookup(1) [OF hist h, of k] by simp
  then have "latest_at ?t k (Suc m') = latest_at ?t k m'" by (simp split: option.split)
  also have "\<dots> = latest_at ?t k m" using Suc.IH Suc.prems by simp
  finally show ?case .
qed simp

text \<open>With a minimal detector, a row at a height above the first means that the stored value of the
  entity is new there.\<close>

lemma row_iff:
  assumes hist: "history c h0 n blocks" "any_order hs h0 n" "fresh_chain c st"
    and link: "linked cur prev none h0 n blocks"
    and oks: "ok none" "\<And>h. h0 \<le> h \<Longrightarrow> h \<le> n \<Longrightarrow> ok (cur (blocks h))"
    and minimal: "minimal_change_log view (emit (blocks h)) ok"
    and h: "h0 < h" "h \<le> n"
  shows "map_option content (tbl (run_history cl blocks hs c st) (k, of_nat h)) = Some v \<longleftrightarrow>
    view (cur (blocks h)) k = Some v \<and> view (cur (blocks (h - 1))) k \<noteq> Some v"
proof -
  have "prev (blocks h) = cur (blocks (h - 1))" using link h by (simp add: linked_def)
  moreover have "ok (cur (blocks h))" "ok (cur (blocks (h - 1)))" using oks(2) h by simp_all
  ultimately show ?thesis
    using lookup(1) [OF hist, of h k] h minimal_change_log.emit_iff [OF minimal] by simp
qed

end

end
