(* ===== verification/Samples.thy ===== *)
theory Samples
  imports Indexer
begin

text \<open>
  Concrete instances of the model's parameters, at which the properties with hypotheses are applied: the
  chain's packages with small decoders, blocks without entities (a property's witness fills in the ones it
  is about) and an indexer with one configured chain.
\<close>

definition sample_event_types :: event_types where
  "sample_event_types = \<lparr>EventTypeAutoPause = ''automatic-pause'',
     EventTypeAutoBeginUnstaking = ''automatic-begin-unstaking'', EventTypeSlash = ''slash'',
     EventTypeReward = ''reward''\<rparr>"

text \<open>The message of a sample event is its JSON form; a swap is named by its first byte, the order id.\<close>

definition sample_swap :: "bytes \<Rightarrow> lib_EventDexSwap option" where
  "sample_swap bs = (case bs of [] \<Rightarrow> None | b # _ \<Rightarrow>
     Some \<lparr>eds_OrderId = [b], eds_SoldAmount = 5, eds_BoughtAmount = 6, eds_LocalOrigin = True,
           eds_Success = True\<rparr>)"

definition sample_deposit :: "bytes \<Rightarrow> lib_EventDexLiquidityDeposit option" where
  "sample_deposit bs = (case bs of [] \<Rightarrow> None | b # _ \<Rightarrow>
     Some \<lparr>edd_OrderId = [b], edd_LocalOrigin = True, edd_Points = 7\<rparr>)"

definition sample_withdrawal :: "bytes \<Rightarrow> lib_EventDexLiquidityWithdrawal option" where
  "sample_withdrawal bs = (case bs of [] \<Rightarrow> None | b # _ \<Rightarrow>
     Some \<lparr>edw_OrderId = [b], edw_LocalAmount = 8, edw_RemoteAmount = 9, edw_PointsBurned = 1\<rparr>)"

definition sample_dex_codec :: "bytes dex_codec" where
  "sample_dex_codec = \<lparr>json_Marshal = Some, UnmarshalDexSwap = sample_swap,
     UnmarshalDexLiquidityDeposit = sample_deposit, UnmarshalDexLiquidityWithdrawal = sample_withdrawal\<rparr>"

definition sample_header :: "uint64 \<Rightarrow> lib_BlockHeader" where
  "sample_header h = \<lparr>bh_Height = h, bh_Hash = [1], bh_Time = 1000000, bh_NumTxs = 0, bh_TotalTxs = 0,
     bh_TotalVdfIterations = 0, bh_LastBlockHash = [], bh_StateRoot = [], bh_TransactionRoot = [],
     bh_ValidatorRoot = [], bh_NextValidatorRoot = [], bh_ProposerAddress = [2]\<rparr>"

definition sample_block :: "uint64 \<Rightarrow> bytes lib_BlockResult" where
  "sample_block h = \<lparr>br_BlockHeader = Some (sample_header h), br_Meta = Some \<lparr>meta_Size = 100\<rparr>,
     br_Transactions = [], br_Events = []\<rparr>"

text \<open>A codec for blobs: the block message is the height in one byte, an account its address and
  amount; the other messages do not decode.\<close>

definition sample_blob_codec :: "bytes blob_codec" where
  "sample_blob_codec = \<lparr>
     Unmarshal_BlockResult = (\<lambda>bs. case bs of [b] \<Rightarrow> Inr (sample_block (ucast b)) | _ \<Rightarrow> Inl (Errorf ''eof'')),
     Unmarshal_Params = (\<lambda>_. Inl (Errorf ''eof'')),
     Unmarshal_Supply = (\<lambda>_. Inl (Errorf ''eof'')),
     Unmarshal_CommitteesData = (\<lambda>_. Inl (Errorf ''eof'')),
     Unmarshal_Account = (\<lambda>bs. case bs of [a, n] \<Rightarrow> Inr \<lparr>acc_Address = [a], acc_Amount = ucast n\<rparr>
                                        | _ \<Rightarrow> Inl (Errorf ''eof'')),
     Unmarshal_Pool = (\<lambda>_. Inl (Errorf ''eof'')),
     Unmarshal_Validator = (\<lambda>_. Inl (Errorf ''eof'')),
     Unmarshal_DexPrice = (\<lambda>_. Inl (Errorf ''eof'')),
     Unmarshal_NonSigner = (\<lambda>_. Inl (Errorf ''eof'')),
     Unmarshal_DoubleSigner = (\<lambda>_. Inl (Errorf ''eof'')),
     Unmarshal_OrderBooks = (\<lambda>_. Inl (Errorf ''eof'')),
     Unmarshal_DexBatch = (\<lambda>_. Inl (Errorf ''eof''))\<rparr>"

definition sample_lib :: "bytes canopy_lib" where
  "sample_lib = \<lparr>lib_event_types = sample_event_types, lib_dex_codec = sample_dex_codec,
     lib_blob_codec = sample_blob_codec\<rparr>"

text \<open>The data of a block without transactions, events and entities.\<close>

definition sample_data :: "uint64 \<Rightarrow> uint64 \<Rightarrow> bytes blob_BlockData" where
  "sample_data c h = \<lparr>bd_ChainID = c, bd_Height = h, bd_BlockTime = 1000000, bd_Block = Some (sample_block h),
     bd_Transactions = [], bd_Events = [], bd_Accounts = [], bd_AccountsPrevious = [], bd_Orders = [],
     bd_OrdersPrevious = [], bd_DexPrices = [], bd_DexPricesPrevious = [], bd_Params = None,
     bd_ParamsPrevious = None, bd_Supply = None, bd_SupplyPrevious = None, bd_Committees = [],
     bd_CommitteesPrevious = [], bd_SubsidizedCommittees = [], bd_RetiredCommittees = [],
     bd_ValidatorsCurrent = [], bd_ValidatorsPrevious = [], bd_PoolsCurrent = [], bd_PoolsPrevious = [],
     bd_NonSignersCurrent = [], bd_NonSignersPrevious = [], bd_DoubleSignersCurrent = [],
     bd_DoubleSignersPrevious = [], bd_DexBatchesCurrent = [], bd_DexBatchesNext = [],
     bd_DexBatchesPreviousCurr = [], bd_DexBatchesPreviousNext = []\<rparr>"

text \<open>An indexer for chain 5 with an empty schema, and one that has no chain.\<close>

definition sample_chain :: chain_DB where
  "sample_chain = \<lparr>cdb_Name = ''canopy'', cdb_Schema = ''chain_5'', cdb_ChainID = 5\<rparr>"

definition no_chain_state :: indexer_state where
  "no_chain_state = \<lparr>idx_rpcClients = Map.empty, idx_chains = Map.empty, idx_publisher = True,
     db_chain = (\<lambda>_. empty_tables), db_progress = [], redis_stream = []\<rparr>"

definition sample_state :: indexer_state where
  "sample_state = \<lparr>idx_rpcClients = [5 \<mapsto> [''http://node'']], idx_chains = [5 \<mapsto> sample_chain],
     idx_publisher = True, db_chain = (\<lambda>_. empty_tables), db_progress = [], redis_stream = []\<rparr>"

lemma sample_state_simps [simp]:
  "idx_chains sample_state 5 = Some sample_chain" "cdb_ChainID sample_chain = 5"
  "db_chain sample_state c = empty_tables" "idx_rpcClients sample_state 5 = Some [''http://node'']"
  "idx_publisher sample_state" "redis_stream sample_state = []"
  by (simp_all add: sample_state_def sample_chain_def)

lemma sample_data_simps [simp]:
  "bd_ChainID (sample_data c h) = c" "bd_Height (sample_data c h) = h"
  "bd_Block (sample_data c h) = Some (sample_block h)"
  by (simp_all add: sample_data_def)

end
