(* ===== verification/Histories.thy ===== *)
theory Histories
  imports TimeTravel Samples
begin

text \<open>
  The entities of the per-chain schema as histories: each table, with its converter, is an instance of
  \<open>entity_history\<close>. The properties say that the historical query returns every entity as it was.
\<close>

section \<open>Table keys as pairs\<close>

lemma pair_keys:
  "accounts_key = (\<lambda>r. (acct_Address r, acct_Height r))"
  "validators_key = (\<lambda>r. (vld_Address r, vld_Height r))"
  "validator_non_signing_info_key = (\<lambda>r. (vns_Address r, vns_Height r))"
  "validator_double_signing_info_key = (\<lambda>r. (vds_Address r, vds_Height r))"
  "pools_key = (\<lambda>r. (pol_PoolID r, pol_Height r))"
  "orders_key = (\<lambda>r. (ord_OrderID r, ord_Height r))"
  "dex_prices_key = (\<lambda>r. (dex_price_key r, dpx_Height r))"
  "pool_points_by_holder_key = (\<lambda>r. (pool_points_key r, pph_Height r))"
  "committees_key = (\<lambda>r. (cmr_ChainID r, cmr_Height r))"
  "committee_validators_key = (\<lambda>r. (assignment_key r, cmv_Height r))"
  "params_key = prm_Height" "supply_key = sup_Height"
  by (simp_all add: table_keys fun_eq_iff dex_price_key_def pool_points_key_def assignment_key_def)

lemmas history_simps = written_simps rows_at_def pair_keys empty_tables_def converted_data_def
  converted_validators_def

text \<open>A table with one row per height is one with a single entity.\<close>

definition single :: "(uint64 \<rightharpoonup> 'r) \<Rightarrow> (unit \<times> uint64 \<rightharpoonup> 'r)" where
  "single t = (\<lambda>(_, h). t h)"

lemma single_overlay: "single (t ++ index_by ht rows) = single t ++ index_by (\<lambda>r. ((), ht r)) rows"
proof
  fix x :: "unit \<times> uint64"
  have "index_by (\<lambda>r. ((), ht r)) rows x = index_by ht rows (snd x)"
    by (induction rows rule: rev_induct) (auto simp: index_by_snoc prod_eq_iff)
  then show "single (t ++ index_by ht rows) x = (single t ++ index_by (\<lambda>r. ((), ht r)) rows) x"
    by (cases x) (simp add: single_def map_add_def split: option.split)
qed

lemma single_empty [simp]: "single (\<lambda>_. None) = Map.empty"
  by (simp add: single_def fun_eq_iff)

lemma index_by_opt_rows: "index_by (\<lambda>_. ()) (opt_rows x) u = x"
  by (cases x) (simp_all add: opt_rows_def index_by_Cons)

section \<open>A sample run: heights 1 and 2 of chain 5, indexed as 2, 1\<close>

lemma sample_history:
  assumes "\<And>h. bd_ChainID (blocks h) = 5" "\<And>h. bd_Height (blocks h) = of_nat h"
    "\<And>h. bd_Block (blocks h) = Some (sample_block (of_nat h))"
  shows "history 5 1 2 blocks"
  by (simp add: history_def block_ok_def sample_block_def sample_header_def assms)

lemma sample_order: "any_order [2, 1] 1 2"
  by (auto simp: any_order_def)

lemma sample_fresh: "fresh_chain 5 sample_state"
  by (simp add: fresh_chain_def)

lemma sample_range: "{1..2::nat} = {1, 2}" "{Suc 0..2} = {1, 2}"
  by auto

lemma sample_linked:
  "linked cur prev none 1 2 blocks \<longleftrightarrow> prev (blocks 1) = none \<and> prev (blocks 2) = cur (blocks 1)"
  "linked cur prev none (Suc 0) 2 blocks \<longleftrightarrow> prev (blocks 1) = none \<and> prev (blocks 2) = cur (blocks 1)"
  by (auto simp: linked_def sample_range)

section \<open>Accounts\<close>

interpretation account_history: entity_history cl t_accounts ibd_Accounts acct_Address acct_Height
  account_stored bd_Accounts bd_AccountsPrevious
  "accounts.view" "\<lambda>d. accounts.emit (bd_Height d) (bd_BlockTime d)" "accounts.ok"
  for cl
proof unfold_locales
  show "map_option account_stored (index_by acct_Address (ibd_Accounts (converted_data cl d [] b)) k) =
      accounts.emit (bd_Height d) (bd_BlockTime d) (bd_Accounts d) (bd_AccountsPrevious d) k" for d b k
    by (simp add: accounts.emit_def converted_data_def ConvertAccounts_diff)
qed (auto simp: history_simps intro: accounts.emit_sound accounts.emit_complete)

text \<open>C1. Time travel for accounts. Index the heights h0 to n of a chain into an empty schema, in any
  order, where each blob carries the accounts of the height before. Then for every height m of the range,
  the query for the last row of an address at or below m returns exactly the account as it was at m,
  although a row exists only for the heights where its amount changed.\<close>

theorem accounts_time_travel:
  assumes "history c h0 n blocks" "any_order hs h0 n" "fresh_chain c st"
    and "linked bd_Accounts bd_AccountsPrevious [] h0 n blocks"
    and "\<forall>h \<in> {h0..n}. distinct (map acc_Address (bd_Accounts (blocks h)))"
    and "m \<in> {h0..n}" "a \<in> set (bd_Accounts (blocks m))"
  shows "map_option account_stored
      (latest_at (t_accounts (run_history cl blocks hs c st)) (BytesToHex (acc_Address a)) m) =
    Some (account_row 0 zero_time a)"
proof -
  have ok: "accounts.ok (bd_Accounts (blocks h))" if "h \<in> {h0..n}" for h
    using assms(5) that by (simp add: accounts.ok_def distinct_map inj_on_def)
  have v: "accounts.view (bd_Accounts (blocks m)) (BytesToHex (acc_Address a)) = Some (account_row 0 zero_time a)"
    by (rule accounts.view_mem [OF ok [OF assms(6)] assms(7)])
  show ?thesis
    using account_history.time_travel [OF assms(1-4) _ _ _ _ v, of cl] ok assms(6)
    by (simp add: accounts.ok_def accounts.view_def)
qed

definition sample_accounts :: "nat \<Rightarrow> bytes blob_BlockData" where
  "sample_accounts h = (sample_data 5 (of_nat h))\<lparr>
     bd_Accounts := [\<lparr>acc_Address = [1], acc_Amount = 10\<rparr>],
     bd_AccountsPrevious := (if h = 1 then [] else [\<lparr>acc_Address = [1], acc_Amount = 10\<rparr>])\<rparr>"

theorem accounts_time_travel_witness:
  "map_option account_stored
     (latest_at (t_accounts (run_history sample_lib sample_accounts [2, 1] 5 sample_state))
       (BytesToHex [1]) 2) =
   Some (account_row 0 zero_time \<lparr>acc_Address = [1], acc_Amount = 10\<rparr>)"
  using accounts_time_travel [OF sample_history sample_order sample_fresh, of sample_accounts 2
      "\<lparr>acc_Address = [1], acc_Amount = 10\<rparr>" sample_lib]
  by (simp add: sample_accounts_def sample_range sample_linked)

section \<open>Orders\<close>

interpretation order_history: entity_history cl t_orders ibd_Orders ord_OrderID ord_Height
  order_compared bd_Orders bd_OrdersPrevious
  "orders.view" "\<lambda>d. orders.emit (bd_Height d) (bd_BlockTime d)" "orders.ok"
  for cl
proof unfold_locales
  show "map_option order_compared (index_by ord_OrderID (ibd_Orders (converted_data cl d [] b)) k) =
      orders.emit (bd_Height d) (bd_BlockTime d) (bd_Orders d) (bd_OrdersPrevious d) k" for d b k
    by (simp add: orders.emit_def converted_data_def ConvertOrders_diff)
qed (auto simp: history_simps intro: orders.emit_sound orders.emit_complete)

section \<open>DEX prices\<close>

interpretation dex_price_history: entity_history cl t_dex_prices ibd_DexPrices dex_price_key dpx_Height
  dex_price_stored bd_DexPrices bd_DexPricesPrevious
  "dex_prices.view" "\<lambda>d. dex_prices.emit (bd_Height d) (bd_BlockTime d)" "dex_prices.ok"
  for cl
proof unfold_locales
  show "map_option dex_price_stored (index_by dex_price_key (ibd_DexPrices (converted_data cl d [] b)) k) =
      dex_prices.emit (bd_Height d) (bd_BlockTime d) (bd_DexPrices d) (bd_DexPricesPrevious d) k" for d b k
    by (simp add: dex_prices.emit_def converted_data_def ConvertDexPrices_diff)
qed (auto simp: history_simps intro: dex_prices.emit_sound dex_prices.emit_complete)

section \<open>Pools\<close>

interpretation pool_history: entity_history cl t_pools ibd_Pools pol_PoolID pol_Height
  pool_stored bd_PoolsCurrent bd_PoolsPrevious
  "pools.view" "\<lambda>d. pools.emit (bd_Height d) (bd_BlockTime d)" "pools.ok"
  for cl
proof unfold_locales
  show "map_option pool_stored (index_by pol_PoolID (ibd_Pools (converted_data cl d [] b)) k) =
      pools.emit (bd_Height d) (bd_BlockTime d) (bd_PoolsCurrent d) (bd_PoolsPrevious d) k" for d b k
    by (simp add: pools.emit_def converted_data_def convertPools_diff)
qed (auto simp: history_simps intro: pools.emit_sound pools.emit_complete)

interpretation holder_history: entity_history cl t_pool_points_by_holder ibd_PoolPointsByHolder
  pool_points_key pph_Height pool_points_stored "\<lambda>d. holders (bd_PoolsCurrent d)"
  "\<lambda>d. holders (bd_PoolsPrevious d)"
  "pool_points.view" "\<lambda>d. pool_points.emit (bd_Height d) (bd_BlockTime d)" "pool_points.ok"
  for cl
proof unfold_locales
  show "map_option pool_points_stored
        (index_by pool_points_key (ibd_PoolPointsByHolder (converted_data cl d [] b)) k) =
      pool_points.emit (bd_Height d) (bd_BlockTime d) (holders (bd_PoolsCurrent d))
        (holders (bd_PoolsPrevious d)) k" for d b k
    by (simp add: pool_points.emit_def converted_data_def ConvertPoolPoints_diff)
qed (auto simp: history_simps intro: pool_points.emit_sound pool_points.emit_complete)

section \<open>Validators and committee assignments\<close>

interpretation validator_history: entity_history cl t_validators ibd_Validators vld_Address vld_Height
  validator_stored bd_ValidatorsCurrent bd_ValidatorsPrevious
  "validators.view"
  "\<lambda>d. validators.emit (parseValidatorLifecycleEvents (lib_event_types cl) (bd_Events d))
     (bd_Height d) (bd_BlockTime d)" "validators.ok"
  for cl
proof unfold_locales
  show "map_option validator_stored (index_by vld_Address (ibd_Validators (converted_data cl d [] b)) k) =
      validators.emit (parseValidatorLifecycleEvents (lib_event_types cl) (bd_Events d))
     (bd_Height d) (bd_BlockTime d) (bd_ValidatorsCurrent d) (bd_ValidatorsPrevious d) k" for d b k
    by (simp add: validators.emit_def converted_data_def converted_validators_def ConvertValidators_diff)
qed (auto simp: history_simps intro: validators.emit_sound validators.emit_complete)

interpretation assignment_history: entity_history cl t_committee_validators ibd_CommitteeValidators
  assignment_key cmv_Height assignment_stored bd_ValidatorsCurrent bd_ValidatorsPrevious
  assignment_view
  "\<lambda>d. assignment_emit (lib_event_types cl) (bd_Events d) (bd_SubsidizedCommittees d)
     (bd_RetiredCommittees d) (bd_Height d) (bd_BlockTime d)" assignments_ok
  for cl
proof unfold_locales
  show "map_option assignment_stored
        (index_by assignment_key (ibd_CommitteeValidators (converted_data cl d [] b)) k) =
      assignment_emit (lib_event_types cl) (bd_Events d) (bd_SubsidizedCommittees d)
        (bd_RetiredCommittees d) (bd_Height d) (bd_BlockTime d) (bd_ValidatorsCurrent d)
        (bd_ValidatorsPrevious d) k" for d b k
    by (simp add: assignment_emit_def converted_data_def converted_validators_def)
qed (auto simp: history_simps intro: assignments.emit_sound assignments.emit_complete)

interpretation non_signer_history: entity_history cl t_validator_non_signing_info
  ibd_ValidatorNonSigningInfo vns_Address vns_Height vns_MissedBlocksCount
  bd_NonSignersCurrent bd_NonSignersPrevious
  "non_signers.view" "\<lambda>d. non_signers.emit (bd_Height d) (bd_BlockTime d)" "non_signers.ok"
  for cl
proof unfold_locales
  show "map_option vns_MissedBlocksCount
        (index_by vns_Address (ibd_ValidatorNonSigningInfo (converted_data cl d [] b)) k) =
      non_signers.emit (bd_Height d) (bd_BlockTime d) (bd_NonSignersCurrent d) (bd_NonSignersPrevious d) k"
    for d b k
    by (simp add: non_signers.emit_def converted_data_def ConvertNonSigners_counter)
qed (auto simp: history_simps intro: non_signers.emit_sound non_signers.emit_complete)

interpretation double_signer_history: entity_history cl t_validator_double_signing_info
  ibd_ValidatorDoubleSigningInfo vds_Address vds_Height vds_EvidenceCount
  bd_DoubleSignersCurrent bd_DoubleSignersPrevious
  "double_signers.view" "\<lambda>d. double_signers.emit (bd_Height d) (bd_BlockTime d)" "double_signers.ok"
  for cl
proof unfold_locales
  show "map_option vds_EvidenceCount
        (index_by vds_Address (ibd_ValidatorDoubleSigningInfo (converted_data cl d [] b)) k) =
      double_signers.emit (bd_Height d) (bd_BlockTime d) (bd_DoubleSignersCurrent d)
        (bd_DoubleSignersPrevious d) k" for d b k
    by (simp add: double_signers.emit_def converted_data_def ConvertDoubleSigners_counter)
qed (auto simp: history_simps intro: double_signers.emit_sound double_signers.emit_complete)

section \<open>Committees\<close>

text \<open>The rows of the committees table carry the subsidized and retired numbers as booleans.\<close>

definition committee_row_stored :: "CommitteeRow \<Rightarrow> uint16 \<times> uint64 \<times> uint64 \<times> uint64" where
  "committee_row_stored r = (cmr_ChainID r, cmr_LastRootHeightUpdated r, cmr_LastChainHeightUpdated r,
     cmr_NumberOfSamples r)"

interpretation committee_rows: exact_snapshot_diff
  cd_ChainId committee_changed "\<lambda>_ c. committee_db_row (committee_row height blockTime c)" cmr_ChainID
  "\<lambda>c. ucast (cd_ChainId c)" committee_row_stored
  "\<lambda>c. (ucast (cd_ChainId c), cd_LastRootHeightUpdated c, cd_LastChainHeightUpdated c, cd_NumberOfSamples c)"
  "\<lambda>c. cd_ChainId c < 65536"
  for height blockTime
  by unfold_locales
    (auto simp: committee_row_def committee_db_row_def committee_row_stored_def committee_changed_def
      ucast_uint16_eq_iff)

lemma map_diff_rows: "map f (diff_rows key changed row c p) = diff_rows key changed (\<lambda>q x. f (row q x)) c p"
  unfolding diff_rows_def map_collect Let_def by (rule collect_cong) (auto split: option.split)

interpretation committee_history: entity_history cl t_committees
  "\<lambda>x. map committee_db_row (ibd_Committees x)" cmr_ChainID cmr_Height committee_row_stored
  bd_Committees bd_CommitteesPrevious
  "committee_rows.view" "\<lambda>d. committee_rows.emit (bd_Height d) (bd_BlockTime d)" "committee_rows.ok"
  for cl
proof unfold_locales
  show "map_option committee_row_stored
        (index_by cmr_ChainID (map committee_db_row (ibd_Committees (converted_data cl d [] b))) k) =
      committee_rows.emit (bd_Height d) (bd_BlockTime d) (bd_Committees d) (bd_CommitteesPrevious d) k"
    for d b k
    by (simp add: committee_rows.emit_def converted_data_def ConvertCommittees_diff map_diff_rows)
qed (auto simp: history_simps intro: committee_rows.emit_sound committee_rows.emit_complete)

section \<open>Parameters and supply\<close>

interpretation params_history: entity_history cl "\<lambda>s. single (t_params s)"
  "\<lambda>x. opt_rows (ibd_Params x)" "\<lambda>_. ()" prm_Height params_stored bd_Params bd_ParamsPrevious
  "\<lambda>c (_::unit). map_option (\<lambda>t. fsmParamsToIndexerParams t 0 zero_time) (ParamsFromFSM c)"
  "\<lambda>d c p _. map_option params_stored (ConvertParamsWithChangeDetection c p (bd_Height d) (bd_BlockTime d))"
  "\<lambda>_. True"
  for cl
  by (rule entity_history.intro, rule params_log.change_log_axioms)
    (auto simp: history_simps single_overlay index_by_opt_rows)

interpretation supply_history: entity_history cl "\<lambda>s. single (t_supply s)"
  "\<lambda>x. opt_rows (ibd_Supply x)" "\<lambda>_. ()" sup_Height supply_stored bd_Supply bd_SupplyPrevious
  "\<lambda>c (_::unit). map_option (\<lambda>s. (fsup_Total s, fsup_Staked s, fsup_DelegatedOnly s)) c"
  "\<lambda>d c p _. map_option supply_stored (ConvertSupplyWithChangeDetection c p (bd_Height d) (bd_BlockTime d))"
  "\<lambda>_. True"
  for cl
  by (rule entity_history.intro, rule supply_log.change_log_axioms)
    (auto simp: history_simps single_overlay index_by_opt_rows)

section \<open>Properties\<close>

text \<open>The entities of every block of the range have pairwise different keys.\<close>

definition keyed :: "('m blob_BlockData \<Rightarrow> 'e list) \<Rightarrow> ('e \<Rightarrow> 'k) \<Rightarrow> nat \<Rightarrow> nat \<Rightarrow> (nat \<Rightarrow> 'm blob_BlockData) \<Rightarrow> bool" where
  "keyed cur key h0 n blocks \<longleftrightarrow> (\<forall>h \<in> {h0..n}. distinct (map key (cur (blocks h))))"

lemma keyed_hex: "distinct (map (\<lambda>x. BytesToHex (f x)) xs) \<longleftrightarrow> distinct (map f xs)"
  by (simp add: distinct_map inj_on_def)

lemma keyed_D: "keyed cur key h0 n blocks \<Longrightarrow> h0 \<le> h \<Longrightarrow> h \<le> n \<Longrightarrow> distinct (map key (cur (blocks h)))"
  by (simp add: keyed_def)


definition sample_validator :: "uint64 \<Rightarrow> uint64 \<Rightarrow> fsm_Validator" where
  "sample_validator stake unstaking = \<lparr>val_Address = [1], val_PublicKey = [2], val_NetAddress = ''tcp'',
     val_StakedAmount = stake, val_Committees = [1], val_MaxPausedHeight = 0,
     val_UnstakingHeight = unstaking, val_Output = [3], val_Delegate = False, val_Compound = True\<rparr>"

definition sample_validators :: "nat \<Rightarrow> bytes blob_BlockData" where
  "sample_validators h = (sample_data 5 (of_nat h))\<lparr>
     bd_ValidatorsCurrent := [if h = 1 then sample_validator 10 0 else sample_validator 10 77],
     bd_ValidatorsPrevious := (if h = 1 then [] else [sample_validator 10 0])\<rparr>"


text \<open>C3. Time travel for committees: the last row of a (committee, validator) pair records the
  validator's stake, status and flags as they are at height m, and the last row of a committee its
  heights and number of samples, for committee ids below 2^16.\<close>

theorem committees_time_travel:
  assumes "history c h0 n blocks" "any_order hs h0 n" "fresh_chain c st" "m \<in> {h0..n}"
    and "linked bd_ValidatorsCurrent bd_ValidatorsPrevious [] h0 n blocks"
    and "linked bd_Committees bd_CommitteesPrevious [] h0 n blocks"
    and "\<forall>h \<in> {h0..n}. assignments_ok (bd_ValidatorsCurrent (blocks h)) \<and>
      distinct (map cd_ChainId (bd_Committees (blocks h))) \<and>
      (\<forall>x \<in> set (bd_Committees (blocks h)). cd_ChainId x < 65536)"
    and "v \<in> set (bd_ValidatorsCurrent (blocks m))" "cid \<in> set (val_Committees v)"
    and "x \<in> set (bd_Committees (blocks m))"
  shows "map_option assignment_stored
      (latest_at (t_committee_validators (run_history cl blocks hs c st)) (cid, BytesToHex (val_Address v)) m) =
    Some (val_StakedAmount v, validator_status v, val_Delegate v, val_Compound v) \<and>
    map_option committee_row_stored
      (latest_at (t_committees (run_history cl blocks hs c st)) (ucast (cd_ChainId x)) m) =
    Some (ucast (cd_ChainId x), cd_LastRootHeightUpdated x, cd_LastChainHeightUpdated x, cd_NumberOfSamples x)"
proof
  have m: "h0 \<le> m" "m \<le> n" using assms(4) by simp_all
  have ok: "assignments_ok (bd_ValidatorsCurrent (blocks h))" "committee_rows.ok (bd_Committees (blocks h))"
    if "h0 \<le> h" "h \<le> n" for h
    using assms(7) that by (simp_all add: committee_rows.ok_def)
  have "assignment_view (bd_ValidatorsCurrent (blocks m)) (cid, BytesToHex (val_Address v)) =
      Some (val_StakedAmount v, validator_status v, val_Delegate v, val_Compound v)"
    using assignments_ok_index [OF ok(1) [OF m] assms(8)] assms(9) by (simp add: assignment_view_def)
  from assignment_history.time_travel [OF assms(1-3,5) _ ok(1) m this, of cl]
  show "map_option assignment_stored
      (latest_at (t_committee_validators (run_history cl blocks hs c st)) (cid, BytesToHex (val_Address v)) m) =
    Some (val_StakedAmount v, validator_status v, val_Delegate v, val_Compound v)"
    by (simp add: assignments_ok_def assignment_view_def)
  have "committee_rows.view (bd_Committees (blocks m)) (ucast (cd_ChainId x)) =
      Some (ucast (cd_ChainId x), cd_LastRootHeightUpdated x, cd_LastChainHeightUpdated x, cd_NumberOfSamples x)"
    by (rule committee_rows.view_mem [OF ok(2) [OF m] assms(10)])
  from committee_history.time_travel [OF assms(1-3,6) _ ok(2) m this, of cl]
  show "map_option committee_row_stored
      (latest_at (t_committees (run_history cl blocks hs c st)) (ucast (cd_ChainId x)) m) =
    Some (ucast (cd_ChainId x), cd_LastRootHeightUpdated x, cd_LastChainHeightUpdated x, cd_NumberOfSamples x)"
    by (simp add: committee_rows.ok_def committee_rows.view_def)
qed

definition sample_committee :: "uint64 \<Rightarrow> lib_CommitteeData" where
  "sample_committee samples = \<lparr>cd_ChainId = 1, cd_LastRootHeightUpdated = 3, cd_LastChainHeightUpdated = 4,
     cd_NumberOfSamples = samples, cd_PaymentPercents = []\<rparr>"

definition sample_committees :: "nat \<Rightarrow> bytes blob_BlockData" where
  "sample_committees h = (sample_validators h)\<lparr>
     bd_Committees := [if h = 1 then sample_committee 1 else sample_committee 2],
     bd_CommitteesPrevious := (if h = 1 then [] else [sample_committee 1])\<rparr>"

theorem committees_time_travel_witness:
  "map_option assignment_stored
     (latest_at (t_committee_validators (run_history sample_lib sample_committees [2, 1] 5 sample_state))
       (1, BytesToHex [1]) 2) = Some (10, ''unstaking'', False, True) \<and>
   map_option committee_row_stored
     (latest_at (t_committees (run_history sample_lib sample_committees [2, 1] 5 sample_state)) 1 2) =
   Some (1, 3, 4, 2)"
  using committees_time_travel [OF sample_history sample_order sample_fresh, of sample_committees 2
      "sample_validator 10 77" 1 "sample_committee 2" sample_lib]
  by (simp add: sample_committees_def sample_validators_def sample_range sample_linked sample_validator_def
      sample_committee_def assignments_ok_def validator_status_def)


definition sample_pool :: "uint64 \<Rightarrow> fsm_Pool" where
  "sample_pool amount = \<lparr>pool_Id = 32769, pool_Amount = amount,
     pool_Points = [\<lparr>pp_Address = [9], pp_Points = 4\<rparr>], pool_TotalPoolPoints = 4\<rparr>"

definition sample_pools :: "nat \<Rightarrow> bytes blob_BlockData" where
  "sample_pools h = (sample_data 5 (of_nat h))\<lparr>
     bd_PoolsCurrent := [if h = 1 then sample_pool 10 else sample_pool 20],
     bd_PoolsPrevious := (if h = 1 then [] else [sample_pool 10])\<rparr>"



definition sample_sell :: "bytes \<Rightarrow> lib_SellOrder" where
  "sample_sell buyer = \<lparr>so_Id = [7], so_Committee = 1, so_Data = [], so_AmountForSale = 50,
     so_RequestedAmount = 60, so_SellerReceiveAddress = [3], so_BuyerSendAddress = buyer,
     so_BuyerReceiveAddress = buyer, so_BuyerChainDeadline = 0, so_SellersSendAddress = [4]\<rparr>"

definition sample_price :: "uint64 \<Rightarrow> lib_DexPrice" where
  "sample_price e6 = \<lparr>dp_LocalChainId = 1, dp_RemoteChainId = 2, dp_LocalPool = 100, dp_RemotePool = 200,
     dp_E6ScaledPrice = e6\<rparr>"

definition sample_market :: "nat \<Rightarrow> bytes blob_BlockData" where
  "sample_market h = (sample_data 5 (of_nat h))\<lparr>
     bd_Orders := [if h = 1 then sample_sell [] else sample_sell [8]],
     bd_OrdersPrevious := (if h = 1 then [] else [sample_sell []]),
     bd_DexPrices := [if h = 1 then sample_price 2000000 else sample_price 1900000],
     bd_DexPricesPrevious := (if h = 1 then [] else [sample_price 2000000])\<rparr>"


text \<open>C6. Time travel for the missed-block and double-sign counters: at every height and for every
  address the last row gives the counter of that height, where no row and an absent entry both mean
  zero; the resets of entries that disappeared make this hold for absent addresses too.\<close>

theorem signers_time_travel:
  assumes "history c h0 n blocks" "any_order hs h0 n" "fresh_chain c st" "m \<in> {h0..n}"
    and "linked bd_NonSignersCurrent bd_NonSignersPrevious [] h0 n blocks"
    and "linked bd_DoubleSignersCurrent bd_DoubleSignersPrevious [] h0 n blocks"
    and "keyed bd_NonSignersCurrent ns_Address h0 n blocks"
    and "keyed bd_DoubleSignersCurrent ds_Id h0 n blocks"
  shows "(case latest_at (t_validator_non_signing_info (run_history cl blocks hs c st)) a m of
        None \<Rightarrow> 0 | Some r \<Rightarrow> vns_MissedBlocksCount r) =
      (case index_by (\<lambda>ns. BytesToHex (ns_Address ns)) (bd_NonSignersCurrent (blocks m)) a of
        None \<Rightarrow> 0 | Some ns \<Rightarrow> ns_Counter ns) \<and>
    (case latest_at (t_validator_double_signing_info (run_history cl blocks hs c st)) a m of
        None \<Rightarrow> 0 | Some r \<Rightarrow> vds_EvidenceCount r) =
      (case index_by (\<lambda>ds. BytesToHex (ds_Id ds)) (bd_DoubleSignersCurrent (blocks m)) a of
        None \<Rightarrow> 0 | Some ds \<Rightarrow> of_nat (length (ds_Heights ds)))"
proof
  have m: "h0 \<le> m" "m \<le> n" using assms(4) by simp_all
  have ok: "non_signers.ok (bd_NonSignersCurrent (blocks h))"
    "double_signers.ok (bd_DoubleSignersCurrent (blocks h))" if "h0 \<le> h" "h \<le> n" for h
    using keyed_D [OF assms(7) that] keyed_D [OF assms(8) that]
    by (simp_all add: non_signers.ok_def double_signers.ok_def keyed_hex)
  have none: "non_signers.ok []" "double_signers.ok []"
    by (simp_all add: non_signers.ok_def double_signers.ok_def)
  let ?ns = "latest_at (t_validator_non_signing_info (run_history cl blocks hs c st)) a m"
  let ?n = "case index_by (\<lambda>ns. BytesToHex (ns_Address ns)) (bd_NonSignersCurrent (blocks m)) a of
      None \<Rightarrow> 0 | Some ns \<Rightarrow> ns_Counter ns"
  have "map_option vns_MissedBlocksCount ?ns = Some ?n \<or> (?ns = None \<and> non_signers.view [] a = Some ?n)"
    by (rule non_signer_history.time_travel [OF assms(1-3,5) none(1) _ m]) (simp_all add: ok non_signers.view_def)
  then show "(case latest_at (t_validator_non_signing_info (run_history cl blocks hs c st)) a m of
        None \<Rightarrow> 0 | Some r \<Rightarrow> vns_MissedBlocksCount r) =
      (case index_by (\<lambda>ns. BytesToHex (ns_Address ns)) (bd_NonSignersCurrent (blocks m)) a of
        None \<Rightarrow> 0 | Some ns \<Rightarrow> ns_Counter ns)"
    by (auto simp: non_signers.view_def)
  let ?ds = "latest_at (t_validator_double_signing_info (run_history cl blocks hs c st)) a m"
  let ?d = "case index_by (\<lambda>ds. BytesToHex (ds_Id ds)) (bd_DoubleSignersCurrent (blocks m)) a of
      None \<Rightarrow> 0 | Some ds \<Rightarrow> evidence_count ds"
  have "map_option vds_EvidenceCount ?ds = Some ?d \<or> (?ds = None \<and> double_signers.view [] a = Some ?d)"
    by (rule double_signer_history.time_travel [OF assms(1-3,6) none(2) _ m])
      (simp_all add: ok double_signers.view_def)
  then show "(case latest_at (t_validator_double_signing_info (run_history cl blocks hs c st)) a m of
        None \<Rightarrow> 0 | Some r \<Rightarrow> vds_EvidenceCount r) =
      (case index_by (\<lambda>ds. BytesToHex (ds_Id ds)) (bd_DoubleSignersCurrent (blocks m)) a of
        None \<Rightarrow> 0 | Some ds \<Rightarrow> of_nat (length (ds_Heights ds)))"
    unfolding evidence_count_def [symmetric] by (auto simp: double_signers.view_def)
qed

definition sample_signers :: "nat \<Rightarrow> bytes blob_BlockData" where
  "sample_signers h = (sample_data 5 (of_nat h))\<lparr>
     bd_NonSignersCurrent := (if h = 1 then [\<lparr>ns_Address = [1], ns_Counter = 3\<rparr>] else []),
     bd_NonSignersPrevious := (if h = 1 then [] else [\<lparr>ns_Address = [1], ns_Counter = 3\<rparr>]),
     bd_DoubleSignersCurrent := [\<lparr>ds_Id = [2], ds_Heights = (if h = 1 then [1] else [1, 2])\<rparr>],
     bd_DoubleSignersPrevious := (if h = 1 then [] else [\<lparr>ds_Id = [2], ds_Heights = [1]\<rparr>])\<rparr>"

theorem signers_time_travel_witness:
  "(case latest_at (t_validator_non_signing_info (run_history sample_lib sample_signers [2, 1] 5 sample_state))
       (BytesToHex [1]) 2 of None \<Rightarrow> 0 | Some r \<Rightarrow> vns_MissedBlocksCount r) = 0 \<and>
   (case latest_at (t_validator_double_signing_info (run_history sample_lib sample_signers [2, 1] 5 sample_state))
       (BytesToHex [1]) 2 of None \<Rightarrow> 0 | Some r \<Rightarrow> vds_EvidenceCount r) = 0"
  using signers_time_travel [OF sample_history sample_order sample_fresh, of sample_signers 2
      sample_lib "BytesToHex [1]"]
  by (simp add: sample_signers_def sample_range sample_linked keyed_def index_by_Cons)

text \<open>C7. Time travel for the parameters and the supply: the last row at or below m holds all parameters
  (flattened) and the supply of height m, although a row exists only where one of them changed.\<close>

theorem params_supply_time_travel:
  assumes "history c h0 n blocks" "any_order hs h0 n" "fresh_chain c st" "m \<in> {h0..n}"
    and "linked bd_Params bd_ParamsPrevious None h0 n blocks"
    and "linked bd_Supply bd_SupplyPrevious None h0 n blocks"
    and "ParamsFromFSM (bd_Params (blocks m)) = Some t" "bd_Supply (blocks m) = Some s"
  shows "map_option params_stored (latest_at (single (t_params (run_history cl blocks hs c st))) () m) =
      Some (fsmParamsToIndexerParams t 0 zero_time) \<and>
    map_option supply_stored (latest_at (single (t_supply (run_history cl blocks hs c st))) () m) =
      Some (fsup_Total s, fsup_Staked s, fsup_DelegatedOnly s)"
proof
  have m: "h0 \<le> m" "m \<le> n" using assms(4) by simp_all
  from params_history.time_travel [OF assms(1-3,5) TrueI TrueI m, where k = "()" and cl = cl]
  show "map_option params_stored (latest_at (single (t_params (run_history cl blocks hs c st))) () m) =
      Some (fsmParamsToIndexerParams t 0 zero_time)"
    by (simp add: assms(7))
  from supply_history.time_travel [OF assms(1-3,6) TrueI TrueI m, where k = "()" and cl = cl]
  show "map_option supply_stored (latest_at (single (t_supply (run_history cl blocks hs c st))) () m) =
      Some (fsup_Total s, fsup_Staked s, fsup_DelegatedOnly s)"
    by (simp add: assms(8))
qed

definition sample_fsm_params :: fsm_Params where
  "sample_fsm_params = \<lparr>fp_Consensus = Some \<lparr>fcp_BlockSize = 1000, fcp_ProtocolVersion = ''1/0'',
     fcp_RootChainId = 1\<rparr>, fp_Validator = None, fp_Fee = None, fp_Governance = None\<rparr>"

definition sample_params :: "nat \<Rightarrow> bytes blob_BlockData" where
  "sample_params h = (sample_data 5 (of_nat h))\<lparr>
     bd_Params := Some sample_fsm_params,
     bd_ParamsPrevious := (if h = 1 then None else Some sample_fsm_params),
     bd_Supply := Some \<lparr>fsup_Total = 100, fsup_Staked = 40, fsup_DelegatedOnly = 2\<rparr>,
     bd_SupplyPrevious := (if h = 1 then None
       else Some \<lparr>fsup_Total = 100, fsup_Staked = 40, fsup_DelegatedOnly = 2\<rparr>)\<rparr>"

theorem params_supply_time_travel_witness:
  "map_option params_stored
     (latest_at (single (t_params (run_history sample_lib sample_params [2, 1] 5 sample_state))) () 2) =
     Some (fsmParamsToIndexerParams (the (ParamsFromFSM (Some sample_fsm_params))) 0 zero_time) \<and>
   map_option supply_stored
     (latest_at (single (t_supply (run_history sample_lib sample_params [2, 1] 5 sample_state))) () 2) =
     Some (100, 40, 2)"
proof -
  have "\<exists>t. ParamsFromFSM (Some sample_fsm_params) = Some t"
    by (simp add: ParamsFromFSM_def sample_fsm_params_def)
  then have "ParamsFromFSM (Some sample_fsm_params) = Some (the (ParamsFromFSM (Some sample_fsm_params)))"
    by auto
  then show ?thesis
    using params_supply_time_travel [OF sample_history sample_order sample_fresh, of sample_params 2
        "the (ParamsFromFSM (Some sample_fsm_params))"
        "\<lparr>fsup_Total = 100, fsup_Staked = 40, fsup_DelegatedOnly = 2\<rparr>" sample_lib]
    by (simp add: sample_params_def sample_linked)
qed

text \<open>
  No redundant rows: above the first height, the accounts table has a row of an address exactly at
  the heights where its amount differs from the height before (or where the address is new).\<close>

theorem accounts_rows_only_on_change:
  assumes "history c h0 n blocks" "any_order hs h0 n" "fresh_chain c st"
    and "linked bd_Accounts bd_AccountsPrevious [] h0 n blocks"
    and "keyed bd_Accounts acc_Address h0 n blocks"
    and "h0 < h" "h \<le> n" "a \<in> set (bd_Accounts (blocks h))"
  shows "t_accounts (run_history cl blocks hs c st) (BytesToHex (acc_Address a), of_nat h) \<noteq> None \<longleftrightarrow>
    a \<notin> set (bd_Accounts (blocks (h - 1)))"
proof -
  let ?k = "BytesToHex (acc_Address a)" and ?v = "account_row 0 zero_time a"
  let ?row = "t_accounts (run_history cl blocks hs c st) (?k, of_nat h)"
  have ok: "accounts.ok (bd_Accounts (blocks i))" if "h0 \<le> i" "i \<le> n" for i
    using keyed_D [OF assms(5) that] by (simp add: accounts.ok_def keyed_hex)
  have now: "accounts.view (bd_Accounts (blocks h)) ?k = Some ?v"
    by (rule accounts.view_mem [OF ok assms(8)]) (use assms(6,7) in simp_all)
  have none: "accounts.ok []" by (simp add: accounts.ok_def)
  have row: "map_option account_stored ?row = Some v \<longleftrightarrow>
      accounts.view (bd_Accounts (blocks h)) ?k = Some v \<and>
      accounts.view (bd_Accounts (blocks (h - 1))) ?k \<noteq> Some v" for v
    by (rule account_history.row_iff [OF assms(1-4) none _ accounts.minimal_change_log_axioms assms(6,7)])
      (rule ok)
  have "?row \<noteq> None \<longleftrightarrow> map_option account_stored ?row = Some ?v"
  proof
    assume "?row \<noteq> None"
    then obtain v where v: "map_option account_stored ?row = Some v" by auto
    then have "accounts.view (bd_Accounts (blocks h)) ?k = Some v" unfolding row by (rule conjunct1)
    with now v show "map_option account_stored ?row = Some ?v" by simp
  qed auto
  also have "\<dots> \<longleftrightarrow> accounts.view (bd_Accounts (blocks (h - 1))) ?k \<noteq> Some ?v"
    unfolding row now by simp
  also have "\<dots> \<longleftrightarrow> a \<notin> set (bd_Accounts (blocks (h - 1)))"
  proof -
    have "accounts.ok (bd_Accounts (blocks (h - 1)))" using ok assms(6,7) by simp
    then have "a \<in> set (bd_Accounts (blocks (h - 1))) \<Longrightarrow>
        accounts.view (bd_Accounts (blocks (h - 1))) ?k = Some ?v"
      by (rule accounts.view_mem)
    moreover have "a \<in> set (bd_Accounts (blocks (h - 1)))"
      if v: "accounts.view (bd_Accounts (blocks (h - 1))) ?k = Some ?v"
    proof -
      obtain e where "e \<in> set (bd_Accounts (blocks (h - 1)))" "account_row 0 zero_time e = ?v"
        using accounts.view_SomeD [OF v] by blast
      moreover from this have "e = a" by (intro fsm_Account.equality) (simp_all add: account_row_def)
      ultimately show ?thesis by simp
    qed
    ultimately show ?thesis by blast
  qed
  finally show ?thesis .
qed

theorem accounts_rows_only_on_change_witness:
  "t_accounts (run_history sample_lib sample_accounts [2, 1] 5 sample_state) (BytesToHex [1], 2) = None"
  using accounts_rows_only_on_change [OF sample_history sample_order sample_fresh, of sample_accounts 2
      "\<lparr>acc_Address = [1], acc_Amount = 10\<rparr>" sample_lib]
  by (simp add: sample_accounts_def sample_range sample_linked keyed_def)

text \<open>
  An account that disappears from the state is never recorded as gone: as long as it stays absent,
  the query goes on answering with its last row (nothing writes a tombstone).\<close>

theorem accounts_removed_stale:
  assumes "history c h0 n blocks" "any_order hs h0 n" "fresh_chain c st"
    and "linked bd_Accounts bd_AccountsPrevious [] h0 n blocks"
    and "keyed bd_Accounts acc_Address h0 n blocks"
    and "h0 \<le> m" "m \<le> m'" "m' \<le> n" "a \<in> set (bd_Accounts (blocks m))"
    and "\<forall>h. m < h \<and> h \<le> m' \<longrightarrow> acc_Address a \<notin> acc_Address ` set (bd_Accounts (blocks h))"
  shows "map_option account_stored
      (latest_at (t_accounts (run_history cl blocks hs c st)) (BytesToHex (acc_Address a)) m') =
    Some (account_row 0 zero_time a)"
proof -
  let ?k = "BytesToHex (acc_Address a)"
  have ok: "accounts.ok (bd_Accounts (blocks i))" if "h0 \<le> i" "i \<le> n" for i
    using keyed_D [OF assms(5) that] by (simp add: accounts.ok_def keyed_hex)
  have absent: "accounts.view (bd_Accounts (blocks h)) ?k = None" if "m < h" "h \<le> m'" for h
    using assms(10) that by (auto simp: accounts.view_def index_by_None_iff)
  have "accounts.ok []" by (simp add: accounts.ok_def)
  have keeps: "latest_at (t_accounts (run_history cl blocks hs c st)) ?k m' =
      latest_at (t_accounts (run_history cl blocks hs c st)) ?k m"
    by (rule account_history.absent_keeps [OF assms(1-4) \<open>accounts.ok []\<close> _ assms(6-8)])
      (fact ok absent)+
  have "accounts.view (bd_Accounts (blocks m)) ?k = Some (account_row 0 zero_time a)"
    by (rule accounts.view_mem [OF ok assms(9)]) (use assms(6-8) in simp_all)
  then have "map_option account_stored (latest_at (t_accounts (run_history cl blocks hs c st)) ?k m) =
        Some (account_row 0 zero_time a) \<or>
      (latest_at (t_accounts (run_history cl blocks hs c st)) ?k m = None \<and>
       accounts.view [] ?k = Some (account_row 0 zero_time a))"
    using assms(6-8) ok by (intro account_history.time_travel [OF assms(1-4) \<open>accounts.ok []\<close>]) auto
  then show ?thesis by (simp add: keeps accounts.view_def)
qed

definition sample_removed :: "nat \<Rightarrow> bytes blob_BlockData" where
  "sample_removed h = (sample_data 5 (of_nat h))\<lparr>
     bd_Accounts := (if h = 1 then [\<lparr>acc_Address = [1], acc_Amount = 10\<rparr>] else []),
     bd_AccountsPrevious := (if h = 1 then [] else [\<lparr>acc_Address = [1], acc_Amount = 10\<rparr>])\<rparr>"

theorem accounts_removed_stale_witness:
  "map_option account_stored
     (latest_at (t_accounts (run_history sample_lib sample_removed [2, 1] 5 sample_state))
       (BytesToHex [1]) 2) =
   Some (account_row 0 zero_time \<lparr>acc_Address = [1], acc_Amount = 10\<rparr>) \<and>
   bd_Accounts (sample_removed 2) = []"
  using accounts_removed_stale [OF sample_history sample_order sample_fresh, of sample_removed 1 2
      "\<lparr>acc_Address = [1], acc_Amount = 10\<rparr>" sample_lib]
  by (simp add: sample_removed_def sample_range sample_linked keyed_def)

end
