(* ===== verification/ConversionProps.thy ===== *)
theory ConversionProps
  imports Samples
begin

text \<open>
  Properties of single conversions: the DEX state machine, the comparison of committee lists, the derived
  pool ids, and what a blob without the snapshot of the height before loses.
\<close>

section \<open>The DEX state machine\<close>

lemma dex_state_neqs [simp]:
  "DexCompleteState \<noteq> DexLockedState" "DexCompleteState \<noteq> DexPendingState" "DexLockedState \<noteq> DexPendingState"
  "DexLockedState \<noteq> DexCompleteState" "DexPendingState \<noteq> DexCompleteState" "DexPendingState \<noteq> DexLockedState"
  by (simp_all add: DexCompleteState_def DexLockedState_def DexPendingState_def)

definition order_id :: "lib_DexLimitOrder \<Rightarrow> string" where
  "order_id x = BytesToHex (dlo_OrderId x)"

definition distinct_orders :: "lib_DexBatch list \<Rightarrow> bool" where
  "distinct_orders bs \<longleftrightarrow> distinct (map dlo_OrderId (batch_orders bs))"

lemma distinct_orders_index:
  assumes "distinct_orders bs"
  shows "index_by (\<lambda>x. BytesToHex (dlo_OrderId x)) (batch_orders bs) k = Some y \<longleftrightarrow>
    y \<in> set (batch_orders bs) \<and> order_id y = k"
proof
  assume "index_by (\<lambda>x. BytesToHex (dlo_OrderId x)) (batch_orders bs) k = Some y"
  then show "y \<in> set (batch_orders bs) \<and> order_id y = k"
    using index_by_SomeD by (fastforce simp: order_id_def)
next
  assume y: "y \<in> set (batch_orders bs) \<and> order_id y = k"
  have "distinct (map (\<lambda>x. BytesToHex (dlo_OrderId x)) (batch_orders bs))"
    using assms by (simp add: distinct_orders_def distinct_map inj_on_def)
  with y show "index_by (\<lambda>x. BytesToHex (dlo_OrderId x)) (batch_orders bs) k = Some y"
    using index_by_mem [of "\<lambda>x. BytesToHex (dlo_OrderId x)" "batch_orders bs" y] by (simp add: order_id_def)
qed

lemma in_batch_orders: "x \<in> set (batch_orders bs) \<longleftrightarrow> (\<exists>b \<in> set bs. x \<in> set (db_Orders b))"
  by (auto simp: batch_orders_def)

lemma dex_order_rows_parts:
  assumes "distinct_orders (bd_DexBatchesPreviousCurr data)" "distinct_orders (bd_DexBatchesPreviousNext data)"
  shows "(\<exists>r \<in> set (ConvertDexOrdersWithStateMachine dc data). dxo_OrderID r = k \<and> dxo_State r = DexCompleteState) \<longleftrightarrow>
      (\<exists>x \<in> set (batch_orders (bd_DexBatchesPreviousCurr data)). order_id x = k) \<and>
      (\<exists>e \<in> set (bd_Events data). \<exists>d. decoded_event dc ''dex-swap'' e = Some d \<and> de_OrderID d = k)"
    and "(\<exists>r \<in> set (ConvertDexOrdersWithStateMachine dc data). dxo_OrderID r = k \<and> dxo_State r = DexLockedState) \<longleftrightarrow>
      (\<exists>x \<in> set (batch_orders (bd_DexBatchesCurrent data)). order_id x = k \<and>
        \<not> (\<exists>y \<in> set (batch_orders (bd_DexBatchesPreviousCurr data)). order_id y = k \<and> order_same y x))"
    and "(\<exists>r \<in> set (ConvertDexOrdersWithStateMachine dc data). dxo_OrderID r = k \<and> dxo_State r = DexPendingState) \<longleftrightarrow>
      (\<exists>x \<in> set (batch_orders (bd_DexBatchesNext data)). order_id x = k \<and>
        \<not> (\<exists>y \<in> set (batch_orders (bd_DexBatchesPreviousNext data)). order_id y = k \<and> order_same y x))"
proof -
  let ?rows = "set (ConvertDexOrdersWithStateMachine dc data)"
  let ?swaps = "swapEvents (parseDexEventsFromSlice dc (bd_Events data))"
  have "(\<exists>r \<in> ?rows. dxo_OrderID r = k \<and> dxo_State r = DexCompleteState) \<longleftrightarrow>
      (\<exists>x \<in> set (batch_orders (bd_DexBatchesPreviousCurr data)). order_id x = k) \<and> ?swaps k \<noteq> None"
    unfolding Bex_def in_ConvertDexOrders by (auto simp: in_batch_orders order_id_def; force)
  moreover have "?swaps k \<noteq> None \<longleftrightarrow>
      (\<exists>e \<in> set (bd_Events data). \<exists>d. decoded_event dc ''dex-swap'' e = Some d \<and> de_OrderID d = k)"
    unfolding swap_event_None_iff by blast
  ultimately show "(\<exists>r \<in> ?rows. dxo_OrderID r = k \<and> dxo_State r = DexCompleteState) \<longleftrightarrow>
      (\<exists>x \<in> set (batch_orders (bd_DexBatchesPreviousCurr data)). order_id x = k) \<and>
      (\<exists>e \<in> set (bd_Events data). \<exists>d. decoded_event dc ''dex-swap'' e = Some d \<and> de_OrderID d = k)"
    by simp
  have new: "order_is_new (index_by (\<lambda>x. BytesToHex (dlo_OrderId x)) (batch_orders bs)) order_same
        (BytesToHex (dlo_OrderId x)) x \<longleftrightarrow>
      \<not> (\<exists>y \<in> set (batch_orders bs). order_id y = order_id x \<and> order_same y x)"
    if "distinct_orders bs" for bs x
    by (auto simp: order_is_new_def distinct_orders_index [OF that] order_id_def)
  show "(\<exists>r \<in> ?rows. dxo_OrderID r = k \<and> dxo_State r = DexLockedState) \<longleftrightarrow>
      (\<exists>x \<in> set (batch_orders (bd_DexBatchesCurrent data)). order_id x = k \<and>
        \<not> (\<exists>y \<in> set (batch_orders (bd_DexBatchesPreviousCurr data)). order_id y = k \<and> order_same y x))"
    unfolding Bex_def in_ConvertDexOrders buildH1Maps_def h1Maps.simps new [OF assms(1)] new [OF assms(2)]
    by (auto simp: in_batch_orders order_id_def; metis dex_order_row_simps(1,2))
  show "(\<exists>r \<in> ?rows. dxo_OrderID r = k \<and> dxo_State r = DexPendingState) \<longleftrightarrow>
      (\<exists>x \<in> set (batch_orders (bd_DexBatchesNext data)). order_id x = k \<and>
        \<not> (\<exists>y \<in> set (batch_orders (bd_DexBatchesPreviousNext data)). order_id y = k \<and> order_same y x))"
    unfolding Bex_def in_ConvertDexOrders buildH1Maps_def h1Maps.simps new [OF assms(1)] new [OF assms(2)]
    by (auto simp: in_batch_orders order_id_def; metis dex_order_row_simps(1,2))
qed

text \<open>C8. The DEX order state machine: a block writes a COMPLETE row for an order exactly if the order was
  in the locked batch of the height before and one of the block's events decodes to a swap of that order;
  a LOCKED row exactly if the order is in the current batch and was not in the locked batch before with
  the same amounts and address (so an order that moves from the next batch into the current one is always
  written); a PENDING row likewise for the next batch.\<close>

theorem dex_order_rows:
  assumes "distinct_orders (bd_DexBatchesPreviousCurr data)" "distinct_orders (bd_DexBatchesPreviousNext data)"
  shows "((\<exists>r \<in> set (ConvertDexOrdersWithStateMachine dc data). dxo_OrderID r = k \<and> dxo_State r = DexCompleteState) \<longleftrightarrow>
      (\<exists>x \<in> set (batch_orders (bd_DexBatchesPreviousCurr data)). order_id x = k) \<and>
      (\<exists>e \<in> set (bd_Events data). \<exists>d. decoded_event dc ''dex-swap'' e = Some d \<and> de_OrderID d = k)) \<and>
    ((\<exists>r \<in> set (ConvertDexOrdersWithStateMachine dc data). dxo_OrderID r = k \<and> dxo_State r = DexLockedState) \<longleftrightarrow>
      (\<exists>x \<in> set (batch_orders (bd_DexBatchesCurrent data)). order_id x = k \<and>
        \<not> (\<exists>y \<in> set (batch_orders (bd_DexBatchesPreviousCurr data)). order_id y = k \<and> order_same y x))) \<and>
    ((\<exists>r \<in> set (ConvertDexOrdersWithStateMachine dc data). dxo_OrderID r = k \<and> dxo_State r = DexPendingState) \<longleftrightarrow>
      (\<exists>x \<in> set (batch_orders (bd_DexBatchesNext data)). order_id x = k \<and>
        \<not> (\<exists>y \<in> set (batch_orders (bd_DexBatchesPreviousNext data)). order_id y = k \<and> order_same y x)))"
  by (intro conjI dex_order_rows_parts assms)

lemma hex_not_Nil: "BytesToHex (b # bs) \<noteq> []"
  by (simp add: BytesToHex_Cons)

definition sample_batch :: "lib_DexLimitOrder list \<Rightarrow> lib_DexBatch" where
  "sample_batch os = \<lparr>db_Committee = 2, db_LockedHeight = 7, db_Orders = os, db_Deposits = [],
     db_Withdrawals = []\<rparr>"

definition sample_limit_order :: "byte \<Rightarrow> lib_DexLimitOrder" where
  "sample_limit_order i = \<lparr>dlo_OrderId = [i], dlo_Address = [9], dlo_AmountForSale = 5, dlo_RequestedAmount = 6\<rparr>"

definition sample_dex_data :: "bytes blob_BlockData" where
  "sample_dex_data = (sample_data 5 2)\<lparr>
     bd_Events := [\<lparr>ev_EventType = ''dex-swap'', ev_Height = 2, ev_Reference = '''', ev_ChainId = 5,
        ev_BlockHeight = 2, ev_Address = [9], ev_Msg = [1]\<rparr>],
     bd_DexBatchesPreviousCurr := [sample_batch [sample_limit_order 1]],
     bd_DexBatchesPreviousNext := [sample_batch [sample_limit_order 2]],
     bd_DexBatchesCurrent := [sample_batch [sample_limit_order 2]]\<rparr>"

theorem dex_order_rows_witness:
  "(\<exists>r \<in> set (ConvertDexOrdersWithStateMachine sample_dex_codec sample_dex_data).
      dxo_OrderID r = BytesToHex [1] \<and> dxo_State r = DexCompleteState) \<and>
   (\<exists>r \<in> set (ConvertDexOrdersWithStateMachine sample_dex_codec sample_dex_data).
      dxo_OrderID r = BytesToHex [2] \<and> dxo_State r = DexLockedState)"
proof -
  have d: "distinct_orders (bd_DexBatchesPreviousCurr sample_dex_data)"
    "distinct_orders (bd_DexBatchesPreviousNext sample_dex_data)"
    by (simp_all add: distinct_orders_def batch_orders_def sample_dex_data_def sample_batch_def)
  show ?thesis
    using dex_order_rows [OF d, of sample_dex_codec "BytesToHex [1]"]
      dex_order_rows [OF d, of sample_dex_codec "BytesToHex [2]"]
    by (simp add: sample_dex_data_def sample_batch_def batch_orders_def order_id_def sample_limit_order_def
        decoded_event_def parseDexEvent_def sample_dex_codec_def sample_swap_def zero_dexEvent_def
        hex_not_Nil)
qed

section \<open>A blob without the height before\<close>

text \<open>
  A blob that comes without the snapshot of the height before (the path of the blob listener)
  makes every change detection see everything as new: every account and every validator is written again,
  no COMPLETE row is written for any DEX order, deposit or withdrawal, and no counter is ever reset.\<close>

theorem blob_without_previous:
  assumes "Decode (lib_blob_codec cl) (Some \<lparr>ibs_Current = Some b, ibs_Previous = None\<rparr>) c = Ok data"
    and "convertToBlockData cl data [] = Ok d"
  shows "ibd_Accounts d = map (account_row (bd_Height data) (bd_BlockTime data)) (bd_Accounts data) \<and>
    ibd_Validators d = map (validator_row (bd_Height data) (bd_BlockTime data)) (bd_ValidatorsCurrent data) \<and>
    (\<forall>r \<in> set (ibd_DexOrders d). dxo_State r \<noteq> DexCompleteState) \<and>
    (\<forall>r \<in> set (ibd_DexDeposits d). dxd_State r \<noteq> DexCompleteState) \<and>
    (\<forall>r \<in> set (ibd_DexWithdrawals d). dxw_State r \<noteq> DexCompleteState) \<and>
    length (ibd_ValidatorNonSigningInfo d) = length (bd_NonSignersCurrent data)"
proof -
  obtain dec where "buildBlockData c (Some dec) None = Ok data"
    using assms(1) by (auto simp: Decode_def)
  note none = buildBlockData_no_previous [OF this]
  obtain blk where d: "d = converted_data cl data [] blk"
    using assms(2) by (auto simp: convertToBlockData_Ok)
  have all: "diff_rows key changed row cur [] = map (row None) cur" for key changed row and cur :: "'x list"
    by (simp add: diff_rows_def collect_all_Some)
  have len: "length (counter_rows key changed row reset cur []) = length cur" if "\<And>x. changed None x"
    for key :: "'e \<Rightarrow> 'k" and changed row reset and cur :: "'e list"
    using that by (simp add: counter_rows_def reset_rows_def collect_all_Some)
  show ?thesis
    using none by (auto simp: len d converted_data_def converted_validators_def ConvertAccounts_diff
        ConvertValidators_diff ConvertNonSigners_counter all in_ConvertDexOrders in_ConvertDexDeposits
        in_ConvertDexWithdrawals non_signer_changed_def)
qed

definition sample_blob :: "bytes \<Rightarrow> bytes list \<Rightarrow> fsm_IndexerBlob" where
  "sample_blob block accts = \<lparr>ib_Block = block, ib_Accounts = accts, ib_Pools = [], ib_Validators = [],
     ib_DexPrices = [], ib_NonSigners = [], ib_DoubleSigners = [], ib_Orders = [], ib_Params = [],
     ib_DexBatches = [], ib_NextDexBatches = [], ib_CommitteesData = [], ib_SubsidizedCommittees = [],
     ib_RetiredCommittees = [], ib_Supply = []\<rparr>"

definition sample_decoded :: "bytes blob_BlockData" where
  "sample_decoded = (sample_data 5 7)\<lparr>bd_Accounts := [\<lparr>acc_Address = [1], acc_Amount = 30\<rparr>]\<rparr>"

lemma sample_Decode:
  "Decode (lib_blob_codec sample_lib)
     (Some \<lparr>ibs_Current = Some (sample_blob [7] [[1, 30]]), ibs_Previous = None\<rparr>) 5 = Ok sample_decoded"
  by (simp add: Decode_def decodeBlob_def sample_blob_def sample_lib_def sample_blob_codec_def
      unmarshal_opt_def buildBlockData_def sample_block_def sample_header_def sample_decoded_def
      sample_data_def UnixMicro_def)

lemma sample_converts: "\<exists>d. convertToBlockData cl (sample_data c h) [] = Ok d"
  by (simp add: convertToBlockData_Ok_iff sample_block_def)

theorem blob_without_previous_witness:
  "\<exists>d. convertToBlockData sample_lib sample_decoded [] = Ok d \<and>
     ibd_Accounts d = [account_row 7 1000000 \<lparr>acc_Address = [1], acc_Amount = 30\<rparr>]"
proof -
  obtain d where d: "convertToBlockData sample_lib sample_decoded [] = Ok d"
    using convertToBlockData_Ok_iff [of sample_lib sample_decoded "[]"]
    by (auto simp: sample_decoded_def sample_data_def sample_block_def)
  show ?thesis
    using blob_without_previous [OF sample_Decode d] d by (simp add: sample_decoded_def sample_data_def)
qed

section \<open>Validators\<close>


definition sample_stake :: "uint64 \<Rightarrow> fsm_Validator" where
  "sample_stake n = \<lparr>val_Address = [1], val_PublicKey = [2], val_NetAddress = ''tcp'', val_StakedAmount = n,
     val_Committees = [1], val_MaxPausedHeight = 9, val_UnstakingHeight = 8, val_Output = [3],
     val_Delegate = False, val_Compound = True\<rparr>"


text \<open>
  The order-independent comparison of committee lists decides equality of the two sets when
  neither list repeats a committee; with repetitions it does not ([1, 2] against [1, 1] is equal for it).\<close>

lemma equal_committees:
  assumes "distinct a" "distinct b"
  shows "(equalCommittees a b \<longleftrightarrow> set a = set b) \<and> equalCommittees [1, 2] [1, 1]"
  using assms by (simp add: equalCommittees_distinct) (simp add: equalCommittees_iff)

section \<open>Pool ids\<close>

text \<open>
  Pool ids are derived from a chain id below 2^14 without collision: each of the four families
  gives the chain id back and is recognised as its own type.\<close>

theorem pool_id_round_trip:
  assumes "c < 16384"
  shows "ExtractChainIDFromPoolID c = c \<and> GetPoolType c = ''reward'' \<and>
    ExtractChainIDFromPoolID (HoldingPoolAddend + c) = c \<and> GetPoolType (HoldingPoolAddend + c) = ''holding'' \<and>
    ExtractChainIDFromPoolID (LiquidityPoolAddend + c) = c \<and> GetPoolType (LiquidityPoolAddend + c) = ''liquidity'' \<and>
    ExtractChainIDFromPoolID (EscrowPoolAddend + c) = c \<and> GetPoolType (EscrowPoolAddend + c) = ''escrow''"
  using pool_id_reward [OF assms] pool_id_holding [OF assms] pool_id_liquidity [OF assms]
    pool_id_escrow [OF assms] by simp

theorem pool_id_round_trip_witness:
  "ExtractChainIDFromPoolID (LiquidityPoolAddend + 5) = 5 \<and> GetPoolType (EscrowPoolAddend + 5) = ''escrow''"
  using pool_id_round_trip [of 5] by simp

text \<open>
  The addends of the models package are off by one against the ones of the transform package that
  the converters use: the models' liquidity id of a chain is one less than the id in the pool row, and the
  models read the chain id off a liquidity pool as one more than it is.\<close>

theorem pool_id_models_disagree:
  assumes "c < 16383"
  shows "model_ExtractChainIDFromPoolID (LiquidityPoolAddend + c) = c + 1 \<and>
    model_LiquidityPoolAddend + c + 1 = LiquidityPoolAddend + c"
proof -
  have "c < 16384" using assms by (simp add: word_less_nat_alt)
  note r = pool_id_ranges [OF this]
  have "unat c < 16383" using assms by (simp add: word_less_nat_alt)
  then have "\<not> 65535 \<le> 32768 + c" "32767 \<le> 32768 + c"
    using r by (simp_all add: word_le_nat_alt unat_word_ariths)
  then show ?thesis
    by (simp add: model_ExtractChainIDFromPoolID_def model_addends pool_addends)
qed

theorem pool_id_models_disagree_witness: "model_ExtractChainIDFromPoolID (LiquidityPoolAddend + 5) = 6"
  using pool_id_models_disagree [of 5] by simp

end
