(* ===== verification/AdminDB.thy ===== *)
theory AdminDB
  imports Indexer
begin

text \<open>
  The admin database (pkg/db/postgres/admin): the chains table, the health of RPC endpoints, the index
  progress with its gap query, and the requests of the admin API that only delete. A table is the list of
  its rows; a statement that the database refuses returns the error it is given as a parameter. The
  progress table is the one \<open>RecordIndexed\<close> of the theory Indexer writes.
\<close>

section \<open>Chains\<close>

record admin_Chain =
  adc_ChainID :: uint64
  adc_ChainName :: string
  adc_RPCEndpoints :: "string list"
  adc_Paused :: byte
  adc_Deleted :: byte
  adc_Notes :: string
  adc_CreatedAt :: time
  adc_UpdatedAt :: time

text \<open>\<open>INSERT ... ON CONFLICT (key) DO UPDATE\<close> on a table as a list of rows: the row with the key is
  replaced by \<open>merge old new\<close>, or the new row is added.\<close>

fun upsert_row :: "('r \<Rightarrow> 'k) \<Rightarrow> ('r \<Rightarrow> 'r \<Rightarrow> 'r) \<Rightarrow> 'r \<Rightarrow> 'r list \<Rightarrow> 'r list" where
  "upsert_row key merge new [] = [new]"
| "upsert_row key merge new (r # rs) =
     (if key r = key new then merge r new # rs else r # upsert_row key merge new rs)"

lemma set_map_upsert_row:
  assumes "\<And>old. key old = key new \<Longrightarrow> key (merge old new) = key new"
  shows "key ` set (upsert_row key merge new rs) = insert (key new) (key ` set rs)"
  using assms by (induction rs) auto

lemma distinct_upsert_row:
  assumes "\<And>old. key old = key new \<Longrightarrow> key (merge old new) = key new" "distinct (map key rs)"
  shows "distinct (map key (upsert_row key merge new rs))"
  using assms(2)
proof (induction rs)
  case (Cons r rs)
  then show ?case using set_map_upsert_row [of key new merge rs] assms(1) by auto
qed simp

lemma find_upsert_row:
  assumes "\<And>old. key (merge old new) = key new"
  shows "find (\<lambda>r. key r = k) (upsert_row key merge new rs) =
    (if k = key new
     then Some (case find (\<lambda>r. key r = k) rs of None \<Rightarrow> new | Some old \<Rightarrow> merge old new)
     else find (\<lambda>r. key r = k) rs)"
proof (induction rs)
  case (Cons r rs)
  then show ?case using assms by (cases "key r = key new") auto
qed simp

definition InsertChain ::
  "go_error option \<Rightarrow> time \<Rightarrow> admin_Chain \<Rightarrow> admin_Chain list \<Rightarrow> admin_Chain list \<times> unit outcome" where
  "InsertChain fault now c tbl =
     (let c = (if adc_CreatedAt c = zero_time then c\<lparr>adc_CreatedAt := now\<rparr> else c);
          c = c\<lparr>adc_UpdatedAt := now\<rparr>
      in case fault of
           Some err \<Rightarrow> (tbl, Fail err)
         | None \<Rightarrow>
             (upsert_row adc_ChainID (\<lambda>old new. new\<lparr>adc_CreatedAt := adc_CreatedAt old\<rparr>) c tbl, Ok ()))"

definition GetChain :: "go_error option \<Rightarrow> uint64 \<Rightarrow> admin_Chain list \<Rightarrow> admin_Chain outcome" where
  "GetChain fault chainID tbl =
     (case fault of
        Some err \<Rightarrow> Fail (WrapErr (''failed to query chain '' @ FormatUint chainID) err)
      | None \<Rightarrow>
     (case find (\<lambda>c. adc_ChainID c = chainID) tbl of
        None \<Rightarrow> Fail (Errorf (''chain '' @ FormatUint chainID @ '' not found''))
      | Some c \<Rightarrow> Ok c))"

definition GetChainRPCEndpoints ::
  "go_error option \<Rightarrow> uint64 \<Rightarrow> admin_Chain list \<Rightarrow> (uint64 \<times> string list) outcome" where
  "GetChainRPCEndpoints fault chainID tbl =
     (case fault of
        Some err \<Rightarrow> Fail (WrapErr (''failed to query chain '' @ FormatUint chainID @ '' rpc_endpoints'') err)
      | None \<Rightarrow>
     (case find (\<lambda>c. adc_ChainID c = chainID) tbl of
        None \<Rightarrow> Fail (Errorf (''chain '' @ FormatUint chainID @ '' not found''))
      | Some c \<Rightarrow> Ok (adc_ChainID c, adc_RPCEndpoints c)))"

definition ListChain ::
  "go_error option \<Rightarrow> bool \<Rightarrow> admin_Chain list \<Rightarrow> admin_Chain list outcome" where
  "ListChain fault includeDeleted tbl =
     (case fault of
        Some err \<Rightarrow> Fail err
      | None \<Rightarrow> Ok (sort_key adc_ChainID
          (if includeDeleted then tbl else filter (\<lambda>c. adc_Deleted c = 0) tbl)))"

definition HardDeleteChain ::
  "go_error option \<Rightarrow> uint64 \<Rightarrow> admin_Chain list \<Rightarrow> admin_Chain list \<times> unit outcome" where
  "HardDeleteChain fault chainID tbl =
     (case fault of
        Some err \<Rightarrow> (tbl, Fail err)
      | None \<Rightarrow> (filter (\<lambda>c. adc_ChainID c \<noteq> chainID) tbl, Ok ()))"

text \<open>The chains the indexer and the backfiller work on: not deleted, not paused, with an endpoint.\<close>

definition chain_active :: "admin_Chain \<Rightarrow> bool" where
  "chain_active c \<longleftrightarrow> adc_Deleted c = 0 \<and> adc_Paused c = 0 \<and> length (adc_RPCEndpoints c) > 0"

text \<open>The primary key of the chains table.\<close>

definition chains_ok :: "admin_Chain list \<Rightarrow> bool" where
  "chains_ok tbl \<longleftrightarrow> distinct (map adc_ChainID tbl)"

lemma InsertChain_ok:
  assumes "chains_ok tbl"
  shows "chains_ok (fst (InsertChain fault now c tbl))"
  using assms unfolding chains_ok_def InsertChain_def
  by (auto simp: Let_def split: option.split intro!: distinct_upsert_row)

lemma HardDeleteChain_ok: "chains_ok tbl \<Longrightarrow> chains_ok (fst (HardDeleteChain fault chainID tbl))"
  by (auto simp: chains_ok_def HardDeleteChain_def distinct_map_filter split: option.split)

lemma ListChain_active:
  "ListChain fault False tbl = Ok cs \<Longrightarrow> set (filter chain_active cs) = set (filter chain_active tbl)"
  by (auto simp: ListChain_def chain_active_def split: option.splits)

section \<open>Endpoint health\<close>

record admin_RPCEndpoint =
  rpe_ChainID :: uint64
  rpe_Endpoint :: string
  rpe_Status :: string
  rpe_Height :: uint64
  rpe_LatencyMs :: real
  rpe_Error :: string
  rpe_UpdatedAt :: time

definition endpoint_key :: "admin_RPCEndpoint \<Rightarrow> uint64 \<times> string" where
  "endpoint_key ep = (rpe_ChainID ep, rpe_Endpoint ep)"

definition UpsertEndpointHealth ::
  "go_error option \<Rightarrow> time \<Rightarrow> admin_RPCEndpoint \<Rightarrow> admin_RPCEndpoint list \<Rightarrow>
   admin_RPCEndpoint list \<times> unit outcome" where
  "UpsertEndpointHealth fault now ep eps =
     (let ep = (if rpe_UpdatedAt ep = zero_time then ep\<lparr>rpe_UpdatedAt := now\<rparr> else ep)
      in case fault of
           Some err \<Rightarrow> (eps, Fail err)
         | None \<Rightarrow> (upsert_row endpoint_key (\<lambda>old new. new) ep eps, Ok ()))"

text \<open>\<open>ORDER BY height DESC, latency_ms ASC\<close>: two stable sorts, the minor key first. The order of
  endpoints equal in both is the table's.\<close>

definition GetEndpointsWithMinHeight ::
  "go_error option \<Rightarrow> uint64 \<Rightarrow> uint64 \<Rightarrow> admin_RPCEndpoint list \<Rightarrow> admin_RPCEndpoint list outcome" where
  "GetEndpointsWithMinHeight fault chainID minHeight eps =
     (case fault of
        Some err \<Rightarrow> Fail err
      | None \<Rightarrow> Ok (sort_key (\<lambda>e. - int (unat (rpe_Height e))) (sort_key rpe_LatencyMs
          (filter (\<lambda>e. rpe_ChainID e = chainID \<and> rpe_Height e \<ge> minHeight) eps))))"

section \<open>Index progress\<close>

record Gap =
  gap_From :: uint64
  gap_To :: uint64

definition progress_heights ::
  "uint64 \<Rightarrow> ((uint64 \<times> uint64) \<times> progress_row) list \<Rightarrow> uint64 list" where
  "progress_heights chainID rows = sort (map (\<lambda>r. snd (fst r)) (filter (\<lambda>r. fst (fst r) = chainID) rows))"

definition LastIndexed ::
  "go_error option \<Rightarrow> uint64 \<Rightarrow> ((uint64 \<times> uint64) \<times> progress_row) list \<Rightarrow> uint64 outcome" where
  "LastIndexed fault chainID rows =
     (case fault of
        Some err \<Rightarrow> Fail (WrapErr ''failed to query last indexed height'' err)
      | None \<Rightarrow> Ok (foldr max (progress_heights chainID rows) 0))"

text \<open>The window query: each height with its predecessor (LAG), and a gap where they are not adjacent.\<close>

fun gaps_of :: "uint64 list \<Rightarrow> Gap list" where
  "gaps_of (prev_h # h # hs) =
     (if h > prev_h + 1 then \<lparr>gap_From = prev_h + 1, gap_To = h - 1\<rparr> # gaps_of (h # hs)
      else gaps_of (h # hs))"
| "gaps_of hs = []"

definition FindGaps ::
  "go_error option \<Rightarrow> uint64 \<Rightarrow> ((uint64 \<times> uint64) \<times> progress_row) list \<Rightarrow> Gap list outcome" where
  "FindGaps fault chainID rows =
     (case fault of
        Some err \<Rightarrow> Fail (WrapErr ''query gaps'' err)
      | None \<Rightarrow> Ok (gaps_of (progress_heights chainID rows)))"

definition DeleteIndexProgressForChain ::
  "go_error option \<Rightarrow> uint64 \<Rightarrow> ((uint64 \<times> uint64) \<times> progress_row) list \<Rightarrow>
   ((uint64 \<times> uint64) \<times> progress_row) list \<times> unit outcome" where
  "DeleteIndexProgressForChain fault chainID rows =
     (case fault of
        Some err \<Rightarrow> (rows, Fail err)
      | None \<Rightarrow> (filter (\<lambda>r. fst (fst r) \<noteq> chainID) rows, Ok ()))"

definition in_gap :: "uint64 \<Rightarrow> Gap \<Rightarrow> bool" where
  "in_gap x g \<longleftrightarrow> gap_From g \<le> x \<and> x \<le> gap_To g"

lemma word_between:
  fixes a b x :: uint64
  assumes "a + 1 < b" "a < b"
  shows "a + 1 \<le> x \<and> x \<le> b - 1 \<longleftrightarrow> a < x \<and> x < b"
  using assms by unat_arith

lemma word_adjacent:
  fixes a b x :: uint64
  assumes "\<not> a + 1 < b" "a \<le> b"
  shows "\<not> (a < x \<and> x < b)"
  using assms by unat_arith

text \<open>The heights in the gaps are the heights strictly between two observed ones that are not observed.\<close>

lemma gaps_of_iff:
  assumes "sorted_wrt (<) hs"
  shows "(\<exists>g \<in> set (gaps_of hs). in_gap x g) \<longleftrightarrow>
    x \<notin> set hs \<and> (\<exists>a \<in> set hs. a < x) \<and> (\<exists>b \<in> set hs. x < b)"
  using assms
proof (induction hs rule: gaps_of.induct)
  case (1 p h hs)
  have less: "p < h" and le: "p \<le> h" and sorted: "sorted_wrt (<) (h # hs)"
    and ge: "\<And>y. y \<in> set hs \<Longrightarrow> h < y"
    using "1.prems" by auto
  let ?here = "p < x \<and> x < h"
  let ?rest = "x \<notin> set (h # hs) \<and> (\<exists>a \<in> set (h # hs). a < x) \<and> (\<exists>b \<in> set (h # hs). x < b)"
  have split: "(\<exists>g \<in> set (gaps_of (p # h # hs)). in_gap x g) \<longleftrightarrow> ?here \<or> ?rest"
  proof (cases "h > p + 1")
    case True
    then show ?thesis
      using "1.IH"(1) [OF True sorted] word_between [OF True less, of x] by (simp add: in_gap_def)
  next
    case False
    then show ?thesis
      using "1.IH"(2) [OF False sorted] word_adjacent [OF False le, of x] by auto
  qed
  have "?here \<or> ?rest \<longleftrightarrow>
      x \<notin> set (p # h # hs) \<and> (\<exists>a \<in> set (p # h # hs). a < x) \<and> (\<exists>b \<in> set (p # h # hs). x < b)"
  proof (cases "x \<le> h")
    case True
    then have below: "\<not> (\<exists>a \<in> set (h # hs). a < x)" using ge by fastforce
    show ?thesis
    proof (cases "p < x \<and> x < h")
      case here: True
      then have "x \<notin> set hs" using ge by fastforce
      then show ?thesis using here by auto
    next
      case False
      then show ?thesis using below True less by auto
    qed
  next
    case False
    then have "h < x" by simp
    then show ?thesis using less by auto
  qed
  then show ?case using split by simp
qed auto

lemma set_progress_heights: "set (progress_heights c rows) = {h. \<exists>r. ((c, h), r) \<in> set rows}"
  by (force simp: progress_heights_def)

lemma sorted_progress_heights [simp]: "sorted (progress_heights c rows)"
  by (simp add: progress_heights_def)

lemma progress_heights_strict:
  assumes "distinct (map fst rows)"
  shows "sorted_wrt (<) (progress_heights c rows)"
proof -
  have "distinct (map (\<lambda>r. snd (fst r)) (filter (\<lambda>r. fst (fst r) = c) rows))"
    using assms by (auto simp: distinct_map inj_on_def prod_eq_iff intro: distinct_filter)
  then show ?thesis by (simp add: progress_heights_def strict_sorted_iff)
qed

lemma RecordIndexed_distinct:
  "distinct (map fst (db_progress st)) \<Longrightarrow>
     distinct (map fst (db_progress (fst (RecordIndexed fault now c h ms detail st))))"
  by (auto simp: RecordIndexed_def distinct_update split: option.split)

lemma foldr_max_ge: "x \<in> set hs \<Longrightarrow> x \<le> foldr max hs (0 :: uint64)"
  by (induction hs) (auto simp: le_max_iff_disj)

lemma foldr_max_in: "foldr max hs (0 :: uint64) \<in> insert 0 (set hs)"
  by (induction hs) (auto simp: max_def)

end
