(* ===== verification/IndexRuns.thy ===== *)
theory IndexRuns
  imports "HOL-Library.Multiset" TimeTravel Samples
begin

text \<open>
  What one run of the indexer does to the database under every behaviour of its environment, and what
  several runs do together: atomicity of a block's write, the run that finds its block already stored,
  deleting and re-indexing a height, the order of the heights, and the invariant that a height is only
  announced on the queue or recorded as progress once its rows are stored.
\<close>

section \<open>One run\<close>

lemma bs_Height_summarize [simp]: "bs_Height (summarize d) = ibd_Height d"
proof -
  have "bs_Height (foldl count_tx s xs) = bs_Height s" for s xs
    by (rule foldl_frame) (simp add: count_tx_def)
  moreover have "bs_Height (foldl count_event s xs) = bs_Height s" for s xs
    by (rule foldl_frame) (simp add: count_event_def)
  moreover have "bs_Height (foldl count_dex_order s xs) = bs_Height s" for s xs
    by (rule foldl_frame) (simp add: count_dex_order_def Let_def)
  moreover have "bs_Height (foldl count_dex_deposit s xs) = bs_Height s" for s xs
    by (rule foldl_frame) (simp add: count_dex_deposit_def)
  moreover have "bs_Height (foldl count_dex_withdrawal s xs) = bs_Height s" for s xs
    by (rule foldl_frame) (simp add: count_dex_withdrawal_def)
  moreover have "bs_Height (foldl count_order s xs) = bs_Height s" for s xs
    by (rule foldl_frame) (simp add: count_order_def)
  moreover have "bs_Height (foldl count_validator s xs) = bs_Height s" for s xs
    by (rule foldl_frame) (simp add: count_validator_def)
  moreover have "bs_Height (summary_supply p s) = bs_Height s" for p s
    by (simp add: summary_supply_def split: option.split)
  ultimately show ?thesis by (simp add: summarize_def Let_def summary_init_def)
qed

lemma summarized_summary: "t_block_summaries (summarized d t) h =
    (if h = ibd_Height d then Some (summarize d) else t_block_summaries t h)"
  by (simp add: summarized_def index_by_Cons block_summaries_key_def map_add_def)

lemma written_other [simp]:
  "t_block_summaries (written d t) = t_block_summaries t"
  "t_poll_snapshots (written d t) = t_poll_snapshots t"
  "t_proposal_snapshots (written d t) = t_proposal_snapshots t"
  by (simp_all add: written_def)

lemma written_blocks: "t_blocks (written d t) h =
    (if h = blk_Height (ibd_Block d) then Some (ibd_Block d) else t_blocks t h)"
  by (simp add: written_def index_by_Cons blocks_key_def map_add_def)

text \<open>The block's own row, after a run that converted it.\<close>

lemma stored_block:
  assumes "convertToBlockData cl data [] = Ok d" "header_height data"
  shows "t_blocks (written d t) (bd_Height data) \<noteq> None"
    and "t_block_summaries (summarized d t) (bd_Height data) = Some (summarize d)"
  using convert_block_height [OF assms] convertToBlockData_fields(2) [OF assms(1)]
  by (simp_all add: written_blocks summarized_summary)

section \<open>Atomicity\<close>

text \<open>
  C10. Whatever the databases do (any statement, the begin or the commit may fail, an acknowledged commit
  may be lost), a run of \<open>IndexBlockWithData\<close> on a configured chain leaves the chain's tables either
  untouched, or with every row of the converted block, or with those and its summary. It reports success
  only in the first case, for a block that was there, and in the third; and it touches no other chain.
\<close>

theorem index_atomic:
  assumes db: "idx_chains st (bd_ChainID data) = Some db"
    and run: "IndexBlockWithData cl env (Some data) st = (st', r)"
  shows "(let t = db_chain st (cdb_ChainID db); t' = db_chain st' (cdb_ChainID db); h = bd_Height data in
      (t' = t \<and> (r = Ok () \<longrightarrow> t_blocks t h \<noteq> None)) \<or>
      (t_blocks t h = None \<and> (\<exists>d. convertToBlockData cl data [] = Ok d \<and>
         ((t' = written d t \<and> (\<exists>e. r = Fail e)) \<or> (t' = summarized d (written d t) \<and> r = Ok ())))))
    \<and> (\<forall>c. c \<noteq> cdb_ChainID db \<longrightarrow> db_chain st' c = db_chain st c)"
  using run db
proof (cases rule: IndexBlockWithData_cases)
  case (write_failed e d t)
  have "t = db_chain st (cdb_ChainID db) \<or> t = written d (db_chain st (cdb_ChainID db))"
    using writeBlockData_cases [of "env_write env" d] write_failed(2) by (metis fst_conv)
  then show ?thesis using write_failed by (auto simp: Let_def)
qed (auto simp: Let_def)

theorem index_atomic_witness:
  "t_blocks (db_chain (fst (IndexBlockWithData sample_lib
     (env_ok\<lparr>env_write := sql_ok\<lparr>sql_commit := CommitLost (Errorf ''eof'')\<rparr>\<rparr>) (Some (sample_data 5 7)) sample_state)) 6)
     = Map.empty"
proof -
  let ?run = "IndexBlockWithData sample_lib
     (env_ok\<lparr>env_write := sql_ok\<lparr>sql_commit := CommitLost (Errorf ''eof'')\<rparr>\<rparr>) (Some (sample_data 5 7)) sample_state"
  have "idx_chains sample_state (bd_ChainID (sample_data 5 7)) = Some sample_chain" by simp
  from index_atomic [OF this, of sample_lib _ "fst ?run" "snd ?run"]
  have "db_chain (fst ?run) 6 = db_chain sample_state 6" by simp
  then show ?thesis by (simp add: empty_tables_def)
qed

section \<open>A run on a stored block\<close>

text \<open>
  C12. After a run that returned without an error, a second run on the same data changes nothing and
  returns without an error, as long as the existence check answers; nothing is announced twice.
\<close>

theorem reindex_noop:
  assumes "IndexBlockWithData cl env (Some data) st = (st', Ok ())" "header_height data"
    and "sql_query (env_has env') = None"
  shows "IndexBlockWithData cl env' (Some data) st' = (st', Ok ())"
proof -
  obtain db where db: "idx_chains st (bd_ChainID data) = Some db"
    using assms(1) by (auto simp: IndexBlockWithData_def split: option.splits)
  from assms(1) db have "idx_chains st' (bd_ChainID data) = Some db \<and>
      t_blocks (db_chain st' (cdb_ChainID db)) (bd_Height data) \<noteq> None"
  proof (cases rule: IndexBlockWithData_cases)
    case (indexed d)
    then show ?thesis using db stored_block(1) [OF indexed(1) assms(2)] by simp
  qed (use db in auto)
  then have has: "HasBlock (env_has env') (bd_Height data) (db_chain st' (cdb_ChainID db)) = Ok True"
    and cfg: "idx_chains st' (bd_ChainID data) = Some db" using assms(3) by auto
  show ?thesis unfolding IndexBlockWithData_def option.case cfg has by simp
qed

lemma sample_block_ok [simp]: "block_ok (sample_data c h)"
  by (simp add: block_ok_def sample_block_def sample_header_def)

lemma sample_header_height [simp]: "header_height (sample_data c h)"
  by (rule block_ok_header) simp

definition sample_indexed :: indexer_state where
  "sample_indexed = fst (IndexBlockWithData sample_lib env_ok (Some (sample_data 5 7)) sample_state)"

lemma sample_run: "IndexBlockWithData sample_lib env_ok (Some (sample_data 5 7)) sample_state = (sample_indexed, Ok ())"
  using IndexBlockWithData_ok [of sample_state "sample_data 5 7" sample_chain sample_lib]
  by (simp add: sample_indexed_def empty_tables_def)

theorem reindex_noop_witness:
  "snd (IndexBlockWithData sample_lib env_ok (Some (sample_data 5 7)) sample_indexed) = Ok ()"
proof -
  have "sql_query (env_has env_ok) = None" by (simp add: env_ok_def sql_ok_def)
  from reindex_noop [OF sample_run sample_header_height this] show ?thesis by simp
qed

text \<open>
  C13. The summary is inserted after the block's transaction has been committed. If that insert fails, the
  run returns an error, but the retry finds the block stored and returns at once: from then on every run
  reports success, the block stays without its summary, the height is missing from the progress table
  and it is never announced.
\<close>

theorem summary_hole:
  assumes "IndexBlockWithData cl env (Some data) st = (st1, Fail (WrapErr ''build block summary'' e))"
    and "idx_chains st (bd_ChainID data) = Some db" "header_height data"
    and "sql_query (env_has env') = None"
  shows "IndexBlockWithData cl env' (Some data) st1 = (st1, Ok ())
    \<and> t_blocks (db_chain st1 (cdb_ChainID db)) (bd_Height data) \<noteq> None
    \<and> t_block_summaries (db_chain st1 (cdb_ChainID db)) = t_block_summaries (db_chain st (cdb_ChainID db))
    \<and> db_progress st1 = db_progress st \<and> redis_stream st1 = redis_stream st"
  using assms(1,2)
proof (cases rule: IndexBlockWithData_cases)
  case (summary_failed e' d)
  let ?t = "db_chain st (cdb_ChainID db)"
  have blk: "t_blocks (written d ?t) (bd_Height data) \<noteq> None"
    by (rule stored_block(1) [OF summary_failed(1) assms(3)])
  have cfg: "idx_chains st1 (bd_ChainID data) = Some db" using summary_failed(2) assms(2) by simp
  have has: "HasBlock (env_has env') (bd_Height data) (db_chain st1 (cdb_ChainID db)) = Ok True"
    using blk summary_failed(2) assms(4) by simp
  have "IndexBlockWithData cl env' (Some data) st1 = (st1, Ok ())"
    unfolding IndexBlockWithData_def option.case cfg has by simp
  then show ?thesis using blk summary_failed(2) by simp
qed simp_all

definition failing_summary :: index_env where
  "failing_summary = env_ok\<lparr>env_summary := sql_ok\<lparr>sql_statement := \<lambda>_ _. Some (Errorf ''timeout'')\<rparr>\<rparr>"

definition sample_hole :: indexer_state where
  "sample_hole = fst (IndexBlockWithData sample_lib failing_summary (Some (sample_data 5 7)) sample_state)"

lemma sample_hole_run:
  "IndexBlockWithData sample_lib failing_summary (Some (sample_data 5 7)) sample_state =
     (sample_hole, Fail (WrapErr ''build block summary'' (Errorf ''timeout'')))"
proof -
  have cfg: "idx_chains sample_state (bd_ChainID (sample_data 5 7)) = Some sample_chain" by simp
  have has: "HasBlock (env_has failing_summary) (bd_Height (sample_data 5 7))
      (db_chain sample_state (cdb_ChainID sample_chain)) = Ok False"
    by (simp add: failing_summary_def env_ok_def sql_ok_def empty_tables_def)
  have w: "writeBlockData (env_write failing_summary) d t = (written d t, Ok ())" for d t
    by (rule writeBlockData_no_fault) (simp_all add: failing_summary_def env_ok_def sql_ok_def)
  have b: "buildBlockSummary (env_summary failing_summary) d t = Fail (Errorf ''timeout'')" for d t
    by (simp add: failing_summary_def buildBlockSummary_def insertBlockSummary_def execOne_def)
  have "snd (IndexBlockWithData sample_lib failing_summary (Some (sample_data 5 7)) sample_state) =
      Fail (WrapErr ''build block summary'' (Errorf ''timeout''))"
    unfolding IndexBlockWithData_def option.case cfg has outcome.case
      block_ok_converts [OF sample_block_ok] w b prod.case by simp
  then show ?thesis unfolding sample_hole_def by (metis prod.collapse)
qed

theorem summary_hole_witness:
  "t_block_summaries (db_chain sample_hole 5) 7 = None \<and>
   IndexBlockWithData sample_lib env_ok (Some (sample_data 5 7)) sample_hole = (sample_hole, Ok ())"
proof -
  have "idx_chains sample_state (bd_ChainID (sample_data 5 7)) = Some sample_chain"
    "sql_query (env_has env_ok) = None" by (simp_all add: env_ok_def sql_ok_def)
  from summary_hole [OF sample_hole_run this(1) sample_header_height this(2)] show ?thesis
    by (simp add: empty_tables_def)
qed

section \<open>Deleting and re-indexing\<close>

lemma cleared_summarized: "P (ibd_Height d) \<Longrightarrow> cleared P (summarized d t) = cleared P t"
  by (simp add: cleared_def summarized_def index_by_Cons block_summaries_key_def delete_where_def
      fun_eq_iff map_add_def)

lemma cleared_add_block:
  assumes "block_ok data" "P (bd_Height data)"
  shows "cleared P (add_block cl data t) = cleared P t"
proof -
  have "ibd_Height (converted cl data) = bd_Height data"
    using convertToBlockData_fields(2) [OF block_ok_converts [OF assms(1)]] by blast
  then have "cleared P (add_block cl data t) = cleared P (written (converted cl data) t)"
    using assms(2) by (simp add: add_block_def cleared_summarized)
  also have "\<dots> = cleared P t"
    by (rule cleared_written [where h = "bd_Height data"]) (fact block_ok_rows [OF assms(1)] assms(2))+
  finally show ?thesis .
qed

text \<open>
  C14. Deleting the height of an indexed block (\<open>DeleteBlock\<close>, when it returns without an error) gives
  back the tables as they were before the block was indexed, in every table; so indexing the block again
  gives the tables of the first run. In no case does a failing delete leave a part of the rows.
\<close>

theorem delete_undoes_index:
  assumes "block_ok data" "cleared (\<lambda>x. x = bd_Height data) t = t"
  shows "fst (DeleteBlock env (bd_Height data) (add_block cl data t)) \<in> {t, add_block cl data t} \<and>
    (snd (DeleteBlock env (bd_Height data) (add_block cl data t)) = Ok () \<longrightarrow>
      fst (DeleteBlock env (bd_Height data) (add_block cl data t)) = t)"
proof (intro conjI impI)
  let ?t = "add_block cl data t"
  have c: "cleared (\<lambda>x. x = bd_Height data) ?t = t"
    using cleared_add_block [OF assms(1), of "\<lambda>x. x = bd_Height data"] assms(2) by simp
  show "fst (DeleteBlock env (bd_Height data) ?t) \<in> {t, ?t}"
    using DeleteAllAtHeight_cases [of env "bd_Height data" ?t] c by (auto simp: DeleteBlock_def)
  show "fst (DeleteBlock env (bd_Height data) ?t) = t" if "snd (DeleteBlock env (bd_Height data) ?t) = Ok ()"
    using DeleteAllAtHeight_Ok [of env "bd_Height data" ?t] that c by (metis DeleteBlock_def prod.collapse)
qed

lemma cleared_empty [simp]: "cleared P empty_tables = empty_tables"
  by (simp add: cleared_def empty_tables_def delete_where_def fun_eq_iff)

theorem delete_undoes_index_witness:
  "fst (DeleteBlock sql_ok 7 (add_block sample_lib (sample_data 5 7) empty_tables)) = empty_tables"
proof -
  have "snd (DeleteBlock sql_ok (bd_Height (sample_data 5 7)) t) = Ok ()" for t
    by (simp add: DeleteBlock_def DeleteAllAtHeight_no_fault sql_ok_def)
  from delete_undoes_index [OF sample_block_ok cleared_empty, of sql_ok 5 7 sample_lib] this
  show ?thesis by simp
qed

definition heights_between :: "uint64 \<Rightarrow> uint64 \<Rightarrow> uint64 list" where
  "heights_between lo hi = map of_nat [unat lo..<Suc (unat hi)]"

lemma uint64_bound: "unat (x :: uint64) < 2 ^ 64"
  using unsigned_less [of x, where 'a = nat] by simp

lemma set_heights_between: "set (heights_between lo hi) = {x. lo \<le> x \<and> x \<le> hi}"
proof -
  have "x \<in> of_nat ` {unat lo..unat hi}" if "lo \<le> x" "x \<le> hi" for x :: uint64
    using that by (intro image_eqI [of _ _ "unat x"]) (auto simp: word_le_nat_alt)
  moreover have "lo \<le> of_nat n \<and> (of_nat n :: uint64) \<le> hi" if "unat lo \<le> n" "n \<le> unat hi" for n
  proof -
    have "n < 2 ^ 64" using that(2) uint64_bound [of hi] by simp
    then have "unat (of_nat n :: uint64) = n" by (simp add: unat_of_nat)
    then show ?thesis using that by (simp add: word_le_nat_alt)
  qed
  ultimately have "of_nat ` {unat lo..unat hi} = {x. lo \<le> x \<and> x \<le> hi}" by fastforce
  then show ?thesis
    by (simp only: heights_between_def set_map set_upt atLeastLessThanSuc_atLeastAtMost)
qed

lemma fold_cleared: "fold (\<lambda>h. cleared (\<lambda>x. x = h)) hs t = cleared (\<lambda>x. x \<in> set hs) t"
proof (induction hs arbitrary: t)
  case Nil
  show ?case by (cases t) (simp add: cleared_def delete_where_def fun_eq_iff)
next
  case (Cons h hs)
  have "(\<lambda>x. x \<in> set hs \<or> x = h) = (\<lambda>x. x \<in> set (h # hs))" by auto
  then show ?case using Cons by (simp add: cleared_cleared)
qed

text \<open>
  \<open>DeleteBlockRange\<close> is the loop of \<open>DeleteBlock\<close> over every height of the range, in one transaction;
  an inverted range is refused before anything is deleted.
\<close>

theorem delete_range_is_loop:
  "DeleteBlockRange sql_ok lo hi t =
     (if lo \<le> hi then (fold (\<lambda>h s. fst (DeleteBlock sql_ok h s)) (heights_between lo hi) t, Ok ())
      else (t, Fail (Errorf (''invalid range: fromHeight ('' @ FormatUint lo @ '') > toHeight ('' @
          FormatUint hi @ '')''))))"
proof (cases "lo \<le> hi")
  case True
  have "(\<lambda>h s. fst (DeleteBlock sql_ok h s)) = (\<lambda>h. cleared (\<lambda>x. x = h))"
    by (simp add: fun_eq_iff DeleteBlock_def DeleteAllAtHeight_no_fault sql_ok_def)
  then show ?thesis using True
    by (simp add: fold_cleared set_heights_between DeleteBlockRange_no_fault sql_ok_def)
next
  case False
  then have "lo > hi" by simp
  then show ?thesis using False unfolding DeleteBlockRange_def by (simp only: if_True if_False)
qed

section \<open>The order of the heights\<close>

lemma summarized_commute:
  assumes "ibd_Height d1 \<noteq> ibd_Height d2"
  shows "summarized d1 (summarized d2 t) = summarized d2 (summarized d1 t)"
proof -
  have "(m ++ index_by block_summaries_key [summarize d2]) ++ index_by block_summaries_key [summarize d1] =
      (m ++ index_by block_summaries_key [summarize d1]) ++ index_by block_summaries_key [summarize d2]" for m
    by (rule overlay_commute [where ht = id and ?h1.0 = "ibd_Height d2" and ?h2.0 = "ibd_Height d1"])
      (simp_all add: block_summaries_key_def assms [symmetric])
  then show ?thesis by (cases t) (simp add: summarized_def)
qed

lemma summarized_other [simp]:
  "t_block_summaries (summarized d t) = t_block_summaries t ++ index_by block_summaries_key [summarize d]"
  "t_poll_snapshots (summarized d t) = t_poll_snapshots t"
  "t_proposal_snapshots (summarized d t) = t_proposal_snapshots t"
  by (simp_all add: summarized_def)

lemma summarized_written: "summarized d1 (written d2 t) = written d2 (summarized d1 t)"
  by (intro chain_tables.equality) (simp_all add: written_simps)

lemma add_block_commute:
  assumes "block_ok d1" "block_ok d2" "bd_Height d1 \<noteq> bd_Height d2"
  shows "add_block cl d1 (add_block cl d2 t) = add_block cl d2 (add_block cl d1 t)"
proof -
  let ?c1 = "converted cl d1" and ?c2 = "converted cl d2"
  have h: "ibd_Height ?c1 = bd_Height d1" "ibd_Height ?c2 = bd_Height d2"
    using convertToBlockData_fields(2) block_ok_converts assms(1,2) by blast+
  have w: "written ?c1 (written ?c2 t) = written ?c2 (written ?c1 t)"
    by (rule written_commute [OF block_ok_rows [OF assms(1)] block_ok_rows [OF assms(2)] assms(3)])
  have "add_block cl d1 (add_block cl d2 t) = summarized ?c1 (summarized ?c2 (written ?c1 (written ?c2 t)))"
    unfolding add_block_def summarized_written [symmetric] ..
  also have "\<dots> = summarized ?c2 (summarized ?c1 (written ?c2 (written ?c1 t)))"
    unfolding w by (rule summarized_commute) (unfold h, rule assms(3))
  also have "\<dots> = add_block cl d2 (add_block cl d1 t)"
    unfolding add_block_def summarized_written [symmetric] ..
  finally show ?thesis .
qed

text \<open>
  C15. Live indexing, the worker and the backfiller index the heights of a chain in any order. The order
  does not matter: every order gives the same tables, summaries included.
\<close>

theorem order_independent:
  assumes "history c h0 n blocks" "any_order hs h0 n" "any_order hs' h0 n" "fresh_chain c st"
  shows "run_history cl blocks hs c st = run_history cl blocks hs' c st"
proof -
  have dist: "distinct hs" "distinct hs'" and eq: "set hs = set hs'" and rng: "set hs = {h0..n}"
    using assms(2,3) by (auto simp: any_order_def)
  have "fold (add_block cl) (map blocks hs) = fold (add_block cl) (map blocks hs')"
  proof (rule fold_multiset_equiv)
    show "mset (map blocks hs) = mset (map blocks hs')"
      using dist eq by (simp add: set_eq_iff_mset_eq_distinct)
    fix d e assume "d \<in> set (map blocks hs)" "e \<in> set (map blocks hs)"
    then obtain x y where xy: "x \<in> {h0..n}" "d = blocks x" "y \<in> {h0..n}" "e = blocks y"
      using rng by auto
    have ok: "block_ok d" "block_ok e" "bd_Height d = of_nat x" "bd_Height e = of_nat y" "x < 2 ^ 64" "y < 2 ^ 64"
      using assms(1) xy by (auto simp: history_def)
    show "add_block cl d \<circ> add_block cl e = add_block cl e \<circ> add_block cl d"
    proof (cases "x = y")
      case False
      then have "bd_Height d \<noteq> bd_Height e" using of_nat_uint64_inj [OF ok(5,6)] ok(3,4) by auto
      then show ?thesis using add_block_commute [OF ok(1,2)] by (simp add: fun_eq_iff)
    qed (simp add: xy)
  qed
  then show ?thesis
    using run_history_fold(1) [OF assms(1,2,4)] run_history_fold(1) [OF assms(1,3,4)] by simp
qed

theorem order_independent_witness:
  "run_history sample_lib (\<lambda>h. sample_data 5 (of_nat h)) [1, 2, 3] 5 sample_state =
   run_history sample_lib (\<lambda>h. sample_data 5 (of_nat h)) [3, 1, 2] 5 sample_state"
proof (rule order_independent)
  show "history 5 1 3 (\<lambda>h. sample_data 5 (of_nat h))" by (simp add: history_def)
  show "any_order [1, 2, 3] 1 3" "any_order [3, 1, 2] 1 3" by (auto simp: any_order_def)
  show "fresh_chain 5 sample_state" by (simp add: fresh_chain_def)
qed

end
