(* ===== verification/Reachable.thy ===== *)
theory Reachable
  imports IndexRuns ConversionProps
begin

text \<open>
  The states that the indexer's runs reach, as a step relation: a block index job (\<open>IndexBlock\<close>, from the
  worker, the backfiller or a command) or a blob pushed by a listener, each in any environment and with
  any outcome. The invariant: a height on the queue or in the progress table is stored, block and summary.
\<close>

inductive run_step :: "'m canopy_lib \<Rightarrow> indexer_state \<Rightarrow> indexer_state \<Rightarrow> bool" for cl where
  job: "IndexBlock cl env fetch c h st = (st', r) \<Longrightarrow> run_step cl st st'"
| blob: "Decode (lib_blob_codec cl) (Some blobs) c = Ok data \<Longrightarrow>
     IndexBlockWithData cl env (Some data) st = (st', r) \<Longrightarrow> run_step cl st st'"

text \<open>A job is a step without effect or the run of decoded data.\<close>

lemma run_step_cases:
  assumes "run_step cl st st'"
  obtains "st' = st"
  | env data r where "header_height data" "IndexBlockWithData cl env (Some data) st = (st', r)"
  using assms
proof (cases rule: run_step.cases)
  case (job env fetch c h r)
  show ?thesis
  proof (cases "st' = st")
    case False
    then show ?thesis using job that(2)
      by (auto simp: IndexBlock_def dest: Decode_header_height split: outcome.splits sum.splits)
  qed (rule that(1))
qed (use that(2) Decode_header_height in blast)

definition stored :: "indexer_state \<Rightarrow> uint64 \<Rightarrow> uint64 \<Rightarrow> bool" where
  "stored st c h \<longleftrightarrow> (case idx_chains st c of
     None \<Rightarrow> False
   | Some db \<Rightarrow> t_blocks (db_chain st (cdb_ChainID db)) h \<noteq> None \<and>
       t_block_summaries (db_chain st (cdb_ChainID db)) h \<noteq> None)"

definition announced_ok :: "indexer_state \<Rightarrow> bool" where
  "announced_ok st \<longleftrightarrow>
     (\<forall>p \<in> set (redis_stream st). \<exists>c h. decode_payload p = Some (c, h) \<and> stored st c h) \<and>
     (\<forall>(c, h) \<in> fst ` set (db_progress st). stored st c h)"

lemma finish_block_progress_keys:
  "fst ` set (db_progress (finish_block env c h st)) \<subseteq> insert (c, h) (fst ` set (db_progress st))"
proof -
  have "db_progress (finish_block env c h st) = db_progress st \<or>
      (\<exists>row. db_progress (finish_block env c h st) = AList.update (c, h) row (db_progress st))"
    by (auto simp: finish_block_def updateProgress_def RecordIndexed_def PublishBlock_def Let_def
        split: option.split)
  then show ?thesis by (elim disjE exE) (simp_all add: dom_update subset_insertI)
qed

lemma grown_tables:
  "t_blocks t h \<noteq> None \<Longrightarrow> t_blocks (written d t) h \<noteq> None"
  "t_block_summaries t h \<noteq> None \<Longrightarrow> t_block_summaries (summarized d t) h \<noteq> None"
  by (simp_all add: written_blocks summarized_summary del: summarized_other)

lemma stored_mono:
  assumes "stored st c h" "idx_chains st' = idx_chains st"
    and "\<And>c'. db_chain st' c' \<in> {db_chain st c', written d (db_chain st c'), summarized d (written d (db_chain st c'))}"
  shows "stored st' c h"
proof -
  obtain db where db: "idx_chains st c = Some db"
    and t: "t_blocks (db_chain st (cdb_ChainID db)) h \<noteq> None"
      "t_block_summaries (db_chain st (cdb_ChainID db)) h \<noteq> None"
    using assms(1) by (auto simp: stored_def split: option.splits)
  have "t_blocks (db_chain st' (cdb_ChainID db)) h \<noteq> None \<and>
      t_block_summaries (db_chain st' (cdb_ChainID db)) h \<noteq> None"
    using assms(3) [of "cdb_ChainID db"] grown_tables(1) [OF t(1), of d]
      grown_tables(2) [of "written d (db_chain st (cdb_ChainID db))" h d] t
    by (auto simp del: summarized_other)
  then show ?thesis using db assms(2) by (simp add: stored_def)
qed

lemma announced_ok_mono:
  assumes "announced_ok st" "redis_stream st' = redis_stream st" "db_progress st' = db_progress st"
    and "\<And>c h. stored st c h \<Longrightarrow> stored st' c h"
  shows "announced_ok st'"
  using assms unfolding announced_ok_def by fastforce

lemma announced_ok_insert:
  assumes ok: "announced_ok st"
    and old: "\<And>c h. stored st c h \<Longrightarrow> stored st' c h" and new: "stored st' c0 h0"
    and stream: "set (redis_stream st') \<subseteq> insert (block_payload c0 h0) (set (redis_stream st))"
    and progress: "fst ` set (db_progress st') \<subseteq> insert (c0, h0) (fst ` set (db_progress st))"
  shows "announced_ok st'"
  unfolding announced_ok_def
proof (intro conjI ballI)
  fix p assume "p \<in> set (redis_stream st')"
  then consider "p = block_payload c0 h0" | "p \<in> set (redis_stream st)" using stream by blast
  then show "\<exists>c h. decode_payload p = Some (c, h) \<and> stored st' c h"
    using ok old new unfolding announced_ok_def by cases (simp, blast)
next
  fix x assume "x \<in> fst ` set (db_progress st')"
  then consider "x = (c0, h0)" | "x \<in> fst ` set (db_progress st)" using progress by blast
  then show "case x of (c, h) \<Rightarrow> stored st' c h"
    using ok old new unfolding announced_ok_def by cases (simp, blast)
qed

lemma announced_ok_step:
  assumes "announced_ok st" "run_step cl st st'"
  shows "announced_ok st'"
  using assms(2)
proof (cases rule: run_step_cases)
  case (2 env data r)
  show ?thesis
  proof (cases "idx_chains st (bd_ChainID data)")
    case None
    then have "st' = st" using 2(2) by (simp add: IndexBlockWithData_def)
    then show ?thesis using assms(1) by simp
  next
    case (Some db)
    let ?t = "db_chain st (cdb_ChainID db)"
    from 2(2) Some show ?thesis
    proof (cases rule: IndexBlockWithData_cases)
      case (write_failed e d t)
      have "t = ?t \<or> t = written d ?t"
        using writeBlockData_cases [of "env_write env" d ?t] write_failed(2) by (metis fst_conv)
      then have "stored st' c h" if "stored st c h" for c h
        by (intro stored_mono [OF that, of _ d]) (use write_failed(3) in \<open>auto\<close>)
      then show ?thesis using announced_ok_mono [OF assms(1)] write_failed(3) by simp
    next
      case (summary_failed e d)
      have "stored st' c h" if "stored st c h" for c h
        by (intro stored_mono [OF that, of _ d]) (use summary_failed(2) in \<open>auto\<close>)
      then show ?thesis using announced_ok_mono [OF assms(1)] summary_failed(2) by simp
    next
      case (indexed d)
      let ?s = "set_chain (cdb_ChainID db) (summarized d (written d ?t)) st"
      have old: "stored st' c h" if "stored st c h" for c h
        by (intro stored_mono [OF that, of _ d]) (use indexed(2) in \<open>auto\<close>)
      have new: "stored st' (bd_ChainID data) (bd_Height data)"
        using stored_block [OF indexed(1) 2(1)] Some by (simp add: stored_def indexed(2))
      have "set (redis_stream st') \<subseteq> insert (block_payload (bd_ChainID data) (bd_Height data)) (set (redis_stream st))"
        by (auto simp: indexed(2) finish_block_published)
      moreover have "fst ` set (db_progress st') \<subseteq>
          insert (bd_ChainID data, bd_Height data) (fst ` set (db_progress st))"
        using finish_block_progress_keys [of env "bd_ChainID data" "bd_Height data" ?s]
        by (simp add: indexed(2))
      ultimately show ?thesis by (intro announced_ok_insert [OF assms(1) old new])
    qed (use assms(1) in simp_all)
  qed
qed (use assms(1) in simp)

text \<open>
  C16. In every state that runs of the indexer reach, in any order, in any environment and with any failures
  on the way, each payload on the block queue decodes to a chain and a height whose block and summary are
  in that chain's tables, and so is each height that the progress table records.
\<close>

theorem announced_blocks_stored:
  assumes "announced_ok st" "(run_step cl)\<^sup>*\<^sup>* st st'"
  shows "announced_ok st'"
  using assms(2,1) by (induction rule: rtranclp_induct) (blast intro: announced_ok_step)+

definition sample_job :: "indexer_state \<times> unit outcome" where
  "sample_job = IndexBlock sample_lib env_ok
     (\<lambda>h. Inr \<lparr>ibs_Current = Some (sample_blob [7] [[1, 30]]), ibs_Previous = None\<rparr>) 5 7 sample_state"

lemma sample_job_run: "snd sample_job = Ok () \<and> redis_stream (fst sample_job) = [block_payload 5 7]"
proof -
  have ok: "block_ok sample_decoded" by (simp add: block_ok_def sample_decoded_def sample_block_def sample_header_def)
  have fields: "bd_ChainID sample_decoded = 5" "bd_Height sample_decoded = 7"
    by (simp_all add: sample_decoded_def)
  have "idx_chains sample_state (bd_ChainID sample_decoded) = Some sample_chain"
    "t_blocks (db_chain sample_state (cdb_ChainID sample_chain)) (bd_Height sample_decoded) = None"
    by (simp_all add: fields empty_tables_def)
  note run = IndexBlockWithData_ok [OF this(1) ok this(2), of sample_lib]
  have job: "sample_job = IndexBlockWithData sample_lib env_ok (Some sample_decoded) sample_state"
    unfolding sample_job_def IndexBlock_def by (simp add: rpcForChain_def sample_Decode)
  have "env_publish env_ok = None" by (simp add: env_ok_def)
  then show ?thesis unfolding job run fields by (simp add: finish_block_published)
qed

theorem announced_blocks_stored_witness:
  "announced_ok (fst sample_job) \<and> decode_payload (hd (redis_stream (fst sample_job))) = Some (5, 7)"
proof
  show "announced_ok (fst sample_job)"
  proof (rule announced_blocks_stored)
    show "announced_ok sample_state" by (simp add: announced_ok_def sample_state_def)
    have "run_step sample_lib sample_state (fst sample_job)"
      unfolding sample_job_def by (rule run_step.job, rule prod.collapse [symmetric])
    then show "(run_step sample_lib)\<^sup>*\<^sup>* sample_state (fst sample_job)" by (rule r_into_rtranclp)
  qed
  show "decode_payload (hd (redis_stream (fst sample_job))) = Some (5, 7)" by (simp add: sample_job_run)
qed

end
