(* ===== verification/SummaryProps.thy ===== *)
theory SummaryProps
  imports TimeTravel Samples
begin

text \<open>
  What the block summary says about the rows of its block, and where the two disagree: the counters of
  DEX orders, orders and validators against the converted rows, and the number of transactions against
  the rows that the transactions table keeps.
\<close>

section \<open>One group of counters through the counting loops\<close>

text \<open>Each loop changes its own group of counters; the groups of the others are framed.\<close>

definition dex_counts :: "BlockSummary \<Rightarrow> uint32 list" where
  "dex_counts s = [bs_NumDexOrders s, bs_NumDexOrdersFuture s, bs_NumDexOrdersLocked s,
     bs_NumDexOrdersComplete s, bs_NumDexOrdersSuccess s, bs_NumDexOrdersFailed s]"

definition order_counts :: "BlockSummary \<Rightarrow> uint32 list" where
  "order_counts s = [bs_NumOrders s, bs_NumOrdersOpen s, bs_NumOrdersFilled s, bs_NumOrdersCancelled s]"

definition validator_counts :: "BlockSummary \<Rightarrow> uint32 list" where
  "validator_counts s = [bs_NumValidators s, bs_NumValidatorsActive s, bs_NumValidatorsPaused s,
     bs_NumValidatorsUnstaking s]"

definition size_counts :: "BlockSummary \<Rightarrow> uint32 list" where
  "size_counts s = [bs_NumTxs s, bs_NumEvents s]"

lemmas count_groups = dex_counts_def order_counts_def validator_counts_def size_counts_def

lemma supply_frame [simp]:
  "dex_counts (summary_supply p s) = dex_counts s" "order_counts (summary_supply p s) = order_counts s"
  "validator_counts (summary_supply p s) = validator_counts s" "size_counts (summary_supply p s) = size_counts s"
  by (simp_all add: summary_supply_def count_groups split: option.split)

lemma count_tx_frame [simp]:
  "dex_counts (foldl count_tx s xs) = dex_counts s" "order_counts (foldl count_tx s xs) = order_counts s"
  "validator_counts (foldl count_tx s xs) = validator_counts s" "size_counts (foldl count_tx s xs) = size_counts s"
  by (rule foldl_frame; simp add: count_tx_def count_groups)+

lemma count_event_frame [simp]:
  "dex_counts (foldl count_event s xs) = dex_counts s" "order_counts (foldl count_event s xs) = order_counts s"
  "validator_counts (foldl count_event s xs) = validator_counts s" "size_counts (foldl count_event s xs) = size_counts s"
  by (rule foldl_frame; simp add: count_event_def count_groups)+

lemma count_dex_order_frame [simp]:
  "order_counts (foldl count_dex_order s xs) = order_counts s"
  "validator_counts (foldl count_dex_order s xs) = validator_counts s"
  "size_counts (foldl count_dex_order s xs) = size_counts s"
  by (rule foldl_frame; simp add: count_dex_order_def count_groups Let_def)+

lemma count_dex_deposit_frame [simp]:
  "dex_counts (foldl count_dex_deposit s xs) = dex_counts s"
  "order_counts (foldl count_dex_deposit s xs) = order_counts s"
  "validator_counts (foldl count_dex_deposit s xs) = validator_counts s"
  "size_counts (foldl count_dex_deposit s xs) = size_counts s"
  by (rule foldl_frame; simp add: count_dex_deposit_def count_groups)+

lemma count_dex_withdrawal_frame [simp]:
  "dex_counts (foldl count_dex_withdrawal s xs) = dex_counts s"
  "order_counts (foldl count_dex_withdrawal s xs) = order_counts s"
  "validator_counts (foldl count_dex_withdrawal s xs) = validator_counts s"
  "size_counts (foldl count_dex_withdrawal s xs) = size_counts s"
  by (rule foldl_frame; simp add: count_dex_withdrawal_def count_groups)+

lemma count_order_frame [simp]:
  "dex_counts (foldl count_order s xs) = dex_counts s"
  "validator_counts (foldl count_order s xs) = validator_counts s"
  "size_counts (foldl count_order s xs) = size_counts s"
  by (rule foldl_frame; simp add: count_order_def count_groups)+

lemma count_validator_frame [simp]:
  "dex_counts (foldl count_validator s xs) = dex_counts s"
  "order_counts (foldl count_validator s xs) = order_counts s"
  "size_counts (foldl count_validator s xs) = size_counts s"
  by (rule foldl_frame; simp add: count_validator_def count_groups)+

text \<open>How many rows satisfy a test, as the counter's 32-bit word.\<close>

definition count_if :: "('a \<Rightarrow> bool) \<Rightarrow> 'a list \<Rightarrow> uint32" where
  "count_if P xs = of_nat (length (filter P xs))"

lemma count_if_simps [simp]:
  "count_if P [] = 0" "count_if P (x # xs) = (if P x then 1 else 0) + count_if P xs"
  by (simp_all add: count_if_def)

lemma count_if_none: "(\<And>x. x \<in> set xs \<Longrightarrow> \<not> P x) \<Longrightarrow> count_if P xs = 0"
  by (induction xs) simp_all

lemma dex_counts_loop:
  "dex_counts (foldl count_dex_order s xs) = map2 (+) (dex_counts s)
     [0, count_if (\<lambda>r. dxo_State r = ''future'') xs, count_if (\<lambda>r. dxo_State r = ''locked'') xs,
      count_if (\<lambda>r. dxo_State r = ''complete'') xs,
      count_if (\<lambda>r. dxo_State r = ''complete'' \<and> dxo_Success r) xs,
      count_if (\<lambda>r. dxo_State r = ''complete'' \<and> \<not> dxo_Success r) xs]"
proof (induction xs arbitrary: s)
  case Nil
  then show ?case by (simp add: dex_counts_def)
next
  case (Cons x xs)
  show ?case unfolding foldl_Cons Cons by (simp add: dex_counts_def count_dex_order_def Let_def)
qed

lemma order_counts_loop:
  "order_counts (foldl count_order s xs) = map2 (+) (order_counts s)
     [0, count_if (\<lambda>r. ord_Status r = ''open'') xs, count_if (\<lambda>r. ord_Status r = ''complete'') xs,
      count_if (\<lambda>r. ord_Status r = ''canceled'') xs]"
proof (induction xs arbitrary: s)
  case Nil
  then show ?case by (simp add: order_counts_def)
next
  case (Cons x xs)
  show ?case unfolding foldl_Cons Cons by (simp add: order_counts_def count_order_def)
qed

lemma validator_counts_loop:
  "validator_counts (foldl count_validator s xs) = map2 (+) (validator_counts s)
     [0, count_if (\<lambda>r. vld_Status r = ''active'') xs, count_if (\<lambda>r. vld_Status r = ''paused'') xs,
      count_if (\<lambda>r. vld_Status r = ''unstaking'') xs]"
proof (induction xs arbitrary: s)
  case Nil
  then show ?case by (simp add: validator_counts_def)
next
  case (Cons x xs)
  show ?case unfolding foldl_Cons Cons by (simp add: validator_counts_def count_validator_def)
qed

lemma summarize_counts:
  "size_counts (summarize d) = [of_nat (length (ibd_Transactions d)), of_nat (length (ibd_Events d))]"
  "dex_counts (summarize d) =
     [of_nat (length (ibd_DexOrders d)), count_if (\<lambda>r. dxo_State r = ''future'') (ibd_DexOrders d),
      count_if (\<lambda>r. dxo_State r = ''locked'') (ibd_DexOrders d),
      count_if (\<lambda>r. dxo_State r = ''complete'') (ibd_DexOrders d),
      count_if (\<lambda>r. dxo_State r = ''complete'' \<and> dxo_Success r) (ibd_DexOrders d),
      count_if (\<lambda>r. dxo_State r = ''complete'' \<and> \<not> dxo_Success r) (ibd_DexOrders d)]"
  "order_counts (summarize d) =
     [of_nat (length (ibd_Orders d)), count_if (\<lambda>r. ord_Status r = ''open'') (ibd_Orders d),
      count_if (\<lambda>r. ord_Status r = ''complete'') (ibd_Orders d),
      count_if (\<lambda>r. ord_Status r = ''canceled'') (ibd_Orders d)]"
  "validator_counts (summarize d) =
     [of_nat (length (ibd_Validators d)), count_if (\<lambda>r. vld_Status r = ''active'') (ibd_Validators d),
      count_if (\<lambda>r. vld_Status r = ''paused'') (ibd_Validators d),
      count_if (\<lambda>r. vld_Status r = ''unstaking'') (ibd_Validators d)]"
  unfolding summarize_def Let_def
  by (simp_all add: dex_counts_loop order_counts_loop validator_counts_loop)
    (simp_all add: count_groups summary_init_def)

lemma count_if_split:
  assumes "\<And>x. x \<in> set xs \<Longrightarrow> P x \<longleftrightarrow> Q x \<or> R x" "\<And>x. \<not> (Q x \<and> R x)"
  shows "count_if P xs = count_if Q xs + count_if R xs"
  using assms(1)
proof (induction xs)
  case (Cons x xs)
  have "(if P x then 1 else 0 :: uint32) = (if Q x then 1 else 0) + (if R x then 1 else 0)"
    using Cons.prems [of x] assms(2) [of x] by auto
  then show ?case using Cons by simp
qed simp

lemma of_nat_length_count_if: "of_nat (length xs) = count_if (\<lambda>_. True) xs"
  by (simp add: count_if_def)

section \<open>The counters of a converted block\<close>

lemma dex_state_names: "DexPendingState = ''pending''" "DexLockedState = ''locked''" "DexCompleteState = ''complete''"
  by (simp_all add: DexPendingState_def DexLockedState_def DexCompleteState_def)

lemma validator_row_status: "vld_Status (validator_row h t v) \<in> {''active'', ''paused'', ''unstaking''}"
  by (simp add: validator_row_def validator_status_def)

lemma converted_states:
  assumes "convertToBlockData cl data [] = Ok d"
  shows "r \<in> set (ibd_DexOrders d) \<Longrightarrow> dxo_State r \<in> {''pending'', ''locked'', ''complete''}"
    and "x \<in> set (ibd_Orders d) \<Longrightarrow> ord_Status x \<in> {''open'', ''locked''}"
    and "v \<in> set (ibd_Validators d) \<Longrightarrow> vld_Status v \<in> {''active'', ''paused'', ''unstaking''}"
proof -
  obtain b where d: "d = converted_data cl data [] b" using assms by (auto simp: convertToBlockData_Ok)
  show "dxo_State r \<in> {''pending'', ''locked'', ''complete''}" if "r \<in> set (ibd_DexOrders d)"
    using dex_order_states [of r "lib_dex_codec cl" data] that
    by (auto simp: d converted_data_def dex_state_names)
  show "ord_Status x \<in> {''open'', ''locked''}" if "x \<in> set (ibd_Orders d)"
    using that order_status_cases by (auto simp: d converted_data_def ConvertOrders_diff in_diff_rows)
  show "vld_Status v \<in> {''active'', ''paused'', ''unstaking''}" if "v \<in> set (ibd_Validators d)"
    using that validator_row_status
    by (auto simp: d converted_data_def converted_validators_def ConvertValidators_diff in_diff_rows)
qed

lemma count_if_split3:
  assumes "\<And>x. x \<in> set xs \<Longrightarrow> f x \<in> {a, b, c}" "a \<noteq> b" "a \<noteq> c" "b \<noteq> c"
  shows "count_if (\<lambda>_. True) xs = count_if (\<lambda>x. f x = a) xs + count_if (\<lambda>x. f x = b) xs + count_if (\<lambda>x. f x = c) xs"
proof -
  have "count_if (\<lambda>_. True) xs = count_if (\<lambda>x. f x = a \<or> f x = b) xs + count_if (\<lambda>x. f x = c) xs"
    using assms by (intro count_if_split) auto
  moreover have "count_if (\<lambda>x. f x = a \<or> f x = b) xs = count_if (\<lambda>x. f x = a) xs + count_if (\<lambda>x. f x = b) xs"
    using assms(2) by (intro count_if_split) auto
  ultimately show ?thesis by simp
qed



section \<open>The transactions of a block\<close>

text \<open>
  The conversion leaves the hash of every transaction empty, and the hash is the key of a transaction
  row within its height: of the transactions of a block, however many, one row is stored, while the
  summary counts them all. Likewise one event row is stored per event type.
\<close>

theorem transactions_collapse:
  assumes "block_ok data"
  shows "{k. fst k = bd_Height data \<and> t_txs (add_block cl data empty_tables) k \<noteq> None} =
      (if bd_Transactions data = [] then {} else {(bd_Height data, '''')})
    \<and> {k. fst k = bd_Height data \<and> t_events (add_block cl data empty_tables) k \<noteq> None} =
      (\<lambda>e. (bd_Height data, 0, '''', '''', ev_EventType e)) ` set (bd_Events data)
    \<and> bs_NumTxs (summarize (converted cl data)) = of_nat (length (bd_Transactions data))
    \<and> bs_NumEvents (summarize (converted cl data)) = of_nat (length (bd_Events data))"
proof -
  obtain b where b: "converted cl data = converted_data cl data [] b" using converted_record [OF assms] by blast
  let ?txs = "convertTransactions (bd_Transactions data) (bd_ChainID data) (bd_Height data) (bd_BlockTime data)"
  let ?evs = "convertEvents (bd_Events data) (bd_ChainID data) (bd_Height data) (bd_BlockTime data)"
  have rows: "ibd_Transactions (converted cl data) = ?txs" "ibd_Events (converted cl data) = ?evs"
    by (simp_all add: b converted_data_def)
  have tables: "t_txs (add_block cl data empty_tables) = index_by txs_key ?txs"
    "t_events (add_block cl data empty_tables) = index_by events_key ?evs"
    by (simp_all add: add_block_def written_simps rows empty_tables_def)
  have "dom (index_by txs_key ?txs) = (if bd_Transactions data = [] then {} else {(bd_Height data, '''')})"
    by (auto simp: convertTransactions_def txs_key_def zero_Transaction_def image_iff neq_Nil_conv)
  then have txs: "{k. fst k = bd_Height data \<and> index_by txs_key ?txs k \<noteq> None} =
      (if bd_Transactions data = [] then {} else {(bd_Height data, '''')})"
    by (auto simp: dom_def split: if_splits)
  have "dom (index_by events_key ?evs) = (\<lambda>e. (bd_Height data, 0, '''', '''', ev_EventType e)) ` set (bd_Events data)"
    by (simp add: convertEvents_def events_key_def zero_Event_def image_image)
  then have evs: "{k. fst k = bd_Height data \<and> index_by events_key ?evs k \<noteq> None} =
      (\<lambda>e. (bd_Height data, 0, '''', '''', ev_EventType e)) ` set (bd_Events data)"
    by (auto simp: dom_def)
  have "size_counts (summarize (converted cl data)) =
      [of_nat (length (bd_Transactions data)), of_nat (length (bd_Events data))]"
    by (simp add: summarize_counts(1) rows convertTransactions_def convertEvents_def)
  then show ?thesis by (simp only: tables txs evs size_counts_def list.inject)
qed

definition two_transactions :: "bytes blob_BlockData" where
  "two_transactions = (sample_data 5 7)\<lparr>bd_Transactions :=
     [\<lparr>txr_MessageType = ''send''\<rparr>, \<lparr>txr_MessageType = ''stake''\<rparr>]\<rparr>"

theorem transactions_collapse_witness:
  "{k. fst k = 7 \<and> t_txs (add_block sample_lib two_transactions empty_tables) k \<noteq> None} = {(7, '''')} \<and>
   bs_NumTxs (summarize (converted sample_lib two_transactions)) = 2"
proof -
  have "block_ok two_transactions"
    by (simp add: two_transactions_def block_ok_def sample_block_def sample_header_def)
  from transactions_collapse [OF this, of sample_lib] show ?thesis
    by (simp add: two_transactions_def)
qed

end
