(* ===== verification/RpcClient.thy ===== *)
theory RpcClient
  imports GoText CanopyTypes
begin

text \<open>
  The HTTP client of the node's RPC (pkg/rpc/httpclient.go, blob.go): endpoint fail-over, the circuit
  breaker per endpoint, the token bucket and the response cache. Times are nanoseconds. The clock, the
  endpoints' replies and the failures of marshalling a request are parameters of each request
  (\<open>rpc_env\<close>, indexed by the endpoint's position); a decoder of a response body is a function argument.
  A request that never gets a token within the times it is given is None.
\<close>

section \<open>The client\<close>

record 'v http_client =
  hc_endpoints :: "string list"
  hc_tokens :: int
  hc_maxTokens :: int
  hc_refillEvery :: int
  hc_lastRefill :: int
  hc_failures :: "string \<Rightarrow> int"
  hc_opened :: "string \<rightharpoonup> int"
  hc_breakerThreshold :: int
  hc_breakerCooldown :: int
  hc_cache :: "string \<rightharpoonup> 'v"
  hc_cacheHeight :: uint64

record rpc_opts =
  opt_Endpoints :: "string list"
  opt_RPS :: int
  opt_Burst :: int
  opt_BreakerFailures :: int
  opt_BreakerCooldown :: int

definition second :: int where "second = 1000000000"

definition dedup :: "string list \<Rightarrow> string list" where
  "dedup ss = (let (seen, result) = foldl (\<lambda>(seen, result) s.
       if \<not> seen s then (seen(s := True), result @ [s]) else (seen, result)) (\<lambda>_. False, []) ss
     in result)"

definition NewHTTPWithOpts :: "int \<Rightarrow> rpc_opts \<Rightarrow> 'v http_client" where
  "NewHTTPWithOpts now opts =
     (let rps = (if opt_RPS opts \<le> 0 then 20 else opt_RPS opts);
          burst = (if opt_Burst opts \<le> 0 then 40 else opt_Burst opts);
          failures = (if opt_BreakerFailures opts \<le> 0 then 3 else opt_BreakerFailures opts);
          cooldown = (if opt_BreakerCooldown opts \<le> 0 then 5 * second else opt_BreakerCooldown opts)
      in \<lparr>hc_endpoints = dedup (opt_Endpoints opts), hc_tokens = burst, hc_maxTokens = burst,
          hc_refillEvery = second div rps, hc_lastRefill = now, hc_failures = (\<lambda>_. 0),
          hc_opened = Map.empty, hc_breakerThreshold = failures, hc_breakerCooldown = cooldown,
          hc_cache = Map.empty, hc_cacheHeight = 0\<rparr>)"

section \<open>The cache\<close>

definition cacheKey :: "string \<Rightarrow> uint64 \<Rightarrow> string" where
  "cacheKey path height = path @ '':'' @ FormatUint height"

text \<open>A cached value is of one Go type per path; \<open>proj\<close> is the type assertion.\<close>

definition getCache :: "('v \<Rightarrow> 'a option) \<Rightarrow> 'v http_client \<Rightarrow> string \<Rightarrow> uint64 \<Rightarrow> 'a option" where
  "getCache proj c path height =
     (case hc_cache c (cacheKey path height) of None \<Rightarrow> None | Some v \<Rightarrow> proj v)"

text \<open>The height in a key: \<open>Sscanf("%d")\<close> on what follows the last colon, 0 when that fails.\<close>

definition digits_value :: "string \<Rightarrow> nat" where
  "digits_value ds = foldl (\<lambda>n c. 10 * n + (of_char c - 48)) 0 ds"

definition is_digit :: "char \<Rightarrow> bool" where
  "is_digit c \<longleftrightarrow> 48 \<le> (of_char c :: nat) \<and> (of_char c :: nat) \<le> 57"

definition scan_uint :: "string \<Rightarrow> uint64" where
  "scan_uint s =
     (let ds = takeWhile is_digit (dropWhile (\<lambda>c. c = CHR '' '') s)
      in if digits_value ds < 2 ^ 64 then of_nat (digits_value ds) else 0)"

definition key_height :: "string \<Rightarrow> uint64" where
  "key_height k =
     (let tail = takeWhile (\<lambda>c. c \<noteq> CHR '':'') (rev k)
      in if length tail = length k then 0 else scan_uint (rev tail))"

definition setCache :: "'v http_client \<Rightarrow> string \<Rightarrow> uint64 \<Rightarrow> 'v \<Rightarrow> 'v http_client" where
  "setCache c path height data =
     (let c = (if height > hc_cacheHeight c then c\<lparr>hc_cacheHeight := height\<rparr> else c);
          minHeight = (if hc_cacheHeight c > 10 then hc_cacheHeight c - 10 else 0);
          cache = (\<lambda>k. if key_height k > 0 \<and> key_height k < minHeight then None else hc_cache c k)
      in c\<lparr>hc_cache := cache(cacheKey path height \<mapsto> data)\<rparr>)"

section \<open>The token bucket\<close>

definition refill :: "int \<Rightarrow> 'v http_client \<Rightarrow> 'v http_client" where
  "refill now c =
     (if now - hc_lastRefill c \<ge> hc_refillEvery c then
        (let c = (if hc_tokens c < hc_maxTokens c then c\<lparr>hc_tokens := hc_tokens c + 1\<rparr> else c)
         in c\<lparr>hc_lastRefill := now\<rparr>)
      else c)"

text \<open>The loop of \<open>acquire\<close> at the times of its iterations, which sleep half a refill interval between
  them.\<close>

fun acquire :: "int list \<Rightarrow> 'v http_client \<Rightarrow> 'v http_client option" where
  "acquire [] c = None"
| "acquire (now # later) c =
     (let c = refill now c
      in if hc_tokens c > 0 then Some (c\<lparr>hc_tokens := hc_tokens c - 1\<rparr>) else acquire later c)"

section \<open>The circuit breaker\<close>

definition isOpen :: "int \<Rightarrow> string \<Rightarrow> 'v http_client \<Rightarrow> bool \<times> 'v http_client" where
  "isOpen now ep c =
     (case hc_opened c ep of
        None \<Rightarrow> (False, c)
      | Some until \<Rightarrow>
          (if now > until
           then (False, c\<lparr>hc_opened := (hc_opened c)(ep := None), hc_failures := (hc_failures c)(ep := 0)\<rparr>)
           else (True, c)))"

definition noteFailure :: "int \<Rightarrow> string \<Rightarrow> 'v http_client \<Rightarrow> 'v http_client" where
  "noteFailure now ep c =
     (let c = c\<lparr>hc_failures := (hc_failures c)(ep := hc_failures c ep + 1)\<rparr>
      in if hc_failures c ep \<ge> hc_breakerThreshold c
         then c\<lparr>hc_opened := (hc_opened c)(ep \<mapsto> now + hc_breakerCooldown c)\<rparr> else c)"

section \<open>A request\<close>

text \<open>What an endpoint answers: no response, or a status with a body that may fail to be read.\<close>

datatype http_reply = Transport go_error | Response nat "go_error + bytes"

record rpc_env =
  at_check :: "nat \<Rightarrow> int"
  at_acquire :: "nat \<Rightarrow> int list"
  at_failure :: "nat \<Rightarrow> int"
  marshal_err :: "go_error option"
  request_err :: "string \<Rightarrow> go_error option"
  reply :: "nat \<Rightarrow> string \<Rightarrow> http_reply"

text \<open>The loop over the endpoints. The result is the returned error (None is nil) and what was decoded
  into \<open>out\<close> (None when it was not written).\<close>

fun try_endpoints ::
  "rpc_env \<Rightarrow> string \<Rightarrow> string \<Rightarrow> (bytes \<Rightarrow> go_error + 'a) \<Rightarrow> nat \<Rightarrow> string list \<Rightarrow> go_error option \<Rightarrow>
   'v http_client \<Rightarrow> ('v http_client \<times> go_error option \<times> 'a option) option" where
  "try_endpoints env what path decode i [] lastErr c = Some (c, lastErr, None)"
| "try_endpoints env what path decode i (ep # eps) lastErr c =
     (let (is_open, c) = isOpen (at_check env i) ep c
      in if is_open then try_endpoints env what path decode (Suc i) eps lastErr c
         else (case acquire (at_acquire env i) c of
           None \<Rightarrow> None
         | Some c \<Rightarrow>
        (case marshal_err env of
           Some e \<Rightarrow> Some (c, Some e, None)
         | None \<Rightarrow>
        (case request_err env (ep @ path) of
           Some e \<Rightarrow> Some (c, Some e, None)
         | None \<Rightarrow>
        (case reply env i (ep @ path) of
           Transport err \<Rightarrow>
             try_endpoints env what path decode (Suc i) eps (Some err) (noteFailure (at_failure env i) ep c)
         | Response status body \<Rightarrow>
             (if status \<ge> 500 then
                try_endpoints env what path decode (Suc i) eps
                  (Some (Errorf (''server '' @ format_nat status))) (noteFailure (at_failure env i) ep c)
              else if status \<ge> 300 then
                try_endpoints env what path decode (Suc i) eps (Some (Errorf (''http '' @ format_nat status))) c
              else (case body of
                Inl err \<Rightarrow> try_endpoints env what path decode (Suc i) eps (Some err) c
              | Inr raw \<Rightarrow>
                  (case decode raw of
                     Inl err \<Rightarrow> try_endpoints env what path decode (Suc i) eps (Some (WrapErr what err)) c
                   | Inr v \<Rightarrow> Some (c, None, Some v)))))))))"

definition doRequest ::
  "string \<Rightarrow> rpc_env \<Rightarrow> string \<Rightarrow> (bytes \<Rightarrow> go_error + 'a) \<Rightarrow> 'v http_client \<Rightarrow>
   ('v http_client \<times> go_error option \<times> 'a option) option" where
  "doRequest what env path decode c =
     (if hc_endpoints c = [] then Some (c, Some (Errorf ''no endpoints configured''), None)
      else try_endpoints env what path decode 0 (hc_endpoints c) None c)"

definition doJSON ::
  "rpc_env \<Rightarrow> string \<Rightarrow> (bytes \<Rightarrow> go_error + 'a) \<Rightarrow> 'v http_client \<Rightarrow>
   ('v http_client \<times> go_error option \<times> 'a option) option" where
  "doJSON env = doRequest ''json unmarshal'' env"

definition doProtobuf ::
  "rpc_env \<Rightarrow> string \<Rightarrow> (bytes \<Rightarrow> go_error + 'a) \<Rightarrow> 'v http_client \<Rightarrow>
   ('v http_client \<times> go_error option \<times> 'a option) option" where
  "doProtobuf env = doRequest ''protobuf unmarshal'' env"

section \<open>Endpoints, keys and the cache window\<close>

lemma dedup_loop:
  "foldl (\<lambda>(seen, result) s. if \<not> seen s then (seen(s := True), result @ [s]) else (seen, result))
     (\<lambda>x. x \<in> set acc, acc) ss = (\<lambda>r. (\<lambda>x. x \<in> set r, r)) (foldl (\<lambda>r s. if s \<in> set r then r else r @ [s]) acc ss)"
proof (induction ss arbitrary: acc)
  case (Cons s ss)
  have "(\<lambda>x. x \<in> set acc)(s := True) = (\<lambda>x. x \<in> set (acc @ [s]))" by (simp add: fun_eq_iff)
  then show ?case using Cons [of "acc @ [s]"] Cons [of acc] by simp
qed simp

lemma dedup_foldl: "dedup ss = foldl (\<lambda>r s. if s \<in> set r then r else r @ [s]) [] ss"
  using dedup_loop [of "[]" ss] by (simp add: dedup_def)

lemma dedup_acc:
  "distinct acc \<Longrightarrow> distinct (foldl (\<lambda>r s. if s \<in> set r then r else r @ [s]) acc ss) \<and>
     set (foldl (\<lambda>r s. if s \<in> set r then r else r @ [s]) acc ss) = set acc \<union> set ss"
  by (induction ss arbitrary: acc) auto

lemma set_dedup [simp]: "set (dedup ss) = set ss" and distinct_dedup [simp]: "distinct (dedup ss)"
  using dedup_acc [of "[]" ss] by (simp_all add: dedup_foldl)

lemma dedup_single [simp]: "dedup [s] = [s]"
  by (simp add: dedup_foldl)

lemma of_char_hex_digit: "n < 10 \<Longrightarrow> of_char (hex_digit n) = 48 + n"
  by (auto simp: hex_digit_def hex_digits_def less_Suc_eq numeral_eq_Suc nth_Cons')

lemma digits_value_format_nat [simp]: "digits_value (format_nat n) = n"
proof (induction n rule: format_nat.induct)
  case (1 n)
  show ?case
  proof (cases "n < 10")
    case True
    then show ?thesis by (simp add: format_nat_single digits_value_def of_char_hex_digit)
  next
    case False
    have "digits_value (format_nat n) = 10 * digits_value (format_nat (n div 10)) + n mod 10"
      using False by (simp add: format_nat_more digits_value_def of_char_hex_digit)
    then show ?thesis using 1 [OF False] by simp
  qed
qed

lemma is_digit_hex_digit: "n < 10 \<Longrightarrow> is_digit (hex_digit n)"
  by (simp add: is_digit_def of_char_hex_digit)

lemma format_nat_digits: "x \<in> set (format_nat n) \<Longrightarrow> is_digit x"
proof (induction n rule: format_nat.induct)
  case (1 n)
  show ?case
  proof (cases "n < 10")
    case True
    then show ?thesis using 1(2) by (simp add: format_nat_single is_digit_hex_digit)
  next
    case False
    then show ?thesis using 1 by (auto simp: format_nat_more is_digit_hex_digit)
  qed
qed

lemma scan_uint_FormatUint [simp]: "scan_uint (FormatUint h) = h"
proof -
  have digits: "\<And>x. x \<in> set (FormatUint h) \<Longrightarrow> is_digit x"
    unfolding FormatUint_def by (rule format_nat_digits)
  have "\<not> is_digit (CHR '' '')" by (simp add: is_digit_def)
  then have "dropWhile (\<lambda>c. c = CHR '' '') (FormatUint h) = FormatUint h"
    using digits by (cases "FormatUint h") auto
  moreover have "takeWhile is_digit (FormatUint h) = FormatUint h"
    by (rule takeWhile_eq_all_conv [THEN iffD2]) (use digits in blast)
  moreover have "digits_value (FormatUint h) = unat h" by (simp add: FormatUint_def)
  moreover have "unat h < 2 ^ 64" using unsigned_less [of h, where 'a = nat] by simp
  ultimately show ?thesis unfolding scan_uint_def Let_def by (simp only: if_True) simp
qed

lemma takeWhile_tail: "c \<notin> set ys \<Longrightarrow> takeWhile (\<lambda>x. x \<noteq> c) (ys @ c # xs) = ys"
  by (induction ys) auto

lemma key_height_cacheKey [simp]: "key_height (cacheKey path h) = h"
proof -
  have "rev (cacheKey path h) = rev (FormatUint h) @ CHR '':'' # rev path"
    by (simp add: cacheKey_def)
  then have "takeWhile (\<lambda>c. c \<noteq> CHR '':'') (rev (cacheKey path h)) = rev (FormatUint h)"
    using takeWhile_tail [of "CHR '':''" "rev (FormatUint h)"] colon_notin_FormatUint by simp
  moreover have "length (rev (FormatUint h)) \<noteq> length (cacheKey path h)" by (simp add: cacheKey_def)
  ultimately show ?thesis by (simp add: key_height_def)
qed

lemma cacheKey_eq_iff [simp, key_inj]: "cacheKey p h = cacheKey q k \<longleftrightarrow> p = q \<and> h = k"
proof
  assume eq: "cacheKey p h = cacheKey q k"
  then have "h = k" by (metis key_height_cacheKey)
  then show "p = q \<and> h = k" using eq by (simp add: cacheKey_def)
qed simp


section \<open>The token bucket\<close>

lemma acquire_bounds:
  assumes "acquire ts c = Some c'" "0 \<le> hc_tokens c" "hc_tokens c \<le> hc_maxTokens c" "0 \<le> hc_refillEvery c"
  shows "hc_refillEvery c' = hc_refillEvery c \<and> hc_maxTokens c' = hc_maxTokens c \<and>
    0 \<le> hc_tokens c' \<and> hc_tokens c' \<le> hc_maxTokens c' \<and>
    (hc_tokens c' + 1 - hc_tokens c) * hc_refillEvery c \<le> hc_lastRefill c' - hc_lastRefill c"
  using assms
proof (induction ts c rule: acquire.induct)
  case (2 now later c)
  let ?c = "refill now c"
  have step: "hc_refillEvery ?c = hc_refillEvery c" "hc_maxTokens ?c = hc_maxTokens c"
    "0 \<le> hc_tokens ?c" "hc_tokens ?c \<le> hc_maxTokens c"
    "(hc_tokens ?c - hc_tokens c) * hc_refillEvery c \<le> hc_lastRefill ?c - hc_lastRefill c"
    using 2(3-5) by (simp_all add: refill_def Let_def)
  show ?case
  proof (cases "hc_tokens ?c > 0")
    case True
    then show ?thesis using 2(2) step by (auto simp: Let_def)
  next
    case False
    then have run: "acquire later ?c = Some c'" using 2(2) by (simp add: Let_def)
    have ih: "hc_refillEvery c' = hc_refillEvery c" "hc_maxTokens c' = hc_maxTokens c" "0 \<le> hc_tokens c'"
      "hc_tokens c' \<le> hc_maxTokens c'"
      "(hc_tokens c' + 1 - hc_tokens ?c) * hc_refillEvery c \<le> hc_lastRefill c' - hc_lastRefill ?c"
      using 2(1) [OF refl False run] step 2(5) by simp_all
    have "(hc_tokens c' + 1 - hc_tokens c) * hc_refillEvery c =
        (hc_tokens c' + 1 - hc_tokens ?c) * hc_refillEvery c + (hc_tokens ?c - hc_tokens c) * hc_refillEvery c"
      by (simp add: algebra_simps)
    then have "(hc_tokens c' + 1 - hc_tokens c) * hc_refillEvery c \<le> hc_lastRefill c' - hc_lastRefill c"
      using ih(5) step(5) by linarith
    then show ?thesis using ih by simp
  qed
qed simp

text \<open>A sequence of requests, each with the times at which it looked at the bucket.\<close>

fun acquire_all :: "int list list \<Rightarrow> 'v http_client \<Rightarrow> 'v http_client option" where
  "acquire_all [] c = Some c"
| "acquire_all (ts # tss) c = (case acquire ts c of None \<Rightarrow> None | Some c \<Rightarrow> acquire_all tss c)"

lemma acquire_all_bounds:
  assumes "acquire_all tss c = Some c'" "0 \<le> hc_tokens c" "hc_tokens c \<le> hc_maxTokens c" "0 \<le> hc_refillEvery c"
  shows "0 \<le> hc_tokens c' \<and> hc_tokens c' \<le> hc_maxTokens c \<and>
    (hc_tokens c' + int (length tss) - hc_tokens c) * hc_refillEvery c \<le> hc_lastRefill c' - hc_lastRefill c"
  using assms
proof (induction tss arbitrary: c)
  case (Cons ts tss)
  then obtain c1 where c1: "acquire ts c = Some c1" "acquire_all tss c1 = Some c'"
    by (auto split: option.splits)
  have b: "hc_refillEvery c1 = hc_refillEvery c" "hc_maxTokens c1 = hc_maxTokens c" "0 \<le> hc_tokens c1"
    "hc_tokens c1 \<le> hc_maxTokens c1"
    "(hc_tokens c1 + 1 - hc_tokens c) * hc_refillEvery c \<le> hc_lastRefill c1 - hc_lastRefill c"
    using acquire_bounds [OF c1(1) Cons.prems(2-4)] by blast+
  have ih: "0 \<le> hc_tokens c'" "hc_tokens c' \<le> hc_maxTokens c1"
    "(hc_tokens c' + int (length tss) - hc_tokens c1) * hc_refillEvery c1 \<le> hc_lastRefill c' - hc_lastRefill c1"
    using Cons.IH [OF c1(2) b(3,4)] Cons.prems(4) b(1) by auto
  have "(hc_tokens c' + int (length (ts # tss)) - hc_tokens c) * hc_refillEvery c =
      (hc_tokens c' + int (length tss) - hc_tokens c1) * hc_refillEvery c +
      (hc_tokens c1 + 1 - hc_tokens c) * hc_refillEvery c" by (simp add: algebra_simps)
  then show ?case using ih b by simp
qed simp


definition sample_opts :: rpc_opts where
  "sample_opts = \<lparr>opt_Endpoints = [''http://a'', ''http://b''], opt_RPS = 0, opt_Burst = 2,
     opt_BreakerFailures = 0, opt_BreakerCooldown = 0\<rparr>"

definition sample_client :: "nat http_client" where
  "sample_client = NewHTTPWithOpts 0 sample_opts"

lemma sample_client_simps:
  "hc_endpoints sample_client = [''http://a'', ''http://b'']" "hc_tokens sample_client = 2"
  "hc_maxTokens sample_client = 2" "hc_refillEvery sample_client = 50000000" "hc_lastRefill sample_client = 0"
  "hc_failures sample_client = (\<lambda>_. 0)" "hc_opened sample_client = Map.empty"
  "hc_breakerThreshold sample_client = 3" "hc_breakerCooldown sample_client = 5000000000"
  by (simp_all add: sample_client_def NewHTTPWithOpts_def sample_opts_def Let_def second_def dedup_foldl)


text \<open>
  \<open>acquire\<close> returns: when the clock moves on by at least the slept half interval between two looks
  at the bucket, the fourth look at the latest finds a token.
\<close>

lemma acquire_returns:
  assumes "0 < hc_maxTokens c" "2 \<le> hc_refillEvery c" "0 \<le> hc_tokens c"
    and "hc_lastRefill c \<le> t0" "t0 + hc_refillEvery c div 2 \<le> t1" "t1 + hc_refillEvery c div 2 \<le> t2"
    and "t2 + hc_refillEvery c div 2 \<le> t3"
  shows "\<exists>c'. acquire [t0, t1, t2, t3] c = Some c'"
  using assms by (auto simp: refill_def Let_def)

section \<open>The circuit breaker\<close>

lemma noteFailure_other:
  "ep' \<noteq> ep \<Longrightarrow> hc_failures (noteFailure now ep c) ep' = hc_failures c ep'"
  "ep' \<noteq> ep \<Longrightarrow> hc_opened (noteFailure now ep c) ep' = hc_opened c ep'"
  by (simp_all add: noteFailure_def Let_def)

lemma noteFailure_frame [simp]:
  "hc_endpoints (noteFailure now ep c) = hc_endpoints c"
  "hc_tokens (noteFailure now ep c) = hc_tokens c"
  "hc_breakerThreshold (noteFailure now ep c) = hc_breakerThreshold c"
  "hc_breakerCooldown (noteFailure now ep c) = hc_breakerCooldown c"
  "hc_cache (noteFailure now ep c) = hc_cache c"
  "hc_failures (noteFailure now ep c) ep = hc_failures c ep + 1"
  by (simp_all add: noteFailure_def Let_def)

lemma isOpen_frame [simp]:
  "hc_endpoints (snd (isOpen now ep c)) = hc_endpoints c"
  "hc_tokens (snd (isOpen now ep c)) = hc_tokens c"
  "hc_breakerThreshold (snd (isOpen now ep c)) = hc_breakerThreshold c"
  "hc_cache (snd (isOpen now ep c)) = hc_cache c"
  by (simp_all add: isOpen_def split: option.split)

lemma noteFailures:
  "hc_failures (fold (\<lambda>t. noteFailure t ep) ts c) ep = hc_failures c ep + int (length ts)
   \<and> hc_breakerThreshold (fold (\<lambda>t. noteFailure t ep) ts c) = hc_breakerThreshold c
   \<and> hc_breakerCooldown (fold (\<lambda>t. noteFailure t ep) ts c) = hc_breakerCooldown c
   \<and> hc_opened (fold (\<lambda>t. noteFailure t ep) ts c) ep =
      (if ts \<noteq> [] \<and> hc_failures c ep + int (length ts) \<ge> hc_breakerThreshold c
       then Some (last ts + hc_breakerCooldown c) else hc_opened c ep)"
proof (induction ts rule: rev_induct)
  case (snoc t ts)
  then show ?case by (auto simp: noteFailure_def Let_def)
qed simp

text \<open>
  C20. The breaker of an endpoint that has not failed yet: fewer failures than the threshold leave it
  closed. From the failure that reaches the threshold on it is open until the cooldown after the last
  failure has passed; the first check after that closes it and forgets the failures. No failure of one
  endpoint touches the breaker of another.
\<close>

theorem breaker_cycle:
  assumes "hc_failures c ep = 0" "hc_opened c ep = None" "0 < hc_breakerThreshold c"
  shows "let c' = fold (\<lambda>t. noteFailure t ep) ts c; (is_open, c'') = isOpen now ep c' in
    (int (length ts) < hc_breakerThreshold c \<longrightarrow> \<not> is_open \<and> c'' = c') \<and>
    (int (length ts) \<ge> hc_breakerThreshold c \<longrightarrow>
       (is_open \<longleftrightarrow> now \<le> last ts + hc_breakerCooldown c) \<and>
       (\<not> is_open \<longrightarrow> hc_failures c'' ep = 0 \<and> hc_opened c'' ep = None)) \<and>
    (\<forall>ep'. ep' \<noteq> ep \<longrightarrow> hc_opened c'' ep' = hc_opened c ep' \<and> hc_failures c'' ep' = hc_failures c ep')"
proof -
  let ?c = "fold (\<lambda>t. noteFailure t ep) ts c"
  have other: "hc_opened ?c ep' = hc_opened c ep' \<and> hc_failures ?c ep' = hc_failures c ep'" if "ep' \<noteq> ep" for ep'
    using that by (induction ts rule: rev_induct) (simp_all add: noteFailure_other)
  have "hc_opened ?c ep = (if int (length ts) \<ge> hc_breakerThreshold c
      then Some (last ts + hc_breakerCooldown c) else None)"
    using noteFailures [of ep ts c] assms by auto
  then show ?thesis using other by (auto simp: isOpen_def Let_def split: if_splits)
qed

theorem breaker_cycle_witness:
  "\<not> fst (isOpen 5 ''http://a'' (fold (\<lambda>t. noteFailure t ''http://a'') [1, 2] sample_client)) \<and>
   fst (isOpen 5 ''http://a'' (fold (\<lambda>t. noteFailure t ''http://a'') [1, 2, 3] sample_client))"
proof -
  have c: "hc_failures sample_client ''http://a'' = 0" "hc_opened sample_client ''http://a'' = None"
    "0 < hc_breakerThreshold sample_client" by (simp_all add: sample_client_simps)
  from breaker_cycle [OF c, of "[1, 2]" 5] breaker_cycle [OF c, of "[1, 2, 3]" 5]
  show ?thesis by (simp add: Let_def case_prod_beta sample_client_simps)
qed

section \<open>Fail-over\<close>

text \<open>What a reply comes to: a decoded value, or the error it leaves behind.\<close>

definition reply_result :: "string \<Rightarrow> (bytes \<Rightarrow> go_error + 'a) \<Rightarrow> http_reply \<Rightarrow> go_error + 'a" where
  "reply_result what decode r =
     (case r of
        Transport err \<Rightarrow> Inl err
      | Response status body \<Rightarrow>
          (if status \<ge> 500 then Inl (Errorf (''server '' @ format_nat status))
           else if status \<ge> 300 then Inl (Errorf (''http '' @ format_nat status))
           else (case body of
               Inl err \<Rightarrow> Inl err
             | Inr raw \<Rightarrow> (case decode raw of Inl err \<Rightarrow> Inl (WrapErr what err) | Inr v \<Rightarrow> Inr v))))"

text \<open>The specification of a request over endpoints that are all tried: the first success, else the last
  error.\<close>

fun first_success :: "(go_error + 'a) list \<Rightarrow> go_error option \<Rightarrow> go_error option \<times> 'a option" where
  "first_success [] lastErr = (lastErr, None)"
| "first_success (Inl e # rs) lastErr = first_success rs (Some e)"
| "first_success (Inr v # rs) lastErr = (None, Some v)"

lemma acquire_now: "hc_tokens c > 0 \<Longrightarrow> \<exists>c'. acquire (t # ts) c = Some c' \<and> hc_tokens c' \<ge> hc_tokens c - 1 \<and>
    hc_endpoints c' = hc_endpoints c \<and> hc_opened c' = hc_opened c \<and> hc_cache c' = hc_cache c"
  by (auto simp: refill_def Let_def)

lemma try_endpoints_spec:
  assumes "int (length eps) \<le> hc_tokens c" "\<And>ep. ep \<in> set eps \<Longrightarrow> hc_opened c ep = None" "distinct eps"
    and "\<And>i. at_acquire env i \<noteq> []" "marshal_err env = None" "\<And>url. request_err env url = None"
  shows "map_option snd (try_endpoints env what path decode i eps lastErr c) =
    Some (first_success (map (\<lambda>(j, ep). reply_result what decode (reply env j (ep @ path))) (enumerate i eps)) lastErr)"
  using assms(1-3)
proof (induction eps arbitrary: i lastErr c)
  case (Cons ep eps)
  have closed: "isOpen (at_check env i) ep c = (False, c)" using Cons.prems(2) by (simp add: isOpen_def)
  obtain t ts where ts: "at_acquire env i = t # ts" using assms(4) [of i] by (cases "at_acquire env i") auto
  have pos: "hc_tokens c > 0" using Cons.prems(1) by simp
  obtain c1 where c1: "acquire (at_acquire env i) c = Some c1" "hc_tokens c1 \<ge> hc_tokens c - 1"
    "hc_opened c1 = hc_opened c" using acquire_now [OF pos, of t ts] unfolding ts by auto
  have pre: "int (length eps) \<le> hc_tokens c1" "\<And>x. x \<in> set eps \<Longrightarrow> hc_opened c1 x = None" "distinct eps"
    using Cons.prems c1 by auto
  have "x \<noteq> ep" if "x \<in> set eps" for x using that Cons.prems(3) by auto
  then have pre': "int (length eps) \<le> hc_tokens (noteFailure n ep c1)"
    "\<And>x. x \<in> set eps \<Longrightarrow> hc_opened (noteFailure n ep c1) x = None" for n
    using pre by (simp_all add: noteFailure_other)
  show ?case
    unfolding try_endpoints.simps closed Let_def prod.case if_False c1(1) option.case assms(5,6) enumerate_simps
      list.map
    using Cons.IH [OF pre] Cons.IH [OF pre' pre(3)]
    by (cases "reply env i (ep @ path)") (auto simp: reply_result_def split: sum.splits)
qed simp

text \<open>
  C21. A request over closed breakers with enough tokens tries the endpoints in their order and returns the
  first value that an endpoint delivers with a status below 300 and a body that decodes; if none does, it
  returns the error of the last one.
\<close>

theorem request_failover:
  assumes "hc_endpoints c \<noteq> []" "distinct (hc_endpoints c)" "int (length (hc_endpoints c)) \<le> hc_tokens c"
    and "\<And>ep. ep \<in> set (hc_endpoints c) \<Longrightarrow> hc_opened c ep = None"
    and "\<And>i. at_acquire env i \<noteq> []" "marshal_err env = None" "\<And>url. request_err env url = None"
  shows "map_option snd (doRequest what env path decode c) =
    Some (first_success (map (\<lambda>(i, ep). reply_result what decode (reply env i (ep @ path)))
      (enumerate 0 (hc_endpoints c))) None)"
  using assms by (simp add: doRequest_def try_endpoints_spec)

definition sample_env :: "(nat \<Rightarrow> string \<Rightarrow> http_reply) \<Rightarrow> rpc_env" where
  "sample_env replies = \<lparr>at_check = (\<lambda>_. 0), at_acquire = (\<lambda>_. [0]), at_failure = (\<lambda>_. 0), marshal_err = None,
     request_err = (\<lambda>_. None), reply = replies\<rparr>"

lemma sample_env_simps [simp]:
  "at_acquire (sample_env f) i = [0]" "marshal_err (sample_env f) = None" "request_err (sample_env f) u = None"
  "reply (sample_env f) = f" "at_check (sample_env f) i = 0" "at_failure (sample_env f) i = 0"
  by (simp_all add: sample_env_def)

theorem request_failover_witness:
  "map_option snd (doJSON (sample_env (\<lambda>i _. if i = 0 then Response 503 (Inr []) else Response 200 (Inr [7])))
     ''/v1/query/height'' (\<lambda>raw. Inr (hd raw)) sample_client) = Some (None, Some 7)"
  unfolding doJSON_def
  by (subst request_failover) (simp_all add: sample_client_simps reply_result_def)

lemma try_endpoints_all_open:
  assumes "\<And>ep. ep \<in> set all \<Longrightarrow> \<exists>until. hc_opened c ep = Some until \<and> (\<forall>i. at_check env i \<le> until)"
    and "set eps \<subseteq> set all"
  shows "try_endpoints env what path decode i eps None c = Some (c, None, None)"
  using assms(2)
proof (induction eps arbitrary: i)
  case (Cons ep eps)
  then obtain until where "hc_opened c ep = Some until" "at_check env i \<le> until"
    using assms(1) [of ep] by auto
  then have "isOpen (at_check env i) ep c = (True, c)" by (simp add: isOpen_def)
  then show ?case using Cons by simp
qed simp

text \<open>
  When the breakers of all endpoints are open, no request is sent, and the call returns no error and
  decodes nothing: the caller goes on with the zero value of its response.
\<close>

lemma all_open_no_error:
  assumes "hc_endpoints c \<noteq> []"
    and "\<And>ep. ep \<in> set (hc_endpoints c) \<Longrightarrow> \<exists>until. hc_opened c ep = Some until \<and> (\<forall>i. at_check env i \<le> until)"
  shows "doRequest what env path decode c = Some (c, None, None)"
  using try_endpoints_all_open [OF assms(2) order_refl] assms(1) by (simp add: doRequest_def)

definition open_client :: "nat http_client" where
  "open_client = sample_client\<lparr>hc_opened := [''http://a'' \<mapsto> 9, ''http://b'' \<mapsto> 9]\<rparr>"

end
