(* ===== verification/RpcApi.thy ===== *)
theory RpcApi
  imports RpcClient Transform Blob "HOL-Library.Multiset"
begin

text \<open>
  The queries of the RPC client (pkg/rpc/httpclient.go, blob.go) over the request of the theory RpcClient:
  \<open>ChainHead\<close>, \<open>Blob\<close>, the cached by-height queries and the paged lists, and the chain id detection of
  internal/rpc/validation.go built on them. The JSON and protobuf decoders are parameters. The pages
  after the first are fetched by goroutines; a paged query is given the order in which their results
  arrive, and runs them in that order.
\<close>

section \<open>Single requests\<close>

text \<open>A call site of \<open>doJSON\<close>: the error is returned, and a response that was not written keeps the value
  it was declared with.\<close>

definition call_json ::
  "rpc_env \<Rightarrow> string \<Rightarrow> (bytes \<Rightarrow> go_error + 'a) \<Rightarrow> 'a \<Rightarrow> 'v http_client \<Rightarrow> ('v http_client \<times> 'a outcome) option" where
  "call_json env path decode zero c =
     (case doJSON env path decode c of
        None \<Rightarrow> None
      | Some (c, Some err, _) \<Rightarrow> Some (c, Fail err)
      | Some (c, None, out) \<Rightarrow> Some (c, Ok (case out of None \<Rightarrow> zero | Some v \<Rightarrow> v)))"

definition ChainHead ::
  "rpc_env \<Rightarrow> (bytes \<Rightarrow> go_error + uint64) \<Rightarrow> 'v http_client \<Rightarrow> ('v http_client \<times> uint64 outcome) option" where
  "ChainHead env decode c = call_json env ''/v1/query/height'' decode 0 c"

definition zero_IndexerBlobs :: fsm_IndexerBlobs where
  "zero_IndexerBlobs = \<lparr>ibs_Current = None, ibs_Previous = None\<rparr>"

definition fetch_Blob ::
  "rpc_env \<Rightarrow> (bytes \<Rightarrow> go_error + fsm_IndexerBlobs) \<Rightarrow> 'v http_client \<Rightarrow>
   ('v http_client \<times> fsm_IndexerBlobs outcome) option" where
  "fetch_Blob env decode c =
     (case doProtobuf env ''/v1/query/indexer-blobs'' decode c of
        None \<Rightarrow> None
      | Some (c, Some err, _) \<Rightarrow> Some (c, Fail err)
      | Some (c, None, out) \<Rightarrow> Some (c, Ok (case out of None \<Rightarrow> zero_IndexerBlobs | Some v \<Rightarrow> v)))"

text \<open>The governance queries; \<open>fsm.Poll\<close> and \<open>fsm.GovProposals\<close> stay type variables with their zero value.\<close>

definition fetch_Poll ::
  "rpc_env \<Rightarrow> (bytes \<Rightarrow> go_error + 'p) \<Rightarrow> 'p \<Rightarrow> 'v http_client \<Rightarrow> ('v http_client \<times> 'p outcome) option" where
  "fetch_Poll env decode zero c = call_json env ''/v1/gov/poll'' decode zero c"

definition fetch_Proposals ::
  "rpc_env \<Rightarrow> (bytes \<Rightarrow> go_error + 'p) \<Rightarrow> 'p \<Rightarrow> 'v http_client \<Rightarrow> ('v http_client \<times> 'p outcome) option" where
  "fetch_Proposals env decode zero c = call_json env ''/v1/gov/proposals'' decode zero c"

section \<open>Paged lists\<close>

record 'a pageResp =
  pr_PageNumber :: int
  pr_PerPage :: int
  pr_Results :: "'a list"
  pr_Count :: int
  pr_TotalPages :: int
  pr_TotalCount :: int

definition zero_page :: "'a pageResp" where
  "zero_page = \<lparr>pr_PageNumber = 0, pr_PerPage = 0, pr_Results = [], pr_Count = 0, pr_TotalPages = 0, pr_TotalCount = 0\<rparr>"

text \<open>The receive loop over the channel: the results in their order of arrival; the first error ends it.
  What the goroutines that are still running do to the client afterwards is not modelled.\<close>

fun fetch_pages ::
  "(int \<Rightarrow> rpc_env) \<Rightarrow> string \<Rightarrow> (bytes \<Rightarrow> go_error + 'a pageResp) \<Rightarrow> int list \<Rightarrow> 'a list \<Rightarrow> 'v http_client \<Rightarrow>
   ('v http_client \<times> 'a list outcome) option" where
  "fetch_pages envs path decode [] all c = Some (c, Ok all)"
| "fetch_pages envs path decode (page # pages) all c =
     (case call_json (envs page) path decode zero_page c of
        None \<Rightarrow> None
      | Some (c, Ok pr) \<Rightarrow> fetch_pages envs path decode pages (all @ pr_Results pr) c
      | Some (c, Fail err) \<Rightarrow> Some (c, Fail err)
      | Some (c, Panic) \<Rightarrow> Some (c, Panic))"

text \<open>\<open>arrivals n\<close> is the order in which the pages 2 to n arrive. \<open>make([]T, 0, n)\<close> panics for a negative n.\<close>

definition listPaged ::
  "(int \<Rightarrow> rpc_env) \<Rightarrow> (int \<Rightarrow> int list) \<Rightarrow> string \<Rightarrow> (bytes \<Rightarrow> go_error + 'a pageResp) \<Rightarrow> 'v http_client \<Rightarrow>
   ('v http_client \<times> 'a list outcome) option" where
  "listPaged envs arrivals path decode c =
     (case call_json (envs 1) path decode zero_page c of
        None \<Rightarrow> None
      | Some (c, Fail err) \<Rightarrow> Some (c, Fail err)
      | Some (c, Panic) \<Rightarrow> Some (c, Panic)
      | Some (c, Ok first) \<Rightarrow>
          (if pr_TotalCount first < 0 then Some (c, Panic)
           else if pr_TotalPages first \<le> 1 then Some (c, Ok (pr_Results first))
           else fetch_pages envs path decode (arrivals (pr_TotalPages first)) (pr_Results first) c))"

section \<open>Cached queries\<close>

datatype 'm rpc_value =
    VBlock "'m lib_BlockResult"
  | VTxs "lib_TxResult list"
  | VEvents "'m lib_Event list"
  | VAccounts "fsm_Account list"
  | VValidators "fsm_Validator list"
  | VOrders "lib_SellOrder list"
  | VDexPrices "lib_DexPrice list"
  | VPools "fsm_Pool list"
  | VDexBatches "lib_DexBatch list"
  | VParams fsm_Params
  | VNonSigners "fsm_NonSigner list"
  | VDoubleSigners "lib_DoubleSigner list"
  | VCommittees "lib_CommitteeData list"
  | VIDs "uint64 list"
  | VSupply fsm_Supply

text \<open>The shape of the by-height queries: the cache, else the request, whose value is put into the cache.\<close>

definition cached ::
  "('v \<Rightarrow> 'a option) \<Rightarrow> ('a \<Rightarrow> 'v) \<Rightarrow> string \<Rightarrow> uint64 \<Rightarrow>
   ('v http_client \<Rightarrow> ('v http_client \<times> 'a outcome) option) \<Rightarrow> 'v http_client \<Rightarrow> ('v http_client \<times> 'a outcome) option" where
  "cached proj wrap path height fetch c =
     (case getCache proj c path height of
        Some v \<Rightarrow> Some (c, Ok v)
      | None \<Rightarrow>
     (case fetch c of
        None \<Rightarrow> None
      | Some (c, Ok v) \<Rightarrow> Some (setCache c path height (wrap v), Ok v)
      | Some (c, Fail err) \<Rightarrow> Some (c, Fail err)
      | Some (c, Panic) \<Rightarrow> Some (c, Panic)))"

definition zero_header :: lib_BlockHeader where
  "zero_header = \<lparr>bh_Height = 0, bh_Hash = [], bh_Time = 0, bh_NumTxs = 0, bh_TotalTxs = 0,
     bh_TotalVdfIterations = 0, bh_LastBlockHash = [], bh_StateRoot = [], bh_TransactionRoot = [],
     bh_ValidatorRoot = [], bh_NextValidatorRoot = [], bh_ProposerAddress = []\<rparr>"

text \<open>The response of \<open>BlockByHeight\<close> is declared with an empty header and empty meta data.\<close>

definition empty_block :: "'m lib_BlockResult" where
  "empty_block = \<lparr>br_BlockHeader = Some zero_header, br_Meta = Some \<lparr>meta_Size = 0\<rparr>,
     br_Transactions = [], br_Events = []\<rparr>"

definition BlockByHeight ::
  "rpc_env \<Rightarrow> (bytes \<Rightarrow> go_error + 'm lib_BlockResult) \<Rightarrow> uint64 \<Rightarrow> 'm rpc_value http_client \<Rightarrow>
   ('m rpc_value http_client \<times> 'm lib_BlockResult outcome) option" where
  "BlockByHeight env decode height =
     cached (\<lambda>v. case v of VBlock b \<Rightarrow> Some b | _ \<Rightarrow> None) VBlock ''/v1/query/block-by-height'' height
       (\<lambda>c. case call_json env ''/v1/query/block-by-height'' decode empty_block c of
          None \<Rightarrow> None
        | Some (c, Ok resp) \<Rightarrow>
            (case br_BlockHeader resp of
               None \<Rightarrow> Some (c, Panic)
             | Some header \<Rightarrow>
                 (if bh_Height header \<noteq> height
                  then Some (c, Fail (Errorf (''block not ready: requested height '' @ FormatUint height @
                    '', got '' @ FormatUint (bh_Height header))))
                  else Some (c, Ok resp)))
        | Some (c, r) \<Rightarrow> Some (c, r))"

definition TxsByHeight where
  "TxsByHeight envs arrivals decode height =
     cached (\<lambda>v. case v of VTxs x \<Rightarrow> Some x | _ \<Rightarrow> None) VTxs ''/v1/query/txs-by-height'' height
       (listPaged envs arrivals ''/v1/query/txs-by-height'' decode)"

definition EventsByHeight where
  "EventsByHeight envs arrivals decode height =
     cached (\<lambda>v. case v of VEvents x \<Rightarrow> Some x | _ \<Rightarrow> None) VEvents ''/v1/query/events-by-height'' height
       (listPaged envs arrivals ''/v1/query/events-by-height'' decode)"

definition AccountsByHeight where
  "AccountsByHeight envs arrivals decode height =
     cached (\<lambda>v. case v of VAccounts x \<Rightarrow> Some x | _ \<Rightarrow> None) VAccounts ''/v1/query/accounts'' height
       (listPaged envs arrivals ''/v1/query/accounts'' decode)"

definition ValidatorsByHeight where
  "ValidatorsByHeight envs arrivals decode height =
     cached (\<lambda>v. case v of VValidators x \<Rightarrow> Some x | _ \<Rightarrow> None) VValidators ''/v1/query/validators'' height
       (listPaged envs arrivals ''/v1/query/validators'' decode)"

text \<open>The order books, flattened.\<close>

definition OrdersByHeight ::
  "rpc_env \<Rightarrow> (bytes \<Rightarrow> go_error + lib_OrderBook list) \<Rightarrow> uint64 \<Rightarrow> 'm rpc_value http_client \<Rightarrow>
   ('m rpc_value http_client \<times> lib_SellOrder list outcome) option" where
  "OrdersByHeight env decode height =
     cached (\<lambda>v. case v of VOrders x \<Rightarrow> Some x | _ \<Rightarrow> None) VOrders ''/v1/query/orders'' height
       (\<lambda>c. case call_json env ''/v1/query/orders'' decode [] c of
          None \<Rightarrow> None
        | Some (c, Ok books) \<Rightarrow> Some (c, Ok (foldl (\<lambda>all ob. all @ ob_Orders ob) [] books))
        | Some (c, Fail err) \<Rightarrow> Some (c, Fail err)
        | Some (c, Panic) \<Rightarrow> Some (c, Panic))"

definition DexPricesByHeight where
  "DexPricesByHeight env decode height =
     cached (\<lambda>v. case v of VDexPrices x \<Rightarrow> Some x | _ \<Rightarrow> None) VDexPrices ''/v1/query/dex-price'' height
       (call_json env ''/v1/query/dex-price'' decode [])"

definition PoolsByHeight where
  "PoolsByHeight envs arrivals decode height =
     cached (\<lambda>v. case v of VPools x \<Rightarrow> Some x | _ \<Rightarrow> None) VPools ''/v1/query/pools'' height
       (listPaged envs arrivals ''/v1/query/pools'' decode)"

definition AllDexBatchesByHeight where
  "AllDexBatchesByHeight env decode height =
     cached (\<lambda>v. case v of VDexBatches x \<Rightarrow> Some x | _ \<Rightarrow> None) VDexBatches ''/v1/query/dex-batch'' height
       (call_json env ''/v1/query/dex-batch'' decode [])"

definition AllNextDexBatchesByHeight where
  "AllNextDexBatchesByHeight env decode height =
     cached (\<lambda>v. case v of VDexBatches x \<Rightarrow> Some x | _ \<Rightarrow> None) VDexBatches ''/v1/query/next-dex-batch'' height
       (call_json env ''/v1/query/next-dex-batch'' decode [])"

definition zero_Params :: fsm_Params where
  "zero_Params = \<lparr>fp_Consensus = None, fp_Validator = None, fp_Fee = None, fp_Governance = None\<rparr>"

definition AllParamsByHeight where
  "AllParamsByHeight env decode height =
     cached (\<lambda>v. case v of VParams x \<Rightarrow> Some x | _ \<Rightarrow> None) VParams ''/v1/query/params'' height
       (call_json env ''/v1/query/params'' decode zero_Params)"

definition ValParamsByHeight ::
  "rpc_env \<Rightarrow> (bytes \<Rightarrow> go_error + fsm_ValidatorParams) \<Rightarrow> 'v http_client \<Rightarrow>
   ('v http_client \<times> fsm_ValidatorParams outcome) option" where
  "ValParamsByHeight env decode c = call_json env ''/v1/query/val-params'' decode zero_ValidatorParams c"

definition NonSignersByHeight where
  "NonSignersByHeight envs arrivals decode height =
     cached (\<lambda>v. case v of VNonSigners x \<Rightarrow> Some x | _ \<Rightarrow> None) VNonSigners ''/v1/query/non-signers'' height
       (listPaged envs arrivals ''/v1/query/non-signers'' decode)"

definition DoubleSignersByHeight where
  "DoubleSignersByHeight envs arrivals decode height =
     cached (\<lambda>v. case v of VDoubleSigners x \<Rightarrow> Some x | _ \<Rightarrow> None) VDoubleSigners ''/v1/query/double-signers'' height
       (listPaged envs arrivals ''/v1/query/double-signers'' decode)"

text \<open>The field \<open>list\<close> of the response, decoded.\<close>

definition CommitteesDataByHeight where
  "CommitteesDataByHeight env decode height =
     cached (\<lambda>v. case v of VCommittees x \<Rightarrow> Some x | _ \<Rightarrow> None) VCommittees ''/v1/query/committees-data'' height
       (call_json env ''/v1/query/committees-data'' decode [])"

definition SubsidizedCommitteesByHeight where
  "SubsidizedCommitteesByHeight env decode height =
     cached (\<lambda>v. case v of VIDs x \<Rightarrow> Some x | _ \<Rightarrow> None) VIDs ''/v1/query/subsidized-committees'' height
       (call_json env ''/v1/query/subsidized-committees'' decode [])"

definition RetiredCommitteesByHeight where
  "RetiredCommitteesByHeight env decode height =
     cached (\<lambda>v. case v of VIDs x \<Rightarrow> Some x | _ \<Rightarrow> None) VIDs ''/v1/query/retired-committees'' height
       (call_json env ''/v1/query/retired-committees'' decode [])"

definition zero_Supply :: fsm_Supply where
  "zero_Supply = \<lparr>fsup_Total = 0, fsup_Staked = 0, fsup_DelegatedOnly = 0\<rparr>"

definition SupplyByHeight where
  "SupplyByHeight env decode height =
     cached (\<lambda>v. case v of VSupply x \<Rightarrow> Some x | _ \<Rightarrow> None) VSupply ''/v1/query/supply'' height
       (call_json env ''/v1/query/supply'' decode zero_Supply)"

section \<open>Detecting a chain's id\<close>

text \<open>\<open>FetchChainID\<close>: block 1 of an endpoint through a client of its own. \<open>network_id\<close> reads the header's
  field \<open>NetworkId\<close>.\<close>

definition FetchChainID ::
  "int \<Rightarrow> rpc_env \<Rightarrow> (bytes \<Rightarrow> go_error + 'm lib_BlockResult) \<Rightarrow> (lib_BlockHeader \<Rightarrow> uint64) \<Rightarrow> string \<Rightarrow>
   uint64 outcome option" where
  "FetchChainID now env decode network_id rpcURL =
     (case BlockByHeight env decode 1 (NewHTTPWithOpts now \<lparr>opt_Endpoints = [rpcURL], opt_RPS = 20,
         opt_Burst = 40, opt_BreakerFailures = 0, opt_BreakerCooldown = 0\<rparr>) of
        None \<Rightarrow> None
      | Some (_, Fail err) \<Rightarrow> Some (Fail (WrapErr (''failed to fetch genesis block from '' @ rpcURL) err))
      | Some (_, Panic) \<Rightarrow> Some Panic
      | Some (_, Ok block) \<Rightarrow>
          (case br_BlockHeader block of
             None \<Rightarrow> Some (Fail (Errorf (''invalid block header (nil) returned from '' @ rpcURL)))
           | Some header \<Rightarrow>
               (if network_id header = 0
                then Some (Fail (Errorf (''invalid chain ID (0) returned from '' @ rpcURL)))
                else Some (Ok (network_id header)))))"

text \<open>The check of the collected results; \<open>order\<close> is the iteration order of the map of successes.\<close>

fun consistent_ids :: "string list \<Rightarrow> (string \<rightharpoonup> uint64) \<Rightarrow> uint64 option \<Rightarrow> uint64 outcome" where
  "consistent_ids [] ids expected = Ok (case expected of None \<Rightarrow> 0 | Some e \<Rightarrow> e)"
| "consistent_ids (ep # eps) ids expected =
     (case ids ep of
        None \<Rightarrow> consistent_ids eps ids expected
      | Some chainID \<Rightarrow>
          (case expected of
             None \<Rightarrow> consistent_ids eps ids (Some chainID)
           | Some e \<Rightarrow>
               (if chainID \<noteq> e
                then Fail (Errorf (''chain ID mismatch: endpoint '' @ ep @ '' returned '' @ FormatUint chainID @
                  '', but another endpoint returned '' @ FormatUint e @ '' earlier''))
                else consistent_ids eps ids expected)))"

text \<open>\<open>ValidateAndExtractChainID\<close> on what \<open>FetchChainID\<close> returned for each endpoint.\<close>

definition ValidateAndExtractChainID ::
  "(string \<Rightarrow> go_error + uint64) \<Rightarrow> string list \<Rightarrow> string list \<Rightarrow> uint64 outcome" where
  "ValidateAndExtractChainID fetch order endpoints =
     (if length endpoints = 0 then Fail (Errorf ''no RPC endpoints provided'')
      else (let ids = foldl (\<lambda>m ep. case fetch ep of Inl _ \<Rightarrow> m | Inr chainID \<Rightarrow> m(ep \<mapsto> chainID)) Map.empty endpoints
        in if \<forall>ep \<in> set endpoints. ids ep = None then Fail (Errorf ''all RPC endpoints failed'')
           else consistent_ids order ids None))"

section \<open>What a paged list returns\<close>

lemma fetch_pages_all:
  assumes "\<And>p c. good c \<Longrightarrow> p \<in> set order \<Longrightarrow>
      \<exists>c'. call_json (envs p) path decode zero_page c = Some (c', Ok (pages p)) \<and> good c'"
    and "good c"
  shows "\<exists>c'. fetch_pages envs path decode order all c =
    Some (c', Ok (all @ concat (map (\<lambda>p. pr_Results (pages p)) order)))"
  using assms
proof (induction order arbitrary: all c)
  case (Cons p order)
  obtain c1 where c1: "call_json (envs p) path decode zero_page c = Some (c1, Ok (pages p))" "good c1"
    using Cons.prems(1) [of c p] Cons.prems(2) by auto
  obtain c2 where "fetch_pages envs path decode order (all @ pr_Results (pages p)) c1 =
      Some (c2, Ok ((all @ pr_Results (pages p)) @ concat (map (\<lambda>p. pr_Results (pages p)) order)))"
    using Cons.IH [of c1 "all @ pr_Results (pages p)"] Cons.prems(1) c1(2) by auto
  then show ?case using c1 by simp
qed simp


definition sample_page :: "int \<Rightarrow> nat pageResp" where
  "sample_page p = \<lparr>pr_PageNumber = p, pr_PerPage = 1, pr_Results = [nat p], pr_Count = 1, pr_TotalPages = 3,
     pr_TotalCount = 3\<rparr>"

definition page_env :: "int \<Rightarrow> rpc_env" where
  "page_env p = sample_env (\<lambda>_ _. Response 200 (Inr [of_int p]))"

text \<open>A client whose bucket is refilled at every look.\<close>

definition fast_client :: "nat http_client \<Rightarrow> bool" where
  "fast_client c \<longleftrightarrow> hc_endpoints c = [''http://a''] \<and> hc_opened c = Map.empty \<and> hc_refillEvery c = 0 \<and>
     hc_lastRefill c = 0 \<and> hc_tokens c \<ge> 1 \<and> hc_maxTokens c \<ge> 2"


section \<open>An outage\<close>

lemma cache_entry [simp]: "hc_cache (setCache c path h v) (cacheKey path h) = Some v"
  by (simp add: setCache_def Let_def)


lemma call_json_all_open:
  assumes "hc_endpoints c \<noteq> []"
    and "\<And>ep. ep \<in> set (hc_endpoints c) \<Longrightarrow> \<exists>until. hc_opened c ep = Some until \<and> (\<forall>i. at_check env i \<le> until)"
  shows "call_json env path decode zero c = Some (c, Ok zero)"
  using all_open_no_error [OF assms, of "''json unmarshal''" path decode] by (simp add: call_json_def doJSON_def)

text \<open>
  C23. What callers see while the breakers of all endpoints are open: the chain head is 0, the blob of a
  height has no current block (so its decoding is refused and nothing is indexed), and a cached query
  returns the zero value and keeps it, so that it answers with it after the outage is over.
\<close>

theorem outage_zero_values:
  assumes outage: "hc_endpoints c \<noteq> []" "\<And>ep. ep \<in> set (hc_endpoints c) \<Longrightarrow>
      \<exists>until. hc_opened c ep = Some until \<and> (\<forall>i. at_check env i \<le> until)"
    and miss: "hc_cache c (cacheKey ''/v1/query/supply'' height) = None"
  shows "ChainHead env decode1 c = Some (c, Ok 0)
    \<and> fetch_Blob env decode2 c = Some (c, Ok zero_IndexerBlobs)
    \<and> Decode cc (Some zero_IndexerBlobs) chainID = Fail (Errorf ''blobs or current blob is nil'')
    \<and> (\<exists>c'. SupplyByHeight env decode3 height c = Some (c', Ok zero_Supply) \<and>
         (\<forall>env' decode'. SupplyByHeight env' decode' height c' = Some (c', Ok zero_Supply)))"
proof -
  note json = call_json_all_open [OF outage]
  have "fetch_Blob env decode2 c = Some (c, Ok zero_IndexerBlobs)"
    using all_open_no_error [OF outage, of "''protobuf unmarshal''" _ decode2]
    by (simp add: fetch_Blob_def doProtobuf_def)
  moreover have "SupplyByHeight env decode3 height c =
      Some (setCache c ''/v1/query/supply'' height (VSupply zero_Supply), Ok zero_Supply)"
    using miss by (simp add: SupplyByHeight_def cached_def getCache_def json)
  moreover have "SupplyByHeight env' decode' height (setCache c ''/v1/query/supply'' height (VSupply zero_Supply)) =
      Some (setCache c ''/v1/query/supply'' height (VSupply zero_Supply), Ok zero_Supply)" for env' decode'
    by (simp add: SupplyByHeight_def cached_def getCache_def cache_entry)
  ultimately show ?thesis by (auto simp: ChainHead_def json Decode_def zero_IndexerBlobs_def)
qed

definition open_rpc :: "bytes rpc_value http_client" where
  "open_rpc = (NewHTTPWithOpts 0 sample_opts)\<lparr>hc_opened := [''http://a'' \<mapsto> 9, ''http://b'' \<mapsto> 9]\<rparr>"

theorem outage_zero_values_witness:
  "ChainHead (sample_env (\<lambda>_ _. Response 200 (Inr [7]))) (\<lambda>raw. Inr (ucast (List.hd raw))) open_rpc =
     Some (open_rpc, Ok 0)"
proof -
  let ?env = "sample_env (\<lambda>_ _. Response 200 (Inr [7]))"
  have "hc_endpoints open_rpc \<noteq> []" "hc_cache open_rpc (cacheKey ''/v1/query/supply'' 7) = None"
    by (simp_all add: open_rpc_def NewHTTPWithOpts_def Let_def sample_opts_def dedup_foldl)
  moreover have "\<exists>until. hc_opened open_rpc ep = Some until \<and> (\<forall>i. at_check ?env i \<le> until)"
    if "ep \<in> set (hc_endpoints open_rpc)" for ep
    using that by (auto simp: open_rpc_def NewHTTPWithOpts_def Let_def sample_opts_def)
  ultimately show ?thesis using outage_zero_values by blast
qed

section \<open>Detecting a chain's id\<close>

lemma successes: "foldl (\<lambda>m ep. case fetch ep of Inl _ \<Rightarrow> m | Inr chainID \<Rightarrow> m(ep \<mapsto> chainID)) Map.empty endpoints =
    (\<lambda>ep. if ep \<in> set endpoints then (case fetch ep of Inl _ \<Rightarrow> None | Inr chainID \<Rightarrow> Some chainID) else None)"
  by (induction endpoints rule: rev_induct) (auto simp: fun_eq_iff split: sum.split)

lemma consistent_expected:
  "consistent_ids order ids (Some e) = Ok x \<longleftrightarrow> x = e \<and> (\<forall>ep \<in> set order. ids ep \<in> {None, Some e})"
  by (induction order) (auto split: option.split)

lemma consistent_ids_iff:
  "(\<exists>ep \<in> set order. ids ep \<noteq> None) \<Longrightarrow>
   consistent_ids order ids None = Ok x \<longleftrightarrow> (\<forall>ep \<in> set order. ids ep \<in> {None, Some x})"
  by (induction order) (auto simp: consistent_expected split: option.split)

text \<open>
  The chain id of a list of endpoints is detected exactly when at least one of them answers and all
  that answer report the same id; endpoints that fail do not matter, nor does the order in which the
  answers are looked at.
\<close>

theorem chain_id_consensus:
  assumes "set order = set endpoints"
  shows "ValidateAndExtractChainID fetch order endpoints = Ok x \<longleftrightarrow>
    (\<exists>ep \<in> set endpoints. fetch ep = Inr x) \<and> (\<forall>ep \<in> set endpoints. \<forall>y. fetch ep = Inr y \<longrightarrow> y = x)"
proof -
  define ids where "ids = (\<lambda>ep. if ep \<in> set endpoints
      then (case fetch ep of Inl _ \<Rightarrow> None | Inr chainID \<Rightarrow> Some chainID) else None)"
  have ids: "ids ep = Some y \<longleftrightarrow> ep \<in> set endpoints \<and> fetch ep = Inr y" for ep y
    by (auto simp: ids_def split: sum.split)
  note def = ValidateAndExtractChainID_def [of fetch order endpoints, unfolded successes ids_def [symmetric]]
  show ?thesis
  proof (cases "\<forall>ep \<in> set endpoints. ids ep = None")
    case True
    then have "fetch ep \<noteq> Inr y" if "ep \<in> set endpoints" for ep y using ids [of ep y] that by simp
    then show ?thesis using True by (auto simp: def Let_def)
  next
    case False
    then have some: "\<exists>ep \<in> set order. ids ep \<noteq> None" using assms by simp
    have "endpoints \<noteq> []" using False by auto
    then have "ValidateAndExtractChainID fetch order endpoints = Ok x \<longleftrightarrow>
        (\<forall>ep \<in> set endpoints. ids ep \<in> {None, Some x})"
      using False consistent_ids_iff [OF some] assms by (simp add: def Let_def)
    also have "\<dots> \<longleftrightarrow> (\<exists>ep \<in> set endpoints. ids ep = Some x) \<and> (\<forall>ep \<in> set endpoints. \<forall>y. ids ep = Some y \<longrightarrow> y = x)"
      using False by fastforce
    finally show ?thesis by (auto simp: ids)
  qed
qed

theorem chain_id_consensus_witness:
  "ValidateAndExtractChainID (\<lambda>ep. if ep = ''b'' then Inl (Errorf ''timeout'') else Inr 5) [''c'', ''b'', ''a''] [''a'', ''b'', ''c''] = Ok 5"
  by (rule chain_id_consensus [THEN iffD2]) auto

end
