(* ===== verification/Gaps.thy ===== *)
theory Gaps
  imports IndexRuns
begin

text \<open>
  Gap detection of the backfiller (internal/backfill/gaps.go). The queries read a relation \<open>blocks\<close> with the
  columns \<open>chain_id\<close> and \<open>height\<close>; it is an argument here, as a predicate. (Which table the bare name means
  is left to the connection's search path: the cross-chain schema has such a table, fed by triggers, while the
  chains' own \<open>blocks\<close> tables carry no \<open>chain_id\<close>.) \<open>generate_series\<close> takes signed 64-bit
  numbers, and the driver refuses a \<open>uint64\<close> that does not fit.
\<close>

record GapStats =
  gs_TotalExpected :: uint64
  gs_TotalIndexed :: uint64
  gs_TotalMissing :: uint64
  gs_FirstMissing :: uint64
  gs_LastMissing :: uint64

text \<open>Where a query can fail: when it is sent, or when its rows are read.\<close>

record gap_env =
  gap_query :: "go_error option"
  gap_rows :: "go_error option"

definition gap_ok :: gap_env where
  "gap_ok = \<lparr>gap_query = None, gap_rows = None\<rparr>"

text \<open>The first argument that is no \<open>bigint\<close>.\<close>

definition fits_bigint :: "uint64 \<Rightarrow> bool" where
  "fits_bigint x \<longleftrightarrow> unat x < 2 ^ 63"

fun encode_args :: "uint64 list \<Rightarrow> go_error option" where
  "encode_args [] = None"
| "encode_args (x # xs) =
     (if fits_bigint x then encode_args xs
      else Some (Errorf (FormatUint x @ '' is greater than maximum value for int8'')))"

definition missing_heights :: "(uint64 \<Rightarrow> uint64 \<Rightarrow> bool) \<Rightarrow> uint64 \<Rightarrow> uint64 \<Rightarrow> uint64 \<Rightarrow> uint64 list" where
  "missing_heights blocks chainID frm till = filter (\<lambda>h. \<not> blocks chainID h) (heights_between frm till)"

definition FindMissingHeights ::
  "gap_env \<Rightarrow> (uint64 \<Rightarrow> uint64 \<Rightarrow> bool) \<Rightarrow> uint64 \<Rightarrow> uint64 \<Rightarrow> uint64 \<Rightarrow> int \<Rightarrow> uint64 list outcome" where
  "FindMissingHeights env blocks chainID frm till limit =
     (case gap_query env of
        Some err \<Rightarrow> Fail (WrapErr ''query missing heights'' err)
      | None \<Rightarrow>
     (case encode_args [frm, till, chainID] of
        Some err \<Rightarrow> Fail (WrapErr ''query missing heights'' err)
      | None \<Rightarrow>
     (case gap_rows env of
        Some err \<Rightarrow> Fail (WrapErr ''rows error'' err)
      | None \<Rightarrow>
          (if limit < 0 then Fail (WrapErr ''rows error'' (Errorf ''LIMIT must not be negative''))
           else Ok (take (nat limit) (missing_heights blocks chainID frm till))))))"

definition GetGapStats ::
  "go_error option \<Rightarrow> (uint64 \<Rightarrow> uint64 \<Rightarrow> bool) \<Rightarrow> uint64 \<Rightarrow> uint64 \<Rightarrow> uint64 \<Rightarrow> GapStats outcome" where
  "GetGapStats fault blocks chainID frm till =
     (case (case fault of Some err \<Rightarrow> Some err | None \<Rightarrow> encode_args [frm, till, chainID]) of
        Some err \<Rightarrow> Fail (WrapErr ''query gap stats'' err)
      | None \<Rightarrow>
          (let expected = heights_between frm till;
               missing = missing_heights blocks chainID frm till
           in Ok \<lparr>gs_TotalExpected = of_nat (length expected),
                  gs_TotalIndexed = of_nat (length (filter (blocks chainID) expected)),
                  gs_TotalMissing = of_nat (length missing),
                  gs_FirstMissing = (if missing = [] then 0 else hd missing),
                  gs_LastMissing = (if missing = [] then 0 else last missing)\<rparr>))"

definition CountMissingBlocks ::
  "go_error option \<Rightarrow> (uint64 \<Rightarrow> uint64 \<Rightarrow> bool) \<Rightarrow> uint64 \<Rightarrow> uint64 \<Rightarrow> uint64 \<Rightarrow> uint64 outcome" where
  "CountMissingBlocks fault blocks chainID frm till =
     (case (case fault of Some err \<Rightarrow> Some err | None \<Rightarrow> encode_args [frm, till, chainID]) of
        Some err \<Rightarrow> Fail (WrapErr ''count missing blocks'' err)
      | None \<Rightarrow> Ok (of_nat (length (missing_heights blocks chainID frm till))))"

section \<open>Facts\<close>

lemma unat_heights_between:
  "map unat (heights_between lo hi) = [unat lo..<Suc (unat hi)]"
proof -
  have "unat (of_nat n :: uint64) = n" if "n \<le> unat hi" for n
    using that uint64_bound [of hi] by (simp add: unat_of_nat)
  then have "map (unat \<circ> (of_nat :: nat \<Rightarrow> uint64)) [unat lo..<Suc (unat hi)] = [unat lo..<Suc (unat hi)]"
    by (intro map_idI) (simp del: upt_Suc)
  then show ?thesis by (simp add: heights_between_def del: upt_Suc)
qed

lemma sorted_heights_between: "sorted_wrt (<) (heights_between lo hi)"
proof -
  have "sorted_wrt (<) (map unat (heights_between lo hi))"
    unfolding unat_heights_between by (rule sorted_wrt_upt)
  moreover have "(\<lambda>x y. unat x < unat y) = ((<) :: uint64 \<Rightarrow> uint64 \<Rightarrow> bool)"
    by (simp add: fun_eq_iff word_less_nat_alt)
  ultimately show ?thesis by (simp add: sorted_wrt_map)
qed

lemma distinct_heights_between [simp]: "distinct (heights_between lo hi)"
proof -
  have "distinct (map unat (heights_between lo hi))" unfolding unat_heights_between by (rule distinct_upt)
  then show ?thesis by (simp add: distinct_map)
qed

lemma length_heights_between: "length (heights_between lo hi) \<le> unat hi + 1"
  by (simp add: heights_between_def)

lemma set_missing_heights:
  "set (missing_heights blocks c lo hi) = {h. lo \<le> h \<and> h \<le> hi \<and> \<not> blocks c h}"
  by (auto simp: missing_heights_def set_heights_between)

lemma distinct_missing_heights [simp]: "distinct (missing_heights blocks c lo hi)"
  by (simp add: missing_heights_def)

lemma sorted_missing_heights: "sorted_wrt (<) (missing_heights blocks c lo hi)"
  by (simp add: missing_heights_def sorted_heights_between sorted_wrt_filter)

lemma FindMissingHeights_Ok:
  assumes "FindMissingHeights env blocks c lo hi limit = Ok hs"
  shows "hs = take (nat limit) (missing_heights blocks c lo hi)" "0 \<le> limit" "fits_bigint hi"
  using assms by (auto simp: FindMissingHeights_def split: option.splits if_splits)

text \<open>The batch that is found, and what is left behind it.\<close>

lemma sorted_take_last:
  assumes "sorted_wrt (<) (xs :: uint64 list)" "take n xs \<noteq> []"
  shows "set (take n xs) = {x \<in> set xs. x \<le> last (take n xs)}"
proof -
  obtain ys l where t: "take n xs = ys @ [l]" using assms(2) by (metis rev_exhaust)
  have xs: "xs = ys @ l # drop n xs" using append_take_drop_id [of n xs] t by simp
  have sorted: "sorted_wrt (<) (ys @ l # drop n xs)" using assms(1) xs by simp
  show ?thesis
    unfolding t by (subst xs) (use sorted in \<open>fastforce simp: sorted_wrt_append\<close>)
qed

lemma heights_found:
  assumes "FindMissingHeights env blocks c lo hi limit = Ok hs" "hs \<noteq> []"
  shows "set hs = {h. lo \<le> h \<and> h \<le> last hs \<and> \<not> blocks c h}"
    and "lo \<le> last hs" "last hs \<le> hi" "last hs < last hs + 1" "distinct hs"
proof -
  note ok = FindMissingHeights_Ok [OF assms(1)]
  have "last hs \<in> set hs" using assms(2) by simp
  then have "last hs \<in> set (missing_heights blocks c lo hi)" using ok(1) by (auto dest: in_set_takeD)
  then show rng: "lo \<le> last hs" "last hs \<le> hi" by (auto simp: set_missing_heights)
  have upto_last: "set hs = {x \<in> set (missing_heights blocks c lo hi). x \<le> last hs}"
    using assms(2) unfolding ok(1) by (rule sorted_take_last [OF sorted_missing_heights])
  have "{x. (lo \<le> x \<and> x \<le> hi \<and> \<not> blocks c x) \<and> x \<le> l} = {h. lo \<le> h \<and> h \<le> l \<and> \<not> blocks c h}"
    if "l \<le> hi" for l
    using that by fastforce
  from upto_last this [OF rng(2)] show "set hs = {h. lo \<le> h \<and> h \<le> last hs \<and> \<not> blocks c h}"
    unfolding set_missing_heights mem_Collect_eq by (rule trans)
  show "last hs < last hs + 1"
  proof -
    have "unat (last hs) < 2 ^ 63" using rng(2) ok(3) by (simp add: fits_bigint_def word_le_nat_alt)
    then have "unat (last hs + 1) = unat (last hs) + 1" by (simp add: unat_word_ariths(1))
    then show ?thesis by (simp add: word_less_nat_alt)
  qed
  show "distinct hs" using ok(1) by simp
qed

lemma no_heights_found:
  assumes "FindMissingHeights env blocks c lo hi limit = Ok []" "0 < limit"
  shows "lo \<le> h \<Longrightarrow> h \<le> hi \<Longrightarrow> blocks c h"
proof -
  have "missing_heights blocks c lo hi = []" using FindMissingHeights_Ok(1) [OF assms(1)] assms(2) by simp
  then show "lo \<le> h \<Longrightarrow> h \<le> hi \<Longrightarrow> blocks c h" using set_missing_heights [of blocks c lo hi] by auto
qed

end
