(* ===== verification/Backfill.thy ===== *)
theory Backfill
  imports Gaps AdminDB
begin

text \<open>
  The backfiller (internal/backfill/backfill.go): batches of missing heights are looked up and indexed until
  the end of the range. The goroutines of a batch touch different heights; the order in which they run is an
  argument. Indexing one height is an argument as well, so that the laws the backfiller relies on can be
  stated as a locale and discharged for the indexer. Durations and progress logging are left out.
\<close>

section \<open>Configuration and results\<close>

record backfill_config =
  bfc_BatchSize :: int
  bfc_Concurrency :: int
  bfc_StartHeight :: uint64
  bfc_EndHeight :: uint64
  bfc_DryRun :: bool
  bfc_ProgressInterval :: int
  bfc_GapCheckInterval :: int
  bfc_UseBlobs :: bool

definition DefaultConfig :: backfill_config where
  "DefaultConfig =
     \<lparr>bfc_BatchSize = 1000, bfc_Concurrency = 10, bfc_StartHeight = 1, bfc_EndHeight = 0, bfc_DryRun = False,
      bfc_ProgressInterval = 10 * 1000000000, bfc_GapCheckInterval = 5 * 60 * 1000000000, bfc_UseBlobs = False\<rparr>"

record backfill_result =
  bfr_TotalMissing :: uint64
  bfr_TotalProcessed :: uint64
  bfr_TotalSucceeded :: uint64
  bfr_TotalFailed :: uint64
  bfr_Errors :: "go_error list"

definition empty_result :: backfill_result where
  "empty_result = \<lparr>bfr_TotalMissing = 0, bfr_TotalProcessed = 0, bfr_TotalSucceeded = 0, bfr_TotalFailed = 0,
     bfr_Errors = []\<rparr>"

text \<open>What happens outside the backfiller in the \<open>i\<close>-th round of its loop: whether the context is done, how the
  query goes, and in which order the goroutines run.\<close>

record backfill_env =
  bfe_head :: "uint64 outcome"
  bfe_stats :: "go_error option"
  bfe_done :: "nat \<Rightarrow> go_error option"
  bfe_find :: "nat \<Rightarrow> gap_env"
  bfe_order :: "nat \<Rightarrow> uint64 list \<Rightarrow> uint64 list"

section \<open>Run\<close>

text \<open>The goroutines of one batch. A panic in one of them ends the process: \<open>None\<close>.\<close>

fun run_batch ::
  "(uint64 \<Rightarrow> 's \<Rightarrow> 's \<times> unit outcome) \<Rightarrow> uint64 list \<Rightarrow> 's \<Rightarrow> backfill_result \<Rightarrow> 's \<times> backfill_result option" where
  "run_batch index [] s r = (s, Some r)"
| "run_batch index (h # hs) s r =
     (let r = r\<lparr>bfr_TotalProcessed := bfr_TotalProcessed r + 1\<rparr>
      in case index h s of
           (s', Fail err) \<Rightarrow>
             run_batch index hs s'
               (r\<lparr>bfr_TotalFailed := bfr_TotalFailed r + 1,
                  bfr_Errors := bfr_Errors r @ [WrapErr (''height '' @ FormatUint h) err]\<rparr>)
         | (s', Panic) \<Rightarrow> (s', None)
         | (s', Ok _) \<Rightarrow> run_batch index hs s' (r\<lparr>bfr_TotalSucceeded := bfr_TotalSucceeded r + 1\<rparr>))"

text \<open>\<open>for currentStart <= endHeight\<close>. The result is what \<open>Run\<close> returns, a result and an error, or a panic. A
  group whose limit is zero never starts a goroutine, and the loop waits for ever: \<open>None\<close>.\<close>

function run_batches ::
  "backfill_env \<Rightarrow> backfill_config \<Rightarrow> (nat \<Rightarrow> uint64 \<Rightarrow> 's \<Rightarrow> 's \<times> unit outcome) \<Rightarrow>
   ('s \<Rightarrow> uint64 \<Rightarrow> uint64 \<Rightarrow> bool) \<Rightarrow> uint64 \<Rightarrow> uint64 \<Rightarrow> nat \<Rightarrow> uint64 \<Rightarrow> 's \<Rightarrow> backfill_result \<Rightarrow>
   ('s \<times> (backfill_result option \<times> go_error option) outcome) option" where
  "run_batches env cfg index blocks chainID endHeight i currentStart s r =
     (if \<not> currentStart \<le> endHeight then Some (s, Ok (Some r, None)) else
     (case bfe_done env i of
        Some err \<Rightarrow> Some (s, Ok (Some r, Some err))
      | None \<Rightarrow>
     (case FindMissingHeights (bfe_find env i) (blocks s) chainID currentStart endHeight (bfc_BatchSize cfg) of
        Fail err \<Rightarrow> Some (s, Ok (None, Some (WrapErr ''find missing heights'' err)))
      | Panic \<Rightarrow> Some (s, Panic)
      | Ok heights \<Rightarrow>
          (if heights = [] then Some (s, Ok (Some r, None))
           else if bfc_Concurrency cfg = 0 then None
           else case run_batch (index i) (bfe_order env i heights) s r of
                  (s', None) \<Rightarrow> Some (s', Panic)
                | (s', Some r') \<Rightarrow>
                    run_batches env cfg index blocks chainID endHeight (i + 1) (last heights + 1) s' r'))))"
  by pat_completeness auto

termination
proof (relation "measure (\<lambda>(env, cfg, index, blocks, chainID, endHeight, i, cur, s, r). unat endHeight + 1 - unat cur)")
  fix env cfg index and blocks :: "'s \<Rightarrow> uint64 \<Rightarrow> uint64 \<Rightarrow> bool"
    and chainID endHeight i cur s r heights s' x2 r'
  assume le: "\<not> \<not> cur \<le> endHeight"
    and find: "FindMissingHeights (bfe_find env i) (blocks s) chainID cur endHeight (bfc_BatchSize cfg) = Ok heights"
    and ne: "heights \<noteq> []"
  note found = heights_found(2-4) [OF find ne]
  have "unat cur < unat (last heights + 1)" using found(1,3) by (simp add: word_le_nat_alt word_less_nat_alt)
  then show "((env, cfg, index, blocks, chainID, endHeight, i + 1, last heights + 1, s', r'),
      env, cfg, index, blocks, chainID, endHeight, i, cur, s, r) \<in>
      measure (\<lambda>(env, cfg, index, blocks, chainID, endHeight, i, cur, s, r). unat endHeight + 1 - unat cur)"
    using le by (simp add: word_le_nat_alt)
qed simp

declare run_batches.simps [simp del]

definition backfill_Run ::
  "backfill_env \<Rightarrow> backfill_config \<Rightarrow> (nat \<Rightarrow> uint64 \<Rightarrow> 's \<Rightarrow> 's \<times> unit outcome) \<Rightarrow>
   ('s \<Rightarrow> uint64 \<Rightarrow> uint64 \<Rightarrow> bool) \<Rightarrow> uint64 \<Rightarrow> 's \<Rightarrow>
   ('s \<times> (backfill_result option \<times> go_error option) outcome) option" where
  "backfill_Run env cfg index blocks chainID s =
     (let startHeight = (if bfc_StartHeight cfg = 0 then 1 else bfc_StartHeight cfg)
      in case (if bfc_EndHeight cfg = 0 then bfe_head env else Ok (bfc_EndHeight cfg)) of
           Fail err \<Rightarrow> Some (s, Ok (None, Some (WrapErr ''get chain head'' err)))
         | Panic \<Rightarrow> Some (s, Panic)
         | Ok endHeight \<Rightarrow>
     (case GetGapStats (bfe_stats env) (blocks s) chainID startHeight endHeight of
        Fail err \<Rightarrow> Some (s, Ok (None, Some (WrapErr ''get gap stats'' err)))
      | Panic \<Rightarrow> Some (s, Panic)
      | Ok stats \<Rightarrow>
          (let result = empty_result\<lparr>bfr_TotalMissing := gs_TotalMissing stats\<rparr>
           in if gs_TotalMissing stats = 0 then Some (s, Ok (Some result, None))
              else if bfc_DryRun cfg then Some (s, Ok (Some result, None))
              else if bfc_ProgressInterval cfg \<le> 0 then Some (s, Panic)
              else run_batches env cfg index blocks chainID endHeight 0 startHeight s result)))"

text \<open>\<open>CheckHealth\<close>, given the answer to the head query and the client's endpoints.\<close>

definition CheckHealth ::
  "backfill_env \<Rightarrow> backfill_config \<Rightarrow> (uint64 \<Rightarrow> uint64 \<Rightarrow> bool) \<Rightarrow> uint64 \<Rightarrow> string \<Rightarrow> GapStats outcome" where
  "CheckHealth env cfg blocks chainID endpoints =
     (case bfe_head env of
        Fail err \<Rightarrow> Fail (WrapErr (''get chain head from '' @ endpoints) err)
      | Panic \<Rightarrow> Panic
      | Ok endHeight \<Rightarrow>
          GetGapStats (bfe_stats env) blocks chainID
            (if bfc_StartHeight cfg = 0 then 1 else bfc_StartHeight cfg) endHeight)"

text \<open>\<open>indexBlockWithBlob\<close>, and the choice that a goroutine makes.\<close>

definition indexBlockWithBlob ::
  "'m canopy_lib \<Rightarrow> index_env \<Rightarrow> (uint64 \<Rightarrow> go_error + fsm_IndexerBlobs) \<Rightarrow> uint64 \<Rightarrow> uint64 \<Rightarrow>
   indexer_state \<Rightarrow> indexer_state \<times> unit outcome" where
  "indexBlockWithBlob cl env fetch chainID height st =
     (case fetch height of
        Inl err \<Rightarrow> (st, Fail (WrapErr ''fetch blob'' err))
      | Inr blobs \<Rightarrow>
     (case Decode (lib_blob_codec cl) (Some blobs) chainID of
        Fail err \<Rightarrow> (st, Fail (WrapErr ''decode blob'' err))
      | Panic \<Rightarrow> (st, Panic)
      | Ok data \<Rightarrow> IndexBlockWithData cl env (Some data) st))"

definition index_height ::
  "backfill_config \<Rightarrow> 'm canopy_lib \<Rightarrow> (nat \<Rightarrow> uint64 \<Rightarrow> index_env) \<Rightarrow>
   (nat \<Rightarrow> uint64 \<Rightarrow> go_error + fsm_IndexerBlobs) \<Rightarrow> uint64 \<Rightarrow> nat \<Rightarrow> uint64 \<Rightarrow>
   indexer_state \<Rightarrow> indexer_state \<times> unit outcome" where
  "index_height cfg cl envs fetch chainID i height st =
     (if bfc_UseBlobs cfg then indexBlockWithBlob cl (envs i height) (fetch i) chainID height st
      else IndexBlock cl (envs i height) (fetch i) chainID height st)"

text \<open>The chains the backfiller works on, with the first endpoint of each.\<close>

definition DiscoverActiveChains ::
  "go_error option \<Rightarrow> admin_Chain list \<Rightarrow> (uint64 \<times> string) list outcome" where
  "DiscoverActiveChains fault tbl =
     (case ListChain fault False tbl of
        Fail err \<Rightarrow> Fail (WrapErr ''list chains'' err)
      | Panic \<Rightarrow> Panic
      | Ok adminChains \<Rightarrow> Ok (map (\<lambda>c. (adc_ChainID c, adc_RPCEndpoints c ! 0)) (filter chain_active adminChains)))"

text \<open>One tick of \<open>RunContinuous\<close>; the loop itself ends only with its context. A ticker needs a positive
  interval.\<close>

definition continuous_tick ::
  "backfill_env \<Rightarrow> backfill_config \<Rightarrow> (nat \<Rightarrow> uint64 \<Rightarrow> 's \<Rightarrow> 's \<times> unit outcome) \<Rightarrow>
   ('s \<Rightarrow> uint64 \<Rightarrow> uint64 \<Rightarrow> bool) \<Rightarrow> uint64 \<Rightarrow> string \<Rightarrow> 's \<Rightarrow>
   ('s \<times> (backfill_result option \<times> go_error option) outcome) option" where
  "continuous_tick env cfg index blocks chainID endpoints s =
     (case CheckHealth env cfg (blocks s) chainID endpoints of
        Fail err \<Rightarrow> Some (s, Ok (None, None))
      | Panic \<Rightarrow> Some (s, Panic)
      | Ok stats \<Rightarrow>
          (if gs_TotalMissing stats > 0 then backfill_Run env cfg index blocks chainID s
           else Some (s, Ok (None, None))))"

fun RunContinuous ::
  "backfill_env list \<Rightarrow> go_error \<Rightarrow> backfill_config \<Rightarrow> (nat \<Rightarrow> uint64 \<Rightarrow> 's \<Rightarrow> 's \<times> unit outcome) \<Rightarrow>
   ('s \<Rightarrow> uint64 \<Rightarrow> uint64 \<Rightarrow> bool) \<Rightarrow> uint64 \<Rightarrow> string \<Rightarrow> 's \<Rightarrow> ('s \<times> unit outcome) option" where
  "RunContinuous ticks done cfg index blocks chainID endpoints s =
     (if bfc_GapCheckInterval cfg \<le> 0 then Some (s, Panic)
      else case ticks of
        [] \<Rightarrow> Some (s, Fail done)
      | env # ticks' \<Rightarrow>
          (case continuous_tick env cfg index blocks chainID endpoints s of
             None \<Rightarrow> None
           | Some (s', Panic) \<Rightarrow> Some (s', Panic)
           | Some (s', _) \<Rightarrow> RunContinuous ticks' done cfg index blocks chainID endpoints s'))"

declare RunContinuous.simps [simp del]

end
