(* ===== verification/BackfillProps.thy ===== *)
theory BackfillProps
  imports Backfill Reachable RpcApi
begin

text \<open>
  What the backfiller guarantees, proved once from the laws of indexing (locale \<open>gap_filler\<close>) and then for the
  indexer: an interpretation of the locale for each of the two ways to index a height.
\<close>

text \<open>Two counters and the list of errors agree.\<close>

definition counted :: "backfill_result \<Rightarrow> bool" where
  "counted r \<longleftrightarrow> bfr_TotalProcessed r = bfr_TotalSucceeded r + bfr_TotalFailed r \<and>
     bfr_TotalFailed r = of_nat (length (bfr_Errors r))"

definition has_error :: "uint64 \<Rightarrow> backfill_result \<Rightarrow> bool" where
  "has_error h r \<longleftrightarrow> (\<exists>e. WrapErr (''height '' @ FormatUint h) e \<in> set (bfr_Errors r))"

text \<open>The interface between the backfiller and the indexer, for one chain: \<open>present\<close> tells which heights are
  stored, \<open>good\<close> what indexing needs of the state and keeps.\<close>

locale gap_filler =
  fixes index :: "uint64 \<Rightarrow> 's \<Rightarrow> 's \<times> unit outcome"
    and present :: "'s \<Rightarrow> uint64 \<Rightarrow> bool"
    and good :: "'s \<Rightarrow> bool"
  assumes index_inv: "good s \<Longrightarrow> index h s = (s', res) \<Longrightarrow> good s'"
    and index_stores: "good s \<Longrightarrow> index h s = (s', Ok ()) \<Longrightarrow> present s' h"
    and index_keeps: "good s \<Longrightarrow> index h s = (s', res) \<Longrightarrow> present s x \<Longrightarrow> present s' x"
    and index_only: "good s \<Longrightarrow> index h s = (s', res) \<Longrightarrow> present s' x \<Longrightarrow> x = h \<or> present s x"
begin

text \<open>One batch: every height of it is stored or has an error, and the others are as before.\<close>

lemma run_batch_spec:
  assumes "run_batch index hs s r = (s', Some r')" "good s"
  shows "good s' \<and> bfr_TotalMissing r' = bfr_TotalMissing r \<and>
    bfr_TotalProcessed r' = bfr_TotalProcessed r + of_nat (length hs) \<and>
    (counted r \<longrightarrow> counted r') \<and> set (bfr_Errors r) \<subseteq> set (bfr_Errors r') \<and>
    (\<forall>h \<in> set hs. present s' h \<or> has_error h r') \<and> (\<forall>x. present s x \<longrightarrow> present s' x) \<and>
    (\<forall>x. present s' x \<longrightarrow> x \<in> set hs \<or> present s x)"
  using assms
proof (induction hs arbitrary: s r)
  case (Cons h hs)
  obtain s1 res where one: "index h s = (s1, res)" by fastforce
  let ?r = "r\<lparr>bfr_TotalProcessed := bfr_TotalProcessed r + 1\<rparr>"
  note laws = index_inv [OF Cons.prems(2) one] index_keeps [OF Cons.prems(2) one] index_only [OF Cons.prems(2) one]
  show ?case
  proof (cases res)
    case (Ok u)
    then have rest: "run_batch index hs s1 (?r\<lparr>bfr_TotalSucceeded := bfr_TotalSucceeded ?r + 1\<rparr>) = (s', Some r')"
      using Cons.prems(1) one by (simp add: Let_def)
    have "present s1 h" using index_stores [OF Cons.prems(2)] one Ok by simp
    moreover note IH = Cons.IH [OF rest laws(1)]
    moreover have "x \<in> set (h # hs) \<or> present s x" if "present s' x" for x using IH laws(3) [of x] that by auto
    ultimately show ?thesis using laws(2) by (auto simp: counted_def)
  next
    case (Fail err)
    then have rest: "run_batch index hs s1 (?r\<lparr>bfr_TotalFailed := bfr_TotalFailed ?r + 1,
        bfr_Errors := bfr_Errors ?r @ [WrapErr (''height '' @ FormatUint h) err]\<rparr>) = (s', Some r')"
      using Cons.prems(1) one by (simp add: Let_def)
    note IH = Cons.IH [OF rest laws(1)]
    moreover have "x \<in> set (h # hs) \<or> present s x" if "present s' x" for x using IH laws(3) [of x] that by auto
    ultimately show ?thesis using laws(2) by (auto simp: counted_def has_error_def)
  next
    case Panic
    then show ?thesis using Cons.prems(1) one by (simp add: Let_def)
  qed
qed (simp add: counted_def)

end

text \<open>The same for the whole loop, when indexing obeys the laws in every round and the scheduler runs the
  goroutines of each batch once.\<close>

definition schedules :: "(nat \<Rightarrow> uint64 list \<Rightarrow> uint64 list) \<Rightarrow> bool" where
  "schedules order \<longleftrightarrow> (\<forall>i hs. mset (order i hs) = mset hs)"

lemma schedulesD:
  assumes "schedules order"
  shows "set (order i hs) = set hs" "length (order i hs) = length hs"
  using assms unfolding schedules_def by (metis set_mset_mset, metis size_mset)

text \<open>What the loop has done when it ended without an error. \<open>cur\<close> is where it started.\<close>

definition range_filled ::
  "('s \<Rightarrow> uint64 \<Rightarrow> bool) \<Rightarrow> uint64 \<Rightarrow> uint64 \<Rightarrow> 's \<Rightarrow> backfill_result \<Rightarrow> 's \<Rightarrow> backfill_result \<Rightarrow> bool" where
  "range_filled present cur till s r s' r' \<longleftrightarrow>
     bfr_TotalMissing r' = bfr_TotalMissing r \<and>
     bfr_TotalProcessed r' = bfr_TotalProcessed r + of_nat (card {h. cur \<le> h \<and> h \<le> till \<and> \<not> present s h}) \<and>
     (counted r \<longrightarrow> counted r') \<and> set (bfr_Errors r) \<subseteq> set (bfr_Errors r') \<and>
     (\<forall>h. cur \<le> h \<and> h \<le> till \<longrightarrow> present s' h \<or> has_error h r') \<and>
     (\<forall>x. present s x \<longrightarrow> present s' x) \<and>
     (\<forall>x. present s' x \<longrightarrow> present s x \<or> cur \<le> x \<and> x \<le> till)"

lemma has_error_mono: "has_error h r \<Longrightarrow> set (bfr_Errors r) \<subseteq> set (bfr_Errors r') \<Longrightarrow> has_error h r'"
  by (auto simp: has_error_def)

lemma range_filled_step:
  assumes "cur \<le> l" "l \<le> till" "l < l + 1"
    and hs: "set hs = {h. cur \<le> h \<and> h \<le> l \<and> \<not> present s h}" "distinct hs"
    and batch: "bfr_TotalMissing r1 = bfr_TotalMissing r"
      "bfr_TotalProcessed r1 = bfr_TotalProcessed r + of_nat (length hs)"
      "counted r \<longrightarrow> counted r1" "set (bfr_Errors r) \<subseteq> set (bfr_Errors r1)"
      "\<forall>h \<in> set hs. present s1 h \<or> has_error h r1" "\<forall>x. present s x \<longrightarrow> present s1 x"
      "\<forall>x. present s1 x \<longrightarrow> x \<in> set hs \<or> present s x"
    and rest: "range_filled present (l + 1) till s1 r1 s' r'"
  shows "range_filled present cur till s r s' r'"
proof -
  have after: "l + 1 \<le> x \<longleftrightarrow> l < x" for x :: uint64 using assms(3) by unat_arith
  let ?R = "{h. l + 1 \<le> h \<and> h \<le> till \<and> \<not> present s1 h}"
  have split: "{h. cur \<le> h \<and> h \<le> till \<and> \<not> present s h} = set hs \<union> ?R" "set hs \<inter> ?R = {}"
    using assms(1,2) hs(1) batch(6,7) by (auto simp: after not_le)
  have "card {h. cur \<le> h \<and> h \<le> till \<and> \<not> present s h} = length hs + card ?R"
    unfolding split(1) using hs(2) split(2) by (subst card_Un_disjoint) (simp_all add: distinct_card)
  then have "bfr_TotalProcessed r' =
      bfr_TotalProcessed r + of_nat (card {h. cur \<le> h \<and> h \<le> till \<and> \<not> present s h})"
    using rest batch(2) by (simp add: range_filled_def)
  moreover have "present s' h \<or> has_error h r'" if "cur \<le> h" "h \<le> till" for h
  proof (cases "h \<le> l")
    case True
    then have "present s1 h \<or> has_error h r1" using that hs(1) batch(5,6) by blast
    then show ?thesis using rest has_error_mono [of h r1 r'] by (auto simp: range_filled_def)
  next
    case False
    then show ?thesis using rest that by (auto simp: range_filled_def after)
  qed
  moreover have "cur \<le> x \<and> x \<le> till" if "present s' x" "\<not> present s x" for x
    using that rest batch(7) hs(1) assms(1,2) by (fastforce simp: range_filled_def after)
  ultimately show ?thesis using rest batch(1,3,4,6) by (auto simp: range_filled_def)
qed

lemma run_batches_filled:
  assumes "\<And>i. gap_filler (index i) (\<lambda>s. blocks s c) good"
    and "schedules (bfe_order env)" and "bfc_BatchSize cfg > 0"
    and "run_batches env cfg index blocks c till i cur s r = Some (s', Ok (Some r', None))" and "good s"
  shows "range_filled (\<lambda>s. blocks s c) cur till s r s' r'"
  using assms
proof (induction env cfg index blocks c till i cur s r rule: run_batches.induct)
  case (1 env cfg index blocks c till i cur s r)
  note laws = "1.prems"(1) and order = "1.prems"(2) and batch = "1.prems"(3) and run = "1.prems"(4) and good = "1.prems"(5)
  have idle: "range_filled (\<lambda>s. blocks s c) cur till s r s r" if "\<And>h. cur \<le> h \<Longrightarrow> h \<le> till \<Longrightarrow> blocks s c h"
  proof -
    have "{h. cur \<le> h \<and> h \<le> till \<and> \<not> blocks s c h} = {}" using that by auto
    then show ?thesis using that unfolding range_filled_def by (simp only: card.empty) simp
  qed
  show ?case
  proof (cases "cur \<le> till")
    case False
    then have "s' = s" "r' = r" using run by (simp_all add: run_batches.simps)
    then show ?thesis using idle False by (metis order.trans)
  next
    case le: True
    then have go: "bfe_done env i = None"
      using run by (auto simp: run_batches.simps split: option.splits)
    obtain heights where find: "FindMissingHeights (bfe_find env i) (blocks s) c cur till (bfc_BatchSize cfg) = Ok heights"
      using run le go by (auto simp: run_batches.simps split: outcome.splits)
    show ?thesis
    proof (cases "heights = []")
      case True
      then have "s' = s" "r' = r" using run le go find by (simp_all add: run_batches.simps)
      moreover have "blocks s c h" if "cur \<le> h" "h \<le> till" for h
        using no_heights_found [of "bfe_find env i" "blocks s" c cur till] find True batch that by simp
      ultimately show ?thesis using idle by simp
    next
      case ne: False
      obtain s1 r1 where one: "run_batch (index i) (bfe_order env i heights) s r = (s1, Some r1)"
        and conc: "bfc_Concurrency cfg \<noteq> 0"
        and rest: "run_batches env cfg index blocks c till (i + 1) (last heights + 1) s1 r1 = Some (s', Ok (Some r', None))"
        using run le go find ne
        by (auto simp: run_batches.simps [of env cfg index blocks c till i cur s r] split: prod.splits option.splits if_splits)
      note found = heights_found [OF find ne]
      note sched = schedulesD [OF order, of i heights]
      note spec = gap_filler.run_batch_spec [OF laws one good]
      have "range_filled (\<lambda>s. blocks s c) (last heights + 1) till s1 r1 s' r'"
        using "1.IH" [OF _ go find ne conc one [symmetric] refl] le laws order batch rest spec by blast
      then show ?thesis
        using spec found unfolding sched by (intro range_filled_step [of cur "last heights"]) auto
    qed
  qed
qed

section \<open>The indexer fills gaps\<close>

text \<open>The node answers a request for a height with that height's blob.\<close>

definition honest_fetch :: "'m canopy_lib \<Rightarrow> (uint64 \<Rightarrow> go_error + fsm_IndexerBlobs) \<Rightarrow> uint64 \<Rightarrow> bool" where
  "honest_fetch cl fetch c \<longleftrightarrow>
     (\<forall>h blobs data. fetch h = Inr blobs \<longrightarrow> Decode (lib_blob_codec cl) (Some blobs) c = Ok data \<longrightarrow> bd_Height data = h)"

text \<open>The heights of a configured chain, as a relation \<open>blocks(chain_id, height)\<close> over all chains would show them.\<close>

definition visible_blocks :: "indexer_state \<Rightarrow> uint64 \<Rightarrow> uint64 \<Rightarrow> bool" where
  "visible_blocks st c h \<longleftrightarrow>
     (case idx_chains st c of None \<Rightarrow> False | Some db \<Rightarrow> t_blocks (db_chain st (cdb_ChainID db)) h \<noteq> None)"

lemma index_height_cases:
  assumes "index_height cfg cl envs fetch c i h st = (st', res)" "honest_fetch cl (fetch i) c"
  obtains (refused) "st' = st" "res \<noteq> Ok ()"
  | (run) data where "header_height data" "bd_Height data = h" "bd_ChainID data = c"
      "IndexBlockWithData cl (envs i h) (Some data) st = (st', res)"
proof (cases "st' = st \<and> res \<noteq> Ok ()")
  case False
  then obtain blobs data where fetched: "fetch i h = Inr blobs"
    and dec: "Decode (lib_blob_codec cl) (Some blobs) c = Ok data"
    and ib: "IndexBlockWithData cl (envs i h) (Some data) st = (st', res)"
    using assms(1)
    by (auto simp: index_height_def indexBlockWithBlob_def IndexBlock_def
        split: if_splits outcome.splits sum.splits)
  have "bd_Height data = h" using assms(2) fetched dec by (auto simp: honest_fetch_def)
  moreover have "bd_ChainID data = c" using Decode_Ok_block [OF dec] by auto
  ultimately show ?thesis using that(2) Decode_header_height [OF dec] ib by blast
qed (use that(1) in simp)

lemma blocks_after_run:
  assumes "IndexBlockWithData cl env (Some data) st = (st', res)" "header_height data"
  shows "visible_blocks st (bd_ChainID data) x \<Longrightarrow> visible_blocks st' (bd_ChainID data) x"
    and "visible_blocks st' (bd_ChainID data) x \<Longrightarrow> x = bd_Height data \<or> visible_blocks st (bd_ChainID data) x"
    and "res = Ok () \<Longrightarrow> visible_blocks st' (bd_ChainID data) (bd_Height data)"
proof -
  let ?c = "bd_ChainID data"
  have "(\<forall>x. visible_blocks st ?c x \<longrightarrow> visible_blocks st' ?c x) \<and>
      (\<forall>x. visible_blocks st' ?c x \<longrightarrow> x = bd_Height data \<or> visible_blocks st ?c x) \<and>
      (res = Ok () \<longrightarrow> visible_blocks st' ?c (bd_Height data))"
  proof (cases "idx_chains st ?c")
    case None
    then show ?thesis using assms(1) by (auto simp: IndexBlockWithData_def)
  next
    case (Some db)
    have blocks: "t_blocks (written d t) x = (if x = bd_Height data then Some (ibd_Block d) else t_blocks t x)"
      if "convertToBlockData cl data [] = Ok d" for d t x
      using convert_block_height [OF that assms(2)] by (simp add: written_blocks)
    have summ: "t_blocks (summarized d t) = t_blocks t" for d t by (simp add: summarized_def)
    from assms(1) Some show ?thesis
    proof (cases rule: IndexBlockWithData_cases)
      case (write_failed e d t)
      have "t = db_chain st (cdb_ChainID db) \<or> t = written d (db_chain st (cdb_ChainID db))"
        using writeBlockData_cases [of "env_write env" d] write_failed(2) by (metis fst_conv)
      then show ?thesis using write_failed Some by (auto simp: visible_blocks_def blocks)
    next
      case (summary_failed e d)
      then show ?thesis using Some by (auto simp: visible_blocks_def blocks)
    next
      case (indexed d)
      then show ?thesis using Some by (auto simp: visible_blocks_def blocks summ)
    qed (use Some in \<open>auto simp: visible_blocks_def\<close>)
  qed
  then show "visible_blocks st ?c x \<Longrightarrow> visible_blocks st' ?c x"
    "visible_blocks st' ?c x \<Longrightarrow> x = bd_Height data \<or> visible_blocks st ?c x"
    "res = Ok () \<Longrightarrow> visible_blocks st' ?c (bd_Height data)" by blast+
qed

interpretation indexing: gap_filler "index_height cfg cl envs fetch c i" "\<lambda>st. visible_blocks st c"
  "\<lambda>_. \<forall>i. honest_fetch cl (fetch i) c"
proof unfold_locales
  fix s h s' res x
  assume "\<forall>i. honest_fetch cl (fetch i) c"
  then have honest: "honest_fetch cl (fetch i) c" ..
  show "index_height cfg cl envs fetch c i h s = (s', Ok ()) \<Longrightarrow> visible_blocks s' c h"
    by (erule index_height_cases [where fetch = fetch and i = i, OF _ honest]) (auto dest: blocks_after_run(3))
  assume run: "index_height cfg cl envs fetch c i h s = (s', res)"
  show "visible_blocks s c x \<Longrightarrow> visible_blocks s' c x"
    by (rule index_height_cases [where fetch = fetch and i = i, OF run honest]) (auto dest: blocks_after_run(1))
  show "visible_blocks s' c x \<Longrightarrow> x = h \<or> visible_blocks s c x"
    by (rule index_height_cases [where fetch = fetch and i = i, OF run honest]) (auto dest: blocks_after_run(2))
qed

section \<open>Results of a run\<close>

lemma GetGapStats_missing:
  assumes "GetGapStats fault blocks c lo hi = Ok stats"
  shows "gs_TotalMissing stats = of_nat (card {h. lo \<le> h \<and> h \<le> hi \<and> \<not> blocks c h})"
proof -
  have "length (missing_heights blocks c lo hi) = card {h. lo \<le> h \<and> h \<le> hi \<and> \<not> blocks c h}"
    using distinct_card [OF distinct_missing_heights, of blocks c lo hi] by (simp add: set_missing_heights)
  then show ?thesis using assms by (auto simp: GetGapStats_def Let_def split: option.splits)
qed

text \<open>The range of a run.\<close>

definition backfill_range :: "backfill_env \<Rightarrow> backfill_config \<Rightarrow> uint64 \<Rightarrow> uint64 \<Rightarrow> bool" where
  "backfill_range env cfg lo hi \<longleftrightarrow>
     lo = (if bfc_StartHeight cfg = 0 then 1 else bfc_StartHeight cfg) \<and>
     (if bfc_EndHeight cfg = 0 then bfe_head env = Ok hi else hi = bfc_EndHeight cfg)"

text \<open>No range holds all heights, so that a count of missing ones does not wrap to zero.\<close>

lemma missing_card:
  assumes "GetGapStats fault blocks c lo hi = Ok stats" "gs_TotalMissing stats = 0"
  shows "lo \<le> h \<Longrightarrow> h \<le> hi \<Longrightarrow> blocks c h"
proof -
  let ?M = "{h. lo \<le> h \<and> h \<le> hi \<and> \<not> blocks c h}"
  have "fits_bigint hi" using assms(1) by (auto simp: GetGapStats_def split: option.splits if_splits)
  have "card ?M = length (missing_heights blocks c lo hi)"
    using distinct_card [OF distinct_missing_heights, of blocks c lo hi] by (simp add: set_missing_heights)
  also have "\<dots> \<le> unat hi + 1"
    using length_filter_le length_heights_between order.trans unfolding missing_heights_def by blast
  also have "\<dots> < 2 ^ 64" using \<open>fits_bigint hi\<close> by (simp add: fits_bigint_def)
  finally have "unat (of_nat (card ?M) :: uint64) = card ?M" by (simp add: unat_of_nat)
  then have "card ?M = 0" using assms(2) GetGapStats_missing [OF assms(1)] by simp
  moreover have "finite ?M" by (rule finite)
  ultimately have "?M = {}" by simp
  then show "lo \<le> h \<Longrightarrow> h \<le> hi \<Longrightarrow> blocks c h" by auto
qed

section \<open>Runs return\<close>

lemma run_batch_returns:
  assumes "\<And>h s. snd (index h s) \<noteq> Panic"
  obtains s' r' where "run_batch index hs s r = (s', Some r')"
proof -
  have "\<exists>s' r'. run_batch index hs s r = (s', Some r')"
  proof (induction hs arbitrary: s r)
    case (Cons h hs)
    then show ?case using assms [of h s] by (auto simp: Let_def split: prod.split outcome.split)
  qed simp
  then show ?thesis using that by blast
qed

lemma run_batches_returns:
  assumes "\<And>i h s. snd (index i h s) \<noteq> Panic" "bfc_Concurrency cfg \<noteq> 0" "bfc_BatchSize cfg > 0"
    and "\<And>i. bfe_done env i = None" "\<And>i. bfe_find env i = gap_ok" "fits_bigint till" "fits_bigint c"
  shows "\<exists>s' r'. run_batches env cfg index blocks c till i cur s r = Some (s', Ok (Some r', None))"
  using assms
proof (induction env cfg index blocks c till i cur s r rule: run_batches.induct)
  case (1 env cfg index blocks c till i cur s r)
  note prems = "1.prems"
  show ?case
  proof (cases "cur \<le> till")
    case False
    then show ?thesis by (simp add: run_batches.simps)
  next
    case le: True
    then have "fits_bigint cur" using prems(6) by (simp add: fits_bigint_def word_le_nat_alt)
    then obtain heights where
      find: "FindMissingHeights (bfe_find env i) (blocks s) c cur till (bfc_BatchSize cfg) = Ok heights"
      using prems(3,5,6,7) by (simp add: FindMissingHeights_def gap_ok_def)
    show ?thesis
    proof (cases "heights = []")
      case True
      then show ?thesis using le prems(4) find by (simp add: run_batches.simps)
    next
      case ne: False
      obtain s1 r1 where one: "run_batch (index i) (bfe_order env i heights) s r = (s1, Some r1)"
        using run_batch_returns [of "index i"] prems(1) by metis
      have "\<exists>s' r'. run_batches env cfg index blocks c till (i + 1) (last heights + 1) s1 r1 = Some (s', Ok (Some r', None))"
        using "1.IH" [OF _ prems(4) find ne prems(2) one [symmetric] refl] le prems by blast
      then show ?thesis
        using le prems(2,4) find ne one by (simp add: run_batches.simps [of env cfg index blocks c till i cur s r])
    qed
  qed
qed

lemma backfill_Run_returns:
  assumes "\<And>i h s. snd (index i h s) \<noteq> Panic"
    and cfg: "bfc_Concurrency cfg \<noteq> 0" "bfc_BatchSize cfg > 0" "bfc_ProgressInterval cfg > 0"
    and env: "bfe_stats env = None" "\<And>i. bfe_done env i = None" "\<And>i. bfe_find env i = gap_ok"
    and range: "backfill_range env cfg lo hi" "fits_bigint lo" "fits_bigint hi" "fits_bigint c"
  shows "\<exists>s' r. backfill_Run env cfg index blocks c s = Some (s', Ok (Some r, None))"
proof -
  have ends: "(if bfc_EndHeight cfg = 0 then bfe_head env else Ok (bfc_EndHeight cfg)) = Ok hi"
    "(if bfc_StartHeight cfg = 0 then 1 else bfc_StartHeight cfg) = lo"
    using range(1) by (auto simp: backfill_range_def split: if_splits)
  obtain stats where stats: "GetGapStats (bfe_stats env) (blocks s) c lo hi = Ok stats"
    using env(1) range by (simp add: GetGapStats_def Let_def)
  have "\<exists>s' r'. run_batches env cfg index blocks c hi 0 lo s
      (empty_result\<lparr>bfr_TotalMissing := gs_TotalMissing stats\<rparr>) = Some (s', Ok (Some r', None))"
    using assms(1) cfg env range by (intro run_batches_returns) auto
  then show ?thesis using cfg(3) by (simp add: backfill_Run_def ends stats Let_def)
qed

section \<open>A sample run\<close>

text \<open>Two missing heights; the node answers for height 7 only, and the goroutines run in reverse order.\<close>

definition sample_backfill_env :: backfill_env where
  "sample_backfill_env = \<lparr>bfe_head = Ok 8, bfe_stats = None, bfe_done = (\<lambda>_. None), bfe_find = (\<lambda>_. gap_ok),
     bfe_order = (\<lambda>_. rev)\<rparr>"

definition sample_backfill_config :: backfill_config where
  "sample_backfill_config = DefaultConfig\<lparr>bfc_StartHeight := 7, bfc_UseBlobs := True\<rparr>"

definition sample_fetch :: "nat \<Rightarrow> uint64 \<Rightarrow> go_error + fsm_IndexerBlobs" where
  "sample_fetch i h =
     (if h = 7 then Inr \<lparr>ibs_Current = Some (sample_blob [7] [[1, 30]]), ibs_Previous = None\<rparr>
      else Inl (Errorf ''not found''))"

definition sample_index :: "nat \<Rightarrow> uint64 \<Rightarrow> indexer_state \<Rightarrow> indexer_state \<times> unit outcome" where
  "sample_index = index_height sample_backfill_config sample_lib (\<lambda>_ _. env_ok) sample_fetch 5"

lemma sample_index_no_panic: "snd (sample_index i h s) \<noteq> Panic"
proof (cases "h = 7")
  case True
  have "block_ok sample_decoded" by (simp add: block_ok_def sample_decoded_def sample_block_def sample_header_def)
  then obtain d where d: "convertToBlockData sample_lib sample_decoded [] = Ok d"
    using block_ok_converts [of sample_decoded sample_lib] by auto
  have eq: "sample_index i h s = IndexBlockWithData sample_lib env_ok (Some sample_decoded) s"
    by (simp add: sample_index_def index_height_def sample_backfill_config_def indexBlockWithBlob_def
        sample_fetch_def True sample_Decode)
  show ?thesis
  proof (cases "idx_chains s (bd_ChainID sample_decoded)")
    case None
    then show ?thesis by (simp add: eq IndexBlockWithData_def)
  next
    case (Some db)
    obtain s' r where run: "IndexBlockWithData sample_lib env_ok (Some sample_decoded) s = (s', r)" by fastforce
    from run Some show ?thesis
      by (cases rule: IndexBlockWithData_cases) (use d eq run in auto)
  qed
qed (simp add: sample_index_def index_height_def sample_backfill_config_def indexBlockWithBlob_def sample_fetch_def)

lemma sample_backfill:
  "bfc_Concurrency sample_backfill_config \<noteq> 0" "bfc_BatchSize sample_backfill_config > 0"
  "bfc_ProgressInterval sample_backfill_config > 0" "bfe_stats sample_backfill_env = None"
  "bfe_done sample_backfill_env i = None" "bfe_find sample_backfill_env i = gap_ok"
  "backfill_range sample_backfill_env sample_backfill_config 7 8"
  "fits_bigint 7" "fits_bigint 8" "fits_bigint 5"
  by (simp_all add: sample_backfill_config_def DefaultConfig_def sample_backfill_env_def backfill_range_def fits_bigint_def)

lemma sample_honest: "honest_fetch sample_lib (sample_fetch i) 5"
  by (auto simp: honest_fetch_def sample_fetch_def sample_Decode sample_decoded_def split: if_splits)

section \<open>The properties\<close>



text \<open>
  C26. A backfill run ends: when no query fails, the context stays alive, the limit on goroutines is not zero and
  indexing a height does not panic, \<open>Run\<close> returns a result and no error, however many heights fail.
\<close>

theorem backfill_returns:
  assumes "\<And>i h s. snd (index i h s) \<noteq> Panic"
    and cfg: "bfc_Concurrency cfg \<noteq> 0" "bfc_BatchSize cfg > 0" "bfc_ProgressInterval cfg > 0"
    and env: "bfe_stats env = None" "\<And>i. bfe_done env i = None" "\<And>i. bfe_find env i = gap_ok"
    and range: "backfill_range env cfg lo hi" "fits_bigint lo" "fits_bigint hi" "fits_bigint c"
  shows "\<exists>s' r. backfill_Run env cfg index blocks c s = Some (s', Ok (Some r, None))"
  using assms by (rule backfill_Run_returns)

theorem backfill_returns_witness:
  "\<exists>s' r. backfill_Run sample_backfill_env sample_backfill_config sample_index visible_blocks 5 sample_state =
     Some (s', Ok (Some r, None))"
  by (rule backfill_returns [where index = sample_index, OF sample_index_no_panic sample_backfill])

section \<open>An outage hides the gaps\<close>

text \<open>
  While the breakers of all endpoints are open the health check of a chain asks for the range up to
  height 0 and reports no missing block and no error, whatever is missing.
\<close>

theorem outage_hides_gaps:
  assumes "hc_endpoints client \<noteq> []" "\<And>ep. ep \<in> set (hc_endpoints client) \<Longrightarrow>
      \<exists>until. hc_opened client ep = Some until \<and> (\<forall>i. at_check renv i \<le> until)"
    and "ChainHead renv decode client = Some (client', bfe_head env)"
    and "bfe_stats env = None" "fits_bigint (bfc_StartHeight cfg)" "fits_bigint c"
  shows "\<exists>stats. CheckHealth env cfg blocks c endpoints = Ok stats \<and> gs_TotalMissing stats = 0 \<and>
    gs_TotalExpected stats = 0"
proof -
  have head: "bfe_head env = Ok 0"
    using assms(3) call_json_all_open [OF assms(1,2), of "''/v1/query/height''" decode 0]
    by (simp add: ChainHead_def)
  let ?lo = "if bfc_StartHeight cfg = 0 then 1 else bfc_StartHeight cfg"
  have "?lo \<noteq> 0" by simp
  then have "unat ?lo \<noteq> 0" by (simp only: unat_eq_0 not_False_eq_True)
  then have "heights_between ?lo 0 = []" by (simp add: heights_between_def del: upt_Suc)
  moreover have "fits_bigint ?lo" using assms(5) by (simp add: fits_bigint_def)
  moreover have "fits_bigint 0" by (simp add: fits_bigint_def)
  ultimately show ?thesis
    using assms(4,6) by (simp add: CheckHealth_def head GetGapStats_def missing_heights_def Let_def)
qed

theorem outage_hides_gaps_witness:
  "\<exists>stats. CheckHealth (sample_backfill_env\<lparr>bfe_head := Ok 0\<rparr>) sample_backfill_config (\<lambda>_ _. False) 5 ''u''
     = Ok stats \<and> gs_TotalMissing stats = 0 \<and> gs_TotalExpected stats = 0"
proof (rule outage_hides_gaps [where client = open_rpc and renv = "sample_env (\<lambda>_ _. Response 200 (Inr [7]))"])
  let ?env = "sample_env (\<lambda>_ _. Response 200 (Inr [7]))"
  show eps: "hc_endpoints open_rpc \<noteq> []"
    by (simp add: open_rpc_def NewHTTPWithOpts_def Let_def sample_opts_def dedup_foldl)
  show out: "\<exists>until. hc_opened open_rpc ep = Some until \<and> (\<forall>i. at_check ?env i \<le> until)"
    if "ep \<in> set (hc_endpoints open_rpc)" for ep
    using that by (auto simp: open_rpc_def NewHTTPWithOpts_def Let_def sample_opts_def)
  show "ChainHead ?env (\<lambda>_. Inr 9) open_rpc = Some (open_rpc, bfe_head (sample_backfill_env\<lparr>bfe_head := Ok 0\<rparr>))"
    using call_json_all_open [OF eps out] by (simp add: ChainHead_def)
qed (simp_all add: sample_backfill_env_def sample_backfill_config_def fits_bigint_def)

end
