(* ===== verification/Registry.thy ===== *)
theory Registry
  imports AdminDB RpcClient
begin

text \<open>
  The registry of chains inside the indexer (internal/indexer/indexer.go): \<open>AddChain\<close>, \<open>RemoveChain\<close>,
  \<open>HasChain\<close>, \<open>ChainIDs\<close>, \<open>Rediscover\<close> with its two locked helpers, and \<open>Close\<close>. Besides the two maps that
  indexing reads it keeps, per chain, a blob listener and the cancel function of its context; a listener
  and its context are one number here. Which listeners are started and not cancelled, and which
  chains have their cross-chain triggers, is part of the state. The databases are parameters: \<open>registry_env\<close> says which of their calls
  fail. The iteration order of a Go map is an argument.
\<close>

section \<open>State\<close>

record registry =
  reg_idx :: indexer_state
  reg_auto :: bool
  reg_listeners :: "uint64 \<rightharpoonup> nat"
  reg_cancels :: "uint64 \<rightharpoonup> nat"
  reg_next :: nat
  reg_running :: "nat \<rightharpoonup> uint64 \<times> string"
  reg_synced :: "uint64 \<Rightarrow> bool"

record registry_env =
  chain_db_fault :: "uint64 \<Rightarrow> go_error option"
  setup_fault :: "uint64 \<Rightarrow> go_error option"
  remove_fault :: "uint64 \<Rightarrow> go_error option"
  listener_fault :: "uint64 \<Rightarrow> go_error option"

text \<open>\<open>chain.NewWithPoolConfig\<close>: connecting and creating the schema may fail.\<close>

definition NewWithPoolConfig :: "go_error option \<Rightarrow> uint64 \<Rightarrow> chain_DB outcome" where
  "NewWithPoolConfig fault chainID =
     (case fault of
        Some err \<Rightarrow> Fail err
      | None \<Rightarrow> Ok \<lparr>cdb_Name = ''indexer'', cdb_Schema = ''chain_'' @ FormatUint chainID, cdb_ChainID = chainID\<rparr>)"

text \<open>\<open>idx.chains[chainID] = chainDB; idx.rpcClients[chainID] = client\<close>\<close>

definition register :: "uint64 \<Rightarrow> chain_DB \<Rightarrow> string list \<Rightarrow> registry \<Rightarrow> registry" where
  "register chainID db client r = r\<lparr>reg_idx := (reg_idx r)\<lparr>
     idx_chains := (idx_chains (reg_idx r))(chainID \<mapsto> db),
     idx_rpcClients := (idx_rpcClients (reg_idx r))(chainID \<mapsto> client)\<rparr>\<rparr>"

definition unregister :: "uint64 \<Rightarrow> registry \<Rightarrow> registry" where
  "unregister chainID r = r\<lparr>reg_idx := (reg_idx r)\<lparr>
     idx_chains := (idx_chains (reg_idx r))(chainID := None),
     idx_rpcClients := (idx_rpcClients (reg_idx r))(chainID := None)\<rparr>\<rparr>"

section \<open>Operations\<close>

definition HasChain :: "uint64 \<Rightarrow> registry \<Rightarrow> bool" where
  "HasChain chainID r \<longleftrightarrow> idx_chains (reg_idx r) chainID \<noteq> None"

text \<open>The keys in the iteration order \<open>order\<close> of the map.\<close>

definition ChainIDs :: "uint64 list \<Rightarrow> registry \<Rightarrow> uint64 list" where
  "ChainIDs order r = filter (\<lambda>c. HasChain c r) order"

text \<open>\<open>rpc.NewHTTPWithOpts\<close> never returns nil, so the branch for an invalid URL is never taken.\<close>

definition AddChain :: "registry_env \<Rightarrow> uint64 \<Rightarrow> string \<Rightarrow> registry \<Rightarrow> registry \<times> unit outcome" where
  "AddChain env chainID rpcURL r =
     (if idx_chains (reg_idx r) chainID \<noteq> None
      then (r, Fail (Errorf (''chain '' @ FormatUint chainID @ '' already exists'')))
      else
     (case NewWithPoolConfig (chain_db_fault env chainID) chainID of
        Fail err \<Rightarrow> (r, Fail (WrapErr ''create chain db'' err))
      | Panic \<Rightarrow> (r, Panic)
      | Ok chainDB \<Rightarrow>
          (let r = register chainID chainDB (dedup [rpcURL]) r
           in case setup_fault env chainID of
                Some err \<Rightarrow> (r, Fail (WrapErr ''setup crosschain sync'' err))
              | None \<Rightarrow> (r\<lparr>reg_synced := (reg_synced r)(chainID := True)\<rparr>, Ok ()))))"

definition RemoveChain :: "uint64 \<Rightarrow> registry \<Rightarrow> registry" where
  "RemoveChain chainID r = unregister chainID r"

definition addChainLocked :: "registry_env \<Rightarrow> uint64 \<Rightarrow> string \<Rightarrow> registry \<Rightarrow> registry \<times> unit outcome" where
  "addChainLocked env chainID rpcURL r =
     (case NewWithPoolConfig (chain_db_fault env chainID) chainID of
        Fail err \<Rightarrow> (r, Fail (WrapErr ''create chain db'' err))
      | Panic \<Rightarrow> (r, Panic)
      | Ok chainDB \<Rightarrow>
          (let r = register chainID chainDB (dedup [rpcURL]) r;
               r = (case setup_fault env chainID of
                      Some err \<Rightarrow> r
                    | None \<Rightarrow> r\<lparr>reg_synced := (reg_synced r)(chainID := True)\<rparr>)
           in if reg_auto r
              then (r\<lparr>reg_cancels := (reg_cancels r)(chainID \<mapsto> reg_next r),
                      reg_listeners := (reg_listeners r)(chainID \<mapsto> reg_next r),
                      reg_running := (reg_running r)(reg_next r \<mapsto> (chainID, rpcURL)),
                      reg_next := reg_next r + 1\<rparr>, Ok ())
              else (r, Ok ())))"

text \<open>Cancelling a context ends the goroutine that runs under it.\<close>

definition cancel_listener :: "uint64 \<Rightarrow> registry \<Rightarrow> registry" where
  "cancel_listener chainID r =
     (case reg_cancels r chainID of
        None \<Rightarrow> r
      | Some n \<Rightarrow> r\<lparr>reg_running := (reg_running r)(n := None),
                    reg_cancels := (reg_cancels r)(chainID := None)\<rparr>)"

definition removeChainLocked :: "registry_env \<Rightarrow> uint64 \<Rightarrow> registry \<Rightarrow> registry" where
  "removeChainLocked env chainID r =
     (let r = unregister chainID r;
          r = cancel_listener chainID r;
          r = r\<lparr>reg_listeners := (reg_listeners r)(chainID := None)\<rparr>
      in case remove_fault env chainID of
           Some err \<Rightarrow> r
         | None \<Rightarrow> r\<lparr>reg_synced := (reg_synced r)(chainID := False)\<rparr>)"

text \<open>The two loops of \<open>Rediscover\<close>.\<close>

definition remove_inactive ::
  "registry_env \<Rightarrow> (uint64 \<rightharpoonup> admin_Chain) \<Rightarrow> uint64 list \<Rightarrow> registry \<Rightarrow> registry" where
  "remove_inactive env activeSet rm r =
     foldl (\<lambda>r chainID. if activeSet chainID = None then removeChainLocked env chainID r else r) r rm"

definition add_missing ::
  "registry_env \<Rightarrow> (uint64 \<rightharpoonup> admin_Chain) \<Rightarrow> uint64 list \<Rightarrow> registry \<Rightarrow> registry" where
  "add_missing env activeSet add r =
     foldl (\<lambda>r chainID.
       case activeSet chainID of
         None \<Rightarrow> r
       | Some c \<Rightarrow>
           (if idx_chains (reg_idx r) chainID = None
            then fst (addChainLocked env chainID (adc_RPCEndpoints c ! 0) r) else r)) r add"

text \<open>\<open>rm\<close> and \<open>add\<close> are the orders in which the map of chains and the map of active chains are iterated.\<close>

definition Rediscover ::
  "registry_env \<Rightarrow> go_error option \<Rightarrow> admin_Chain list \<Rightarrow> uint64 list \<Rightarrow> uint64 list \<Rightarrow> registry \<Rightarrow>
   registry \<times> unit outcome" where
  "Rediscover env list_fault tbl rm add r =
     (case ListChain list_fault False tbl of
        Fail err \<Rightarrow> (r, Fail (WrapErr ''list chains'' err))
      | Panic \<Rightarrow> (r, Panic)
      | Ok adminChains \<Rightarrow>
          (let activeSet = index_by adc_ChainID (filter chain_active adminChains)
           in (add_missing env activeSet add (remove_inactive env activeSet rm r), Ok ())))"

text \<open>\<open>Close\<close> collects the errors of the listeners; closing a pool never fails.\<close>

definition close_registry ::
  "registry_env \<Rightarrow> uint64 list \<Rightarrow> uint64 list \<Rightarrow> uint64 list \<Rightarrow> registry \<Rightarrow> registry \<times> go_error list" where
  "close_registry env cancels lsns handles r =
     (let r = foldl (\<lambda>r c. cancel_listener c r) r cancels;
          errs = collect (\<lambda>c. if reg_listeners r c = None then None
             else map_option (WrapErr (''blob listener chain '' @ FormatUint c)) (listener_fault env c)) lsns;
          r = foldl (\<lambda>r c. r\<lparr>reg_listeners := (reg_listeners r)(c := None)\<rparr>) r lsns;
          r = foldl (\<lambda>r c. r\<lparr>reg_idx := (reg_idx r)\<lparr>idx_chains := (idx_chains (reg_idx r))(c := None)\<rparr>\<rparr>) r handles
      in (r, errs))"

section \<open>The registry's invariant\<close>

text \<open>A configured chain has a client and its own database handle; its listener, if it has one, is started and
  not cancelled, and no other listener is.\<close>

definition registry_ok :: "registry \<Rightarrow> bool" where
  "registry_ok r \<longleftrightarrow>
     dom (idx_rpcClients (reg_idx r)) = dom (idx_chains (reg_idx r)) \<and>
     (\<forall>c db. idx_chains (reg_idx r) c = Some db \<longrightarrow> cdb_ChainID db = c) \<and>
     reg_cancels r = reg_listeners r \<and> dom (reg_listeners r) \<subseteq> dom (idx_chains (reg_idx r)) \<and>
     (\<forall>n. n \<ge> reg_next r \<longrightarrow> reg_running r n = None) \<and>
     (\<forall>c n. reg_listeners r c = Some n \<longleftrightarrow> (\<exists>url. reg_running r n = Some (c, url)))"

lemma registry_okD:
  assumes "registry_ok r"
  shows "dom (idx_rpcClients (reg_idx r)) = dom (idx_chains (reg_idx r))"
    "idx_chains (reg_idx r) c = Some db \<Longrightarrow> cdb_ChainID db = c"
    "reg_cancels r = reg_listeners r" "dom (reg_listeners r) \<subseteq> dom (idx_chains (reg_idx r))"
    "n \<ge> reg_next r \<Longrightarrow> reg_running r n = None"
    "reg_listeners r c = Some n \<longleftrightarrow> (\<exists>url. reg_running r n = Some (c, url))"
  using assms unfolding registry_ok_def by blast+

lemma NewWithPoolConfig_cases:
  obtains (failed) e where "fault = Some e" "NewWithPoolConfig fault c = Fail e"
  | (opened) db where "fault = None" "NewWithPoolConfig fault c = Ok db" "cdb_ChainID db = c"
  by (cases fault) (auto simp: NewWithPoolConfig_def)

lemma register_simps [simp]:
  "idx_chains (reg_idx (register c db cl r)) = (idx_chains (reg_idx r))(c \<mapsto> db)"
  "idx_rpcClients (reg_idx (register c db cl r)) = (idx_rpcClients (reg_idx r))(c \<mapsto> cl)"
  "reg_auto (register c db cl r) = reg_auto r" "reg_listeners (register c db cl r) = reg_listeners r"
  "reg_cancels (register c db cl r) = reg_cancels r" "reg_next (register c db cl r) = reg_next r"
  "reg_running (register c db cl r) = reg_running r" "reg_synced (register c db cl r) = reg_synced r"
  by (simp_all add: register_def)

lemma unregister_simps [simp]:
  "idx_chains (reg_idx (unregister c r)) = (idx_chains (reg_idx r))(c := None)"
  "idx_rpcClients (reg_idx (unregister c r)) = (idx_rpcClients (reg_idx r))(c := None)"
  "reg_auto (unregister c r) = reg_auto r" "reg_listeners (unregister c r) = reg_listeners r"
  "reg_cancels (unregister c r) = reg_cancels r" "reg_next (unregister c r) = reg_next r"
  "reg_running (unregister c r) = reg_running r" "reg_synced (unregister c r) = reg_synced r"
  by (simp_all add: unregister_def)

lemma cancel_listener_simps [simp]:
  "reg_idx (cancel_listener c r) = reg_idx r" "reg_auto (cancel_listener c r) = reg_auto r"
  "reg_listeners (cancel_listener c r) = reg_listeners r" "reg_next (cancel_listener c r) = reg_next r"
  "reg_cancels (cancel_listener c r) = (reg_cancels r)(c := None)"
  "reg_synced (cancel_listener c r) = reg_synced r"
  by (auto simp: cancel_listener_def split: option.split)

lemma cancel_listener_running:
  "reg_running (cancel_listener c r) n = (if reg_cancels r c = Some n then None else reg_running r n)"
  by (auto simp: cancel_listener_def split: option.split)

lemma removeChainLocked_simps [simp]:
  "idx_chains (reg_idx (removeChainLocked env c r)) = (idx_chains (reg_idx r))(c := None)"
  "idx_rpcClients (reg_idx (removeChainLocked env c r)) = (idx_rpcClients (reg_idx r))(c := None)"
  "reg_auto (removeChainLocked env c r) = reg_auto r"
  "reg_listeners (removeChainLocked env c r) = (reg_listeners r)(c := None)"
  "reg_cancels (removeChainLocked env c r) = (reg_cancels r)(c := None)"
  "reg_next (removeChainLocked env c r) = reg_next r"
  "reg_running (removeChainLocked env c r) n = (if reg_cancels r c = Some n then None else reg_running r n)"
  "reg_synced (removeChainLocked env c r) c' = (if c' = c \<and> remove_fault env c = None then False else reg_synced r c')"
  by (auto simp: removeChainLocked_def Let_def cancel_listener_running split: option.split)

lemma removeChainLocked_ok:
  assumes "registry_ok r"
  shows "registry_ok (removeChainLocked env c r)"
proof -
  note ok = registry_okD [OF assms]
  have one: "reg_listeners r c' = Some n \<Longrightarrow> reg_listeners r c = Some n \<Longrightarrow> c' = c" for c' n
    using ok(6) [of c' n] ok(6) [of c n] by auto
  have "(reg_listeners (removeChainLocked env c r) c' = Some n) \<longleftrightarrow>
      (\<exists>url. reg_running (removeChainLocked env c r) n = Some (c', url))" for c' n
    using ok(6) [of c' n] ok(3) one [of c' n] by auto
  then show ?thesis
    unfolding registry_ok_def using ok(1-5) by auto
qed

text \<open>What adding a chain that is not configured does.\<close>

lemma addChainLocked_cases:
  assumes "registry_ok r" "idx_chains (reg_idx r) c = None"
  obtains (failed) e where "chain_db_fault env c = Some e" "addChainLocked env c url r = (r, Fail (WrapErr ''create chain db'' e))"
  | (added) r' db where "chain_db_fault env c = None" "addChainLocked env c url r = (r', Ok ())" "registry_ok r'"
      "idx_chains (reg_idx r') = (idx_chains (reg_idx r))(c \<mapsto> db)"
      "idx_rpcClients (reg_idx r') = (idx_rpcClients (reg_idx r))(c \<mapsto> [url])"
      "reg_auto r' = reg_auto r"
      "reg_synced r' = (if setup_fault env c = None then (reg_synced r)(c := True) else reg_synced r)"
      "\<And>c'. c' \<noteq> c \<Longrightarrow> reg_listeners r' c' = reg_listeners r c'"
      "if reg_auto r then \<exists>n. reg_listeners r' c = Some n \<and> reg_running r' n = Some (c, url)
       else reg_listeners r' c = None"
      "\<And>n x. reg_running r n = Some x \<Longrightarrow> reg_running r' n = Some x"
proof (cases rule: NewWithPoolConfig_cases [of "chain_db_fault env c" c])
  case (failed e)
  then show ?thesis using that(1) by (simp add: addChainLocked_def)
next
  case (opened db)
  note ok = registry_okD [OF assms(1)]
  have none: "reg_listeners r c = None" using ok(4) assms(2) by auto
  let ?r = "fst (addChainLocked env c url r)"
  have res: "addChainLocked env c url r = (?r, Ok ())"
    using opened by (simp add: addChainLocked_def Let_def)
  have idx: "idx_chains (reg_idx ?r) = (idx_chains (reg_idx r))(c \<mapsto> db)"
    "idx_rpcClients (reg_idx ?r) = (idx_rpcClients (reg_idx r))(c \<mapsto> [url])" "reg_auto ?r = reg_auto r"
    "reg_synced ?r = (if setup_fault env c = None then (reg_synced r)(c := True) else reg_synced r)"
    "reg_listeners ?r = (if reg_auto r then (reg_listeners r)(c \<mapsto> reg_next r) else reg_listeners r)"
    "reg_cancels ?r = (if reg_auto r then (reg_cancels r)(c \<mapsto> reg_next r) else reg_cancels r)"
    "reg_running ?r = (if reg_auto r then (reg_running r)(reg_next r \<mapsto> (c, url)) else reg_running r)"
    "reg_next ?r = (if reg_auto r then reg_next r + 1 else reg_next r)"
    using opened by (auto simp: addChainLocked_def Let_def split: option.split)
  have fresh: "reg_running r (reg_next r) = None" using ok(5) by simp
  have lis: "reg_listeners ?r c' = Some n \<longleftrightarrow> (\<exists>u. reg_running ?r n = Some (c', u))" for c' n
    using ok(6) [of c' n] fresh ok(6) [of c' "reg_next r"] none by (auto simp: idx)
  have "registry_ok ?r"
    unfolding registry_ok_def using ok(1-5) lis opened(3) by (auto simp: idx split: if_splits)
  note added = that(2) [OF opened(1) res this idx(1)]
  show ?thesis by (rule added) (use idx none fresh in \<open>auto split: if_splits\<close>)
qed

lemma AddChain_ok:
  assumes "registry_ok r"
  shows "registry_ok (fst (AddChain env c url r))"
proof (cases "idx_chains (reg_idx r) c")
  case None
  note ok = registry_okD [OF assms]
  show ?thesis
  proof (cases rule: NewWithPoolConfig_cases [of "chain_db_fault env c" c])
    case (failed e)
    then show ?thesis using None assms by (simp add: AddChain_def)
  next
    case (opened db)
    then have "registry_ok (register c db (dedup [url]) r)"
      unfolding registry_ok_def using ok by auto
    then show ?thesis using None opened
      by (auto simp: AddChain_def Let_def registry_ok_def split: option.split)
  qed
qed (use assms in \<open>simp add: AddChain_def\<close>)

section \<open>Rediscovery\<close>

lemma remove_inactive_Cons:
  "remove_inactive env act (c # rm) r =
     remove_inactive env act rm (if act c = None then removeChainLocked env c r else r)"
  by (simp add: remove_inactive_def)

lemma remove_inactive_Nil [simp]: "remove_inactive env act [] r = r"
  by (simp add: remove_inactive_def)

lemma remove_inactive_ok: "registry_ok r \<Longrightarrow> registry_ok (remove_inactive env act rm r)"
  by (induction rm arbitrary: r) (auto simp: remove_inactive_Cons removeChainLocked_ok)

lemma remove_inactive_simps:
  "idx_chains (reg_idx (remove_inactive env act rm r)) c =
     (if c \<in> set rm \<and> act c = None then None else idx_chains (reg_idx r) c)"
  "idx_rpcClients (reg_idx (remove_inactive env act rm r)) c =
     (if c \<in> set rm \<and> act c = None then None else idx_rpcClients (reg_idx r) c)"
  "reg_listeners (remove_inactive env act rm r) c =
     (if c \<in> set rm \<and> act c = None then None else reg_listeners r c)"
  "reg_synced (remove_inactive env act rm r) c =
     (if c \<in> set rm \<and> act c = None \<and> remove_fault env c = None then False else reg_synced r c)"
  "reg_auto (remove_inactive env act rm r) = reg_auto r"
  by (induction rm arbitrary: r) (auto simp: remove_inactive_Cons)

text \<open>A registry with every chain of the active set keeps the first loop idle, and the second one too.\<close>

lemma remove_inactive_idle: "(\<And>c. c \<in> set rm \<Longrightarrow> act c \<noteq> None) \<Longrightarrow> remove_inactive env act rm r = r"
proof (induction rm)
  case (Cons a rm)
  have "act a \<noteq> None" by (rule Cons.prems) simp
  moreover have "remove_inactive env act rm r = r" by (rule Cons.IH) (simp add: Cons.prems)
  ultimately show ?case by (cases "act a") (simp_all add: remove_inactive_Cons)
qed simp

lemma add_missing_Nil [simp]: "add_missing env act [] r = r"
  by (simp add: add_missing_def)

lemma add_missing_Cons:
  "add_missing env act (c # cs) r = add_missing env act cs
     (case act c of None \<Rightarrow> r | Some a \<Rightarrow>
        (if idx_chains (reg_idx r) c = None then fst (addChainLocked env c (adc_RPCEndpoints a ! 0) r) else r))"
  by (simp add: add_missing_def)

lemma add_missing_idle:
  "(\<And>c. c \<in> set add \<Longrightarrow> act c \<noteq> None \<Longrightarrow> idx_chains (reg_idx r) c \<noteq> None) \<Longrightarrow> add_missing env act add r = r"
proof (induction add)
  case (Cons a add)
  have "act a \<noteq> None \<Longrightarrow> idx_chains (reg_idx r) a \<noteq> None" by (rule Cons.prems) simp
  moreover have "add_missing env act add r = r" by (rule Cons.IH) (simp add: Cons.prems)
  ultimately show ?case by (auto simp: add_missing_Cons split: option.split)
qed simp

text \<open>What one chain gets from the second loop.\<close>

definition chain_view ::
  "uint64 \<Rightarrow> registry \<Rightarrow> chain_DB option \<times> string list option \<times> nat option \<times> bool" where
  "chain_view c r =
     (idx_chains (reg_idx r) c, idx_rpcClients (reg_idx r) c, reg_listeners r c, reg_synced r c)"

lemma chain_view_simps:
  assumes "chain_view c r' = chain_view c r"
  shows "idx_chains (reg_idx r') c = idx_chains (reg_idx r) c"
    "idx_rpcClients (reg_idx r') c = idx_rpcClients (reg_idx r) c"
    "reg_listeners r' c = reg_listeners r c" "reg_synced r' c = reg_synced r c"
  using assms by (auto simp: chain_view_def)

text \<open>What a registry holds for a chain that was just added.\<close>

definition newly_added :: "registry_env \<Rightarrow> uint64 \<Rightarrow> string \<Rightarrow> registry \<Rightarrow> registry \<Rightarrow> bool" where
  "newly_added env c url r r' \<longleftrightarrow>
     HasChain c r' \<and> idx_rpcClients (reg_idx r') c = Some [url] \<and>
     (reg_synced r' c \<longleftrightarrow> setup_fault env c = None \<or> reg_synced r c) \<and>
     (if reg_auto r then \<exists>n. reg_listeners r' c = Some n \<and> reg_running r' n = Some (c, url)
      else reg_listeners r' c = None)"

lemma addChainLocked_ok:
  assumes "registry_ok r" "idx_chains (reg_idx r) c = None"
  shows "registry_ok (fst (addChainLocked env c url r))"
    and "reg_auto (fst (addChainLocked env c url r)) = reg_auto r"
    and "c' \<noteq> c \<Longrightarrow> chain_view c' (fst (addChainLocked env c url r)) = chain_view c' r"
    and "chain_db_fault env c = None \<Longrightarrow> newly_added env c url r (fst (addChainLocked env c url r))"
    and "chain_db_fault env c \<noteq> None \<Longrightarrow> fst (addChainLocked env c url r) = r"
    and "reg_running r n = Some x \<Longrightarrow> reg_running (fst (addChainLocked env c url r)) n = Some x"
  by (rule addChainLocked_cases [OF assms, of env url];
      use assms in \<open>auto simp: chain_view_def newly_added_def HasChain_def\<close>)+

text \<open>A chain keeps what it was given while others are added.\<close>

lemma newly_added_mono:
  assumes "newly_added env c url r r1" "chain_view c r2 = chain_view c r1" "chain_view c r0 = chain_view c r"
    "reg_auto r0 = reg_auto r" "\<And>n x. reg_running r1 n = Some x \<Longrightarrow> reg_running r2 n = Some x"
  shows "newly_added env c url r0 r2"
  using assms chain_view_simps [OF assms(2)] chain_view_simps [OF assms(3)]
  by (auto simp: newly_added_def HasChain_def split: if_splits)

lemma add_missing_spec:
  assumes "registry_ok r"
  shows "registry_ok (add_missing env act add r)"
    and "reg_auto (add_missing env act add r) = reg_auto r"
    and "idx_chains (reg_idx r) c \<noteq> None \<or> c \<notin> set add \<or> act c = None \<or> chain_db_fault env c \<noteq> None \<Longrightarrow>
      chain_view c (add_missing env act add r) = chain_view c r"
    and "c \<in> set add \<Longrightarrow> act c = Some a \<Longrightarrow> idx_chains (reg_idx r) c = None \<Longrightarrow> chain_db_fault env c = None \<Longrightarrow>
      newly_added env c (adc_RPCEndpoints a ! 0) r (add_missing env act add r)"
    and "reg_running r n = Some x \<Longrightarrow> reg_running (add_missing env act add r) n = Some x"
proof -
  define P where "P r r' add \<longleftrightarrow> registry_ok r' \<and> reg_auto r' = reg_auto r \<and>
    (\<forall>c. idx_chains (reg_idx r) c \<noteq> None \<or> c \<notin> set add \<or> act c = None \<or> chain_db_fault env c \<noteq> None \<longrightarrow>
      chain_view c r' = chain_view c r) \<and>
    (\<forall>c a. c \<in> set add \<longrightarrow> act c = Some a \<longrightarrow> idx_chains (reg_idx r) c = None \<longrightarrow> chain_db_fault env c = None \<longrightarrow>
      newly_added env c (adc_RPCEndpoints a ! 0) r r') \<and>
    (\<forall>n x. reg_running r n = Some x \<longrightarrow> reg_running r' n = Some x)" for r r' add
  have "P r (add_missing env act add r) add"
    using assms
  proof (induction add arbitrary: r)
    case Nil
    then show ?case by (simp add: P_def)
  next
    case (Cons k add)
    let ?idle = "idx_chains (reg_idx r) k \<noteq> None \<or> act k = None \<or> chain_db_fault env k \<noteq> None"
    show ?case
    proof (cases ?idle)
      case True
      then have "add_missing env act (k # add) r = add_missing env act add r"
        using addChainLocked_ok(5) [OF Cons.prems, where c = k and env = env] by (auto simp: add_missing_Cons split: option.split)
      then show ?thesis using Cons.IH [OF Cons.prems] True unfolding P_def by auto
    next
      case False
      then obtain a where a: "act k = Some a" and none: "idx_chains (reg_idx r) k = None"
        and opened: "chain_db_fault env k = None" by auto
      define r1 where "r1 = fst (addChainLocked env k (adc_RPCEndpoints a ! 0) r)"
      note one = addChainLocked_ok [OF Cons.prems none, where env = env and url = "adc_RPCEndpoints a ! 0", folded r1_def]
      have IH: "P r1 (add_missing env act add r1) add" by (rule Cons.IH [OF one(1)])
      have step: "add_missing env act (k # add) r = add_missing env act add r1"
        using a none by (simp add: add_missing_Cons r1_def)
      have k1: "idx_chains (reg_idx r1) k \<noteq> None"
        using one(4) [OF opened] by (simp add: newly_added_def HasChain_def)
      have view: "chain_view c (add_missing env act add r1) = chain_view c r"
        if "idx_chains (reg_idx r) c \<noteq> None \<or> c \<notin> set (k # add) \<or> act c = None \<or> chain_db_fault env c \<noteq> None" for c
      proof -
        have "c \<noteq> k" using that a none opened by auto
        then have same: "chain_view c r1 = chain_view c r" by (rule one(3))
        then show ?thesis using IH that chain_view_simps(1) [OF same] unfolding P_def by auto
      qed
      have "newly_added env k (adc_RPCEndpoints a ! 0) r (add_missing env act add r1)"
        using IH k1 one(4) [OF opened] unfolding P_def by (blast intro: newly_added_mono)
      moreover have "newly_added env c (adc_RPCEndpoints b ! 0) r (add_missing env act add r1)"
        if "c \<noteq> k" "c \<in> set add" "act c = Some b" "idx_chains (reg_idx r) c = None" "chain_db_fault env c = None" for c b
      proof -
        have same: "chain_view c r1 = chain_view c r" by (rule one(3) [OF that(1)])
        have "newly_added env c (adc_RPCEndpoints b ! 0) r1 (add_missing env act add r1)"
          using IH that chain_view_simps(1) [OF same] unfolding P_def by auto
        then show ?thesis using same one(2) by (auto intro: newly_added_mono)
      qed
      ultimately have new: "newly_added env c (adc_RPCEndpoints b ! 0) r (add_missing env act add r1)"
        if "c \<in> set (k # add)" "act c = Some b" "idx_chains (reg_idx r) c = None" "chain_db_fault env c = None" for c b
        using that a by (cases "c = k") auto
      show ?thesis
        unfolding step P_def using IH one(2) one(6) new view unfolding P_def by simp
    qed
  qed
  note res = this [unfolded P_def]
  show "registry_ok (add_missing env act add r)" "reg_auto (add_missing env act add r) = reg_auto r"
    using res by auto
  show "chain_view c (add_missing env act add r) = chain_view c r"
    if "idx_chains (reg_idx r) c \<noteq> None \<or> c \<notin> set add \<or> act c = None \<or> chain_db_fault env c \<noteq> None"
    using res that by auto
  show "newly_added env c (adc_RPCEndpoints a ! 0) r (add_missing env act add r)"
    if "c \<in> set add" "act c = Some a" "idx_chains (reg_idx r) c = None" "chain_db_fault env c = None"
    using res that by auto
  show "reg_running (add_missing env act add r) n = Some x" if "reg_running r n = Some x"
    using res that by (cases x) simp
qed

lemma active_index:
  assumes "chains_ok tbl" "ListChain None False tbl = Ok cs"
  shows "index_by adc_ChainID (filter chain_active cs) c = Some a \<longleftrightarrow>
    a \<in> set tbl \<and> chain_active a \<and> adc_ChainID a = c"
proof -
  have cs: "cs = sort_key adc_ChainID (filter (\<lambda>c. adc_Deleted c = 0) tbl)"
    using assms(2) unfolding ListChain_def by simp
  have tbl: "distinct tbl" "inj_on adc_ChainID (set tbl)"
    using assms(1) unfolding chains_ok_def distinct_map by blast+
  have "inj_on adc_ChainID (set cs)" by (rule inj_on_subset [OF tbl(2)]) (auto simp: cs)
  then have "distinct (map adc_ChainID cs)" using tbl(1) by (simp add: distinct_map cs)
  then have "distinct (map adc_ChainID (filter chain_active cs))" by (simp add: distinct_map_filter)
  then have "index_by adc_ChainID (filter chain_active cs) c = Some a \<longleftrightarrow>
      a \<in> set (filter chain_active cs) \<and> adc_ChainID a = c"
    by (rule index_by_distinct_iff)
  then show ?thesis unfolding ListChain_active [OF assms(2)] by auto
qed

text \<open>The set of active chains of the admin table.\<close>

definition active_ids :: "admin_Chain list \<Rightarrow> uint64 set" where
  "active_ids tbl = adc_ChainID ` set (filter chain_active tbl)"

lemma Rediscover_run:
  assumes "chains_ok tbl"
  obtains act where "Rediscover env None tbl rm add r = (add_missing env act add (remove_inactive env act rm r), Ok ())"
    "\<And>c a. act c = Some a \<longleftrightarrow> a \<in> set tbl \<and> chain_active a \<and> adc_ChainID a = c"
    "\<And>c. act c = None \<longleftrightarrow> c \<notin> active_ids tbl"
proof -
  obtain cs where cs: "ListChain None False tbl = Ok cs" by (simp add: ListChain_def)
  note iff = active_index [OF assms cs]
  show ?thesis
    by (rule that [of "index_by adc_ChainID (filter chain_active cs)"])
      (use iff ListChain_active [OF cs] in \<open>auto simp: Rediscover_def Let_def cs index_by_None_iff active_ids_def\<close>)
qed

lemma rediscover_facts:
  assumes "registry_ok r" "chains_ok tbl"
    and orders: "set rm = dom (idx_chains (reg_idx r))" "set add = active_ids tbl"
    and run: "Rediscover env None tbl rm add r = (r', res)"
  shows "res = Ok ()" and "registry_ok r'"
    and "HasChain c r' \<longleftrightarrow> c \<in> active_ids tbl \<and> (HasChain c r \<or> chain_db_fault env c = None)"
    and "HasChain c r \<Longrightarrow> c \<in> active_ids tbl \<Longrightarrow> chain_view c r' = chain_view c r"
    and "a \<in> set tbl \<Longrightarrow> chain_active a \<Longrightarrow> \<not> HasChain (adc_ChainID a) r \<Longrightarrow>
      chain_db_fault env (adc_ChainID a) = None \<Longrightarrow> newly_added env (adc_ChainID a) (adc_RPCEndpoints a ! 0) r r'"
    and "reg_running r' n = Some (c, url) \<Longrightarrow> c \<in> active_ids tbl"
proof -
  obtain act where eq: "Rediscover env None tbl rm add r = (add_missing env act add (remove_inactive env act rm r), Ok ())"
    and act: "\<And>c a. act c = Some a \<longleftrightarrow> a \<in> set tbl \<and> chain_active a \<and> adc_ChainID a = c"
    and none: "\<And>c. act c = None \<longleftrightarrow> c \<notin> active_ids tbl"
    by (rule Rediscover_run [OF assms(2), of env rm add r]; rule that) simp_all
  define r1 where "r1 = remove_inactive env act rm r"
  have r': "r' = add_missing env act add r1" and "res = Ok ()" using run eq by (auto simp: r1_def)
  then show "res = Ok ()" by simp
  have ok1: "registry_ok r1" unfolding r1_def by (rule remove_inactive_ok) fact
  note spec = add_missing_spec [OF ok1, where env = env and act = act and add = add, folded r']
  note view = remove_inactive_simps [of env act rm r, folded r1_def]
  show ok': "registry_ok r'" by (rule spec(1))
  have same: "chain_view c r1 = chain_view c r" if "act c \<noteq> None" for c
    using that by (auto simp: chain_view_def view)
  show keep: "chain_view c r' = chain_view c r" if "HasChain c r" "c \<in> active_ids tbl" for c
  proof -
    have "act c \<noteq> None" using that none by simp
    then have "chain_view c r1 = chain_view c r" by (rule same)
    then show ?thesis using spec(3) [of c] that chain_view_simps(1) [of c r1 r] by (simp add: HasChain_def)
  qed
  show new: "newly_added env (adc_ChainID a) (adc_RPCEndpoints a ! 0) r r'"
    if "a \<in> set tbl" "chain_active a" "\<not> HasChain (adc_ChainID a) r" "chain_db_fault env (adc_ChainID a) = None" for a
  proof -
    have a: "act (adc_ChainID a) = Some a" using that act by simp
    then have "adc_ChainID a \<in> set add" using none [of "adc_ChainID a"] orders(2) by simp
    moreover have eq: "chain_view (adc_ChainID a) r1 = chain_view (adc_ChainID a) r" using a by (simp add: same)
    ultimately have "newly_added env (adc_ChainID a) (adc_RPCEndpoints a ! 0) r1 r'"
      using spec(4) a that chain_view_simps(1) [OF eq] by (simp add: HasChain_def)
    then show ?thesis by (rule newly_added_mono) (simp_all add: eq view)
  qed
  have configured: "HasChain c r' \<longleftrightarrow> c \<in> active_ids tbl \<and> (HasChain c r \<or> chain_db_fault env c = None)" for c
  proof (cases "c \<in> active_ids tbl")
    case False
    then have "act c = None" using none by simp
    then have "chain_view c r' = chain_view c r1" "idx_chains (reg_idx r1) c = None"
      using spec(3) [of c] view(1) [of c] orders(1) by auto
    then show ?thesis using False chain_view_simps(1) [of c r' r1] by (simp add: HasChain_def)
  next
    case True
    then obtain a where a: "a \<in> set tbl" "chain_active a" "adc_ChainID a = c" by (auto simp: active_ids_def)
    show ?thesis
    proof (cases "HasChain c r")
      case T: True
      then show ?thesis using keep [OF T True] chain_view_simps(1) [of c r' r] True by (simp add: HasChain_def)
    next
      case F: False
      have eq: "chain_view c r1 = chain_view c r" using act a by (intro same) auto
      show ?thesis
        using new [OF a(1,2)] spec(3) [of c] a(3) F True eq chain_view_simps(1) [of c r' r]
        by (cases "chain_db_fault env c") (auto simp: newly_added_def HasChain_def)
    qed
  qed
  then show "HasChain c r' \<longleftrightarrow> c \<in> active_ids tbl \<and> (HasChain c r \<or> chain_db_fault env c = None)" .
  show "c \<in> active_ids tbl" if "reg_running r' n = Some (c, url)"
  proof -
    have "c \<in> dom (reg_listeners r')" using that registry_okD(6) [OF ok', of c n] by auto
    then have "HasChain c r'" using registry_okD(4) [OF ok'] by (auto simp: HasChain_def)
    then show ?thesis using configured by simp
  qed
qed

text \<open>
  C24. A rediscovery leaves the registry consistent and makes the configured chains exactly the active ones
  of the admin table whose database opened: a chain that stays keeps its database, its client and its
  listener, whatever the table now says of its endpoints; a new one gets a client for its first endpoint, and
  a listener on it exactly when listeners are switched on; a chain that left is no longer listened to.
\<close>

theorem rediscover_result:
  assumes "registry_ok r" "chains_ok tbl" "set rm = dom (idx_chains (reg_idx r))" "set add = active_ids tbl"
    and "Rediscover env None tbl rm add r = (r', res)"
  shows "res = Ok () \<and> registry_ok r' \<and>
    (\<forall>c. HasChain c r' \<longleftrightarrow> c \<in> active_ids tbl \<and> (HasChain c r \<or> chain_db_fault env c = None)) \<and>
    (\<forall>c. HasChain c r \<and> c \<in> active_ids tbl \<longrightarrow> chain_view c r' = chain_view c r) \<and>
    (\<forall>a \<in> set tbl. chain_active a \<and> \<not> HasChain (adc_ChainID a) r \<and> chain_db_fault env (adc_ChainID a) = None \<longrightarrow>
       newly_added env (adc_ChainID a) (adc_RPCEndpoints a ! 0) r r') \<and>
    (\<forall>n c url. reg_running r' n = Some (c, url) \<longrightarrow> c \<in> active_ids tbl)"
  using rediscover_facts [OF assms] by blast

section \<open>A sample registry\<close>

text \<open>Chains 1 and 2 are configured and listened to. In the table chain 1 has moved to another endpoint,
  chain 2 is paused, chain 3 is new and chain 4 has no endpoint.\<close>

definition sample_chain_row :: "uint64 \<Rightarrow> string list \<Rightarrow> byte \<Rightarrow> admin_Chain" where
  "sample_chain_row c eps paused =
     \<lparr>adc_ChainID = c, adc_ChainName = ''c'', adc_RPCEndpoints = eps, adc_Paused = paused, adc_Deleted = 0,
      adc_Notes = [], adc_CreatedAt = 0, adc_UpdatedAt = 0\<rparr>"

definition sample_chain_table :: "admin_Chain list" where
  "sample_chain_table =
     [sample_chain_row 1 [''http://new''] 0, sample_chain_row 2 [''http://b''] 1,
      sample_chain_row 3 [''http://c''] 0, sample_chain_row 4 [] 0]"

definition sample_db :: "uint64 \<Rightarrow> chain_DB" where
  "sample_db c = \<lparr>cdb_Name = ''indexer'', cdb_Schema = ''chain'', cdb_ChainID = c\<rparr>"

definition sample_registry :: registry where
  "sample_registry =
     \<lparr>reg_idx = \<lparr>idx_rpcClients = [1 \<mapsto> [''http://a''], 2 \<mapsto> [''http://b'']],
        idx_chains = [1 \<mapsto> sample_db 1, 2 \<mapsto> sample_db 2], idx_publisher = False,
        db_chain = (\<lambda>_. empty_tables), db_progress = [], redis_stream = []\<rparr>,
      reg_auto = True, reg_listeners = [1 \<mapsto> 0, 2 \<mapsto> 1], reg_cancels = [1 \<mapsto> 0, 2 \<mapsto> 1], reg_next = 2,
      reg_running = [0 \<mapsto> (1, ''http://a''), 1 \<mapsto> (2, ''http://b'')], reg_synced = (\<lambda>c. c = 1 \<or> c = 2)\<rparr>"

definition sample_registry_env :: "(uint64 \<Rightarrow> go_error option) \<Rightarrow> registry_env" where
  "sample_registry_env setup =
     \<lparr>chain_db_fault = (\<lambda>_. None), setup_fault = setup, remove_fault = (\<lambda>_. None), listener_fault = (\<lambda>_. None)\<rparr>"

lemma sample_registry_ok:
  "registry_ok sample_registry" "chains_ok sample_chain_table"
  "set [2, 1] = dom (idx_chains (reg_idx sample_registry))" "set [3, 1] = active_ids sample_chain_table"
  by (auto simp: registry_ok_def sample_registry_def sample_db_def chains_ok_def sample_chain_table_def
      sample_chain_row_def active_ids_def chain_active_def split: if_splits)

lemma rediscover_result_witness:
  "case Rediscover (sample_registry_env (\<lambda>_. None)) None sample_chain_table [2, 1] [3, 1] sample_registry of
     (r', res) \<Rightarrow> registry_ok r' \<and> \<not> HasChain 2 r' \<and> HasChain 3 r' \<and>
       chain_view 1 r' = chain_view 1 sample_registry"
proof -
  let ?env = "sample_registry_env (\<lambda>_. None)"
  obtain r' res where run: "Rediscover ?env None sample_chain_table [2, 1] [3, 1] sample_registry = (r', res)"
    by fastforce
  have "1 \<in> active_ids sample_chain_table" "2 \<notin> active_ids sample_chain_table" "3 \<in> active_ids sample_chain_table"
    by (simp_all flip: sample_registry_ok(4))
  moreover have "HasChain 1 sample_registry" "chain_db_fault ?env 3 = None"
    by (simp_all add: HasChain_def sample_registry_def sample_registry_env_def)
  ultimately show ?thesis
    using rediscover_result [OF sample_registry_ok run] unfolding run prod.case by blast
qed

section \<open>What rediscovery never repairs\<close>

lemma Rediscover_settled:
  assumes "chains_ok tbl" "active_ids tbl = dom (idx_chains (reg_idx r))" "set rm = dom (idx_chains (reg_idx r))"
  shows "Rediscover env None tbl rm add r = (r, Ok ())"
proof (rule Rediscover_run [OF assms(1), of env rm add r])
  fix act
  assume eq: "Rediscover env None tbl rm add r = (add_missing env act add (remove_inactive env act rm r), Ok ())"
    and none: "\<And>c. (act c = None) = (c \<notin> active_ids tbl)"
  have "remove_inactive env act rm r = r" by (rule remove_inactive_idle) (simp add: none assms)
  moreover have "add_missing env act add r = r"
    by (rule add_missing_idle) (use none assms(2) in \<open>simp add: domD\<close>)
  ultimately show ?thesis using eq by simp
qed

text \<open>
  Once every active chain is configured, a later rediscovery changes nothing, whatever the admin table now
  says of the endpoints and whatever now succeeds: a chain whose cross-chain triggers could not be set up
  when it was added stays without them, and adding it again is refused.
\<close>

theorem rediscover_never_repairs:
  assumes "registry_ok r" "chains_ok tbl" "set rm = dom (idx_chains (reg_idx r))" "set add = active_ids tbl"
    and run: "Rediscover env None tbl rm add r = (r', res)"
    and opened: "\<forall>c. chain_db_fault env c = None"
    and later: "chains_ok tbl2" "active_ids tbl2 = active_ids tbl" "set rm2 = active_ids tbl"
  shows "Rediscover env2 None tbl2 rm2 add2 r' = (r', Ok ()) \<and>
    (\<forall>c \<in> active_ids tbl. \<forall>url.
       AddChain env2 c url r' = (r', Fail (Errorf (''chain '' @ FormatUint c @ '' already exists''))) \<and>
       (\<not> HasChain c r \<and> setup_fault env c \<noteq> None \<and> \<not> reg_synced r c \<longrightarrow> \<not> reg_synced r' c))"
proof -
  note res = rediscover_facts [OF assms(1-5)]
  have has: "HasChain c r' \<longleftrightarrow> c \<in> active_ids tbl" for c using res(3) [of c] opened by simp
  then have "active_ids tbl2 = dom (idx_chains (reg_idx r'))" using later(2) by (auto simp: HasChain_def)
  then have "Rediscover env2 None tbl2 rm2 add2 r' = (r', Ok ())"
    using later by (intro Rediscover_settled) simp_all
  moreover have "AddChain env2 c url r' = (r', Fail (Errorf (''chain '' @ FormatUint c @ '' already exists'')))"
    if "c \<in> active_ids tbl" for c url
    using that has [of c] by (simp add: AddChain_def HasChain_def)
  moreover have "\<not> reg_synced r' c"
    if "c \<in> active_ids tbl" "\<not> HasChain c r" "setup_fault env c \<noteq> None" "\<not> reg_synced r c" for c
    using that res(5) opened by (auto simp: active_ids_def newly_added_def)
  ultimately show ?thesis by blast
qed

lemma rediscover_never_repairs_witness:
  "\<exists>r'. fst (Rediscover (sample_registry_env (\<lambda>c. if c = 3 then Some (Errorf ''x'') else None)) None
           sample_chain_table [2, 1] [3, 1] sample_registry) = r' \<and>
     Rediscover (sample_registry_env (\<lambda>_. None)) None sample_chain_table [3, 1] [1, 3] r' = (r', Ok ()) \<and>
     \<not> reg_synced r' 3"
proof -
  let ?env = "sample_registry_env (\<lambda>c. if c = 3 then Some (Errorf ''x'') else None)"
  obtain r' res where run: "Rediscover ?env None sample_chain_table [2, 1] [3, 1] sample_registry = (r', res)"
    by fastforce
  have "\<forall>c. chain_db_fault ?env c = None" by (simp add: sample_registry_env_def)
  note all = rediscover_never_repairs [OF sample_registry_ok run this sample_registry_ok(2) refl sample_registry_ok(4),
      of "sample_registry_env (\<lambda>_. None)" "[1, 3]"]
  have "3 \<in> active_ids sample_chain_table" by (simp flip: sample_registry_ok(4))
  moreover have "\<not> HasChain 3 sample_registry" "setup_fault ?env 3 \<noteq> None" "\<not> reg_synced sample_registry 3"
    by (simp_all add: HasChain_def sample_registry_def sample_registry_env_def)
  ultimately show ?thesis using all run by auto
qed

end
