(* ===== verification/Worker.thy ===== *)
theory Worker
  imports BackfillProps Registry
begin

text \<open>
  The worker (internal/worker/worker.go): it takes payloads off the block queue and indexes the height that
  they name. The router acknowledges a message when the handler returns nil and delivers it again otherwise.
  How long the handler sleeps is part of its result.
\<close>

section \<open>Operations\<close>

definition handleBlock ::
  "'m canopy_lib \<Rightarrow> index_env \<Rightarrow> (uint64 \<Rightarrow> go_error + fsm_IndexerBlobs) \<Rightarrow> bytes \<Rightarrow> indexer_state \<Rightarrow>
   (indexer_state \<times> unit outcome) \<times> nat" where
  "handleBlock cl env fetch payload st =
     (case decode_payload payload of
        None \<Rightarrow> ((st, Ok ()), 0)
      | Some (chainID, height) \<Rightarrow>
     (case IndexBlock cl env fetch chainID height st of
        (st', Fail err) \<Rightarrow>
          (if errors_Is err ErrChainNotConfigured then ((st', Fail err), 30) else ((st', Fail err), 5))
      | (st', Panic) \<Rightarrow> ((st', Panic), 0)
      | (st', Ok _) \<Rightarrow> ((st', Ok ()), 0)))"

text \<open>What happens to a message over its deliveries, each with its environment and the node's answers: the
  state, whether it was acknowledged, and the seconds slept.\<close>

fun deliveries ::
  "'m canopy_lib \<Rightarrow> (index_env \<times> (uint64 \<Rightarrow> go_error + fsm_IndexerBlobs)) list \<Rightarrow> bytes \<Rightarrow> indexer_state \<Rightarrow>
   indexer_state \<times> bool \<times> nat" where
  "deliveries cl [] payload st = (st, False, 0)"
| "deliveries cl ((env, fetch) # later) payload st =
     (case handleBlock cl env fetch payload st of
        ((st', Ok _), n) \<Rightarrow> (st', True, n)
      | ((st', _), n) \<Rightarrow> (case deliveries cl later payload st' of (st'', ack, m) \<Rightarrow> (st'', ack, n + m)))"

record QueueStats =
  qs_StreamLength :: int
  qs_Pending :: int
  qs_Consumers :: int

text \<open>The stream's length, then the pending count and the consumers of the worker's group.\<close>

definition queue_stats ::
  "(go_error + int) \<Rightarrow> (go_error + (string \<times> int \<times> int) list) \<Rightarrow> string \<Rightarrow> QueueStats \<times> go_error option" where
  "queue_stats xlen groups consumerGroup =
     (let stats = \<lparr>qs_StreamLength = 0, qs_Pending = 0, qs_Consumers = 0\<rparr>
      in case xlen of
           Inl err \<Rightarrow> (stats, Some err)
         | Inr n \<Rightarrow>
     (let stats = stats\<lparr>qs_StreamLength := n\<rparr>
      in case groups of
           Inl _ \<Rightarrow> (stats, None)
         | Inr gs \<Rightarrow>
             (case List.find (\<lambda>g. fst g = consumerGroup) gs of
                None \<Rightarrow> (stats, None)
              | Some (_, pending, consumers) \<Rightarrow>
                  (stats\<lparr>qs_Pending := pending, qs_Consumers := consumers\<rparr>, None))))"

section \<open>Acknowledging\<close>

lemma IndexBlock_ok_visible:
  assumes "IndexBlock cl env fetch c h st = (st', Ok ())" "honest_fetch cl fetch c"
  shows "visible_blocks st' c h"
proof -
  have "index_height (DefaultConfig) cl (\<lambda>_ _. env) (\<lambda>_. fetch) c 0 h st = (st', Ok ())"
    using assms(1) by (simp add: index_height_def DefaultConfig_def)
  then show ?thesis
    by (rule index_height_cases) (use assms(2) in \<open>auto dest: blocks_after_run(3)\<close>)
qed

text \<open>A chain that the registry knows is never \<open>ErrChainNotConfigured\<close> to \<open>IndexBlock\<close>, and one it does not know
  fails before the chain is looked up, with another error.\<close>

lemma IndexBlock_dom:
  assumes "IndexBlock cl env fetch c h st = (st', res)"
  shows "idx_chains st' = idx_chains st" "idx_rpcClients st' = idx_rpcClients st"
proof -
  have "idx_chains st' = idx_chains st \<and> idx_rpcClients st' = idx_rpcClients st"
  proof (cases "st' = st")
    case False
    then obtain data where run: "IndexBlockWithData cl env (Some data) st = (st', res)"
      using assms by (auto simp: IndexBlock_def split: outcome.splits sum.splits)
    show ?thesis
    proof (cases "idx_chains st (bd_ChainID data)")
      case None
      then show ?thesis using run by (simp add: IndexBlockWithData_def)
    next
      case (Some db)
      from run Some show ?thesis by (cases rule: IndexBlockWithData_cases) simp_all
    qed
  qed simp
  then show "idx_chains st' = idx_chains st" "idx_rpcClients st' = idx_rpcClients st" by simp_all
qed

lemma deliveries_ack:
  assumes "deliveries cl ds payload st = (st', True, n)" "decode_payload payload = Some (c, h)"
    and "\<forall>(env, fetch) \<in> set ds. honest_fetch cl fetch c"
  shows "visible_blocks st' c h"
  using assms(1,3)
proof (induction ds arbitrary: st n)
  case (Cons d ds)
  obtain env fetch where d: "d = (env, fetch)" by fastforce
  obtain st1 res where run: "IndexBlock cl env fetch c h st = (st1, res)" by fastforce
  show ?case
  proof (cases res)
    case (Ok u)
    then show ?thesis
      using Cons.prems run IndexBlock_ok_visible [of cl env fetch c h st st1]
      by (auto simp: d handleBlock_def assms(2))
  qed (use Cons.prems Cons.IH run in \<open>auto simp: d handleBlock_def assms(2) split: prod.splits if_splits\<close>)
qed simp

lemma deliveries_unconfigured:
  assumes "idx_rpcClients st c = None"
  shows "deliveries cl ds (block_payload c h) st = (st, False, 5 * length ds)"
proof (induction ds)
  case (Cons d ds)
  obtain env fetch where d: "d = (env, fetch)" by fastforce
  have "IndexBlock cl env fetch c h st =
      (st, Fail (Errorf (''no RPC client configured for chain '' @ FormatUint c)))"
    using assms by (simp add: IndexBlock_def rpcForChain_def)
  then show ?case using Cons by (simp add: d handleBlock_def)
qed simp

text \<open>
  C27. A message that the worker acknowledges names a height whose block is stored, or is no payload at all; and
  a message for a chain that the registry does not know is never acknowledged, changes nothing, and costs
  five seconds per delivery: the pause of thirty seconds for chains that are not discovered yet is not taken.
\<close>

theorem worker_ack_means_stored:
  assumes "registry_ok r"
    and "\<forall>c h. decode_payload payload = Some (c, h) \<longrightarrow> (\<forall>(env, fetch) \<in> set ds. honest_fetch cl fetch c)"
    and run: "deliveries cl ds payload (reg_idx r) = (st', ack, n)"
  shows "(ack \<longrightarrow> (case decode_payload payload of None \<Rightarrow> True | Some (c, h) \<Rightarrow> visible_blocks st' c h)) \<and>
    (\<forall>c h. payload = block_payload c h \<and> \<not> HasChain c r \<longrightarrow> \<not> ack \<and> st' = reg_idx r \<and> n = 5 * length ds)"
proof (intro conjI impI allI)
  assume ack
  then show "case decode_payload payload of None \<Rightarrow> True | Some (c, h) \<Rightarrow> visible_blocks st' c h"
    using deliveries_ack [of cl ds payload "reg_idx r" st' n] run assms(2) by (auto split: option.split)
next
  fix c h assume pay: "payload = block_payload c h \<and> \<not> HasChain c r"
  then have "c \<notin> dom (idx_rpcClients (reg_idx r))"
    unfolding registry_okD(1) [OF assms(1)] by (auto simp: HasChain_def)
  then have "idx_rpcClients (reg_idx r) c = None" by auto
  from deliveries_unconfigured [OF this, of cl ds h] show "\<not> ack" "st' = reg_idx r" "n = 5 * length ds"
    using run pay by simp_all
qed

definition worker_registry :: registry where
  "worker_registry = \<lparr>reg_idx = sample_state, reg_auto = False, reg_listeners = Map.empty,
     reg_cancels = Map.empty, reg_next = 0, reg_running = Map.empty, reg_synced = (\<lambda>_. True)\<rparr>"

theorem worker_ack_means_stored_witness:
  "\<exists>st'. deliveries sample_lib [(env_ok, sample_fetch 0)] (block_payload 5 7) (reg_idx worker_registry) = (st', True, 0) \<and>
     visible_blocks st' 5 7"
proof -
  have ok: "registry_ok worker_registry"
    by (auto simp: registry_ok_def worker_registry_def sample_state_def sample_chain_def split: if_splits)
  have job: "sample_job = (fst sample_job, Ok ())" using sample_job_run by (simp add: prod_eq_iff)
  have "IndexBlock sample_lib env_ok (sample_fetch 0) 5 7 sample_state = sample_job"
    by (simp add: sample_job_def IndexBlock_def rpcForChain_def sample_fetch_def)
  then have run: "deliveries sample_lib [(env_ok, sample_fetch 0)] (block_payload 5 7) (reg_idx worker_registry) =
      (fst sample_job, True, 0)"
    by (subst (asm) job) (simp add: worker_registry_def handleBlock_def)
  from worker_ack_means_stored [OF ok _ run] have "visible_blocks (fst sample_job) 5 7"
    using sample_honest by simp
  then show ?thesis using run by blast
qed

end
