(* ===== verification/Columns.thy ===== *)
theory Columns
  imports Prelude
begin

text \<open>
  Column definitions (pkg/db/models/indexer/column.go and the column list of each model) and the tables that
  are copied to the cross-chain schema (pkg/db/types.go). A column is skipped there, renamed, or copied under
  its own name.
\<close>

section \<open>Column definitions\<close>

record column_def =
  cd_Name :: string
  cd_CrossChainSkip :: bool
  cd_CrossChainRename :: string

definition GetCrossChainName :: "column_def \<Rightarrow> string" where
  "GetCrossChainName c =
     (if cd_CrossChainSkip c then []
      else if cd_CrossChainRename c \<noteq> [] then cd_CrossChainRename c
      else cd_Name c)"

definition GetSelectExpr :: "column_def \<Rightarrow> string" where
  "GetSelectExpr c =
     (if cd_CrossChainSkip c then []
      else if cd_CrossChainRename c \<noteq> [] then cd_Name c @ '' AS '' @ cd_CrossChainRename c
      else cd_Name c)"

definition ShouldSyncToCrossChain :: "column_def \<Rightarrow> bool" where
  "ShouldSyncToCrossChain c \<longleftrightarrow> \<not> cd_CrossChainSkip c"

definition column_Validate :: "column_def \<Rightarrow> go_error option" where
  "column_Validate c =
     (if cd_CrossChainSkip c \<and> cd_CrossChainRename c \<noteq> []
      then Some (Errorf (''column '' @ cd_Name c @ '': CrossChainSkip and CrossChainRename are mutually exclusive''))
      else if cd_Name c = [] then Some (Errorf ''column name cannot be empty'')
      else None)"

definition ColumnsToNameList :: "column_def list \<Rightarrow> string list" where
  "ColumnsToNameList columns = map cd_Name columns"

definition FilterCrossChainColumns :: "column_def list \<Rightarrow> column_def list" where
  "FilterCrossChainColumns columns = filter ShouldSyncToCrossChain columns"

definition GetCrossChainColumnNames :: "column_def list \<Rightarrow> string list" where
  "GetCrossChainColumnNames columns = filter (\<lambda>name. name \<noteq> []) (map GetCrossChainName columns)"

definition GetCrossChainSelectExprs :: "column_def list \<Rightarrow> string list" where
  "GetCrossChainSelectExprs columns = filter (\<lambda>expr. expr \<noteq> []) (map GetSelectExpr columns)"

fun ValidateColumns :: "column_def list \<Rightarrow> go_error option" where
  "ValidateColumns [] = None"
| "ValidateColumns (c # cs) = (case column_Validate c of Some err \<Rightarrow> Some err | None \<Rightarrow> ValidateColumns cs)"

text \<open>\<open>{Name: n}\<close>, \<open>{Name: n, CrossChainSkip: true}\<close> and \<open>{Name: n, CrossChainRename: r}\<close>\<close>

definition col :: "string \<Rightarrow> column_def" where
  "col n = \<lparr>cd_Name = n, cd_CrossChainSkip = False, cd_CrossChainRename = []\<rparr>"

definition skip :: "string \<Rightarrow> column_def" where
  "skip n = \<lparr>cd_Name = n, cd_CrossChainSkip = True, cd_CrossChainRename = []\<rparr>"

definition renamed :: "string \<Rightarrow> string \<Rightarrow> column_def" where
  "renamed n r = \<lparr>cd_Name = n, cd_CrossChainSkip = False, cd_CrossChainRename = r\<rparr>"

lemma column_simps [simp]:
  "cd_Name (col n) = n" "cd_Name (skip n) = n" "cd_Name (renamed n r) = n"
  "GetCrossChainName (col n) = n" "GetCrossChainName (skip n) = []"
  "r \<noteq> [] \<Longrightarrow> GetCrossChainName (renamed n r) = r"
  "cd_CrossChainSkip (col n) = False" "cd_CrossChainSkip (skip n) = True"
  "cd_CrossChainSkip (renamed n r) = False"
  by (simp_all add: col_def skip_def renamed_def GetCrossChainName_def)

section \<open>The models' columns\<close>

definition AccountColumns :: "column_def list" where
  "AccountColumns =
     [col ''address'', col ''amount'', col ''rewards'', col ''slashes'', col ''height'',
      col ''height_time'']"

definition BlockColumns :: "column_def list" where
  "BlockColumns =
     [col ''height'', col ''block_hash'', col ''height_time'', col ''network_id'', col ''parent_hash'',
      col ''proposer_address'', col ''size'', col ''num_txs'', col ''total_txs'',
      skip ''total_vdf_iterations'', skip ''state_root'', skip ''transaction_root'',
      skip ''validator_root'', skip ''next_validator_root'']"

definition BlockSummaryColumns :: "column_def list" where
  "BlockSummaryColumns =
     [col ''height'', col ''height_time'', col ''total_transactions'', col ''num_txs'',
      col ''num_txs_send'', col ''num_txs_stake'', col ''num_txs_unstake'', col ''num_txs_edit_stake'',
      col ''num_txs_start_poll'', col ''num_txs_vote_poll'', col ''num_txs_lock_order'',
      col ''num_txs_close_order'', col ''num_txs_unknown'', col ''num_txs_pause'',
      col ''num_txs_unpause'', col ''num_txs_change_parameter'', col ''num_txs_dao_transfer'',
      col ''num_txs_certificate_results'', col ''num_txs_subsidy'', col ''num_txs_create_order'',
      col ''num_txs_edit_order'', col ''num_txs_delete_order'', col ''num_txs_dex_limit_order'',
      col ''num_txs_dex_liquidity_deposit'', col ''num_txs_dex_liquidity_withdraw'',
      col ''num_accounts'', col ''num_accounts_new'', col ''num_events'', col ''num_events_reward'',
      col ''num_events_slash'', col ''num_events_dex_liquidity_deposit'',
      col ''num_events_dex_liquidity_withdraw'', col ''num_events_dex_swap'',
      col ''num_events_order_book_swap'', col ''num_events_automatic_pause'',
      col ''num_events_automatic_begin_unstaking'', col ''num_events_automatic_finish_unstaking'',
      col ''num_orders'', col ''num_orders_new'', col ''num_orders_open'', col ''num_orders_filled'',
      col ''num_orders_cancelled'', col ''num_pools'', col ''num_pools_new'', col ''num_dex_prices'',
      col ''num_dex_orders'', col ''num_dex_orders_future'', col ''num_dex_orders_locked'',
      col ''num_dex_orders_complete'', col ''num_dex_orders_success'', col ''num_dex_orders_failed'',
      col ''num_dex_deposits'', col ''num_dex_deposits_pending'', col ''num_dex_deposits_locked'',
      col ''num_dex_deposits_complete'', col ''num_dex_withdrawals'',
      col ''num_dex_withdrawals_pending'', col ''num_dex_withdrawals_locked'',
      col ''num_dex_withdrawals_complete'', col ''num_pool_points_holders'',
      col ''num_pool_points_holders_new'', col ''params_changed'', col ''num_validators'',
      col ''num_validators_new'', col ''num_validators_active'', col ''num_validators_paused'',
      col ''num_validators_unstaking'', col ''num_validator_non_signing_info'',
      col ''num_validator_non_signing_info_new'', col ''num_validator_double_signing_info'',
      col ''num_committees'', col ''num_committees_new'', col ''num_committees_subsidized'',
      col ''num_committees_retired'', col ''num_committee_validators'', col ''num_committee_payments'',
      col ''supply_changed'', col ''supply_total'', col ''supply_staked'', col ''supply_delegated_only'']"

definition CommitteeColumns :: "column_def list" where
  "CommitteeColumns =
     [renamed ''chain_id'' ''committee_chain_id'', col ''last_root_height_updated'',
      col ''last_chain_height_updated'', col ''number_of_samples'', col ''subsidized'', col ''retired'',
      col ''height'', col ''height_time'']"

definition CommitteePaymentColumns :: "column_def list" where
  "CommitteePaymentColumns =
     [col ''committee_id'', col ''address'', col ''percent'', col ''height'', col ''height_time'']"

definition CommitteeValidatorColumns :: "column_def list" where
  "CommitteeValidatorColumns =
     [col ''committee_id'', renamed ''validator_address'' ''address'', col ''staked_amount'',
      col ''status'', col ''delegate'', col ''compound'', col ''height'', col ''height_time'',
      col ''subsidized'', col ''retired'']"

definition DexDepositColumns :: "column_def list" where
  "DexDepositColumns =
     [col ''order_id'', col ''height'', col ''height_time'', col ''committee'', col ''address'',
      col ''amount'', col ''state'', col ''local_origin'', col ''points_received'']"

definition DexOrderColumns :: "column_def list" where
  "DexOrderColumns =
     [col ''order_id'', col ''height'', col ''height_time'', col ''committee'', col ''address'',
      col ''amount_for_sale'', col ''requested_amount'', col ''state'', col ''success'',
      col ''sold_amount'', col ''bought_amount'', col ''local_origin'', col ''locked_height'']"

definition DexPriceColumns :: "column_def list" where
  "DexPriceColumns =
     [col ''local_chain_id'', col ''remote_chain_id'', col ''height'', col ''local_pool'',
      col ''remote_pool'', col ''price_e6'', col ''height_time'', col ''price_delta'',
      col ''local_pool_delta'', col ''remote_pool_delta'']"

definition DexWithdrawalColumns :: "column_def list" where
  "DexWithdrawalColumns =
     [col ''order_id'', col ''height'', col ''height_time'', col ''committee'', col ''address'',
      col ''percent'', col ''state'', col ''local_amount'', col ''remote_amount'', col ''points_burned'']"

definition EventColumns :: "column_def list" where
  "EventColumns =
     [col ''height'', renamed ''chain_id'' ''event_chain_id'', col ''address'', col ''reference'',
      col ''event_type'', col ''block_height'', col ''amount'', col ''sold_amount'',
      col ''bought_amount'', col ''local_amount'', col ''remote_amount'', col ''success'',
      col ''local_origin'', col ''order_id'', col ''points_received'', col ''points_burned'',
      col ''data'', col ''seller_receive_address'', col ''buyer_send_address'',
      col ''sellers_send_address'', col ''msg'', col ''height_time'']"

definition LPPositionSnapshotColumns :: "column_def list" where
  "LPPositionSnapshotColumns =
     [col ''source_chain_id'', col ''address'', col ''pool_id'', col ''snapshot_date'',
      col ''snapshot_height'', col ''snapshot_balance'', col ''pool_share_percentage'',
      col ''position_created_date'', col ''position_closed_date'', col ''is_position_active'',
      col ''computed_at'', col ''updated_at'']"

definition OrderColumns :: "column_def list" where
  "OrderColumns =
     [col ''order_id'', col ''height'', col ''height_time'', col ''committee'', col ''data'',
      col ''amount_for_sale'', col ''requested_amount'', col ''seller_receive_address'',
      col ''buyer_send_address'', col ''buyer_receive_address'', col ''buyer_chain_deadline'',
      col ''sellers_send_address'', col ''status'']"

definition ParamsColumns :: "column_def list" where
  "ParamsColumns =
     [col ''height'', col ''height_time'', col ''block_size'', col ''protocol_version'',
      col ''root_chain_id'', col ''retired'', col ''unstaking_blocks'', col ''max_pause_blocks'',
      col ''double_sign_slash_percentage'', col ''non_sign_slash_percentage'', col ''max_non_sign'',
      col ''non_sign_window'', col ''max_committees'', col ''max_committee_size'',
      col ''early_withdrawal_penalty'', col ''delegate_unstaking_blocks'', col ''minimum_order_size'',
      col ''stake_percent_for_subsidized'', col ''max_slash_per_committee'',
      col ''delegate_reward_percentage'', col ''buy_deadline_blocks'', col ''lock_order_fee_multiplier'',
      col ''minimum_stake_for_validators'', col ''minimum_stake_for_delegates'',
      col ''maximum_delegates_per_committee'', col ''send_fee'', col ''stake_fee'',
      col ''edit_stake_fee'', col ''unstake_fee'', col ''pause_fee'', col ''unpause_fee'',
      col ''change_parameter_fee'', col ''dao_transfer_fee'', col ''certificate_results_fee'',
      col ''subsidy_fee'', col ''create_order_fee'', col ''edit_order_fee'', col ''delete_order_fee'',
      col ''dex_limit_order_fee'', col ''dex_liquidity_deposit_fee'', col ''dex_liquidity_withdraw_fee'',
      col ''dao_reward_percentage'']"

definition PollSnapshotColumns :: "column_def list" where
  "PollSnapshotColumns =
     [col ''proposal_hash'', col ''proposal_url'', col ''accounts_approve_tokens'',
      col ''accounts_reject_tokens'', col ''accounts_total_voted_tokens'', col ''accounts_total_tokens'',
      col ''accounts_approve_percentage'', col ''accounts_reject_percentage'',
      col ''accounts_voted_percentage'', col ''validators_approve_tokens'',
      col ''validators_reject_tokens'', col ''validators_total_voted_tokens'',
      col ''validators_total_tokens'', col ''validators_approve_percentage'',
      col ''validators_reject_percentage'', col ''validators_voted_percentage'', col ''snapshot_time'']"

definition PoolColumns :: "column_def list" where
  "PoolColumns =
     [col ''pool_id'', col ''height'', renamed ''chain_id'' ''pool_chain_id'', col ''amount'',
      col ''total_points'', col ''lp_count'', col ''height_time'', col ''liquidity_pool_id'',
      col ''holding_pool_id'', col ''escrow_pool_id'', col ''reward_pool_id'', col ''amount_delta'',
      col ''total_points_delta'', col ''lp_count_delta'']"

definition PoolPointsByHolderColumns :: "column_def list" where
  "PoolPointsByHolderColumns =
     [col ''address'', col ''pool_id'', col ''height'', col ''height_time'', col ''committee'',
      col ''points'', col ''liquidity_pool_points'', col ''liquidity_pool_id'', col ''pool_amount'']"

definition ProposalSnapshotColumns :: "column_def list" where
  "ProposalSnapshotColumns =
     [col ''proposal_hash'', col ''proposal'', col ''approve'', col ''snapshot_time'',
      col ''proposal_type'', col ''signer'', col ''start_height'', col ''end_height'',
      col ''parameter_space'', col ''parameter_key'', col ''parameter_value'',
      col ''dao_transfer_address'', col ''dao_transfer_amount'']"

definition SupplyColumns :: "column_def list" where
  "SupplyColumns =
     [col ''total'', col ''staked'', col ''delegated_only'', col ''height'', col ''height_time'']"

definition TransactionColumns :: "column_def list" where
  "TransactionColumns =
     [col ''height'', col ''tx_hash'', col ''tx_index'', col ''time'', col ''height_time'',
      col ''created_height'', col ''network_id'', col ''message_type'', col ''signer'', col ''amount'',
      col ''fee'', col ''memo'', col ''validator_address'', col ''commission'',
      renamed ''chain_id'' ''tx_chain_id'', col ''sell_amount'', col ''buy_amount'',
      col ''liquidity_amount'', col ''liquidity_percent'', col ''order_id'', col ''price'',
      col ''param_key'', col ''param_value'', col ''committee_id'', col ''recipient'', col ''poll_hash'',
      col ''buyer_receive_address'', col ''buyer_send_address'', col ''buyer_chain_deadline'',
      col ''msg'', col ''public_key'', col ''signature'']"

definition ValidatorColumns :: "column_def list" where
  "ValidatorColumns =
     [col ''address'', col ''public_key'', col ''net_address'', col ''staked_amount'',
      col ''max_paused_height'', col ''unstaking_height'', col ''output'', col ''delegate'',
      col ''compound'', col ''status'', col ''height'', col ''height_time'']"

definition ValidatorDoubleSigningInfoColumns :: "column_def list" where
  "ValidatorDoubleSigningInfoColumns =
     [col ''address'', col ''evidence_count'', col ''first_evidence_height'',
      col ''last_evidence_height'', col ''height'', col ''height_time'']"

definition ValidatorNonSigningInfoColumns :: "column_def list" where
  "ValidatorNonSigningInfoColumns =
     [col ''address'', col ''missed_blocks_count'', col ''last_signed_height'', col ''height'',
      col ''height_time'']"

section \<open>The tables that are synchronized\<close>

record table_config =
  tc_TableName :: string
  tc_PrimaryKey :: "string list"
  tc_HasAddressColumn :: bool
  tc_ColumnNames :: "string list"

definition table_config_of :: "string \<Rightarrow> string list \<Rightarrow> bool \<Rightarrow> column_def list \<Rightarrow> table_config" where
  "table_config_of name key has_address columns =
     \<lparr>tc_TableName = name, tc_PrimaryKey = key, tc_HasAddressColumn = has_address,
      tc_ColumnNames = GetCrossChainColumnNames columns\<rparr>"

definition GetTableConfigs :: "table_config list" where
  "GetTableConfigs =
     [table_config_of ''accounts'' [''chain_id'', ''address''] True AccountColumns,
      table_config_of ''validators'' [''chain_id'', ''address''] True ValidatorColumns,
      table_config_of ''validator_non_signing_info'' [''chain_id'', ''address''] True ValidatorNonSigningInfoColumns,
      table_config_of ''validator_double_signing_info'' [''chain_id'', ''address''] True ValidatorDoubleSigningInfoColumns,
      table_config_of ''pools'' [''chain_id'', ''pool_id''] False PoolColumns,
      table_config_of ''pool_points_by_holder'' [''chain_id'', ''address'', ''pool_id''] True PoolPointsByHolderColumns,
      table_config_of ''orders'' [''chain_id'', ''order_id''] False OrderColumns,
      table_config_of ''dex_orders'' [''chain_id'', ''order_id''] False DexOrderColumns,
      table_config_of ''dex_deposits'' [''chain_id'', ''order_id''] False DexDepositColumns,
      table_config_of ''dex_withdrawals'' [''chain_id'', ''order_id''] False DexWithdrawalColumns,
      table_config_of ''blocks'' [''chain_id'', ''height''] False BlockColumns,
      table_config_of ''block_summaries'' [''chain_id'', ''height''] False BlockSummaryColumns,
      table_config_of ''committee_payments'' [''chain_id'', ''committee_id'', ''address'', ''height''] True CommitteePaymentColumns,
      table_config_of ''events'' [''chain_id'', ''height'', ''tx_index'', ''event_index''] False EventColumns,
      table_config_of ''txs'' [''chain_id'', ''height'', ''tx_index''] False TransactionColumns]"

text \<open>\<open>GetColumnDefsForTable\<close> returns nil for a table that is not synchronized.\<close>

definition GetColumnDefsForTable :: "string \<Rightarrow> column_def list option" where
  "GetColumnDefsForTable tableName =
     map_of
       [(''accounts'', AccountColumns),
        (''validators'', ValidatorColumns),
        (''validator_non_signing_info'', ValidatorNonSigningInfoColumns),
        (''validator_double_signing_info'', ValidatorDoubleSigningInfoColumns),
        (''pools'', PoolColumns),
        (''pool_points_by_holder'', PoolPointsByHolderColumns),
        (''orders'', OrderColumns),
        (''dex_orders'', DexOrderColumns),
        (''dex_deposits'', DexDepositColumns),
        (''dex_withdrawals'', DexWithdrawalColumns),
        (''blocks'', BlockColumns),
        (''block_summaries'', BlockSummaryColumns),
        (''committee_payments'', CommitteePaymentColumns),
        (''events'', EventColumns),
        (''txs'', TransactionColumns)] tableName"

end
