(* ===== verification/Schema.thy ===== *)
theory Schema
  imports Columns "HOL-Library.Sublist"
begin

text \<open>
  The tables of the two schemas, as their \<open>CREATE TABLE\<close> statements declare them (pkg/db/postgres/chain and
  pkg/db/postgres/crosschain/tables.go), and the insert statements of the chain store
  (pkg/db/postgres/chain/inserts.go), with a checker for statements against tables. Indexes and the values of
  defaults are left out. A primary key that is declared with its column is a key of one column.
\<close>

section \<open>Tables\<close>

datatype sql_type = Bigint | Integer | Smallint | Text | Timestamptz | Boolean | Double | Enum string

record sql_column =
  sc_Name :: string
  sc_Type :: sql_type
  sc_NotNull :: bool
  sc_Default :: bool

record sql_table =
  st_Name :: string
  st_Key :: "string list"
  st_Columns :: "sql_column list"

definition required :: "string \<Rightarrow> sql_type \<Rightarrow> sql_column" where
  "required n t = \<lparr>sc_Name = n, sc_Type = t, sc_NotNull = True, sc_Default = False\<rparr>"

definition required_default :: "string \<Rightarrow> sql_type \<Rightarrow> sql_column" where
  "required_default n t = \<lparr>sc_Name = n, sc_Type = t, sc_NotNull = True, sc_Default = True\<rparr>"

definition nullable :: "string \<Rightarrow> sql_type \<Rightarrow> sql_column" where
  "nullable n t = \<lparr>sc_Name = n, sc_Type = t, sc_NotNull = False, sc_Default = False\<rparr>"

definition with_default :: "string \<Rightarrow> sql_type \<Rightarrow> sql_column" where
  "with_default n t = \<lparr>sc_Name = n, sc_Type = t, sc_NotNull = False, sc_Default = True\<rparr>"

definition make_table :: "string \<Rightarrow> string list \<Rightarrow> sql_column list \<Rightarrow> sql_table" where
  "make_table n key cs = \<lparr>st_Name = n, st_Key = key, st_Columns = cs\<rparr>"

text \<open>The enum types, by name.\<close>

definition crosschain_enums :: "(string \<times> string list) list" where
  "crosschain_enums =
     [(''validator_status'', [''active'', ''paused'', ''unstaking'']),
      (''order_status'', [''open'', ''complete'', ''canceled'']),
      (''dex_order_state'', [''future'', ''locked'', ''complete'']),
      (''dex_deposit_state'', [''pending'', ''locked'', ''complete'']),
      (''dex_withdrawal_state'', [''pending'', ''locked'', ''complete''])]"

definition chain_enums :: "(string \<times> string list) list" where
  "chain_enums = [(''validator_status'', [''active'', ''paused'', ''unstaking''])]"

section \<open>The cross-chain schema and a chain's schema\<close>

definition crosschain_blocks :: sql_table where
  "crosschain_blocks = make_table ''blocks'' [''chain_id'', ''height'']
     [required ''chain_id'' Bigint, required ''height'' Bigint, required ''block_hash'' Text,
      required ''height_time'' Timestamptz, required ''network_id'' Integer,
      nullable ''parent_hash'' Text, nullable ''proposer_address'' Text, nullable ''size'' Integer,
      required_default ''num_txs'' Bigint, required_default ''total_txs'' Bigint,
      required_default ''created_at'' Timestamptz, required_default ''updated_at'' Timestamptz]"

definition crosschain_block_summaries :: sql_table where
  "crosschain_block_summaries = make_table ''block_summaries'' [''chain_id'', ''height'']
     [required ''chain_id'' Bigint, required ''height'' Bigint, required ''height_time'' Timestamptz,
      required_default ''total_transactions'' Bigint, required_default ''num_txs'' Integer,
      required_default ''num_txs_send'' Integer, required_default ''num_txs_stake'' Integer,
      required_default ''num_txs_unstake'' Integer, required_default ''num_txs_edit_stake'' Integer,
      required_default ''num_txs_start_poll'' Integer, required_default ''num_txs_vote_poll'' Integer,
      required_default ''num_txs_lock_order'' Integer, required_default ''num_txs_close_order'' Integer,
      required_default ''num_txs_unknown'' Integer, required_default ''num_txs_pause'' Integer,
      required_default ''num_txs_unpause'' Integer,
      required_default ''num_txs_change_parameter'' Integer,
      required_default ''num_txs_dao_transfer'' Integer,
      required_default ''num_txs_certificate_results'' Integer,
      required_default ''num_txs_subsidy'' Integer, required_default ''num_txs_create_order'' Integer,
      required_default ''num_txs_edit_order'' Integer, required_default ''num_txs_delete_order'' Integer,
      required_default ''num_txs_dex_limit_order'' Integer,
      required_default ''num_txs_dex_liquidity_deposit'' Integer,
      required_default ''num_txs_dex_liquidity_withdraw'' Integer,
      required_default ''num_accounts'' Integer, required_default ''num_accounts_new'' Integer,
      required_default ''num_events'' Integer, required_default ''num_events_reward'' Integer,
      required_default ''num_events_slash'' Integer,
      required_default ''num_events_dex_liquidity_deposit'' Integer,
      required_default ''num_events_dex_liquidity_withdraw'' Integer,
      required_default ''num_events_dex_swap'' Integer,
      required_default ''num_events_order_book_swap'' Integer,
      required_default ''num_events_automatic_pause'' Integer,
      required_default ''num_events_automatic_begin_unstaking'' Integer,
      required_default ''num_events_automatic_finish_unstaking'' Integer,
      required_default ''num_orders'' Integer, required_default ''num_orders_new'' Integer,
      required_default ''num_orders_open'' Integer, required_default ''num_orders_filled'' Integer,
      required_default ''num_orders_cancelled'' Integer, required_default ''num_pools'' Integer,
      required_default ''num_pools_new'' Integer, required_default ''num_dex_prices'' Integer,
      required_default ''num_dex_orders'' Integer, required_default ''num_dex_orders_future'' Integer,
      required_default ''num_dex_orders_locked'' Integer,
      required_default ''num_dex_orders_complete'' Integer,
      required_default ''num_dex_orders_success'' Integer,
      required_default ''num_dex_orders_failed'' Integer, required_default ''num_dex_deposits'' Integer,
      required_default ''num_dex_deposits_pending'' Integer,
      required_default ''num_dex_deposits_locked'' Integer,
      required_default ''num_dex_deposits_complete'' Integer,
      required_default ''num_dex_withdrawals'' Integer,
      required_default ''num_dex_withdrawals_pending'' Integer,
      required_default ''num_dex_withdrawals_locked'' Integer,
      required_default ''num_dex_withdrawals_complete'' Integer,
      required_default ''num_pool_points_holders'' Integer,
      required_default ''num_pool_points_holders_new'' Integer,
      required_default ''params_changed'' Boolean, required_default ''num_validators'' Integer,
      required_default ''num_validators_new'' Integer,
      required_default ''num_validators_active'' Integer,
      required_default ''num_validators_paused'' Integer,
      required_default ''num_validators_unstaking'' Integer,
      required_default ''num_validator_non_signing_info'' Integer,
      required_default ''num_validator_non_signing_info_new'' Integer,
      required_default ''num_validator_double_signing_info'' Integer,
      required_default ''num_committees'' Integer, required_default ''num_committees_new'' Integer,
      required_default ''num_committees_subsidized'' Integer,
      required_default ''num_committees_retired'' Integer,
      required_default ''num_committee_validators'' Integer,
      required_default ''num_committee_payments'' Integer, required_default ''supply_changed'' Boolean,
      required_default ''supply_total'' Bigint, required_default ''supply_staked'' Bigint,
      required_default ''supply_delegated_only'' Bigint, required_default ''created_at'' Timestamptz,
      required_default ''updated_at'' Timestamptz]"

definition crosschain_txs :: sql_table where
  "crosschain_txs = make_table ''txs'' [''chain_id'', ''height'', ''tx_hash'']
     [required ''chain_id'' Bigint, required ''height'' Bigint, required ''height_time'' Timestamptz,
      required ''tx_hash'' Text, required ''tx_index'' Integer, required ''tx_time'' Timestamptz,
      required ''created_height'' Bigint, required ''network_id'' Bigint, required ''message_type'' Text,
      required ''signer'' Text, nullable ''amount'' Bigint, required_default ''fee'' Bigint,
      nullable ''memo'' Text, nullable ''validator_address'' Text, nullable ''commission'' Double,
      nullable ''tx_chain_id'' Bigint, nullable ''sell_amount'' Bigint, nullable ''buy_amount'' Bigint,
      nullable ''liquidity_amount'' Bigint, nullable ''liquidity_percent'' Bigint,
      nullable ''order_id'' Text, nullable ''price'' Double, nullable ''param_key'' Text,
      nullable ''param_value'' Text, nullable ''committee_id'' Bigint, nullable ''recipient'' Text,
      nullable ''poll_hash'' Text, nullable ''buyer_receive_address'' Text,
      nullable ''buyer_send_address'' Text, nullable ''buyer_chain_deadline'' Bigint,
      required ''msg'' Text, nullable ''public_key'' Text, nullable ''signature'' Text,
      required_default ''created_at'' Timestamptz, required_default ''updated_at'' Timestamptz]"

definition crosschain_events :: sql_table where
  "crosschain_events = make_table ''events'' [''height'', ''chain_id'', ''event_chain_id'', ''address'', ''reference'', ''event_type'']
     [required ''chain_id'' Bigint, required ''height'' Bigint, required ''height_time'' Timestamptz,
      required ''event_chain_id'' Bigint, required ''address'' Text, required ''reference'' Text,
      required ''event_type'' Text, required ''block_height'' Bigint, with_default ''amount'' Bigint,
      with_default ''sold_amount'' Bigint, with_default ''bought_amount'' Bigint,
      with_default ''local_amount'' Bigint, with_default ''remote_amount'' Bigint,
      with_default ''success'' Boolean, with_default ''local_origin'' Boolean,
      with_default ''order_id'' Text, with_default ''points_received'' Bigint,
      with_default ''points_burned'' Bigint, with_default ''data'' Text,
      with_default ''seller_receive_address'' Text, with_default ''buyer_send_address'' Text,
      with_default ''sellers_send_address'' Text, required ''msg'' Text,
      required_default ''created_at'' Timestamptz, required_default ''updated_at'' Timestamptz]"

definition crosschain_accounts :: sql_table where
  "crosschain_accounts = make_table ''accounts'' [''chain_id'', ''address'', ''height'']
     [required ''chain_id'' Bigint, required ''address'' Text, required_default ''amount'' Bigint,
      required_default ''rewards'' Bigint, required_default ''slashes'' Bigint,
      required ''height'' Bigint, required ''height_time'' Timestamptz,
      required_default ''created_at'' Timestamptz, required_default ''updated_at'' Timestamptz]"

definition crosschain_validators :: sql_table where
  "crosschain_validators = make_table ''validators'' [''chain_id'', ''address'', ''height'']
     [required ''chain_id'' Bigint, required ''address'' Text, required ''public_key'' Text,
      required ''net_address'' Text, required_default ''staked_amount'' Bigint,
      required_default ''max_paused_height'' Bigint, required_default ''unstaking_height'' Bigint,
      required ''output'' Text, required_default ''delegate'' Boolean,
      required_default ''compound'' Boolean, required_default ''status'' (Enum ''validator_status''),
      required ''height'' Bigint, required ''height_time'' Timestamptz,
      required_default ''created_at'' Timestamptz, required_default ''updated_at'' Timestamptz]"

definition crosschain_validator_non_signing_info :: sql_table where
  "crosschain_validator_non_signing_info = make_table ''validator_non_signing_info'' [''chain_id'', ''address'', ''height'']
     [required ''chain_id'' Bigint, required ''address'' Text,
      required_default ''missed_blocks_count'' Bigint, required_default ''last_signed_height'' Bigint,
      required ''height'' Bigint, required ''height_time'' Timestamptz,
      required_default ''created_at'' Timestamptz, required_default ''updated_at'' Timestamptz]"

definition crosschain_validator_double_signing_info :: sql_table where
  "crosschain_validator_double_signing_info = make_table ''validator_double_signing_info'' [''chain_id'', ''address'', ''height'']
     [required ''chain_id'' Bigint, required ''address'' Text,
      required_default ''evidence_count'' Bigint, required_default ''first_evidence_height'' Bigint,
      required_default ''last_evidence_height'' Bigint, required ''height'' Bigint,
      required ''height_time'' Timestamptz, required_default ''created_at'' Timestamptz,
      required_default ''updated_at'' Timestamptz]"

definition crosschain_committees :: sql_table where
  "crosschain_committees = make_table ''committees'' [''chain_id'', ''committee_chain_id'', ''height'']
     [required ''chain_id'' Bigint, required ''committee_chain_id'' Bigint,
      required_default ''last_root_height_updated'' Bigint,
      required_default ''last_chain_height_updated'' Bigint,
      required_default ''number_of_samples'' Bigint, required_default ''subsidized'' Boolean,
      required_default ''retired'' Boolean, required ''height'' Bigint,
      required ''height_time'' Timestamptz, required_default ''created_at'' Timestamptz,
      required_default ''updated_at'' Timestamptz]"

definition crosschain_committee_validators :: sql_table where
  "crosschain_committee_validators = make_table ''committee_validators'' [''chain_id'', ''committee_id'', ''address'', ''height'']
     [required ''chain_id'' Bigint, required ''committee_id'' Bigint, required ''address'' Text,
      required_default ''staked_amount'' Bigint, required_default ''status'' (Enum ''validator_status''),
      required_default ''delegate'' Boolean, required_default ''compound'' Boolean,
      required ''height'' Bigint, required ''height_time'' Timestamptz,
      required_default ''created_at'' Timestamptz, required_default ''updated_at'' Timestamptz]"

definition crosschain_committee_payments :: sql_table where
  "crosschain_committee_payments = make_table ''committee_payments'' [''chain_id'', ''committee_id'', ''address'', ''height'']
     [required ''chain_id'' Bigint, required ''committee_id'' Bigint, required ''address'' Text,
      required_default ''percent'' Bigint, required ''height'' Bigint,
      required ''height_time'' Timestamptz, required_default ''created_at'' Timestamptz,
      required_default ''updated_at'' Timestamptz]"

definition crosschain_pools :: sql_table where
  "crosschain_pools = make_table ''pools'' [''chain_id'', ''pool_id'', ''height'']
     [required ''chain_id'' Bigint, required ''pool_id'' Bigint, required ''pool_chain_id'' Bigint,
      required_default ''amount'' Bigint, required_default ''total_points'' Bigint,
      required_default ''lp_count'' Integer, required ''height'' Bigint,
      required ''height_time'' Timestamptz, required_default ''liquidity_pool_id'' Bigint,
      required_default ''holding_pool_id'' Bigint, required_default ''escrow_pool_id'' Bigint,
      required_default ''reward_pool_id'' Bigint, required_default ''amount_delta'' Bigint,
      required_default ''total_points_delta'' Bigint, required_default ''lp_count_delta'' Integer,
      required_default ''created_at'' Timestamptz, required_default ''updated_at'' Timestamptz]"

definition crosschain_pool_points_by_holder :: sql_table where
  "crosschain_pool_points_by_holder = make_table ''pool_points_by_holder'' [''chain_id'', ''address'', ''pool_id'', ''height'']
     [required ''chain_id'' Bigint, required ''address'' Text, required ''pool_id'' Bigint,
      required ''committee'' Bigint, required_default ''points'' Bigint,
      required_default ''liquidity_pool_points'' Bigint, required_default ''liquidity_pool_id'' Bigint,
      required ''height'' Bigint, required ''height_time'' Timestamptz,
      required_default ''created_at'' Timestamptz, required_default ''updated_at'' Timestamptz]"

definition crosschain_orders :: sql_table where
  "crosschain_orders = make_table ''orders'' [''chain_id'', ''order_id'', ''height'']
     [required ''chain_id'' Bigint, required ''order_id'' Text, required ''committee'' Bigint,
      nullable ''data'' Text, required_default ''amount_for_sale'' Bigint,
      required_default ''requested_amount'' Bigint, required ''seller_receive_address'' Text,
      nullable ''buyer_send_address'' Text, nullable ''buyer_receive_address'' Text,
      required_default ''buyer_chain_deadline'' Bigint, nullable ''sellers_send_address'' Text,
      required_default ''status'' (Enum ''order_status''), required ''height'' Bigint,
      required ''height_time'' Timestamptz, required_default ''created_at'' Timestamptz,
      required_default ''updated_at'' Timestamptz]"

definition crosschain_dex_orders :: sql_table where
  "crosschain_dex_orders = make_table ''dex_orders'' [''chain_id'', ''order_id'', ''height'']
     [required ''chain_id'' Bigint, required ''order_id'' Text, required ''committee'' Bigint,
      required ''address'' Text, required_default ''amount_for_sale'' Bigint,
      required_default ''requested_amount'' Bigint,
      required_default ''state'' (Enum ''dex_order_state''), required_default ''success'' Boolean,
      required_default ''sold_amount'' Bigint, required_default ''bought_amount'' Bigint,
      required_default ''local_origin'' Boolean, required_default ''locked_height'' Bigint,
      required ''height'' Bigint, required ''height_time'' Timestamptz,
      required_default ''created_at'' Timestamptz, required_default ''updated_at'' Timestamptz]"

definition crosschain_dex_deposits :: sql_table where
  "crosschain_dex_deposits = make_table ''dex_deposits'' [''chain_id'', ''order_id'', ''height'']
     [required ''chain_id'' Bigint, required ''order_id'' Text, required ''committee'' Bigint,
      required ''address'' Text, required_default ''amount'' Bigint,
      required_default ''state'' (Enum ''dex_deposit_state''), required_default ''local_origin'' Boolean,
      required_default ''points_received'' Bigint, required ''height'' Bigint,
      required ''height_time'' Timestamptz, required_default ''created_at'' Timestamptz,
      required_default ''updated_at'' Timestamptz]"

definition crosschain_dex_withdrawals :: sql_table where
  "crosschain_dex_withdrawals = make_table ''dex_withdrawals'' [''chain_id'', ''order_id'', ''height'']
     [required ''chain_id'' Bigint, required ''order_id'' Text, required ''committee'' Bigint,
      required ''address'' Text, required_default ''percent'' Bigint,
      required_default ''state'' (Enum ''dex_withdrawal_state''),
      required_default ''local_amount'' Bigint, required_default ''remote_amount'' Bigint,
      required_default ''points_burned'' Bigint, required ''height'' Bigint,
      required ''height_time'' Timestamptz, required_default ''created_at'' Timestamptz,
      required_default ''updated_at'' Timestamptz]"

definition crosschain_dex_prices :: sql_table where
  "crosschain_dex_prices = make_table ''dex_prices'' [''chain_id'', ''local_chain_id'', ''remote_chain_id'', ''height'']
     [required ''chain_id'' Bigint, required ''local_chain_id'' Integer,
      required ''remote_chain_id'' Integer, required ''height'' Bigint,
      required ''height_time'' Timestamptz, required_default ''local_pool'' Bigint,
      required_default ''remote_pool'' Bigint, required_default ''price_e6'' Bigint,
      required_default ''price_delta'' Bigint, required_default ''local_pool_delta'' Bigint,
      required_default ''remote_pool_delta'' Bigint, required_default ''created_at'' Timestamptz,
      required_default ''updated_at'' Timestamptz]"

definition crosschain_params :: sql_table where
  "crosschain_params = make_table ''params'' [''chain_id'', ''height'']
     [required ''chain_id'' Bigint, required ''height'' Bigint, required ''height_time'' Timestamptz,
      required_default ''block_size'' Bigint, nullable ''protocol_version'' Text,
      required_default ''root_chain_id'' Integer, required_default ''retired'' Bigint,
      required_default ''unstaking_blocks'' Bigint, required_default ''max_pause_blocks'' Bigint,
      required_default ''double_sign_slash_percentage'' Bigint,
      required_default ''non_sign_slash_percentage'' Bigint, required_default ''max_non_sign'' Bigint,
      required_default ''non_sign_window'' Bigint, required_default ''max_committees'' Bigint,
      required_default ''max_committee_size'' Bigint,
      required_default ''early_withdrawal_penalty'' Bigint,
      required_default ''delegate_unstaking_blocks'' Bigint,
      required_default ''minimum_order_size'' Bigint,
      required_default ''stake_percent_for_subsidized'' Bigint,
      required_default ''max_slash_per_committee'' Bigint,
      required_default ''delegate_reward_percentage'' Bigint,
      required_default ''buy_deadline_blocks'' Bigint,
      required_default ''lock_order_fee_multiplier'' Bigint,
      required_default ''minimum_stake_for_validators'' Bigint,
      required_default ''minimum_stake_for_delegates'' Bigint,
      required_default ''maximum_delegates_per_committee'' Bigint, required_default ''send_fee'' Bigint,
      required_default ''stake_fee'' Bigint, required_default ''edit_stake_fee'' Bigint,
      required_default ''unstake_fee'' Bigint, required_default ''pause_fee'' Bigint,
      required_default ''unpause_fee'' Bigint, required_default ''change_parameter_fee'' Bigint,
      required_default ''dao_transfer_fee'' Bigint, required_default ''certificate_results_fee'' Bigint,
      required_default ''subsidy_fee'' Bigint, required_default ''create_order_fee'' Bigint,
      required_default ''edit_order_fee'' Bigint, required_default ''delete_order_fee'' Bigint,
      required_default ''dex_limit_order_fee'' Bigint,
      required_default ''dex_liquidity_deposit_fee'' Bigint,
      required_default ''dex_liquidity_withdraw_fee'' Bigint,
      required_default ''dao_reward_percentage'' Bigint, required_default ''created_at'' Timestamptz,
      required_default ''updated_at'' Timestamptz]"

definition crosschain_supply :: sql_table where
  "crosschain_supply = make_table ''supply'' [''chain_id'', ''height'']
     [required ''chain_id'' Bigint, required_default ''total'' Bigint,
      required_default ''staked'' Bigint, required_default ''delegated_only'' Bigint,
      required ''height'' Bigint, required ''height_time'' Timestamptz,
      required_default ''created_at'' Timestamptz, required_default ''updated_at'' Timestamptz]"

definition crosschain_tvl_snapshots :: sql_table where
  "crosschain_tvl_snapshots = make_table ''tvl_snapshots'' [''chain_id'', ''snapshot_hour'']
     [required ''chain_id'' Bigint, required ''snapshot_hour'' Timestamptz,
      required ''snapshot_height'' Bigint, required_default ''total_staked'' Bigint,
      required_default ''total_pooled'' Bigint, required_default ''total_tvl'' Bigint,
      required_default ''computed_at'' Timestamptz]"

definition crosschain_schema :: "sql_table list" where
  "crosschain_schema =
     [crosschain_blocks, crosschain_block_summaries, crosschain_txs, crosschain_events,
      crosschain_accounts, crosschain_validators, crosschain_validator_non_signing_info,
      crosschain_validator_double_signing_info, crosschain_committees, crosschain_committee_validators,
      crosschain_committee_payments, crosschain_pools, crosschain_pool_points_by_holder,
      crosschain_orders, crosschain_dex_orders, crosschain_dex_deposits, crosschain_dex_withdrawals,
      crosschain_dex_prices, crosschain_params, crosschain_supply, crosschain_tvl_snapshots]"

definition chain_accounts :: sql_table where
  "chain_accounts = make_table ''accounts'' [''address'', ''height'']
     [required ''address'' Text, required ''height'' Bigint, required_default ''amount'' Bigint,
      required_default ''rewards'' Bigint, required_default ''slashes'' Bigint,
      required ''height_time'' Timestamptz]"

definition chain_blocks :: sql_table where
  "chain_blocks = make_table ''blocks'' [''height'']
     [required ''height'' Bigint, required ''block_hash'' Text, required ''height_time'' Timestamptz,
      required ''network_id'' Integer, nullable ''parent_hash'' Text, nullable ''proposer_address'' Text,
      nullable ''size'' Integer, required_default ''num_txs'' Bigint,
      required_default ''total_txs'' Bigint, required_default ''total_vdf_iterations'' Integer,
      nullable ''state_root'' Text, nullable ''transaction_root'' Text, nullable ''validator_root'' Text,
      nullable ''next_validator_root'' Text]"

definition chain_block_summaries :: sql_table where
  "chain_block_summaries = make_table ''block_summaries'' [''height'']
     [required ''height'' Bigint, required ''height_time'' Timestamptz,
      required_default ''total_transactions'' Bigint, required_default ''num_txs'' Integer,
      required_default ''num_txs_send'' Integer, required_default ''num_txs_stake'' Integer,
      required_default ''num_txs_unstake'' Integer, required_default ''num_txs_edit_stake'' Integer,
      required_default ''num_txs_start_poll'' Integer, required_default ''num_txs_vote_poll'' Integer,
      required_default ''num_txs_lock_order'' Integer, required_default ''num_txs_close_order'' Integer,
      required_default ''num_txs_unknown'' Integer, required_default ''num_txs_pause'' Integer,
      required_default ''num_txs_unpause'' Integer,
      required_default ''num_txs_change_parameter'' Integer,
      required_default ''num_txs_dao_transfer'' Integer,
      required_default ''num_txs_certificate_results'' Integer,
      required_default ''num_txs_subsidy'' Integer, required_default ''num_txs_create_order'' Integer,
      required_default ''num_txs_edit_order'' Integer, required_default ''num_txs_delete_order'' Integer,
      required_default ''num_txs_dex_limit_order'' Integer,
      required_default ''num_txs_dex_liquidity_deposit'' Integer,
      required_default ''num_txs_dex_liquidity_withdraw'' Integer,
      required_default ''num_accounts'' Integer, required_default ''num_accounts_new'' Integer,
      required_default ''num_events'' Integer, required_default ''num_events_reward'' Integer,
      required_default ''num_events_slash'' Integer,
      required_default ''num_events_dex_liquidity_deposit'' Integer,
      required_default ''num_events_dex_liquidity_withdraw'' Integer,
      required_default ''num_events_dex_swap'' Integer,
      required_default ''num_events_order_book_swap'' Integer,
      required_default ''num_events_automatic_pause'' Integer,
      required_default ''num_events_automatic_begin_unstaking'' Integer,
      required_default ''num_events_automatic_finish_unstaking'' Integer,
      required_default ''num_orders'' Integer, required_default ''num_orders_new'' Integer,
      required_default ''num_orders_open'' Integer, required_default ''num_orders_filled'' Integer,
      required_default ''num_orders_cancelled'' Integer, required_default ''num_pools'' Integer,
      required_default ''num_pools_new'' Integer, required_default ''num_dex_prices'' Integer,
      required_default ''num_dex_orders'' Integer, required_default ''num_dex_orders_future'' Integer,
      required_default ''num_dex_orders_locked'' Integer,
      required_default ''num_dex_orders_complete'' Integer,
      required_default ''num_dex_orders_success'' Integer,
      required_default ''num_dex_orders_failed'' Integer, required_default ''num_dex_deposits'' Integer,
      required_default ''num_dex_deposits_pending'' Integer,
      required_default ''num_dex_deposits_locked'' Integer,
      required_default ''num_dex_deposits_complete'' Integer,
      required_default ''num_dex_withdrawals'' Integer,
      required_default ''num_dex_withdrawals_pending'' Integer,
      required_default ''num_dex_withdrawals_locked'' Integer,
      required_default ''num_dex_withdrawals_complete'' Integer,
      required_default ''num_pool_points_holders'' Integer,
      required_default ''num_pool_points_holders_new'' Integer,
      required_default ''params_changed'' Boolean, required_default ''num_validators'' Integer,
      required_default ''num_validators_new'' Integer,
      required_default ''num_validators_active'' Integer,
      required_default ''num_validators_paused'' Integer,
      required_default ''num_validators_unstaking'' Integer,
      required_default ''num_validator_non_signing_info'' Integer,
      required_default ''num_validator_non_signing_info_new'' Integer,
      required_default ''num_validator_double_signing_info'' Integer,
      required_default ''num_committees'' Integer, required_default ''num_committees_new'' Integer,
      required_default ''num_committees_subsidized'' Integer,
      required_default ''num_committees_retired'' Integer,
      required_default ''num_committee_validators'' Integer,
      required_default ''num_committee_payments'' Integer, required_default ''supply_changed'' Boolean,
      required_default ''supply_total'' Bigint, required_default ''supply_staked'' Bigint,
      required_default ''supply_delegated_only'' Bigint]"

definition chain_committees :: sql_table where
  "chain_committees = make_table ''committees'' [''chain_id'', ''height'']
     [required ''chain_id'' Smallint, required_default ''last_root_height_updated'' Bigint,
      required_default ''last_chain_height_updated'' Bigint,
      required_default ''number_of_samples'' Bigint, required_default ''subsidized'' Boolean,
      required_default ''retired'' Boolean, required ''height'' Bigint,
      required ''height_time'' Timestamptz]"

definition chain_committee_validators :: sql_table where
  "chain_committee_validators = make_table ''committee_validators'' [''committee_id'', ''validator_address'', ''height'']
     [required ''committee_id'' Bigint, required ''validator_address'' Text,
      required_default ''staked_amount'' Bigint, required_default ''status'' Text,
      required_default ''delegate'' Boolean, required_default ''compound'' Boolean,
      required ''height'' Bigint, required ''height_time'' Timestamptz,
      required_default ''subsidized'' Boolean, required_default ''retired'' Boolean]"

definition chain_committee_payments :: sql_table where
  "chain_committee_payments = make_table ''committee_payments'' [''committee_id'', ''address'', ''height'']
     [required ''committee_id'' Bigint, required ''address'' Text, required_default ''percent'' Bigint,
      required ''height'' Bigint, required ''height_time'' Timestamptz]"

definition chain_dex_orders :: sql_table where
  "chain_dex_orders = make_table ''dex_orders'' [''order_id'', ''height'']
     [required ''order_id'' Text, required ''height'' Bigint, required ''height_time'' Timestamptz,
      required ''committee'' Smallint, required ''address'' Text,
      required_default ''amount_for_sale'' Bigint, required_default ''requested_amount'' Bigint,
      required_default ''state'' Text, required_default ''success'' Boolean,
      required_default ''sold_amount'' Bigint, required_default ''bought_amount'' Bigint,
      required_default ''local_origin'' Boolean, required_default ''locked_height'' Bigint]"

definition chain_dex_deposits :: sql_table where
  "chain_dex_deposits = make_table ''dex_deposits'' [''order_id'', ''height'']
     [required ''order_id'' Text, required ''height'' Bigint, required ''height_time'' Timestamptz,
      required ''committee'' Smallint, required ''address'' Text, required_default ''amount'' Bigint,
      required_default ''state'' Text, required_default ''local_origin'' Boolean,
      required_default ''points_received'' Bigint]"

definition chain_dex_withdrawals :: sql_table where
  "chain_dex_withdrawals = make_table ''dex_withdrawals'' [''order_id'', ''height'']
     [required ''order_id'' Text, required ''height'' Bigint, required ''height_time'' Timestamptz,
      required ''committee'' Smallint, required ''address'' Text, required_default ''percent'' Bigint,
      required_default ''state'' Text, required_default ''local_amount'' Bigint,
      required_default ''remote_amount'' Bigint, required_default ''points_burned'' Bigint]"

definition chain_dex_prices :: sql_table where
  "chain_dex_prices = make_table ''dex_prices'' [''local_chain_id'', ''remote_chain_id'', ''height'']
     [required ''local_chain_id'' Smallint, required ''remote_chain_id'' Smallint,
      required ''height'' Bigint, required_default ''local_pool'' Bigint,
      required_default ''remote_pool'' Bigint, required_default ''price_e6'' Bigint,
      required ''height_time'' Timestamptz, required_default ''price_delta'' Bigint,
      required_default ''local_pool_delta'' Bigint, required_default ''remote_pool_delta'' Bigint]"

definition chain_events :: sql_table where
  "chain_events = make_table ''events'' [''height'', ''chain_id'', ''address'', ''reference'', ''event_type'']
     [required ''height'' Bigint, required ''chain_id'' Bigint, required ''address'' Text,
      required ''reference'' Text, required ''event_type'' Text, required ''block_height'' Bigint,
      with_default ''amount'' Bigint, with_default ''sold_amount'' Bigint,
      with_default ''bought_amount'' Bigint, with_default ''local_amount'' Bigint,
      with_default ''remote_amount'' Bigint, with_default ''success'' Boolean,
      with_default ''local_origin'' Boolean, with_default ''order_id'' Text,
      with_default ''points_received'' Bigint, with_default ''points_burned'' Bigint,
      with_default ''data'' Text, with_default ''seller_receive_address'' Text,
      with_default ''buyer_send_address'' Text, with_default ''sellers_send_address'' Text,
      required ''msg'' Text, required ''height_time'' Timestamptz,
      required_default ''created_at'' Timestamptz]"

definition chain_orders :: sql_table where
  "chain_orders = make_table ''orders'' [''order_id'', ''height'']
     [required ''order_id'' Text, required ''height'' Bigint, required ''height_time'' Timestamptz,
      required ''committee'' Smallint, with_default ''data'' Text,
      required_default ''amount_for_sale'' Bigint, required_default ''requested_amount'' Bigint,
      with_default ''seller_receive_address'' Text, with_default ''buyer_send_address'' Text,
      with_default ''buyer_receive_address'' Text, required_default ''buyer_chain_deadline'' Bigint,
      with_default ''sellers_send_address'' Text, required_default ''status'' Text]"

definition chain_params :: sql_table where
  "chain_params = make_table ''params'' [''height'']
     [required ''height'' Bigint, required ''height_time'' Timestamptz,
      required_default ''block_size'' Bigint, with_default ''protocol_version'' Text,
      required_default ''root_chain_id'' Smallint, required_default ''retired'' Bigint,
      required_default ''unstaking_blocks'' Bigint, required_default ''max_pause_blocks'' Bigint,
      required_default ''double_sign_slash_percentage'' Bigint,
      required_default ''non_sign_slash_percentage'' Bigint, required_default ''max_non_sign'' Bigint,
      required_default ''non_sign_window'' Bigint, required_default ''max_committees'' Bigint,
      required_default ''max_committee_size'' Bigint,
      required_default ''early_withdrawal_penalty'' Bigint,
      required_default ''delegate_unstaking_blocks'' Bigint,
      required_default ''minimum_order_size'' Bigint,
      required_default ''stake_percent_for_subsidized'' Bigint,
      required_default ''max_slash_per_committee'' Bigint,
      required_default ''delegate_reward_percentage'' Bigint,
      required_default ''buy_deadline_blocks'' Bigint,
      required_default ''lock_order_fee_multiplier'' Bigint,
      required_default ''minimum_stake_for_validators'' Bigint,
      required_default ''minimum_stake_for_delegates'' Bigint,
      required_default ''maximum_delegates_per_committee'' Bigint, required_default ''send_fee'' Bigint,
      required_default ''stake_fee'' Bigint, required_default ''edit_stake_fee'' Bigint,
      required_default ''unstake_fee'' Bigint, required_default ''pause_fee'' Bigint,
      required_default ''unpause_fee'' Bigint, required_default ''change_parameter_fee'' Bigint,
      required_default ''dao_transfer_fee'' Bigint, required_default ''certificate_results_fee'' Bigint,
      required_default ''subsidy_fee'' Bigint, required_default ''create_order_fee'' Bigint,
      required_default ''edit_order_fee'' Bigint, required_default ''delete_order_fee'' Bigint,
      required_default ''dex_limit_order_fee'' Bigint,
      required_default ''dex_liquidity_deposit_fee'' Bigint,
      required_default ''dex_liquidity_withdraw_fee'' Bigint,
      required_default ''dao_reward_percentage'' Bigint]"

definition chain_poll_snapshots :: sql_table where
  "chain_poll_snapshots = make_table ''poll_snapshots'' [''proposal_hash'', ''snapshot_time'']
     [required ''proposal_hash'' Text, with_default ''proposal_url'' Text,
      required_default ''accounts_approve_tokens'' Bigint,
      required_default ''accounts_reject_tokens'' Bigint,
      required_default ''accounts_total_voted_tokens'' Bigint,
      required_default ''accounts_total_tokens'' Bigint,
      required_default ''accounts_approve_percentage'' Bigint,
      required_default ''accounts_reject_percentage'' Bigint,
      required_default ''accounts_voted_percentage'' Bigint,
      required_default ''validators_approve_tokens'' Bigint,
      required_default ''validators_reject_tokens'' Bigint,
      required_default ''validators_total_voted_tokens'' Bigint,
      required_default ''validators_total_tokens'' Bigint,
      required_default ''validators_approve_percentage'' Bigint,
      required_default ''validators_reject_percentage'' Bigint,
      required_default ''validators_voted_percentage'' Bigint, required ''snapshot_time'' Timestamptz]"

definition chain_proposal_snapshots :: sql_table where
  "chain_proposal_snapshots = make_table ''proposal_snapshots'' [''proposal_hash'', ''snapshot_time'']
     [required ''proposal_hash'' Text, required ''proposal'' Text, required_default ''approve'' Boolean,
      required ''snapshot_time'' Timestamptz, with_default ''proposal_type'' Text,
      with_default ''signer'' Text, required_default ''start_height'' Bigint,
      required_default ''end_height'' Bigint, with_default ''parameter_space'' Text,
      with_default ''parameter_key'' Text, with_default ''parameter_value'' Text,
      with_default ''dao_transfer_address'' Text, required_default ''dao_transfer_amount'' Bigint]"

definition chain_pools :: sql_table where
  "chain_pools = make_table ''pools'' [''pool_id'', ''height'']
     [required ''pool_id'' Integer, required ''height'' Bigint, required ''chain_id'' Integer,
      required_default ''amount'' Bigint, required_default ''total_points'' Bigint,
      required_default ''lp_count'' Integer, required ''height_time'' Timestamptz,
      required_default ''liquidity_pool_id'' Integer, required_default ''holding_pool_id'' Integer,
      required_default ''escrow_pool_id'' Integer, required_default ''reward_pool_id'' Integer,
      required_default ''amount_delta'' Bigint, required_default ''total_points_delta'' Bigint,
      required_default ''lp_count_delta'' Integer]"

definition chain_pool_points_by_holder :: sql_table where
  "chain_pool_points_by_holder = make_table ''pool_points_by_holder'' [''address'', ''pool_id'', ''height'']
     [required ''address'' Text, required ''pool_id'' Integer, required ''height'' Bigint,
      required ''height_time'' Timestamptz, required ''committee'' Integer,
      required_default ''points'' Bigint, required_default ''liquidity_pool_points'' Bigint,
      required_default ''liquidity_pool_id'' Integer, required_default ''pool_amount'' Bigint]"

definition chain_supply :: sql_table where
  "chain_supply = make_table ''supply'' [''height'']
     [required_default ''total'' Bigint, required_default ''staked'' Bigint,
      required_default ''delegated_only'' Bigint, required ''height'' Bigint,
      required ''height_time'' Timestamptz]"

definition chain_txs :: sql_table where
  "chain_txs = make_table ''txs'' [''height'', ''tx_hash'']
     [required ''height'' Bigint, required ''tx_hash'' Text, required ''tx_index'' Smallint,
      required ''height_time'' Timestamptz, required ''tx_time'' Timestamptz,
      required ''created_height'' Bigint, required ''network_id'' Integer,
      required ''message_type'' Text, required ''signer'' Text, with_default ''amount'' Bigint,
      required ''fee'' Bigint, with_default ''memo'' Text, with_default ''validator_address'' Text,
      with_default ''commission'' Double, with_default ''chain_id'' Smallint,
      with_default ''sell_amount'' Bigint, with_default ''buy_amount'' Bigint,
      with_default ''liquidity_amount'' Bigint, with_default ''liquidity_percent'' Bigint,
      with_default ''order_id'' Text, with_default ''price'' Double, with_default ''param_key'' Text,
      with_default ''param_value'' Text, with_default ''committee_id'' Smallint,
      with_default ''recipient'' Text, with_default ''poll_hash'' Text,
      with_default ''buyer_receive_address'' Text, with_default ''buyer_send_address'' Text,
      with_default ''buyer_chain_deadline'' Bigint, required ''msg'' Text,
      with_default ''public_key'' Text, with_default ''signature'' Text]"

definition chain_validators :: sql_table where
  "chain_validators = make_table ''validators'' [''address'', ''height'']
     [required ''address'' Text, required ''height'' Bigint, required ''public_key'' Text,
      required ''net_address'' Text, required_default ''staked_amount'' Bigint,
      required_default ''max_paused_height'' Bigint, required_default ''unstaking_height'' Bigint,
      required ''output'' Text, required_default ''delegate'' Boolean,
      required_default ''compound'' Boolean, required_default ''status'' (Enum ''validator_status''),
      required ''height_time'' Timestamptz]"

definition chain_validator_non_signing_info :: sql_table where
  "chain_validator_non_signing_info = make_table ''validator_non_signing_info'' [''address'', ''height'']
     [required ''address'' Text, required ''height'' Bigint,
      required_default ''missed_blocks_count'' Bigint, required_default ''last_signed_height'' Bigint,
      required ''height_time'' Timestamptz]"

definition chain_validator_double_signing_info :: sql_table where
  "chain_validator_double_signing_info = make_table ''validator_double_signing_info'' [''address'', ''height'']
     [required ''address'' Text, required ''height'' Bigint, required_default ''evidence_count'' Bigint,
      required_default ''first_evidence_height'' Bigint,
      required_default ''last_evidence_height'' Bigint, required ''height_time'' Timestamptz]"

definition chain_schema :: "sql_table list" where
  "chain_schema =
     [chain_accounts, chain_blocks, chain_block_summaries, chain_committees, chain_committee_validators,
      chain_committee_payments, chain_dex_orders, chain_dex_deposits, chain_dex_withdrawals,
      chain_dex_prices, chain_events, chain_orders, chain_params, chain_poll_snapshots,
      chain_proposal_snapshots, chain_pools, chain_pool_points_by_holder, chain_supply, chain_txs,
      chain_validators, chain_validator_non_signing_info, chain_validator_double_signing_info]"

section \<open>The insert statements of the chain store\<close>

record insert_stmt =
  ins_Table :: string
  ins_Columns :: "string list"
  ins_Values :: nat
  ins_Conflict :: "string list"
  ins_Update :: "string list"

definition sql_insertBlock :: insert_stmt where
  "sql_insertBlock = \<lparr>ins_Table = ''blocks'',
     ins_Columns = [''height'', ''block_hash'', ''height_time'', ''network_id'', ''parent_hash'', ''proposer_address'',
      ''size'', ''num_txs'', ''total_txs'', ''total_vdf_iterations'', ''state_root'',
      ''transaction_root'', ''validator_root'', ''next_validator_root''],
     ins_Values = 14, ins_Conflict = [''height''],
     ins_Update = [''block_hash'', ''height_time'', ''network_id'', ''parent_hash'', ''proposer_address'', ''size'',
      ''num_txs'', ''total_txs'', ''total_vdf_iterations'', ''state_root'', ''transaction_root'',
      ''validator_root'', ''next_validator_root'']\<rparr>"

definition sql_insertTransactions :: insert_stmt where
  "sql_insertTransactions = \<lparr>ins_Table = ''txs'',
     ins_Columns = [''height'', ''tx_hash'', ''tx_index'', ''height_time'', ''tx_time'', ''created_height'',
      ''network_id'', ''message_type'', ''signer'', ''amount'', ''fee'', ''memo'', ''validator_address'',
      ''commission'', ''chain_id'', ''sell_amount'', ''buy_amount'', ''liquidity_amount'',
      ''liquidity_percent'', ''order_id'', ''price'', ''param_key'', ''param_value'', ''committee_id'',
      ''recipient'', ''poll_hash'', ''buyer_receive_address'', ''buyer_send_address'',
      ''buyer_chain_deadline'', ''msg'', ''public_key'', ''signature''],
     ins_Values = 32, ins_Conflict = [''height'', ''tx_hash''],
     ins_Update = [''tx_index'', ''height_time'', ''tx_time'', ''created_height'', ''network_id'', ''message_type'',
      ''signer'', ''amount'', ''fee'', ''memo'', ''validator_address'', ''commission'', ''chain_id'',
      ''sell_amount'', ''buy_amount'', ''liquidity_amount'', ''liquidity_percent'', ''order_id'',
      ''price'', ''param_key'', ''param_value'', ''committee_id'', ''recipient'', ''poll_hash'',
      ''buyer_receive_address'', ''buyer_send_address'', ''buyer_chain_deadline'', ''msg'',
      ''public_key'', ''signature'']\<rparr>"

definition sql_insertBlockSummary :: insert_stmt where
  "sql_insertBlockSummary = \<lparr>ins_Table = ''block_summaries'',
     ins_Columns = [''height'', ''height_time'', ''total_transactions'', ''num_txs'', ''num_txs_send'',
      ''num_txs_stake'', ''num_txs_unstake'', ''num_txs_edit_stake'', ''num_txs_start_poll'',
      ''num_txs_vote_poll'', ''num_txs_lock_order'', ''num_txs_close_order'', ''num_txs_unknown'',
      ''num_txs_pause'', ''num_txs_unpause'', ''num_txs_change_parameter'', ''num_txs_dao_transfer'',
      ''num_txs_certificate_results'', ''num_txs_subsidy'', ''num_txs_create_order'',
      ''num_txs_edit_order'', ''num_txs_delete_order'', ''num_txs_dex_limit_order'',
      ''num_txs_dex_liquidity_deposit'', ''num_txs_dex_liquidity_withdraw'', ''num_accounts'',
      ''num_accounts_new'', ''num_events'', ''num_events_reward'', ''num_events_slash'',
      ''num_events_dex_liquidity_deposit'', ''num_events_dex_liquidity_withdraw'',
      ''num_events_dex_swap'', ''num_events_order_book_swap'', ''num_events_automatic_pause'',
      ''num_events_automatic_begin_unstaking'', ''num_events_automatic_finish_unstaking'',
      ''num_orders'', ''num_orders_new'', ''num_orders_open'', ''num_orders_filled'',
      ''num_orders_cancelled'', ''num_pools'', ''num_pools_new'', ''num_dex_prices'', ''num_dex_orders'',
      ''num_dex_orders_future'', ''num_dex_orders_locked'', ''num_dex_orders_complete'',
      ''num_dex_orders_success'', ''num_dex_orders_failed'', ''num_dex_deposits'',
      ''num_dex_deposits_pending'', ''num_dex_deposits_locked'', ''num_dex_deposits_complete'',
      ''num_dex_withdrawals'', ''num_dex_withdrawals_pending'', ''num_dex_withdrawals_locked'',
      ''num_dex_withdrawals_complete'', ''num_pool_points_holders'', ''num_pool_points_holders_new'',
      ''params_changed'', ''num_validators'', ''num_validators_new'', ''num_validators_active'',
      ''num_validators_paused'', ''num_validators_unstaking'', ''num_validator_non_signing_info'',
      ''num_validator_non_signing_info_new'', ''num_validator_double_signing_info'', ''num_committees'',
      ''num_committees_new'', ''num_committees_subsidized'', ''num_committees_retired'',
      ''num_committee_validators'', ''num_committee_payments'', ''supply_changed'', ''supply_total'',
      ''supply_staked'', ''supply_delegated_only''],
     ins_Values = 80, ins_Conflict = [''height''],
     ins_Update = [''height_time'', ''total_transactions'', ''num_txs'', ''num_txs_send'', ''num_txs_stake'',
      ''num_txs_unstake'', ''num_txs_edit_stake'', ''num_txs_start_poll'', ''num_txs_vote_poll'',
      ''num_txs_lock_order'', ''num_txs_close_order'', ''num_txs_unknown'', ''num_txs_pause'',
      ''num_txs_unpause'', ''num_txs_change_parameter'', ''num_txs_dao_transfer'',
      ''num_txs_certificate_results'', ''num_txs_subsidy'', ''num_txs_create_order'',
      ''num_txs_edit_order'', ''num_txs_delete_order'', ''num_txs_dex_limit_order'',
      ''num_txs_dex_liquidity_deposit'', ''num_txs_dex_liquidity_withdraw'', ''num_accounts'',
      ''num_accounts_new'', ''num_events'', ''num_events_reward'', ''num_events_slash'',
      ''num_events_dex_liquidity_deposit'', ''num_events_dex_liquidity_withdraw'',
      ''num_events_dex_swap'', ''num_events_order_book_swap'', ''num_events_automatic_pause'',
      ''num_events_automatic_begin_unstaking'', ''num_events_automatic_finish_unstaking'',
      ''num_orders'', ''num_orders_new'', ''num_orders_open'', ''num_orders_filled'',
      ''num_orders_cancelled'', ''num_pools'', ''num_pools_new'', ''num_dex_prices'', ''num_dex_orders'',
      ''num_dex_orders_future'', ''num_dex_orders_locked'', ''num_dex_orders_complete'',
      ''num_dex_orders_success'', ''num_dex_orders_failed'', ''num_dex_deposits'',
      ''num_dex_deposits_pending'', ''num_dex_deposits_locked'', ''num_dex_deposits_complete'',
      ''num_dex_withdrawals'', ''num_dex_withdrawals_pending'', ''num_dex_withdrawals_locked'',
      ''num_dex_withdrawals_complete'', ''num_pool_points_holders'', ''num_pool_points_holders_new'',
      ''params_changed'', ''num_validators'', ''num_validators_new'', ''num_validators_active'',
      ''num_validators_paused'', ''num_validators_unstaking'', ''num_validator_non_signing_info'',
      ''num_validator_non_signing_info_new'', ''num_validator_double_signing_info'', ''num_committees'',
      ''num_committees_new'', ''num_committees_subsidized'', ''num_committees_retired'',
      ''num_committee_validators'', ''num_committee_payments'', ''supply_changed'', ''supply_total'',
      ''supply_staked'', ''supply_delegated_only'']\<rparr>"

definition sql_insertEvents :: insert_stmt where
  "sql_insertEvents = \<lparr>ins_Table = ''events'',
     ins_Columns = [''height'', ''chain_id'', ''address'', ''reference'', ''event_type'', ''block_height'', ''amount'',
      ''sold_amount'', ''bought_amount'', ''local_amount'', ''remote_amount'', ''success'',
      ''local_origin'', ''order_id'', ''points_received'', ''points_burned'', ''data'',
      ''seller_receive_address'', ''buyer_send_address'', ''sellers_send_address'', ''msg'',
      ''height_time''],
     ins_Values = 22, ins_Conflict = [''height'', ''chain_id'', ''address'', ''reference'', ''event_type''],
     ins_Update = [''block_height'', ''amount'', ''sold_amount'', ''bought_amount'', ''local_amount'',
      ''remote_amount'', ''success'', ''local_origin'', ''order_id'', ''points_received'',
      ''points_burned'', ''data'', ''seller_receive_address'', ''buyer_send_address'',
      ''sellers_send_address'', ''msg'', ''height_time'']\<rparr>"

definition sql_insertAccounts :: insert_stmt where
  "sql_insertAccounts = \<lparr>ins_Table = ''accounts'',
     ins_Columns = [''address'', ''height'', ''amount'', ''rewards'', ''slashes'', ''height_time''],
     ins_Values = 6, ins_Conflict = [''address'', ''height''],
     ins_Update = [''amount'', ''rewards'', ''slashes'', ''height_time'']\<rparr>"

definition sql_insertValidators :: insert_stmt where
  "sql_insertValidators = \<lparr>ins_Table = ''validators'',
     ins_Columns = [''address'', ''height'', ''public_key'', ''net_address'', ''staked_amount'', ''max_paused_height'',
      ''unstaking_height'', ''output'', ''delegate'', ''compound'', ''status'', ''height_time''],
     ins_Values = 12, ins_Conflict = [''address'', ''height''],
     ins_Update = [''public_key'', ''net_address'', ''staked_amount'', ''max_paused_height'', ''unstaking_height'',
      ''output'', ''delegate'', ''compound'', ''status'', ''height_time'']\<rparr>"

definition sql_insertValidatorNonSigningInfo :: insert_stmt where
  "sql_insertValidatorNonSigningInfo = \<lparr>ins_Table = ''validator_non_signing_info'',
     ins_Columns = [''address'', ''height'', ''missed_blocks_count'', ''last_signed_height'', ''height_time''],
     ins_Values = 5, ins_Conflict = [''address'', ''height''],
     ins_Update = [''missed_blocks_count'', ''last_signed_height'', ''height_time'']\<rparr>"

definition sql_insertValidatorDoubleSigningInfo :: insert_stmt where
  "sql_insertValidatorDoubleSigningInfo = \<lparr>ins_Table = ''validator_double_signing_info'',
     ins_Columns = [''address'', ''height'', ''evidence_count'', ''first_evidence_height'', ''last_evidence_height'',
      ''height_time''],
     ins_Values = 6, ins_Conflict = [''address'', ''height''],
     ins_Update = [''evidence_count'', ''first_evidence_height'', ''last_evidence_height'', ''height_time'']\<rparr>"

definition sql_insertPools :: insert_stmt where
  "sql_insertPools = \<lparr>ins_Table = ''pools'',
     ins_Columns = [''pool_id'', ''height'', ''chain_id'', ''amount'', ''total_points'', ''lp_count'', ''height_time'',
      ''liquidity_pool_id'', ''holding_pool_id'', ''escrow_pool_id'', ''reward_pool_id'',
      ''amount_delta'', ''total_points_delta'', ''lp_count_delta''],
     ins_Values = 14, ins_Conflict = [''pool_id'', ''height''],
     ins_Update = [''chain_id'', ''amount'', ''total_points'', ''lp_count'', ''height_time'', ''liquidity_pool_id'',
      ''holding_pool_id'', ''escrow_pool_id'', ''reward_pool_id'', ''amount_delta'',
      ''total_points_delta'', ''lp_count_delta'']\<rparr>"

definition sql_insertPoolPointsByHolder :: insert_stmt where
  "sql_insertPoolPointsByHolder = \<lparr>ins_Table = ''pool_points_by_holder'',
     ins_Columns = [''address'', ''pool_id'', ''height'', ''height_time'', ''committee'', ''points'',
      ''liquidity_pool_points'', ''liquidity_pool_id'', ''pool_amount''],
     ins_Values = 9, ins_Conflict = [''address'', ''pool_id'', ''height''],
     ins_Update = [''height_time'', ''committee'', ''points'', ''liquidity_pool_points'', ''liquidity_pool_id'',
      ''pool_amount'']\<rparr>"

definition sql_insertOrders :: insert_stmt where
  "sql_insertOrders = \<lparr>ins_Table = ''orders'',
     ins_Columns = [''order_id'', ''height'', ''height_time'', ''committee'', ''data'', ''amount_for_sale'',
      ''requested_amount'', ''seller_receive_address'', ''buyer_send_address'',
      ''buyer_receive_address'', ''buyer_chain_deadline'', ''sellers_send_address'', ''status''],
     ins_Values = 13, ins_Conflict = [''order_id'', ''height''],
     ins_Update = [''height_time'', ''committee'', ''data'', ''amount_for_sale'', ''requested_amount'',
      ''seller_receive_address'', ''buyer_send_address'', ''buyer_receive_address'',
      ''buyer_chain_deadline'', ''sellers_send_address'', ''status'']\<rparr>"

definition sql_insertDexOrders :: insert_stmt where
  "sql_insertDexOrders = \<lparr>ins_Table = ''dex_orders'',
     ins_Columns = [''order_id'', ''height'', ''height_time'', ''committee'', ''address'', ''amount_for_sale'',
      ''requested_amount'', ''state'', ''success'', ''sold_amount'', ''bought_amount'', ''local_origin'',
      ''locked_height''],
     ins_Values = 13, ins_Conflict = [''order_id'', ''height''],
     ins_Update = [''height_time'', ''committee'', ''address'', ''amount_for_sale'', ''requested_amount'', ''state'',
      ''success'', ''sold_amount'', ''bought_amount'', ''local_origin'', ''locked_height'']\<rparr>"

definition sql_insertDexDeposits :: insert_stmt where
  "sql_insertDexDeposits = \<lparr>ins_Table = ''dex_deposits'',
     ins_Columns = [''order_id'', ''height'', ''height_time'', ''committee'', ''address'', ''amount'', ''state'',
      ''local_origin'', ''points_received''],
     ins_Values = 9, ins_Conflict = [''order_id'', ''height''],
     ins_Update = [''height_time'', ''committee'', ''address'', ''amount'', ''state'', ''local_origin'',
      ''points_received'']\<rparr>"

definition sql_insertDexWithdrawals :: insert_stmt where
  "sql_insertDexWithdrawals = \<lparr>ins_Table = ''dex_withdrawals'',
     ins_Columns = [''order_id'', ''height'', ''height_time'', ''committee'', ''address'', ''percent'', ''state'',
      ''local_amount'', ''remote_amount'', ''points_burned''],
     ins_Values = 10, ins_Conflict = [''order_id'', ''height''],
     ins_Update = [''height_time'', ''committee'', ''address'', ''percent'', ''state'', ''local_amount'',
      ''remote_amount'', ''points_burned'']\<rparr>"

definition sql_insertDexPrices :: insert_stmt where
  "sql_insertDexPrices = \<lparr>ins_Table = ''dex_prices'',
     ins_Columns = [''local_chain_id'', ''remote_chain_id'', ''height'', ''local_pool'', ''remote_pool'', ''price_e6'',
      ''height_time'', ''price_delta'', ''local_pool_delta'', ''remote_pool_delta''],
     ins_Values = 10, ins_Conflict = [''local_chain_id'', ''remote_chain_id'', ''height''],
     ins_Update = [''local_pool'', ''remote_pool'', ''price_e6'', ''height_time'', ''price_delta'',
      ''local_pool_delta'', ''remote_pool_delta'']\<rparr>"

definition sql_insertCommittees :: insert_stmt where
  "sql_insertCommittees = \<lparr>ins_Table = ''committees'',
     ins_Columns = [''chain_id'', ''last_root_height_updated'', ''last_chain_height_updated'', ''number_of_samples'',
      ''subsidized'', ''retired'', ''height'', ''height_time''],
     ins_Values = 8, ins_Conflict = [''chain_id'', ''height''],
     ins_Update = [''last_root_height_updated'', ''last_chain_height_updated'', ''number_of_samples'', ''subsidized'',
      ''retired'', ''height_time'']\<rparr>"

definition sql_insertCommitteeValidators :: insert_stmt where
  "sql_insertCommitteeValidators = \<lparr>ins_Table = ''committee_validators'',
     ins_Columns = [''committee_id'', ''validator_address'', ''staked_amount'', ''status'', ''delegate'', ''compound'',
      ''height'', ''height_time'', ''subsidized'', ''retired''],
     ins_Values = 10, ins_Conflict = [''committee_id'', ''validator_address'', ''height''],
     ins_Update = [''staked_amount'', ''status'', ''delegate'', ''compound'', ''height_time'', ''subsidized'',
      ''retired'']\<rparr>"

definition sql_insertCommitteePayments :: insert_stmt where
  "sql_insertCommitteePayments = \<lparr>ins_Table = ''committee_payments'',
     ins_Columns = [''committee_id'', ''address'', ''percent'', ''height'', ''height_time''],
     ins_Values = 5, ins_Conflict = [''committee_id'', ''address'', ''height''],
     ins_Update = [''percent'', ''height_time'']\<rparr>"

definition sql_insertParams :: insert_stmt where
  "sql_insertParams = \<lparr>ins_Table = ''params'',
     ins_Columns = [''height'', ''height_time'', ''block_size'', ''protocol_version'', ''root_chain_id'', ''retired'',
      ''unstaking_blocks'', ''max_pause_blocks'', ''double_sign_slash_percentage'',
      ''non_sign_slash_percentage'', ''max_non_sign'', ''non_sign_window'', ''max_committees'',
      ''max_committee_size'', ''early_withdrawal_penalty'', ''delegate_unstaking_blocks'',
      ''minimum_order_size'', ''stake_percent_for_subsidized'', ''max_slash_per_committee'',
      ''delegate_reward_percentage'', ''buy_deadline_blocks'', ''lock_order_fee_multiplier'',
      ''minimum_stake_for_validators'', ''minimum_stake_for_delegates'',
      ''maximum_delegates_per_committee'', ''send_fee'', ''stake_fee'', ''edit_stake_fee'',
      ''unstake_fee'', ''pause_fee'', ''unpause_fee'', ''change_parameter_fee'', ''dao_transfer_fee'',
      ''certificate_results_fee'', ''subsidy_fee'', ''create_order_fee'', ''edit_order_fee'',
      ''delete_order_fee'', ''dex_limit_order_fee'', ''dex_liquidity_deposit_fee'',
      ''dex_liquidity_withdraw_fee'', ''dao_reward_percentage''],
     ins_Values = 42, ins_Conflict = [''height''],
     ins_Update = [''height_time'', ''block_size'', ''protocol_version'', ''root_chain_id'', ''retired'',
      ''unstaking_blocks'', ''max_pause_blocks'', ''double_sign_slash_percentage'',
      ''non_sign_slash_percentage'', ''max_non_sign'', ''non_sign_window'', ''max_committees'',
      ''max_committee_size'', ''early_withdrawal_penalty'', ''delegate_unstaking_blocks'',
      ''minimum_order_size'', ''stake_percent_for_subsidized'', ''max_slash_per_committee'',
      ''delegate_reward_percentage'', ''buy_deadline_blocks'', ''lock_order_fee_multiplier'',
      ''minimum_stake_for_validators'', ''minimum_stake_for_delegates'',
      ''maximum_delegates_per_committee'', ''send_fee'', ''stake_fee'', ''edit_stake_fee'',
      ''unstake_fee'', ''pause_fee'', ''unpause_fee'', ''change_parameter_fee'', ''dao_transfer_fee'',
      ''certificate_results_fee'', ''subsidy_fee'', ''create_order_fee'', ''edit_order_fee'',
      ''delete_order_fee'', ''dex_limit_order_fee'', ''dex_liquidity_deposit_fee'',
      ''dex_liquidity_withdraw_fee'', ''dao_reward_percentage'']\<rparr>"

definition sql_insertSupply :: insert_stmt where
  "sql_insertSupply = \<lparr>ins_Table = ''supply'',
     ins_Columns = [''total'', ''staked'', ''delegated_only'', ''height'', ''height_time''],
     ins_Values = 5, ins_Conflict = [''height''],
     ins_Update = [''total'', ''staked'', ''delegated_only'', ''height_time'']\<rparr>"

definition sql_insertPollSnapshots :: insert_stmt where
  "sql_insertPollSnapshots = \<lparr>ins_Table = ''poll_snapshots'',
     ins_Columns = [''proposal_hash'', ''proposal_url'', ''accounts_approve_tokens'', ''accounts_reject_tokens'',
      ''accounts_total_voted_tokens'', ''accounts_total_tokens'', ''accounts_approve_percentage'',
      ''accounts_reject_percentage'', ''accounts_voted_percentage'', ''validators_approve_tokens'',
      ''validators_reject_tokens'', ''validators_total_voted_tokens'', ''validators_total_tokens'',
      ''validators_approve_percentage'', ''validators_reject_percentage'',
      ''validators_voted_percentage'', ''snapshot_time''],
     ins_Values = 17, ins_Conflict = [''proposal_hash'', ''snapshot_time''],
     ins_Update = [''proposal_url'', ''accounts_approve_tokens'', ''accounts_reject_tokens'',
      ''accounts_total_voted_tokens'', ''accounts_total_tokens'', ''accounts_approve_percentage'',
      ''accounts_reject_percentage'', ''accounts_voted_percentage'', ''validators_approve_tokens'',
      ''validators_reject_tokens'', ''validators_total_voted_tokens'', ''validators_total_tokens'',
      ''validators_approve_percentage'', ''validators_reject_percentage'', ''validators_voted_percentage'']\<rparr>"

definition sql_insertProposalSnapshots :: insert_stmt where
  "sql_insertProposalSnapshots = \<lparr>ins_Table = ''proposal_snapshots'',
     ins_Columns = [''proposal_hash'', ''proposal'', ''approve'', ''snapshot_time'', ''proposal_type'', ''signer'',
      ''start_height'', ''end_height'', ''parameter_space'', ''parameter_key'', ''parameter_value'',
      ''dao_transfer_address'', ''dao_transfer_amount''],
     ins_Values = 13, ins_Conflict = [''proposal_hash'', ''snapshot_time''],
     ins_Update = [''proposal'', ''approve'', ''proposal_type'', ''signer'', ''start_height'', ''end_height'',
      ''parameter_space'', ''parameter_key'', ''parameter_value'', ''dao_transfer_address'',
      ''dao_transfer_amount'']\<rparr>"

definition sql_insertSupplies :: insert_stmt where
  "sql_insertSupplies = \<lparr>ins_Table = ''supply'',
     ins_Columns = [''total'', ''staked'', ''delegated_only'', ''height'', ''height_time''],
     ins_Values = 5, ins_Conflict = [''height''],
     ins_Update = [''total'', ''staked'', ''delegated_only'', ''height_time'']\<rparr>"

definition chain_inserts :: "insert_stmt list" where
  "chain_inserts =
     [sql_insertBlock, sql_insertTransactions, sql_insertBlockSummary, sql_insertEvents,
      sql_insertAccounts, sql_insertValidators, sql_insertValidatorNonSigningInfo,
      sql_insertValidatorDoubleSigningInfo, sql_insertPools, sql_insertPoolPointsByHolder,
      sql_insertOrders, sql_insertDexOrders, sql_insertDexDeposits, sql_insertDexWithdrawals,
      sql_insertDexPrices, sql_insertCommittees, sql_insertCommitteeValidators,
      sql_insertCommitteePayments, sql_insertParams, sql_insertSupply, sql_insertPollSnapshots,
      sql_insertProposalSnapshots, sql_insertSupplies]"

section \<open>Checking statements\<close>

definition find_table :: "string \<Rightarrow> sql_table list \<Rightarrow> sql_table option" where
  "find_table n schema = List.find (\<lambda>t. st_Name t = n) schema"

definition column_names :: "sql_table \<Rightarrow> string list" where
  "column_names t = map sc_Name (st_Columns t)"

definition needed_columns :: "sql_table \<Rightarrow> string list" where
  "needed_columns t = map sc_Name (filter (\<lambda>c. sc_NotNull c \<and> \<not> sc_Default c) (st_Columns t))"

text \<open>An upsert fits its table when it names columns of the table, in the table's order and each with a value,
  leaves out no column that needs one, and its conflict target is the primary key; it overwrites everything
  but the key.\<close>

definition insert_conforms :: "sql_table list \<Rightarrow> insert_stmt \<Rightarrow> bool" where
  "insert_conforms schema s \<longleftrightarrow>
     (case find_table (ins_Table s) schema of
        None \<Rightarrow> False
      | Some t \<Rightarrow>
          ins_Values s = length (ins_Columns s) \<and> subseq (ins_Columns s) (column_names t) \<and>
          set (needed_columns t) \<subseteq> set (ins_Columns s) \<and>
          ins_Conflict s = st_Key t \<and>
          ins_Update s = filter (\<lambda>c. c \<notin> set (ins_Conflict s)) (ins_Columns s))"

section \<open>Facts\<close>

lemma make_table_simps [simp]:
  "st_Name (make_table n k cs) = n" "st_Key (make_table n k cs) = k" "st_Columns (make_table n k cs) = cs"
  by (simp_all add: make_table_def)

lemma column_kind_simps [simp]:
  "sc_Name (required n t) = n" "sc_Name (required_default n t) = n" "sc_Name (nullable n t) = n"
  "sc_Name (with_default n t) = n"
  "sc_Type (required n t) = t" "sc_Type (required_default n t) = t" "sc_Type (nullable n t) = t"
  "sc_Type (with_default n t) = t"
  "sc_NotNull (required n t)" "sc_NotNull (required_default n t)" "\<not> sc_NotNull (nullable n t)"
  "\<not> sc_NotNull (with_default n t)"
  "\<not> sc_Default (required n t)" "sc_Default (required_default n t)" "\<not> sc_Default (nullable n t)"
  "sc_Default (with_default n t)"
  by (simp_all add: required_def required_default_def nullable_def with_default_def)

lemmas chain_table_defs =
  chain_accounts_def chain_blocks_def chain_block_summaries_def chain_committees_def
  chain_committee_validators_def chain_committee_payments_def chain_dex_orders_def
  chain_dex_deposits_def chain_dex_withdrawals_def chain_dex_prices_def chain_events_def
  chain_orders_def chain_params_def chain_poll_snapshots_def chain_proposal_snapshots_def
  chain_pools_def chain_pool_points_by_holder_def chain_supply_def chain_txs_def
  chain_validators_def chain_validator_non_signing_info_def chain_validator_double_signing_info_def

lemmas crosschain_table_defs =
  crosschain_blocks_def crosschain_block_summaries_def crosschain_txs_def crosschain_events_def
  crosschain_accounts_def crosschain_validators_def crosschain_validator_non_signing_info_def
  crosschain_validator_double_signing_info_def crosschain_committees_def
  crosschain_committee_validators_def crosschain_committee_payments_def crosschain_pools_def
  crosschain_pool_points_by_holder_def crosschain_orders_def crosschain_dex_orders_def
  crosschain_dex_deposits_def crosschain_dex_withdrawals_def crosschain_dex_prices_def
  crosschain_params_def crosschain_supply_def crosschain_tvl_snapshots_def

lemmas insert_stmt_defs =
  sql_insertBlock_def sql_insertTransactions_def sql_insertBlockSummary_def sql_insertEvents_def
  sql_insertAccounts_def sql_insertValidators_def sql_insertValidatorNonSigningInfo_def
  sql_insertValidatorDoubleSigningInfo_def sql_insertPools_def sql_insertPoolPointsByHolder_def
  sql_insertOrders_def sql_insertDexOrders_def sql_insertDexDeposits_def
  sql_insertDexWithdrawals_def sql_insertDexPrices_def sql_insertCommittees_def
  sql_insertCommitteeValidators_def sql_insertCommitteePayments_def sql_insertParams_def
  sql_insertSupply_def sql_insertPollSnapshots_def sql_insertProposalSnapshots_def
  sql_insertSupplies_def

lemma chain_table_names:
  "st_Name chain_accounts = ''accounts''"
  "st_Name chain_blocks = ''blocks''"
  "st_Name chain_block_summaries = ''block_summaries''"
  "st_Name chain_committees = ''committees''"
  "st_Name chain_committee_validators = ''committee_validators''"
  "st_Name chain_committee_payments = ''committee_payments''"
  "st_Name chain_dex_orders = ''dex_orders''"
  "st_Name chain_dex_deposits = ''dex_deposits''"
  "st_Name chain_dex_withdrawals = ''dex_withdrawals''"
  "st_Name chain_dex_prices = ''dex_prices''"
  "st_Name chain_events = ''events''"
  "st_Name chain_orders = ''orders''"
  "st_Name chain_params = ''params''"
  "st_Name chain_poll_snapshots = ''poll_snapshots''"
  "st_Name chain_proposal_snapshots = ''proposal_snapshots''"
  "st_Name chain_pools = ''pools''"
  "st_Name chain_pool_points_by_holder = ''pool_points_by_holder''"
  "st_Name chain_supply = ''supply''"
  "st_Name chain_txs = ''txs''"
  "st_Name chain_validators = ''validators''"
  "st_Name chain_validator_non_signing_info = ''validator_non_signing_info''"
  "st_Name chain_validator_double_signing_info = ''validator_double_signing_info''"
  by (simp_all add: chain_table_defs)

lemma crosschain_table_names:
  "st_Name crosschain_blocks = ''blocks''"
  "st_Name crosschain_block_summaries = ''block_summaries''"
  "st_Name crosschain_txs = ''txs''"
  "st_Name crosschain_events = ''events''"
  "st_Name crosschain_accounts = ''accounts''"
  "st_Name crosschain_validators = ''validators''"
  "st_Name crosschain_validator_non_signing_info = ''validator_non_signing_info''"
  "st_Name crosschain_validator_double_signing_info = ''validator_double_signing_info''"
  "st_Name crosschain_committees = ''committees''"
  "st_Name crosschain_committee_validators = ''committee_validators''"
  "st_Name crosschain_committee_payments = ''committee_payments''"
  "st_Name crosschain_pools = ''pools''"
  "st_Name crosschain_pool_points_by_holder = ''pool_points_by_holder''"
  "st_Name crosschain_orders = ''orders''"
  "st_Name crosschain_dex_orders = ''dex_orders''"
  "st_Name crosschain_dex_deposits = ''dex_deposits''"
  "st_Name crosschain_dex_withdrawals = ''dex_withdrawals''"
  "st_Name crosschain_dex_prices = ''dex_prices''"
  "st_Name crosschain_params = ''params''"
  "st_Name crosschain_supply = ''supply''"
  "st_Name crosschain_tvl_snapshots = ''tvl_snapshots''"
  by (simp_all add: crosschain_table_defs)

lemma find_chain_table:
  "find_table ''accounts'' chain_schema = Some chain_accounts"
  "find_table ''blocks'' chain_schema = Some chain_blocks"
  "find_table ''block_summaries'' chain_schema = Some chain_block_summaries"
  "find_table ''committees'' chain_schema = Some chain_committees"
  "find_table ''committee_validators'' chain_schema = Some chain_committee_validators"
  "find_table ''committee_payments'' chain_schema = Some chain_committee_payments"
  "find_table ''dex_orders'' chain_schema = Some chain_dex_orders"
  "find_table ''dex_deposits'' chain_schema = Some chain_dex_deposits"
  "find_table ''dex_withdrawals'' chain_schema = Some chain_dex_withdrawals"
  "find_table ''dex_prices'' chain_schema = Some chain_dex_prices"
  "find_table ''events'' chain_schema = Some chain_events"
  "find_table ''orders'' chain_schema = Some chain_orders"
  "find_table ''params'' chain_schema = Some chain_params"
  "find_table ''poll_snapshots'' chain_schema = Some chain_poll_snapshots"
  "find_table ''proposal_snapshots'' chain_schema = Some chain_proposal_snapshots"
  "find_table ''pools'' chain_schema = Some chain_pools"
  "find_table ''pool_points_by_holder'' chain_schema = Some chain_pool_points_by_holder"
  "find_table ''supply'' chain_schema = Some chain_supply"
  "find_table ''txs'' chain_schema = Some chain_txs"
  "find_table ''validators'' chain_schema = Some chain_validators"
  "find_table ''validator_non_signing_info'' chain_schema = Some chain_validator_non_signing_info"
  "find_table ''validator_double_signing_info'' chain_schema = Some chain_validator_double_signing_info"
  by (simp_all add: find_table_def chain_schema_def chain_table_names)

lemma find_crosschain_table:
  "find_table ''blocks'' crosschain_schema = Some crosschain_blocks"
  "find_table ''block_summaries'' crosschain_schema = Some crosschain_block_summaries"
  "find_table ''txs'' crosschain_schema = Some crosschain_txs"
  "find_table ''events'' crosschain_schema = Some crosschain_events"
  "find_table ''accounts'' crosschain_schema = Some crosschain_accounts"
  "find_table ''validators'' crosschain_schema = Some crosschain_validators"
  "find_table ''validator_non_signing_info'' crosschain_schema = Some crosschain_validator_non_signing_info"
  "find_table ''validator_double_signing_info'' crosschain_schema = Some crosschain_validator_double_signing_info"
  "find_table ''committees'' crosschain_schema = Some crosschain_committees"
  "find_table ''committee_validators'' crosschain_schema = Some crosschain_committee_validators"
  "find_table ''committee_payments'' crosschain_schema = Some crosschain_committee_payments"
  "find_table ''pools'' crosschain_schema = Some crosschain_pools"
  "find_table ''pool_points_by_holder'' crosschain_schema = Some crosschain_pool_points_by_holder"
  "find_table ''orders'' crosschain_schema = Some crosschain_orders"
  "find_table ''dex_orders'' crosschain_schema = Some crosschain_dex_orders"
  "find_table ''dex_deposits'' crosschain_schema = Some crosschain_dex_deposits"
  "find_table ''dex_withdrawals'' crosschain_schema = Some crosschain_dex_withdrawals"
  "find_table ''dex_prices'' crosschain_schema = Some crosschain_dex_prices"
  "find_table ''params'' crosschain_schema = Some crosschain_params"
  "find_table ''supply'' crosschain_schema = Some crosschain_supply"
  "find_table ''tvl_snapshots'' crosschain_schema = Some crosschain_tvl_snapshots"
  by (simp_all add: find_table_def crosschain_schema_def crosschain_table_names)

text \<open>A statement that lists exactly the table's columns.\<close>

lemma whole_row_conforms:
  assumes "find_table (ins_Table s) schema = Some t" "column_names t = ins_Columns s"
    and "ins_Values s = length (ins_Columns s)" "ins_Conflict s = st_Key t"
    and "ins_Update s = filter (\<lambda>c. c \<notin> set (ins_Conflict s)) (ins_Columns s)"
  shows "insert_conforms schema s"
  using assms unfolding insert_conforms_def by (auto simp: needed_columns_def simp flip: assms(2)) (simp add: column_names_def)

lemma insertEvents_conforms: "insert_conforms chain_schema sql_insertEvents"
  by (simp add: insert_conforms_def sql_insertEvents_def find_chain_table chain_events_def
      column_names_def needed_columns_def)


end
