(* ===== verification/CrossSync.thy ===== *)
theory CrossSync
  imports Schema Indexer
begin

text \<open>
  The synchronization of the chains' tables with the cross-chain schema (pkg/db/postgres/crosschain/sync.go):
  a trigger per table, created when a chain is registered and dropped when it is removed, a bulk copy of one
  table, and the status. A trigger is kept as the parts of its statement rather than as SQL text. The
  database's part of the state is which triggers exist and how many rows the tables hold.
\<close>

section \<open>Triggers\<close>

text \<open>\<open>INSERT INTO into (chain_id, columns, updated_at) VALUES (id, NEW.sources, NOW())\<close>, on a conflict with the
  constraint an update of the columns; the trigger \<open>name\<close> runs it after each insert into \<open>on\<close>.\<close>

record sync_trigger =
  tg_Name :: string
  tg_Function :: string
  tg_On :: string
  tg_Into :: string
  tg_Table :: string
  tg_ChainID :: uint64
  tg_Columns :: "string list"
  tg_Sources :: "string list"
  tg_Constraint :: string
  tg_Update :: "string list"

definition chain_schema_name :: "uint64 \<Rightarrow> string" where
  "chain_schema_name chainID = ''chain_'' @ FormatUint chainID"

definition SchemaTable :: "string \<Rightarrow> string" where
  "SchemaTable tableName = ''crosschain.'' @ tableName"

text \<open>\<open>crosschainNameToPerChainName\<close>, and the name that a column has in the chain's table.\<close>

definition per_chain_names :: "column_def list \<Rightarrow> string \<Rightarrow> string option" where
  "per_chain_names columnDefs =
     foldl (\<lambda>m c. if cd_CrossChainSkip c then m else m(GetCrossChainName c \<mapsto> cd_Name c)) Map.empty columnDefs"

definition new_column :: "(string \<Rightarrow> string option) \<Rightarrow> string \<Rightarrow> string" where
  "new_column names c = (case names c of None \<Rightarrow> c | Some n \<Rightarrow> if n = [] then c else n)"

definition sync_trigger_of :: "uint64 \<Rightarrow> table_config \<Rightarrow> column_def list \<Rightarrow> sync_trigger" where
  "sync_trigger_of chainID cfg columnDefs =
     \<lparr>tg_Name = ''sync_to_crosschain_'' @ FormatUint chainID,
      tg_Function = ''sync_'' @ tc_TableName cfg @ ''_to_crosschain_'' @ FormatUint chainID,
      tg_On = chain_schema_name chainID @ ''.'' @ tc_TableName cfg,
      tg_Into = SchemaTable (tc_TableName cfg),
      tg_Table = tc_TableName cfg,
      tg_ChainID = chainID,
      tg_Columns = tc_ColumnNames cfg,
      tg_Sources = map (new_column (per_chain_names columnDefs)) (tc_ColumnNames cfg),
      tg_Constraint = tc_TableName cfg @ ''_pkey'',
      tg_Update = tc_ColumnNames cfg\<rparr>"

section \<open>The database's state\<close>

record sync_db =
  sdb_functions :: "string set"
  sdb_triggers :: "uint64 \<times> string \<rightharpoonup> sync_trigger"
  sdb_source :: "uint64 \<times> string \<rightharpoonup> nat"
  sdb_global :: "uint64 \<times> string \<rightharpoonup> nat"

text \<open>A table that does not exist has no row count; no rows of a chain are a count of zero.\<close>

definition createSyncTrigger ::
  "sql_env \<Rightarrow> uint64 \<Rightarrow> table_config \<Rightarrow> sync_db \<Rightarrow> sync_db outcome" where
  "createSyncTrigger env chainID cfg s =
     (case GetColumnDefsForTable (tc_TableName cfg) of
        None \<Rightarrow> Fail (Errorf (''column definitions not found for table: '' @ tc_TableName cfg))
      | Some columnDefs \<Rightarrow>
          (let tg = sync_trigger_of chainID cfg columnDefs
           in case sql_statement env (tc_TableName cfg) 0 of
                Some err \<Rightarrow> Fail (WrapErr ''failed to create trigger function'' err)
              | None \<Rightarrow>
          (let s = s\<lparr>sdb_functions := insert (tg_Function tg) (sdb_functions s)\<rparr>
           in case sql_statement env (tc_TableName cfg) 1 of
                Some err \<Rightarrow> Fail (WrapErr ''failed to create trigger'' err)
              | None \<Rightarrow> Ok (s\<lparr>sdb_triggers := (sdb_triggers s)((chainID, tc_TableName cfg) \<mapsto> tg)\<rparr>))))"

fun create_all_triggers :: "sql_env \<Rightarrow> uint64 \<Rightarrow> table_config list \<Rightarrow> sync_db \<Rightarrow> sync_db outcome" where
  "create_all_triggers env chainID [] s = Ok s"
| "create_all_triggers env chainID (cfg # cfgs) s =
     (case createSyncTrigger env chainID cfg s of
        Fail err \<Rightarrow> Fail (WrapErr (''failed to create sync trigger for '' @ tc_TableName cfg) err)
      | Panic \<Rightarrow> Panic
      | Ok s' \<Rightarrow> create_all_triggers env chainID cfgs s')"

definition SetupChainSync :: "sql_env \<Rightarrow> uint64 \<Rightarrow> sync_db \<Rightarrow> sync_db \<times> unit outcome" where
  "SetupChainSync env chainID s = BeginFunc env (create_all_triggers env chainID GetTableConfigs) s"

definition validateTableName :: "string \<Rightarrow> go_error option" where
  "validateTableName tableName =
     (if tableName \<in> tc_TableName ` set GetTableConfigs then None
      else Some (Errorf (''invalid table name: '' @ tableName @ '' (not in whitelist)'')))"

definition getTableConfig :: "string \<Rightarrow> table_config outcome" where
  "getTableConfig tableName =
     (case validateTableName tableName of
        Some err \<Rightarrow> Fail err
      | None \<Rightarrow>
     (case List.find (\<lambda>cfg. tc_TableName cfg = tableName) GetTableConfigs of
        None \<Rightarrow> Fail (Errorf (''table config not found: '' @ tableName))
      | Some cfg \<Rightarrow> Ok cfg))"

text \<open>The copy of one table: the rows of the chain are deleted, then inserted from the chain's table.\<close>

definition ResyncTable :: "sql_env \<Rightarrow> uint64 \<Rightarrow> string \<Rightarrow> sync_db \<Rightarrow> sync_db \<times> unit outcome" where
  "ResyncTable env chainID tableName s =
     (case getTableConfig tableName of
        Fail err \<Rightarrow> (s, Fail err)
      | Panic \<Rightarrow> (s, Panic)
      | Ok cfg \<Rightarrow>
          BeginFunc env (\<lambda>s.
            case sql_statement env tableName 0 of
              Some err \<Rightarrow> Fail (WrapErr ''failed to delete existing data'' err)
            | None \<Rightarrow>
                (let s = s\<lparr>sdb_global := (sdb_global s)((chainID, tableName) \<mapsto> 0)\<rparr>
                 in case sql_statement env tableName 1 of
                      Some err \<Rightarrow> Fail (WrapErr ''failed to insert data'' err)
                    | None \<Rightarrow> Ok (s\<lparr>sdb_global := (sdb_global s)((chainID, tableName) := sdb_source s (chainID, tableName))\<rparr>))) s)"

fun resync_tables :: "sql_env \<Rightarrow> uint64 \<Rightarrow> table_config list \<Rightarrow> sync_db \<Rightarrow> sync_db \<times> nat" where
  "resync_tables env chainID [] s = (s, 0)"
| "resync_tables env chainID (cfg # cfgs) s =
     (case ResyncTable env chainID (tc_TableName cfg) s of
        (s', r) \<Rightarrow>
          (case resync_tables env chainID cfgs s' of
             (s'', failCount) \<Rightarrow> (s'', (case r of Ok _ \<Rightarrow> failCount | _ \<Rightarrow> failCount + 1))))"

definition ResyncChain :: "sql_env \<Rightarrow> uint64 \<Rightarrow> sync_db \<Rightarrow> sync_db \<times> unit outcome" where
  "ResyncChain env chainID s =
     (case resync_tables env chainID GetTableConfigs s of
        (s', failCount) \<Rightarrow>
          (if failCount > 0
           then (s', Fail (Errorf (''resync completed with '' @ FormatUint (of_nat failCount) @ '' failures'')))
           else (s', Ok ())))"

record SyncStatus =
  ss_ChainID :: uint64
  ss_TableName :: string
  ss_SourceRowCount :: uint64
  ss_GlobalRowCount :: uint64
  ss_Lag :: int64
  ss_TriggerExists :: bool

text \<open>A count that cannot be read is zero. \<open>fault\<close> tells which of the three queries fail.\<close>

definition GetSyncStatus :: "(nat \<Rightarrow> bool) \<Rightarrow> uint64 \<Rightarrow> string \<Rightarrow> sync_db \<Rightarrow> SyncStatus outcome" where
  "GetSyncStatus fault chainID tableName s =
     (case validateTableName tableName of
        Some err \<Rightarrow> Fail err
      | None \<Rightarrow>
          (let sourceCount = (if fault 0 then 0 else
                 case sdb_source s (chainID, tableName) of None \<Rightarrow> 0 | Some n \<Rightarrow> of_nat n);
               globalCount = (if fault 1 then 0 else
                 case sdb_global s (chainID, tableName) of None \<Rightarrow> 0 | Some n \<Rightarrow> of_nat n)
           in Ok \<lparr>ss_ChainID = chainID, ss_TableName = tableName, ss_SourceRowCount = sourceCount,
                  ss_GlobalRowCount = globalCount, ss_Lag = sourceCount - globalCount,
                  ss_TriggerExists = (\<not> fault 2 \<and> sdb_triggers s (chainID, tableName) \<noteq> None)\<rparr>))"

text \<open>\<open>RemoveChainSync\<close> only logs the errors of its statements. But a statement that failed leaves the
  transaction aborted: the later ones fail too, and the commit rolls back.\<close>

definition removed_chain :: "uint64 \<Rightarrow> sync_db \<Rightarrow> sync_db" where
  "removed_chain chainID s =
     (let tables = map tc_TableName GetTableConfigs
      in s\<lparr>sdb_triggers := (\<lambda>(c, t). if c = chainID \<and> t \<in> set tables then None else sdb_triggers s (c, t)),
           sdb_functions := sdb_functions s -
             set (map (\<lambda>t. ''sync_'' @ t @ ''_to_crosschain_'' @ FormatUint chainID) tables),
           sdb_global := (\<lambda>(c, t). if c = chainID \<and> t \<in> set tables then Some 0 else sdb_global s (c, t))\<rparr>)"

definition RemoveChainSync :: "sql_env \<Rightarrow> uint64 \<Rightarrow> sync_db \<Rightarrow> sync_db \<times> unit outcome" where
  "RemoveChainSync env chainID s =
     (let failed = (\<exists>cfg \<in> set GetTableConfigs. \<exists>i \<in> {0, 1, 2 :: nat}. sql_statement env (tc_TableName cfg) i \<noteq> None)
      in BeginFunc
           (if failed then env\<lparr>sql_commit := NotCommitted (Errorf ''commit unexpectedly resulted in rollback'')\<rparr> else env)
           (\<lambda>s. Ok (removed_chain chainID s)) s)"

end
