(* ===== verification/CrossSyncProps.thy ===== *)
theory CrossSyncProps
  imports CrossSync Samples
begin

text \<open>
  Do the statements that keep the cross-chain schema up to date fit the tables they read and write? The
  database checks the body of a trigger function only when the trigger fires, and an error in a trigger fails
  the insert that fired it.
\<close>

section \<open>Checking a copy\<close>

text \<open>An assignment converts between numeric types and from anything to text, but not from text to an enum.\<close>

definition numeric_type :: "sql_type \<Rightarrow> bool" where
  "numeric_type t \<longleftrightarrow> t \<in> {Smallint, Integer, Bigint, Double}"

definition assignable :: "sql_type \<Rightarrow> sql_type \<Rightarrow> bool" where
  "assignable from_type to_type \<longleftrightarrow>
     from_type = to_type \<or> to_type = Text \<or> numeric_type from_type \<and> numeric_type to_type"

definition value_fits :: "sql_column list \<Rightarrow> sql_column list \<Rightarrow> string \<times> string \<Rightarrow> bool" where
  "value_fits xs cs p \<longleftrightarrow>
     (\<exists>x \<in> set xs. sc_Name x = fst p \<and> (\<exists>c \<in> set cs. sc_Name c = snd p \<and> assignable (sc_Type c) (sc_Type x)))"

text \<open>\<open>INSERT INTO x (chain_id, targets, updated_at)\<close> of values read from the columns \<open>sources\<close> of \<open>c\<close>\<close>

definition copy_fits :: "sql_table \<Rightarrow> sql_table \<Rightarrow> string list \<Rightarrow> string list \<Rightarrow> bool" where
  "copy_fits x c targets sources \<longleftrightarrow>
     list_all (value_fits (st_Columns x) (st_Columns c)) (zip targets sources) \<and>
     list_all (\<lambda>n. n \<in> set (''chain_id'' # ''updated_at'' # targets)) (needed_columns x)"

definition tables_of :: "string \<Rightarrow> (sql_table \<times> sql_table) option" where
  "tables_of n =
     (case (find_table n crosschain_schema, find_table n chain_schema) of
        (Some x, Some c) \<Rightarrow> Some (x, c)
      | _ \<Rightarrow> None)"

definition trigger_fits :: "sync_trigger \<Rightarrow> bool" where
  "trigger_fits tg \<longleftrightarrow>
     (case tables_of (tg_Table tg) of
        None \<Rightarrow> False
      | Some (x, c) \<Rightarrow> copy_fits x c (tg_Columns tg) (tg_Sources tg))"

definition resync_fits :: "table_config \<Rightarrow> bool" where
  "resync_fits cfg \<longleftrightarrow>
     (case tables_of (tc_TableName cfg) of
        None \<Rightarrow> False
      | Some (x, c) \<Rightarrow> copy_fits x c (tc_ColumnNames cfg) (tc_ColumnNames cfg))"

section \<open>The names on both sides\<close>

text \<open>Without a renamed column a trigger reads the columns that it writes.\<close>

definition keeps_names :: "column_def list \<Rightarrow> bool" where
  "keeps_names cs \<longleftrightarrow> list_all (\<lambda>c. cd_CrossChainSkip c \<or> GetCrossChainName c = cd_Name c) cs"

lemma per_chain_names_same: "keeps_names cs \<Longrightarrow> per_chain_names cs n \<in> {None, Some n}"
  unfolding per_chain_names_def keeps_names_def
  by (induction cs rule: rev_induct) auto

lemma sources_same:
  assumes "keeps_names cs"
  shows "map (new_column (per_chain_names cs)) ns = ns"
proof (rule map_idI)
  fix n
  show "new_column (per_chain_names cs) n = n"
    using per_chain_names_same [OF assms, of n] by (auto simp: new_column_def)
qed

lemma table_config_simps [simp]:
  "tc_TableName (table_config_of n k h cs) = n"
  "tc_ColumnNames (table_config_of n k h cs) = GetCrossChainColumnNames cs"
  by (simp_all add: table_config_of_def)

lemma trigger_is_resync:
  assumes "keeps_names cs" "tc_ColumnNames cfg = GetCrossChainColumnNames cs"
  shows "trigger_fits (sync_trigger_of chainID cfg cs) = resync_fits cfg"
proof -
  let ?tg = "sync_trigger_of chainID cfg cs"
  have "tg_Table ?tg = tc_TableName cfg" "tg_Columns ?tg = tc_ColumnNames cfg"
    "tg_Sources ?tg = tc_ColumnNames cfg"
    using sources_same [OF assms(1)] by (simp_all add: sync_trigger_of_def)
  then show ?thesis by (simp only: trigger_fits_def resync_fits_def)
qed

lemma tables_of_both:
  "find_table n crosschain_schema = Some x \<Longrightarrow> find_table n chain_schema = Some c \<Longrightarrow> tables_of n = Some (x, c)"
  by (simp add: tables_of_def)

text \<open>Reasons for a copy to fail, and to fit.\<close>

lemma copy_fits_nth:
  assumes "copy_fits x c targets sources" "length sources = length targets" "i < length targets"
  shows "value_fits (st_Columns x) (st_Columns c) (targets ! i, sources ! i)"
proof -
  have "(targets ! i, sources ! i) \<in> set (zip targets sources)"
    using assms(2,3) by (auto simp: in_set_zip)
  then show ?thesis using assms(1) by (auto simp: copy_fits_def list_all_iff)
qed

lemma no_such_target:
  assumes "t \<in> set targets" "length sources = length targets" "t \<notin> set (column_names x)"
  shows "\<not> copy_fits x c targets sources"
proof -
  obtain i where i: "i < length targets" "t = targets ! i" using assms(1) by (auto simp: in_set_conv_nth)
  have "\<not> value_fits (st_Columns x) (st_Columns c) (targets ! i, sources ! i)"
    using assms(3) unfolding i(2) by (force simp: value_fits_def column_names_def)
  then show ?thesis using copy_fits_nth [OF _ assms(2) i(1)] by blast
qed

lemma no_such_source:
  assumes "s \<in> set sources" "length sources = length targets" "s \<notin> set (column_names c)"
  shows "\<not> copy_fits x c targets sources"
proof -
  obtain i where i: "i < length targets" "s = sources ! i" using assms(1,2) by (auto simp: in_set_conv_nth)
  have "\<not> value_fits (st_Columns x) (st_Columns c) (targets ! i, sources ! i)"
    using assms(3) unfolding i(2) by (force simp: value_fits_def column_names_def)
  then show ?thesis using copy_fits_nth [OF _ assms(2) i(1)] by blast
qed

text \<open>Columns of a table under a name.\<close>

definition types_of :: "sql_table \<Rightarrow> string \<Rightarrow> sql_type list" where
  "types_of t n = map sc_Type (filter (\<lambda>c. sc_Name c = n) (st_Columns t))"

lemma value_fits_types:
  "value_fits (st_Columns x) (st_Columns c) (t, s) \<longleftrightarrow>
     (\<exists>a \<in> set (types_of x t). \<exists>b \<in> set (types_of c s). assignable b a)"
  by (auto simp: value_fits_def types_of_def)

lemma text_to_enum:
  assumes "t \<in> set names" "types_of x t = [Enum e]" "types_of c t = [Text]"
  shows "\<not> copy_fits x c names names"
proof -
  obtain i where i: "i < length names" "t = names ! i" using assms(1) by (auto simp: in_set_conv_nth)
  have "\<not> value_fits (st_Columns x) (st_Columns c) (names ! i, names ! i)"
    unfolding value_fits_types using assms(2,3) by (simp add: assignable_def numeric_type_def flip: i(2))
  then show ?thesis using copy_fits_nth [OF _ refl i(1)] by blast
qed

lemma same_columns_fit:
  assumes "st_Columns x = pre @ st_Columns c @ post"
    and "list_all (\<lambda>n. n \<in> set (''chain_id'' # ''updated_at'' # column_names c)) (needed_columns x)"
  shows "copy_fits x c (column_names c) (column_names c)"
proof -
  have "value_fits (st_Columns x) (st_Columns c) p" if mem: "p \<in> set (zip (column_names c) (column_names c))" for p
  proof -
    obtain n where p: "p = (n, n)" "n \<in> set (column_names c)"
      using mem by (auto simp: zip_same_conv_map)
    then obtain d where "d \<in> set (st_Columns c)" "sc_Name d = n" by (auto simp: column_names_def)
    then show ?thesis unfolding value_fits_def p(1) using assms(1) by (auto simp: assignable_def)
  qed
  then show ?thesis using assms(2) by (simp add: copy_fits_def list_all_iff)
qed

text \<open>Which tables can be copied in bulk.\<close>

lemma resync_fits_cases:
  "resync_fits (table_config_of n k h cs) =
     (case find_table n crosschain_schema of None \<Rightarrow> False | Some x \<Rightarrow>
     (case find_table n chain_schema of None \<Rightarrow> False | Some c \<Rightarrow>
        copy_fits x c (GetCrossChainColumnNames cs) (GetCrossChainColumnNames cs)))"
  by (simp add: resync_fits_def tables_of_def split: option.split)

lemmas find_tables = find_crosschain_table find_chain_table

lemma resync_fitting:
  "resync_fits (table_config_of ''accounts'' k h AccountColumns)"
  "resync_fits (table_config_of ''validators'' k h ValidatorColumns)"
  "resync_fits (table_config_of ''validator_non_signing_info'' k h ValidatorNonSigningInfoColumns)"
  "resync_fits (table_config_of ''validator_double_signing_info'' k h ValidatorDoubleSigningInfoColumns)"
  "resync_fits (table_config_of ''blocks'' k h BlockColumns)"
  "resync_fits (table_config_of ''committee_payments'' k h CommitteePaymentColumns)"
  unfolding resync_fits_cases find_tables option.case by code_simp+

lemma resync_block_summaries: "resync_fits (table_config_of ''block_summaries'' k h BlockSummaryColumns)"
proof -
  have "st_Columns crosschain_block_summaries = [required ''chain_id'' Bigint] @ st_Columns chain_block_summaries
      @ [required_default ''created_at'' Timestamptz, required_default ''updated_at'' Timestamptz]"
    by (simp add: crosschain_block_summaries_def chain_block_summaries_def)
  moreover have names: "GetCrossChainColumnNames BlockSummaryColumns = column_names chain_block_summaries"
    by (simp add: GetCrossChainColumnNames_def BlockSummaryColumns_def column_names_def chain_block_summaries_def)
  moreover have "list_all (\<lambda>n. n \<in> set (''chain_id'' # ''updated_at'' # column_names chain_block_summaries))
      (needed_columns crosschain_block_summaries)"
    by (simp add: needed_columns_def crosschain_block_summaries_def column_names_def chain_block_summaries_def)
  ultimately have "copy_fits crosschain_block_summaries chain_block_summaries
      (column_names chain_block_summaries) (column_names chain_block_summaries)"
    by (intro same_columns_fit)
  then show ?thesis by (simp add: resync_fits_def tables_of_def find_crosschain_table find_chain_table names)
qed

lemma resync_renamed:
  "\<not> resync_fits (table_config_of ''pools'' k h PoolColumns)"
  "\<not> resync_fits (table_config_of ''events'' k h EventColumns)"
  by (simp_all add: resync_fits_cases find_tables GetCrossChainColumnNames_def
      no_such_source [of "''pool_chain_id''"] no_such_source [of "''event_chain_id''"]
      PoolColumns_def EventColumns_def column_names_def chain_pools_def chain_events_def)

lemma resync_missing:
  "\<not> resync_fits (table_config_of ''txs'' k h TransactionColumns)"
  "\<not> resync_fits (table_config_of ''pool_points_by_holder'' k h PoolPointsByHolderColumns)"
  by (simp_all add: resync_fits_cases find_tables GetCrossChainColumnNames_def
      no_such_target [of "''time''"] no_such_target [of "''pool_amount''"]
      TransactionColumns_def PoolPointsByHolderColumns_def column_names_def crosschain_txs_def
      crosschain_pool_points_by_holder_def)

lemma resync_enum:
  "\<not> resync_fits (table_config_of ''orders'' k h OrderColumns)"
  "\<not> resync_fits (table_config_of ''dex_orders'' k h DexOrderColumns)"
  "\<not> resync_fits (table_config_of ''dex_deposits'' k h DexDepositColumns)"
  "\<not> resync_fits (table_config_of ''dex_withdrawals'' k h DexWithdrawalColumns)"
  by (simp_all add: resync_fits_cases find_tables GetCrossChainColumnNames_def
      text_to_enum [of "''status''"] text_to_enum [of "''state''"]
      types_of_def OrderColumns_def DexOrderColumns_def DexDepositColumns_def DexWithdrawalColumns_def
      crosschain_orders_def crosschain_dex_orders_def crosschain_dex_deposits_def crosschain_dex_withdrawals_def
      chain_orders_def chain_dex_orders_def chain_dex_deposits_def chain_dex_withdrawals_def)

lemma keeps_names_tables:
  "keeps_names AccountColumns" "keeps_names ValidatorColumns" "keeps_names ValidatorNonSigningInfoColumns"
  "keeps_names ValidatorDoubleSigningInfoColumns" "keeps_names PoolPointsByHolderColumns" "keeps_names OrderColumns"
  "keeps_names DexOrderColumns" "keeps_names DexDepositColumns" "keeps_names DexWithdrawalColumns"
  "keeps_names BlockColumns" "keeps_names BlockSummaryColumns" "keeps_names CommitteePaymentColumns"
  by (simp_all add: keeps_names_def AccountColumns_def ValidatorColumns_def ValidatorNonSigningInfoColumns_def
      ValidatorDoubleSigningInfoColumns_def PoolPointsByHolderColumns_def OrderColumns_def DexOrderColumns_def
      DexDepositColumns_def DexWithdrawalColumns_def BlockColumns_def BlockSummaryColumns_def
      CommitteePaymentColumns_def)

lemma trigger_fits_cases:
  "trigger_fits (sync_trigger_of chainID (table_config_of n k h cs) cs) =
     (case find_table n crosschain_schema of None \<Rightarrow> False | Some x \<Rightarrow>
     (case find_table n chain_schema of None \<Rightarrow> False | Some c \<Rightarrow>
        copy_fits x c (GetCrossChainColumnNames cs)
          (map (new_column (per_chain_names cs)) (GetCrossChainColumnNames cs))))"
  by (simp add: trigger_fits_def tables_of_def sync_trigger_of_def split: option.split)

lemma trigger_renamed:
  "trigger_fits (sync_trigger_of chainID (table_config_of ''pools'' k h PoolColumns) PoolColumns)"
  "trigger_fits (sync_trigger_of chainID (table_config_of ''events'' k h EventColumns) EventColumns)"
  unfolding trigger_fits_cases find_tables option.case by code_simp+

lemma trigger_txs:
  "\<not> trigger_fits (sync_trigger_of chainID (table_config_of ''txs'' k h TransactionColumns) TransactionColumns)"
  by (simp add: trigger_fits_cases find_tables; rule no_such_target [of "''time''"])
    (simp_all add: GetCrossChainColumnNames_def TransactionColumns_def column_names_def crosschain_txs_def)

text \<open>The tables whose trigger fails when it fires, and those that cannot be copied in bulk.\<close>

definition broken_triggers :: "string list" where
  "broken_triggers =
     [''pool_points_by_holder'', ''orders'', ''dex_orders'', ''dex_deposits'', ''dex_withdrawals'', ''txs'']"

definition broken_resyncs :: "string list" where
  "broken_resyncs = ''pools'' # ''events'' # broken_triggers"

definition config_checked :: "uint64 \<Rightarrow> table_config \<Rightarrow> bool" where
  "config_checked chainID cfg \<longleftrightarrow>
     (\<exists>cs. GetColumnDefsForTable (tc_TableName cfg) = Some cs \<and>
       (trigger_fits (sync_trigger_of chainID cfg cs) \<longleftrightarrow> tc_TableName cfg \<notin> set broken_triggers) \<and>
       (resync_fits cfg \<longleftrightarrow> tc_TableName cfg \<notin> set broken_resyncs))"

lemma config_checkedI:
  assumes "GetColumnDefsForTable n = Some cs" "keeps_names cs"
    and "resync_fits (table_config_of n k h cs) \<longleftrightarrow> n \<notin> set broken_triggers" "n \<noteq> ''pools''" "n \<noteq> ''events''"
  shows "config_checked chainID (table_config_of n k h cs)"
  using assms trigger_is_resync [OF assms(2), of "table_config_of n k h cs" chainID]
  by (simp add: config_checked_def broken_resyncs_def)

lemma config_checked_renamed:
  "config_checked chainID (table_config_of ''pools'' k h PoolColumns)"
  "config_checked chainID (table_config_of ''events'' k h EventColumns)"
  "config_checked chainID (table_config_of ''txs'' k h TransactionColumns)"
  by (simp_all add: config_checked_def GetColumnDefsForTable_def broken_resyncs_def broken_triggers_def
      trigger_renamed trigger_txs resync_renamed resync_missing)

lemma configs_checked: "list_all (config_checked chainID) GetTableConfigs"
  unfolding GetTableConfigs_def list.pred_inject(2)
  by (intro conjI list.pred_inject(1) config_checked_renamed; rule config_checkedI;
      simp add: GetColumnDefsForTable_def broken_triggers_def keeps_names_tables
        resync_fitting resync_missing resync_enum resync_block_summaries)

text \<open>
  The triggers and the bulk copies are well-typed against the two schemas except for these tables: the
  trigger of \<open>pool_points_by_holder\<close> and \<open>txs\<close> names a column that does not exist, those of \<open>orders\<close> and of
  the three DEX tables assign text to an enum; and the copies of \<open>pools\<close> and \<open>events\<close>, whose triggers map the
  renamed column back, read it under its cross-chain name.
\<close>

theorem sync_statements_fit:
  "list_all (\<lambda>cfg. \<exists>cs. GetColumnDefsForTable (tc_TableName cfg) = Some cs \<and>
     (trigger_fits (sync_trigger_of chainID cfg cs) \<longleftrightarrow> tc_TableName cfg \<notin> set broken_triggers) \<and>
     (resync_fits cfg \<longleftrightarrow> tc_TableName cfg \<notin> set broken_resyncs)) GetTableConfigs"
  using configs_checked [of chainID] unfolding config_checked_def .

end
