(* ===== verification/SyncedIndexing.thy ===== *)
theory SyncedIndexing
  imports CrossSyncProps
begin

text \<open>
  Indexing a chain whose synchronization triggers are installed (SetupChainSync in crosschain/sync.go, then
  IndexBlockWithData in internal/indexer/indexer.go): PostgreSQL runs the trigger of a table inside the
  statement that inserts into it, so a trigger that cannot run fails the insert, and with it the block's
  transaction.
\<close>

section \<open>What SetupChainSync installs\<close>

lemma createSyncTrigger_Ok:
  assumes "createSyncTrigger env chainID cfg s = Ok s'"
  obtains cs where "GetColumnDefsForTable (tc_TableName cfg) = Some cs"
    and "sdb_triggers s' = (sdb_triggers s)((chainID, tc_TableName cfg) \<mapsto> sync_trigger_of chainID cfg cs)"
  using assms by (auto simp: createSyncTrigger_def Let_def split: option.splits)

lemma create_all_triggers_Ok:
  assumes "create_all_triggers env chainID cfgs s = Ok s'" "distinct (map tc_TableName cfgs)"
  shows "(\<forall>cfg \<in> set cfgs. \<exists>cs. GetColumnDefsForTable (tc_TableName cfg) = Some cs \<and>
            sdb_triggers s' (chainID, tc_TableName cfg) = Some (sync_trigger_of chainID cfg cs)) \<and>
         (\<forall>c t. c \<noteq> chainID \<or> t \<notin> tc_TableName ` set cfgs \<longrightarrow> sdb_triggers s' (c, t) = sdb_triggers s (c, t))"
  using assms
proof (induction cfgs arbitrary: s)
  case (Cons cfg cfgs)
  then obtain s1 where s1: "createSyncTrigger env chainID cfg s = Ok s1"
    and rest: "create_all_triggers env chainID cfgs s1 = Ok s'"
    by (auto split: outcome.splits)
  obtain cs where cs: "GetColumnDefsForTable (tc_TableName cfg) = Some cs"
    and upd: "sdb_triggers s1 = (sdb_triggers s)((chainID, tc_TableName cfg) \<mapsto> sync_trigger_of chainID cfg cs)"
    using s1 by (rule createSyncTrigger_Ok)
  note IH = Cons.IH [OF rest]
  show ?case using IH Cons.prems(2) cs by (auto simp: upd)
qed simp

lemma table_names_distinct: "distinct (map tc_TableName GetTableConfigs)"
  unfolding GetTableConfigs_def by (simp del: table_config_simps add: table_config_of_def)

lemma SetupChainSync_triggers:
  assumes "SetupChainSync env chainID s = (s', Ok ())" "cfg \<in> set GetTableConfigs"
  shows "\<exists>cs. GetColumnDefsForTable (tc_TableName cfg) = Some cs \<and>
    sdb_triggers s' (chainID, tc_TableName cfg) = Some (sync_trigger_of chainID cfg cs)"
  using assms create_all_triggers_Ok [OF _ table_names_distinct]
  by (fastforce simp: SetupChainSync_def BeginFunc_Ok_iff)

lemma broken_trigger_installed:
  assumes "SetupChainSync env chainID s = (s', Ok ())" "t \<in> set broken_triggers"
  shows "\<exists>tg. sdb_triggers s' (chainID, t) = Some tg \<and> \<not> trigger_fits tg"
proof -
  have "t \<in> set (map tc_TableName GetTableConfigs)"
    using assms(2) by (auto simp: broken_triggers_def GetTableConfigs_def)
  then obtain cfg where cfg: "cfg \<in> set GetTableConfigs" "tc_TableName cfg = t" by auto
  obtain cs where "GetColumnDefsForTable t = Some cs"
    "sdb_triggers s' (chainID, t) = Some (sync_trigger_of chainID cfg cs)"
    using SetupChainSync_triggers [OF assms(1) cfg(1)] cfg(2) by auto
  moreover have "config_checked chainID cfg"
    using configs_checked [of chainID] cfg(1) by (simp add: list_all_iff)
  ultimately show ?thesis using assms(2) cfg(2) by (auto simp: config_checked_def)
qed

section \<open>A block against broken triggers\<close>

definition rows_for_broken :: "BlockData \<Rightarrow> bool" where
  "rows_for_broken d \<longleftrightarrow>
     ibd_Transactions d \<noteq> [] \<or> ibd_Orders d \<noteq> [] \<or> ibd_DexOrders d \<noteq> [] \<or> ibd_DexDeposits d \<noteq> [] \<or>
     ibd_DexWithdrawals d \<noteq> [] \<or> ibd_PoolPointsByHolder d \<noteq> []"

text \<open>The documented behaviour of PostgreSQL that this rests on: each row inserted into a table with an
  ill-typed trigger is an error.\<close>

definition triggers_checked :: "sync_db \<Rightarrow> uint64 \<Rightarrow> sql_env \<Rightarrow> bool" where
  "triggers_checked s chainID env \<longleftrightarrow>
     (\<forall>t tg i. sdb_triggers s (chainID, t) = Some tg \<and> \<not> trigger_fits tg \<longrightarrow> sql_statement env t i \<noteq> None)"

lemma inserts_fail:
  "insertTransactions env r0 s = Ok s' \<Longrightarrow> sql_statement env ''txs'' 0 \<noteq> None \<Longrightarrow> r0 = []"
  "insertOrders env r1 s = Ok s' \<Longrightarrow> sql_statement env ''orders'' 0 \<noteq> None \<Longrightarrow> r1 = []"
  "insertDexOrders env r2 s = Ok s' \<Longrightarrow> sql_statement env ''dex_orders'' 0 \<noteq> None \<Longrightarrow> r2 = []"
  "insertDexDeposits env r3 s = Ok s' \<Longrightarrow> sql_statement env ''dex_deposits'' 0 \<noteq> None \<Longrightarrow> r3 = []"
  "insertDexWithdrawals env r4 s = Ok s' \<Longrightarrow> sql_statement env ''dex_withdrawals'' 0 \<noteq> None \<Longrightarrow> r4 = []"
  "insertPoolPointsByHolder env r5 s = Ok s' \<Longrightarrow> sql_statement env ''pool_points_by_holder'' 0 \<noteq> None \<Longrightarrow> r5 = []"
  subgoal by (cases r0) (auto simp: insertTransactions_def)
  subgoal by (cases r1) (auto simp: insertOrders_def)
  subgoal by (cases r2) (auto simp: insertDexOrders_def)
  subgoal by (cases r3) (auto simp: insertDexDeposits_def)
  subgoal by (cases r4) (auto simp: insertDexWithdrawals_def)
  subgoal by (cases r5) (auto simp: insertPoolPointsByHolder_def)
  done

lemma write_ops_rejected:
  assumes "\<And>t i. t \<in> set broken_triggers \<Longrightarrow> sql_statement env t i \<noteq> None" "rows_for_broken d"
  shows "write_ops env d s \<noteq> Ok s'"
proof
  assume "write_ops env d s = Ok s'"
  then obtain s1 s2 s8 s9 s10 s11 s12 s13 s14 where
    "insertTransactions env (ibd_Transactions d) s1 = Ok s2"
    "insertOrders env (ibd_Orders d) s8 = Ok s9"
    "insertDexOrders env (ibd_DexOrders d) s10 = Ok s11"
    "insertDexDeposits env (ibd_DexDeposits d) s11 = Ok s12"
    "insertDexWithdrawals env (ibd_DexWithdrawals d) s12 = Ok s13"
    "insertPoolPointsByHolder env (ibd_PoolPointsByHolder d) s13 = Ok s14"
    unfolding write_ops_def bind_outcome_Ok_iff wrap_error_Ok_iff by blast
  then have "\<not> rows_for_broken d"
    using assms(1) by (simp add: rows_for_broken_def broken_triggers_def inserts_fail)
  with assms(2) show False by blast
qed

lemma write_rejected:
  assumes "\<And>t i. t \<in> set broken_triggers \<Longrightarrow> sql_statement env t i \<noteq> None" "rows_for_broken d"
    and "writeBlockData env d s = (t, r)"
  shows "t = s \<and> r \<noteq> Ok ()"
  using assms(3) write_ops_rejected [OF assms(1,2)]
  by (auto simp: writeBlockData_def BeginFunc_def split: option.splits outcome.splits)

text \<open>
  C29. Once the synchronization triggers of a chain are installed, a block with transactions, orders, pool
  points or DEX orders, deposits or withdrawals that is not stored yet cannot be indexed: every run fails
  and leaves the indexer's state as it was, whatever the databases answer otherwise.
\<close>

theorem synced_chain_rejects_block:
  assumes installed: "SetupChainSync env0 (bd_ChainID data) s = (s', Ok ())"
    and checked: "triggers_checked s' (bd_ChainID data) (env_write env)"
    and converted: "convertToBlockData cl data [] = Ok d" "rows_for_broken d"
    and db: "idx_chains st (bd_ChainID data) = Some db"
    and new: "t_blocks (db_chain st (cdb_ChainID db)) (bd_Height data) = None"
  shows "\<exists>err. IndexBlockWithData cl env (Some data) st = (st, Fail err)"
proof -
  have faults: "sql_statement (env_write env) t i \<noteq> None" if "t \<in> set broken_triggers" for t i
    using broken_trigger_installed [OF installed that] checked by (auto simp: triggers_checked_def)
  note rejected = write_rejected [OF faults converted(2)]
  obtain st' r where run: "IndexBlockWithData cl env (Some data) st = (st', r)" by fastforce
  from run db show ?thesis
  proof (cases rule: IndexBlockWithData_cases)
    case (write_failed e d' t)
    then show ?thesis using run rejected converted(1) by fastforce
  next
    case (summary_failed e d')
    then show ?thesis using run db new converted write_ops_rejected [OF faults converted(2)]
      by (auto simp: IndexBlockWithData_def writeBlockData_def BeginFunc_def
          split: outcome.splits option.splits commit.splits prod.splits)
  next
    case (indexed d')
    then show ?thesis using run db new converted write_ops_rejected [OF faults converted(2)]
      by (auto simp: IndexBlockWithData_def writeBlockData_def BeginFunc_def
          split: outcome.splits option.splits commit.splits prod.splits bool.splits)
  qed (use run new converted in auto)
qed

definition one_transaction :: "bytes blob_BlockData" where
  "one_transaction = (sample_data 5 7)\<lparr>bd_Transactions := [\<lparr>txr_MessageType = ''send''\<rparr>]\<rparr>"

definition no_sync :: sync_db where
  "no_sync = \<lparr>sdb_functions = {}, sdb_triggers = Map.empty, sdb_source = Map.empty, sdb_global = Map.empty\<rparr>"

text \<open>A database that refuses exactly the rows of the tables with ill-typed triggers.\<close>

definition checking_db :: index_env where
  "checking_db = env_ok\<lparr>env_write := sql_ok\<lparr>sql_statement :=
     \<lambda>t _. if t \<in> set broken_triggers then Some (Errorf ''column does not exist'') else None\<rparr>\<rparr>"

lemma create_all_triggers_total:
  assumes "\<And>t i. sql_statement env t i = None" "\<And>cfg. cfg \<in> set cfgs \<Longrightarrow> GetColumnDefsForTable (tc_TableName cfg) \<noteq> None"
  shows "\<exists>s'. create_all_triggers env chainID cfgs s = Ok s'"
  using assms
proof (induction cfgs arbitrary: s)
  case (Cons cfg cfgs)
  then obtain s1 where "createSyncTrigger env chainID cfg s = Ok s1"
    by (fastforce simp: createSyncTrigger_def Let_def)
  then show ?case using Cons by simp
qed simp

lemma SetupChainSync_total: "\<exists>s'. SetupChainSync sql_ok chainID s = (s', Ok ())"
proof -
  have "GetColumnDefsForTable (tc_TableName cfg) \<noteq> None" if "cfg \<in> set GetTableConfigs" for cfg
    using configs_checked [of chainID] that by (auto simp: list_all_iff config_checked_def)
  then show ?thesis
    using create_all_triggers_total [of sql_ok GetTableConfigs chainID s]
    by (auto simp: SetupChainSync_def BeginFunc_def sql_ok_def)
qed

lemma only_broken_refused:
  assumes "SetupChainSync env0 chainID no_sync = (s', Ok ())"
    and "\<And>t i. t \<in> set broken_triggers \<Longrightarrow> sql_statement env t i \<noteq> None"
  shows "triggers_checked s' chainID env"
  unfolding triggers_checked_def
proof (intro allI impI, elim conjE)
  fix t tg i
  assume tg: "sdb_triggers s' (chainID, t) = Some tg" "\<not> trigger_fits tg"
  have create: "create_all_triggers env0 chainID GetTableConfigs no_sync = Ok s'"
    using assms(1) by (simp add: SetupChainSync_def BeginFunc_Ok_iff)
  have "t \<in> tc_TableName ` set GetTableConfigs"
    using create_all_triggers_Ok [OF create table_names_distinct] tg(1)
    by (metis no_sync_def sync_db.select_convs(2) option.distinct(1))
  then obtain cfg where cfg: "cfg \<in> set GetTableConfigs" "tc_TableName cfg = t" by auto
  have "config_checked chainID cfg" using configs_checked [of chainID] cfg(1) by (simp add: list_all_iff)
  then have "t \<in> set broken_triggers"
    using SetupChainSync_triggers [OF assms(1) cfg(1)] tg cfg(2) by (auto simp: config_checked_def)
  then show "sql_statement env t i \<noteq> None" by (rule assms(2))
qed

theorem synced_chain_rejects_block_witness:
  "\<exists>err. IndexBlockWithData sample_lib checking_db (Some one_transaction) sample_state = (sample_state, Fail err)"
proof -
  obtain s' where s': "SetupChainSync sql_ok (bd_ChainID one_transaction) no_sync = (s', Ok ())"
    using SetupChainSync_total by blast
  have checked: "triggers_checked s' (bd_ChainID one_transaction) (env_write checking_db)"
    using s' by (rule only_broken_refused) (simp add: checking_db_def)
  obtain d where d: "convertToBlockData sample_lib one_transaction [] = Ok d"
    using convertToBlockData_Ok_iff [of sample_lib one_transaction "[]"]
    by (auto simp: one_transaction_def sample_block_def)
  have "ibd_Transactions d \<noteq> []"
    using d by (auto simp: convertToBlockData_Ok converted_data_def convertTransactions_def one_transaction_def)
  then have "rows_for_broken d" by (simp add: rows_for_broken_def)
  then show ?thesis
    by (rule synced_chain_rejects_block [OF s' checked d, of sample_state sample_chain])
      (simp_all add: one_transaction_def empty_tables_def)
qed

end
