(* ===== verification/CrossModels.thy ===== *)
theory CrossModels
  imports Complex_Main Prelude
begin

text \<open>
  The rows of the typed cross-chain queries (pkg/db/postgres/crosschain/store.go). A Go \<open>float64\<close> is a real, a
  pointer an option.
\<close>

record AccountCrossChain =
  acx_ChainID :: uint64
  acx_Address :: string
  acx_Amount :: int64
  acx_Rewards :: int64
  acx_Slashes :: int64
  acx_Height :: uint64
  acx_HeightTime :: string

record ValidatorCrossChain =
  vcx_ChainID :: uint64
  vcx_Address :: string
  vcx_PublicKey :: string
  vcx_NetAddress :: string
  vcx_StakedAmount :: int64
  vcx_MaxPausedHeight :: uint64
  vcx_UnstakingHeight :: uint64
  vcx_Output :: string
  vcx_Delegate :: bool
  vcx_Compound :: bool
  vcx_Status :: string
  vcx_Height :: uint64
  vcx_HeightTime :: string

record ValidatorNonSigningInfoCrossChain =
  nsx_ChainID :: uint64
  nsx_Address :: string
  nsx_MissedBlocksCount :: int64
  nsx_LastSignedHeight :: uint64
  nsx_Height :: uint64
  nsx_HeightTime :: string

record ValidatorDoubleSigningInfoCrossChain =
  dsx_ChainID :: uint64
  dsx_Address :: string
  dsx_EvidenceCount :: int64
  dsx_FirstEvidenceHeight :: uint64
  dsx_LastEvidenceHeight :: uint64
  dsx_Height :: uint64
  dsx_HeightTime :: string

record PoolCrossChain =
  pcx_ChainID :: uint64
  pcx_PoolID :: uint64
  pcx_PoolChainID :: uint64
  pcx_Amount :: int64
  pcx_TotalPoints :: int64
  pcx_LpCount :: int64
  pcx_Height :: uint64
  pcx_HeightTime :: string
  pcx_LiquidityPoolID :: uint64
  pcx_HoldingPoolID :: uint64
  pcx_EscrowPoolID :: uint64
  pcx_RewardPoolID :: uint64
  pcx_AmountDelta :: int64
  pcx_TotalPointsDelta :: int64
  pcx_LpCountDelta :: int64

record PoolPointsByHolderCrossChain =
  ppx_ChainID :: uint64
  ppx_Address :: string
  ppx_PoolID :: uint64
  ppx_Committee :: uint64
  ppx_Points :: int64
  ppx_LiquidityPoolPoints :: int64
  ppx_LiquidityPoolID :: uint64
  ppx_Height :: uint64
  ppx_HeightTime :: string

record DexOrderCrossChain =
  dox_ChainID :: uint64
  dox_OrderID :: string
  dox_Committee :: uint64
  dox_Address :: string
  dox_AmountForSale :: int64
  dox_RequestedAmount :: int64
  dox_State :: string
  dox_Success :: bool
  dox_SoldAmount :: int64
  dox_BoughtAmount :: int64
  dox_LocalOrigin :: bool
  dox_LockedHeight :: uint64
  dox_Height :: uint64
  dox_HeightTime :: string

record DexDepositCrossChain =
  ddx_ChainID :: uint64
  ddx_OrderID :: string
  ddx_Committee :: uint64
  ddx_Address :: string
  ddx_Amount :: int64
  ddx_State :: string
  ddx_LocalOrigin :: bool
  ddx_PointsReceived :: int64
  ddx_Height :: uint64
  ddx_HeightTime :: string

record DexWithdrawalCrossChain =
  dwx_ChainID :: uint64
  dwx_OrderID :: string
  dwx_Committee :: uint64
  dwx_Address :: string
  dwx_Percent :: int64
  dwx_State :: string
  dwx_LocalAmount :: int64
  dwx_RemoteAmount :: int64
  dwx_PointsBurned :: int64
  dwx_Height :: uint64
  dwx_HeightTime :: string

record BlockSummaryCrossChain =
  bsx_ChainID :: uint64
  bsx_Height :: uint64
  bsx_HeightTime :: string
  bsx_TotalTransactions :: int64
  bsx_NumTxs :: int64
  bsx_NumAccounts :: int64
  bsx_NumEvents :: int64
  bsx_NumValidators :: int64
  bsx_NumCommittees :: int64
  bsx_NumPools :: int64
  bsx_NumOrders :: int64
  bsx_NumDexOrders :: int64
  bsx_NumDexDeposits :: int64
  bsx_NumDexWithdrawals :: int64
  bsx_SupplyTotal :: int64
  bsx_SupplyStaked :: int64
  bsx_SupplyDelegatedOnly :: int64

record CommitteePaymentCrossChain =
  cpx_ChainID :: uint64
  cpx_CommitteeID :: uint64
  cpx_Address :: string
  cpx_Percent :: int64
  cpx_Height :: uint64
  cpx_HeightTime :: string

record EventCrossChain =
  evx_ChainID :: uint64
  evx_Height :: uint64
  evx_HeightTime :: string
  evx_EventChainID :: uint64
  evx_Address :: string
  evx_Reference :: string
  evx_EventType :: string
  evx_BlockHeight :: uint64
  evx_Amount :: "int64 option"
  evx_SoldAmount :: "int64 option"
  evx_BoughtAmount :: "int64 option"
  evx_LocalAmount :: "int64 option"
  evx_RemoteAmount :: "int64 option"
  evx_Success :: "bool option"
  evx_LocalOrigin :: "bool option"
  evx_OrderID :: "string option"
  evx_PointsReceived :: "int64 option"
  evx_PointsBurned :: "int64 option"
  evx_Data :: "string option"
  evx_SellerReceiveAddress :: "string option"
  evx_BuyerSendAddress :: "string option"
  evx_SellersSendAddress :: "string option"

record TransactionCrossChain =
  txx_ChainID :: uint64
  txx_Height :: uint64
  txx_HeightTime :: string
  txx_TxHash :: string
  txx_TxIndex :: int64
  txx_TxTime :: string
  txx_CreatedHeight :: uint64
  txx_NetworkID :: uint64
  txx_MessageType :: string
  txx_Signer :: string
  txx_Amount :: "int64 option"
  txx_Fee :: int64
  txx_Memo :: "string option"
  txx_ValidatorAddress :: "string option"
  txx_Commission :: "real option"
  txx_TxChainID :: "uint64 option"
  txx_SellAmount :: "int64 option"
  txx_BuyAmount :: "int64 option"
  txx_LiquidityAmount :: "int64 option"
  txx_LiquidityPercent :: "int64 option"
  txx_OrderID :: "string option"
  txx_Price :: "real option"
  txx_ParamKey :: "string option"
  txx_ParamValue :: "string option"
  txx_CommitteeID :: "uint64 option"
  txx_Recipient :: "string option"
  txx_PollHash :: "string option"
  txx_BuyerReceiveAddress :: "string option"
  txx_BuyerSendAddress :: "string option"
  txx_BuyerChainDeadline :: "uint64 option"
  txx_PublicKey :: "string option"
  txx_Signature :: "string option"

end
