(* ===== verification/CrossQuery.thy ===== *)
theory CrossQuery
  imports CrossModels CrossSync
begin

text \<open>
  The queries of the cross-chain database (pkg/db/postgres/crosschain/queries.go, views.go, store.go): the
  text of a filtered, ordered and paged query, the typed queries over \<open>Select\<close>, the generic
  \<open>QueryLatestEntity\<close>, and the position snapshots. PostgreSQL is a parameter: what a query text with its
  arguments returns.
\<close>

section \<open>The pool\<close>

datatype sql_value = SqlNull | SqlBool bool | SqlInt int64 | SqlUint uint64 | SqlText string | SqlTime time

text \<open>The rows of a query as they are read: each yields its values or an error. \<open>rs_EarlyErr\<close> is what \<open>Err\<close>
  reports before any row was read, \<open>rs_Err\<close> what it reports after the last.\<close>

record result_set =
  rs_Fields :: "string list"
  rs_Rows :: "(go_error + sql_value list) list"
  rs_EarlyErr :: "go_error option"
  rs_Err :: "go_error option"

text \<open>\<open>pool_range\<close> is the order in which the \<open>i\<close>th loop over a map visits its entries.\<close>

record cross_pool =
  pool_QueryRow :: "string \<Rightarrow> sql_value list \<Rightarrow> go_error + int64"
  pool_Query :: "string \<Rightarrow> sql_value list \<Rightarrow> go_error + result_set"
  pool_Exec :: "string \<Rightarrow> sql_value list \<Rightarrow> go_error option"
  pool_range :: "nat \<Rightarrow> (string \<times> sql_value) list \<Rightarrow> (string \<times> sql_value) list"

text \<open>\<open>Client.Select\<close> runs the query and closes its rows; nothing is read into \<open>dest\<close>.\<close>

definition client_Select :: "cross_pool \<Rightarrow> 'a list \<Rightarrow> string \<Rightarrow> sql_value list \<Rightarrow> 'a list outcome" where
  "client_Select pool dest query args =
     (case pool_Query pool query args of
        Inl err \<Rightarrow> Fail err
      | Inr rows \<Rightarrow> (case rs_EarlyErr rows of Some err \<Rightarrow> Fail err | None \<Rightarrow> Ok dest))"

section \<open>Query texts\<close>

text \<open>\<open>Filters\<close> holds the entries of the map.\<close>

record QueryOptions =
  qo_ChainID :: "uint64 option"
  qo_Limit :: int64
  qo_Offset :: int64
  qo_OrderBy :: string
  qo_OrderDir :: string
  qo_Filters :: "(string \<times> sql_value) list"

record QueryMetadata =
  qm_TotalCount :: int64
  qm_Limit :: int64
  qm_Offset :: int64
  qm_HasMore :: bool

fun join_strings :: "string \<Rightarrow> string list \<Rightarrow> string" where
  "join_strings sep [] = []"
| "join_strings sep [s] = s"
| "join_strings sep (s # t # ts) = s @ sep @ join_strings sep (t # ts)"

text \<open>\<open>column = $argIndex\<close> for each filter in turn.\<close>

fun numbered :: "nat \<Rightarrow> (string \<times> sql_value) list \<Rightarrow> string list" where
  "numbered argIndex [] = []"
| "numbered argIndex ((key, v) # fs) = (key @ '' = $'' @ format_nat argIndex) # numbered (argIndex + 1) fs"

definition chain_filter :: "QueryOptions \<Rightarrow> (string \<times> sql_value) list" where
  "chain_filter opts = (case qo_ChainID opts of None \<Rightarrow> [] | Some c \<Rightarrow> [(''chain_id'', SqlUint c)])"

definition effective_limit :: "int64 \<Rightarrow> int64" where
  "effective_limit limit = (if limit \<le>s 0 then 50 else if 1000 <s limit then 1000 else limit)"

definition paging_clause :: "int64 \<Rightarrow> int64 \<Rightarrow> string" where
  "paging_clause limit offset =
     '' LIMIT '' @ FormatUint (effective_limit limit) @
     (if 0 <s offset then '' OFFSET '' @ FormatUint offset else [])"

definition where_clause :: "string list \<Rightarrow> string" where
  "where_clause conditions = (if length conditions > 0 then '' WHERE '' @ join_strings '' AND '' conditions else [])"

definition buildQueryWithOptions ::
  "string \<Rightarrow> QueryOptions \<Rightarrow> (string \<times> sql_value) list \<Rightarrow> string \<times> sql_value list" where
  "buildQueryWithOptions baseQuery opts filters =
     (let used = chain_filter opts @ filters;
          conditions = numbered 1 used;
          orderBy = (if qo_OrderBy opts = [] then ''height'' else qo_OrderBy opts);
          orderDir = (if qo_OrderDir opts = [] then ''DESC'' else qo_OrderDir opts)
      in (baseQuery @ where_clause conditions @ '' ORDER BY '' @ orderBy @ '' '' @ orderDir @
            paging_clause (qo_Limit opts) (qo_Offset opts),
          map snd used))"

definition buildCountQueryWithOptions ::
  "string \<Rightarrow> QueryOptions \<Rightarrow> (string \<times> sql_value) list \<Rightarrow> string \<times> sql_value list" where
  "buildCountQueryWithOptions baseQuery opts filters =
     (let used = chain_filter opts @ filters
      in (''SELECT COUNT(*) FROM ('' @ baseQuery @ where_clause (numbered 1 used) @ '') AS t'', map snd used))"

section \<open>The typed queries\<close>

text \<open>The shape of every typed query: count, select, metadata. \<open>int64(Offset + len(rows))\<close> wraps around.\<close>

definition metadata_of :: "QueryOptions \<Rightarrow> int64 \<Rightarrow> nat \<Rightarrow> QueryMetadata" where
  "metadata_of opts totalCount n =
     \<lparr>qm_TotalCount = totalCount, qm_Limit = qo_Limit opts, qm_Offset = qo_Offset opts,
      qm_HasMore = (qo_Offset opts + of_nat n <s totalCount)\<rparr>"

definition typed_query ::
  "string \<Rightarrow> string \<Rightarrow> cross_pool \<Rightarrow> QueryOptions \<Rightarrow> ('a list \<times> QueryMetadata) outcome" where
  "typed_query table what pool opts =
     (let baseQuery = ''SELECT * FROM '' @ SchemaTable table;
          (countQuery, countArgs) = buildCountQueryWithOptions baseQuery opts (pool_range pool 0 (qo_Filters opts));
          (query, args) = buildQueryWithOptions baseQuery opts (pool_range pool 1 (qo_Filters opts))
      in case pool_QueryRow pool countQuery countArgs of
           Inl err \<Rightarrow> Fail (WrapErr ''failed to get total count'' err)
         | Inr totalCount \<Rightarrow>
             bind_outcome (wrap_error (''failed to query '' @ what) (client_Select pool [] query args))
               (\<lambda>rows. Ok (rows, metadata_of opts totalCount (length rows))))"

definition QueryLatestAccounts ::
  "cross_pool \<Rightarrow> QueryOptions \<Rightarrow> (AccountCrossChain list \<times> QueryMetadata) outcome" where
  "QueryLatestAccounts = typed_query ''accounts_latest'' ''accounts''"

definition QueryLatestValidators ::
  "cross_pool \<Rightarrow> QueryOptions \<Rightarrow> (ValidatorCrossChain list \<times> QueryMetadata) outcome" where
  "QueryLatestValidators = typed_query ''validators_latest'' ''validators''"

definition QueryLatestValidatorNonSigningInfo ::
  "cross_pool \<Rightarrow> QueryOptions \<Rightarrow> (ValidatorNonSigningInfoCrossChain list \<times> QueryMetadata) outcome" where
  "QueryLatestValidatorNonSigningInfo = typed_query ''validator_non_signing_info'' ''validator non-signing info''"

definition QueryLatestValidatorDoubleSigningInfo ::
  "cross_pool \<Rightarrow> QueryOptions \<Rightarrow> (ValidatorDoubleSigningInfoCrossChain list \<times> QueryMetadata) outcome" where
  "QueryLatestValidatorDoubleSigningInfo = typed_query ''validator_double_signing_info'' ''validator double-signing info''"

definition QueryLatestPools ::
  "cross_pool \<Rightarrow> QueryOptions \<Rightarrow> (PoolCrossChain list \<times> QueryMetadata) outcome" where
  "QueryLatestPools = typed_query ''pools_latest'' ''pools''"

definition QueryLatestPoolPointsByHolder ::
  "cross_pool \<Rightarrow> QueryOptions \<Rightarrow> (PoolPointsByHolderCrossChain list \<times> QueryMetadata) outcome" where
  "QueryLatestPoolPointsByHolder = typed_query ''pool_points_by_holder_latest'' ''pool points by holder''"

definition QueryLatestDexOrders ::
  "cross_pool \<Rightarrow> QueryOptions \<Rightarrow> (DexOrderCrossChain list \<times> QueryMetadata) outcome" where
  "QueryLatestDexOrders = typed_query ''dex_orders_latest'' ''dex orders''"

definition QueryLatestDexDeposits ::
  "cross_pool \<Rightarrow> QueryOptions \<Rightarrow> (DexDepositCrossChain list \<times> QueryMetadata) outcome" where
  "QueryLatestDexDeposits = typed_query ''dex_deposits_latest'' ''dex deposits''"

definition QueryLatestDexWithdrawals ::
  "cross_pool \<Rightarrow> QueryOptions \<Rightarrow> (DexWithdrawalCrossChain list \<times> QueryMetadata) outcome" where
  "QueryLatestDexWithdrawals = typed_query ''dex_withdrawals_latest'' ''dex withdrawals''"

definition QueryLatestBlockSummaries ::
  "cross_pool \<Rightarrow> QueryOptions \<Rightarrow> (BlockSummaryCrossChain list \<times> QueryMetadata) outcome" where
  "QueryLatestBlockSummaries = typed_query ''block_summaries'' ''block summaries''"

definition QueryLatestCommitteePayments ::
  "cross_pool \<Rightarrow> QueryOptions \<Rightarrow> (CommitteePaymentCrossChain list \<times> QueryMetadata) outcome" where
  "QueryLatestCommitteePayments = typed_query ''committee_payments'' ''committee payments''"

definition QueryLatestEvents ::
  "cross_pool \<Rightarrow> QueryOptions \<Rightarrow> (EventCrossChain list \<times> QueryMetadata) outcome" where
  "QueryLatestEvents = typed_query ''events'' ''events''"

definition QueryLatestTransactions ::
  "cross_pool \<Rightarrow> QueryOptions \<Rightarrow> (TransactionCrossChain list \<times> QueryMetadata) outcome" where
  "QueryLatestTransactions = typed_query ''txs'' ''transactions''"

lemmas typed_queries = QueryLatestAccounts_def QueryLatestValidators_def QueryLatestValidatorNonSigningInfo_def QueryLatestValidatorDoubleSigningInfo_def QueryLatestPools_def QueryLatestPoolPointsByHolder_def QueryLatestDexOrders_def QueryLatestDexDeposits_def QueryLatestDexWithdrawals_def QueryLatestBlockSummaries_def QueryLatestCommitteePayments_def QueryLatestEvents_def QueryLatestTransactions_def

section \<open>Any entity\<close>

definition allowed_entities :: "string list" where
  "allowed_entities =
     [''accounts'', ''validators'', ''validator_non_signing_info'', ''validator_double_signing_info'', ''pools'',
      ''pool_points_by_holder'', ''orders'', ''dex_orders'', ''dex_deposits'', ''dex_withdrawals'',
      ''block_summaries'', ''committee_payments'', ''events'', ''txs'']"

definition has_latest_view :: "string list" where
  "has_latest_view =
     [''accounts'', ''validators'', ''pools'', ''pool_points_by_holder'', ''orders'', ''dex_orders'',
      ''dex_deposits'', ''dex_withdrawals'']"

definition entity_relation :: "string \<Rightarrow> string" where
  "entity_relation entityName =
     (if entityName \<in> set has_latest_view then entityName @ ''_latest'' else entityName)"

text \<open>\<open>row[field] = values[i]\<close> for each field, then the next row.\<close>

definition row_map :: "string list \<Rightarrow> sql_value list \<Rightarrow> (string \<rightharpoonup> sql_value) outcome" where
  "row_map names vs =
     (if length vs < length names then Panic
      else Ok (foldl (\<lambda>m (n, v). m(n \<mapsto> v)) Map.empty (zip names vs)))"

fun scan_rows :: "string list \<Rightarrow> (go_error + sql_value list) list \<Rightarrow> (string \<rightharpoonup> sql_value) list outcome" where
  "scan_rows names [] = Ok []"
| "scan_rows names (Inl err # rows) = Fail (WrapErr ''failed to scan row'' err)"
| "scan_rows names (Inr vs # rows) =
     bind_outcome (row_map names vs) (\<lambda>r. bind_outcome (scan_rows names rows) (\<lambda>rs. Ok (r # rs)))"

definition QueryLatestEntity ::
  "cross_pool \<Rightarrow> string \<Rightarrow> QueryOptions \<Rightarrow> ((string \<rightharpoonup> sql_value) list \<times> QueryMetadata) outcome" where
  "QueryLatestEntity pool entityName opts =
     (if entityName \<notin> set allowed_entities then Fail (Errorf (''invalid entity name: '' @ entityName))
      else
        (let baseQuery = ''SELECT * FROM '' @ SchemaTable (entity_relation entityName);
             (countQuery, countArgs) = buildCountQueryWithOptions baseQuery opts (pool_range pool 0 (qo_Filters opts));
             (query, args) = buildQueryWithOptions baseQuery opts (pool_range pool 1 (qo_Filters opts))
         in case pool_QueryRow pool countQuery countArgs of
              Inl err \<Rightarrow> Fail (WrapErr ''failed to get total count'' err)
            | Inr totalCount \<Rightarrow>
           (case pool_Query pool query args of
              Inl err \<Rightarrow> Fail (WrapErr (''failed to query '' @ entityName) err)
            | Inr rows \<Rightarrow>
           bind_outcome (scan_rows (rs_Fields rows) (rs_Rows rows)) (\<lambda>results.
             case rs_Err rows of
               Some err \<Rightarrow> Fail (WrapErr ''error iterating rows'' err)
             | None \<Rightarrow> Ok (results, metadata_of opts totalCount (length results))))))"

section \<open>Position snapshots\<close>

record LPPositionSnapshotQueryParams =
  lpq_SourceChainID :: "uint64 option"
  lpq_Address :: "string option"
  lpq_PoolID :: "uint64 option"
  lpq_Limit :: int64
  lpq_Offset :: int64

record LPPositionSnapshot =
  lps_SourceChainID :: uint16
  lps_Address :: string
  lps_PoolID :: uint32
  lps_SnapshotDate :: time
  lps_SnapshotHeight :: uint64
  lps_SnapshotBalance :: uint64
  lps_PoolSharePercentage :: uint64
  lps_PositionCreatedDate :: time
  lps_PositionClosedDate :: time
  lps_IsPositionActive :: byte
  lps_ComputedAt :: time
  lps_UpdatedAt :: time

definition lp_filters :: "LPPositionSnapshotQueryParams \<Rightarrow> (string \<times> sql_value) list" where
  "lp_filters params =
     (case lpq_SourceChainID params of None \<Rightarrow> [] | Some c \<Rightarrow> [(''source_chain_id'', SqlUint c)]) @
     (case lpq_Address params of None \<Rightarrow> [] | Some a \<Rightarrow> [(''address'', SqlText a)]) @
     (case lpq_PoolID params of None \<Rightarrow> [] | Some p \<Rightarrow> [(''pool_id'', SqlUint p)])"

definition lp_query :: "LPPositionSnapshotQueryParams \<Rightarrow> string" where
  "lp_query params =
     ''SELECT * FROM '' @ SchemaTable ''lp_position_snapshots'' @ where_clause (numbered 1 (lp_filters params)) @
     '' ORDER BY snapshot_time DESC'' @ paging_clause (lpq_Limit params) (lpq_Offset params)"

definition QueryLPPositionSnapshots ::
  "cross_pool \<Rightarrow> LPPositionSnapshotQueryParams \<Rightarrow> LPPositionSnapshot list outcome" where
  "QueryLPPositionSnapshots pool params =
     wrap_error ''failed to query LP position snapshots''
       (client_Select pool [] (lp_query params) (map snd (lp_filters params)))"

text \<open>\<open>scan\<close> is pgx's conversion of the twelve columns. A first row that cannot be read looks like none. The
  statements are written without the line breaks of the source.\<close>

definition lp_latest_query :: string where
  "lp_latest_query =
     ''SELECT * FROM '' @ SchemaTable ''lp_position_snapshots'' @
     '' WHERE source_chain_id = $1 AND address = $2 AND pool_id = $3 ORDER BY snapshot_time DESC LIMIT 1''"

definition GetLatestLPPositionSnapshot ::
  "(sql_value list \<Rightarrow> go_error + LPPositionSnapshot) \<Rightarrow> cross_pool \<Rightarrow> uint64 \<Rightarrow> string \<Rightarrow> uint64 \<Rightarrow>
   LPPositionSnapshot option outcome" where
  "GetLatestLPPositionSnapshot scan pool sourceChainID address poolID =
     (case pool_Query pool lp_latest_query [SqlUint sourceChainID, SqlText address, SqlUint poolID] of
        Inl err \<Rightarrow> Fail (WrapErr ''failed to query latest LP position snapshot'' err)
      | Inr rows \<Rightarrow>
     (case rs_Rows rows of
        [] \<Rightarrow> Ok None
      | Inl _ # _ \<Rightarrow> Ok None
      | Inr vs # _ \<Rightarrow>
     (case scan vs of
        Inl err \<Rightarrow> Fail (WrapErr ''failed to scan LP position snapshot'' err)
      | Inr snapshot \<Rightarrow> Ok (Some snapshot))))"

definition lp_insert_query :: string where
  "lp_insert_query =
     ''INSERT INTO '' @ SchemaTable ''lp_position_snapshots'' @
     '' (source_chain_id, address, pool_id, snapshot_date, snapshot_height, snapshot_balance, '' @
     ''pool_share_percentage, position_created_date, position_closed_date, is_position_active, '' @
     ''computed_at, updated_at) VALUES ($1, $2, $3, $4, $5, $6, $7, $8, $9, $10, $11, $12) '' @
     ''ON CONFLICT (source_chain_id, address, pool_id, snapshot_date) DO UPDATE SET '' @
     ''snapshot_height = EXCLUDED.snapshot_height, snapshot_balance = EXCLUDED.snapshot_balance, '' @
     ''pool_share_percentage = EXCLUDED.pool_share_percentage, '' @
     ''position_created_date = EXCLUDED.position_created_date, '' @
     ''position_closed_date = EXCLUDED.position_closed_date, is_position_active = EXCLUDED.is_position_active, '' @
     ''computed_at = EXCLUDED.computed_at, updated_at = EXCLUDED.updated_at''"

definition lp_values :: "LPPositionSnapshot \<Rightarrow> sql_value list" where
  "lp_values snap =
     [SqlUint (ucast (lps_SourceChainID snap)), SqlText (lps_Address snap), SqlUint (ucast (lps_PoolID snap)),
      SqlTime (lps_SnapshotDate snap), SqlUint (lps_SnapshotHeight snap), SqlUint (lps_SnapshotBalance snap),
      SqlUint (lps_PoolSharePercentage snap), SqlTime (lps_PositionCreatedDate snap),
      SqlTime (lps_PositionClosedDate snap), SqlUint (ucast (lps_IsPositionActive snap)),
      SqlTime (lps_ComputedAt snap), SqlTime (lps_UpdatedAt snap)]"

fun InsertLPPositionSnapshots :: "cross_pool \<Rightarrow> LPPositionSnapshot list \<Rightarrow> unit outcome" where
  "InsertLPPositionSnapshots pool [] = Ok ()"
| "InsertLPPositionSnapshots pool (snap # snapshots) =
     (case pool_Exec pool lp_insert_query (lp_values snap) of
        Some err \<Rightarrow> Fail (WrapErr ''failed to insert LP position snapshot'' err)
      | None \<Rightarrow> InsertLPPositionSnapshots pool snapshots)"

section \<open>Views\<close>

text \<open>\<open>CREATE VIEW name AS SELECT DISTINCT ON (key) * FROM source ORDER BY key, height DESC\<close>\<close>

record latest_view =
  lv_Name :: string
  lv_Source :: string
  lv_Key :: "string list"

definition accounts_latest_view :: latest_view where
  "accounts_latest_view = \<lparr>lv_Name = ''accounts_latest'', lv_Source = ''accounts'',
     lv_Key = [''chain_id'', ''address'']\<rparr>"

definition validators_latest_view :: latest_view where
  "validators_latest_view = \<lparr>lv_Name = ''validators_latest'', lv_Source = ''validators'',
     lv_Key = [''chain_id'', ''address'']\<rparr>"

definition committees_latest_view :: latest_view where
  "committees_latest_view = \<lparr>lv_Name = ''committees_latest'', lv_Source = ''committees'',
     lv_Key = [''chain_id'', ''committee_chain_id'']\<rparr>"

definition pools_latest_view :: latest_view where
  "pools_latest_view = \<lparr>lv_Name = ''pools_latest'', lv_Source = ''pools'',
     lv_Key = [''chain_id'', ''pool_id'']\<rparr>"

definition pool_points_by_holder_latest_view :: latest_view where
  "pool_points_by_holder_latest_view = \<lparr>lv_Name = ''pool_points_by_holder_latest'', lv_Source = ''pool_points_by_holder'',
     lv_Key = [''chain_id'', ''address'', ''pool_id'']\<rparr>"

definition orders_latest_view :: latest_view where
  "orders_latest_view = \<lparr>lv_Name = ''orders_latest'', lv_Source = ''orders'',
     lv_Key = [''chain_id'', ''order_id'']\<rparr>"

definition dex_orders_latest_view :: latest_view where
  "dex_orders_latest_view = \<lparr>lv_Name = ''dex_orders_latest'', lv_Source = ''dex_orders'',
     lv_Key = [''chain_id'', ''order_id'']\<rparr>"

definition dex_deposits_latest_view :: latest_view where
  "dex_deposits_latest_view = \<lparr>lv_Name = ''dex_deposits_latest'', lv_Source = ''dex_deposits'',
     lv_Key = [''chain_id'', ''order_id'']\<rparr>"

definition dex_withdrawals_latest_view :: latest_view where
  "dex_withdrawals_latest_view = \<lparr>lv_Name = ''dex_withdrawals_latest'', lv_Source = ''dex_withdrawals'',
     lv_Key = [''chain_id'', ''order_id'']\<rparr>"

definition params_latest_view :: latest_view where
  "params_latest_view = \<lparr>lv_Name = ''params_latest'', lv_Source = ''params'',
     lv_Key = [''chain_id'']\<rparr>"

definition supply_latest_view :: latest_view where
  "supply_latest_view = \<lparr>lv_Name = ''supply_latest'', lv_Source = ''supply'',
     lv_Key = [''chain_id'']\<rparr>"

definition latest_views :: "latest_view list" where
  "latest_views =
     [accounts_latest_view,
      validators_latest_view,
      committees_latest_view,
      pools_latest_view,
      pool_points_by_holder_latest_view,
      orders_latest_view,
      dex_orders_latest_view,
      dex_deposits_latest_view,
      dex_withdrawals_latest_view,
      params_latest_view,
      supply_latest_view]"

text \<open>The columns of the remaining view, \<open>lp_position_snapshots\<close>.\<close>

definition lp_position_snapshots_view :: "string list" where
  "lp_position_snapshots_view =
     [''chain_id'', ''address'', ''pool_id'', ''committee'', ''points'', ''liquidity_pool_points'',
      ''liquidity_pool_id'', ''pool_share_ppm'', ''position_created_date'', ''is_position_active'', ''height'',
      ''height_time'']"

end
