(* ===== verification/CrossQueryProps.thy ===== *)
theory CrossQueryProps
  imports CrossQuery
begin

text \<open>
  What a caller of the cross-chain queries gets: every row by paging through \<open>QueryLatestEntity\<close>, no row from
  a typed query.
\<close>

section \<open>Typed queries\<close>

text \<open>How many rows a query returned and whether it reported more.\<close>

definition returned :: "('a list \<times> QueryMetadata) outcome \<Rightarrow> (nat \<times> bool) option" where
  "returned r = (case r of Ok (rows, md) \<Rightarrow> Some (length rows, qm_HasMore md) | _ \<Rightarrow> None)"

lemma typed_query_empty:
  "returned (typed_query table what pool opts :: ('a list \<times> QueryMetadata) outcome) = r \<Longrightarrow>
     r = None \<or> (\<exists>total. r = Some (0, qo_Offset opts <s total))"
  by (auto simp: returned_def typed_query_def client_Select_def metadata_of_def Let_def
      split: sum.splits option.splits prod.splits)

text \<open>
  A typed query never returns a row: it fails, or it returns an empty list and reports more rows exactly
  when the offset is below the total count.
\<close>

theorem typed_queries_empty:
  "list_all (\<lambda>r. r = None \<or> (\<exists>total. r = Some (0, qo_Offset opts <s total)))
     [returned (QueryLatestAccounts pool opts), returned (QueryLatestValidators pool opts),
      returned (QueryLatestValidatorNonSigningInfo pool opts),
      returned (QueryLatestValidatorDoubleSigningInfo pool opts), returned (QueryLatestPools pool opts),
      returned (QueryLatestPoolPointsByHolder pool opts), returned (QueryLatestDexOrders pool opts),
      returned (QueryLatestDexDeposits pool opts), returned (QueryLatestDexWithdrawals pool opts),
      returned (QueryLatestBlockSummaries pool opts), returned (QueryLatestCommitteePayments pool opts),
      returned (QueryLatestEvents pool opts), returned (QueryLatestTransactions pool opts)]"
  unfolding typed_queries list.pred_inject(2) by (intro conjI list.pred_inject(1); rule typed_query_empty [OF refl])

section \<open>Pages\<close>

text \<open>A database whose relation holds the rows \<open>R\<close>, in the order of the query: it counts them and returns the
  rows that LIMIT and OFFSET select.\<close>

definition honest_pool :: "cross_pool \<Rightarrow> string \<Rightarrow> QueryOptions \<Rightarrow> string list \<Rightarrow> sql_value list list \<Rightarrow> bool" where
  "honest_pool pool baseQuery opts names R \<longleftrightarrow>
     (\<forall>k \<le> length R.
        (let opts = opts\<lparr>qo_Offset := of_nat k\<rparr>;
             (countQuery, countArgs) = buildCountQueryWithOptions baseQuery opts (pool_range pool 0 (qo_Filters opts));
             (query, args) = buildQueryWithOptions baseQuery opts (pool_range pool 1 (qo_Filters opts))
         in pool_QueryRow pool countQuery countArgs = Inr (of_nat (length R)) \<and>
            pool_Query pool query args =
              Inr \<lparr>rs_Fields = names,
                   rs_Rows = map Inr (take (unat (effective_limit (qo_Limit opts))) (drop k R)),
                   rs_EarlyErr = None, rs_Err = None\<rparr>))"

text \<open>A caller that asks for page after page, from the offset where the last one ended.\<close>

fun all_pages ::
  "cross_pool \<Rightarrow> string \<Rightarrow> QueryOptions \<Rightarrow> nat \<Rightarrow> nat \<Rightarrow> (string \<rightharpoonup> sql_value) list outcome" where
  "all_pages pool entityName opts 0 k = Fail (Errorf ''too many pages'')"
| "all_pages pool entityName opts (Suc n) k =
     bind_outcome (QueryLatestEntity pool entityName (opts\<lparr>qo_Offset := of_nat k\<rparr>)) (\<lambda>(rows, md).
       if qm_HasMore md
       then bind_outcome (all_pages pool entityName opts n (k + length rows)) (\<lambda>rest. Ok (rows @ rest))
       else Ok rows)"

lemma scan_rows_append:
  "scan_rows names (xs @ ys) =
     bind_outcome (scan_rows names xs) (\<lambda>a. bind_outcome (scan_rows names ys) (\<lambda>b. Ok (a @ b)))"
proof (induction names xs rule: scan_rows.induct)
  case (3 names vs rows)
  then show ?case by (cases "row_map names vs"; cases "scan_rows names rows"; cases "scan_rows names ys") auto
next
  case (1 names)
  then show ?case by (cases "scan_rows names ys") auto
qed simp

lemma scan_rows_length: "scan_rows names rows = Ok rs \<Longrightarrow> length rs = length rows"
  by (induction names rows arbitrary: rs rule: scan_rows.induct) auto

lemma sint_of_nat: "n < 2 ^ 63 \<Longrightarrow> sint (of_nat n :: int64) = int n"
  by (simp add: signed_of_nat signed_take_bit_int_eq_self)

lemma int64_less: "a < 2 ^ 63 \<Longrightarrow> b < 2 ^ 63 \<Longrightarrow> ((of_nat a :: int64) <s of_nat b) = (a < b)"
  by (simp add: word_sless_alt sint_of_nat)

lemma effective_limit_bounds:
  "1 \<le> unat (effective_limit l)" "unat (effective_limit l) \<le> 1000"
proof -
  have "(1000 <s l) = (1000 < sint l)" "(l \<le>s 0) = (sint l \<le> 0)"
    by (simp_all only: word_sless_alt word_sle_eq) simp_all
  then consider "effective_limit l = 50" | "effective_limit l = 1000" | "0 < sint l" "sint l \<le> 1000" "effective_limit l = l"
    by (auto simp: effective_limit_def)
  then have "1 \<le> unat (effective_limit l) \<and> unat (effective_limit l) \<le> 1000"
  proof cases
    case 3
    have "uint l = sint l" using 3(1,2) by (subst uint_sint) (simp add: take_bit_int_eq_self)
    then have "unat l = nat (sint l)" by (simp add: unat_eq_nat_uint)
    then have "int (unat l) = sint l" using 3(1) by simp
    then show ?thesis using 3(1,2) unfolding 3(3) by (intro conjI; linarith)
  qed simp_all
  then show "1 \<le> unat (effective_limit l)" "unat (effective_limit l) \<le> 1000" by simp_all
qed

text \<open>One page.\<close>

definition page :: "QueryOptions \<Rightarrow> nat \<Rightarrow> 'a list \<Rightarrow> 'a list" where
  "page opts k R = take (unat (effective_limit (qo_Limit opts))) (drop k R)"

lemma page_length: "k \<le> length R \<Longrightarrow> k + length (page opts k R) \<le> length R"
  by (simp add: page_def)

lemma page_progress: "k + length (page opts k R) < length R \<Longrightarrow> 0 < length (page opts k R)"
  using effective_limit_bounds(1) [of "qo_Limit opts"] by (auto simp: page_def)

lemma page_rest: "drop k R = page opts k R @ drop (k + length (page opts k R)) R"
proof -
  let ?n = "unat (effective_limit (qo_Limit opts))"
  have "drop k R = take ?n (drop k R) @ drop ?n (drop k R)" by (rule append_take_drop_id [symmetric])
  also have "drop ?n (drop k R) = drop (length (page opts k R)) (drop k R)" by (simp add: page_def min_def)
  finally show ?thesis by (simp add: page_def add.commute)
qed

lemma QueryLatestEntity_page:
  assumes "entityName \<in> set allowed_entities"
    and "honest_pool pool (''SELECT * FROM '' @ SchemaTable (entity_relation entityName)) opts names R"
    and "k \<le> length R" "length R < 2 ^ 63"
  shows "QueryLatestEntity pool entityName (opts\<lparr>qo_Offset := of_nat k\<rparr>) =
    bind_outcome (scan_rows names (map Inr (page opts k R))) (\<lambda>rows.
      Ok (rows, \<lparr>qm_TotalCount = of_nat (length R), qm_Limit = qo_Limit opts, qm_Offset = of_nat k,
                 qm_HasMore = (k + length (page opts k R) < length R)\<rparr>))"
proof -
  have more: "((of_nat k :: int64) + of_nat (length (page opts k R)) <s of_nat (length R)) =
      (k + length (page opts k R) < length R)"
    using int64_less [of "k + length (page opts k R)" "length R"] page_length [OF assms(3), of opts] assms(4) by simp
  show ?thesis
    using assms(1,2,3) more scan_rows_length [of names "map Inr (page opts k R)"]
    by (cases "scan_rows names (map Inr (page opts k R))")
      (auto simp: QueryLatestEntity_def honest_pool_def metadata_of_def page_def Let_def split: prod.splits)
qed

lemma all_pages_from:
  assumes "entityName \<in> set allowed_entities"
    and "honest_pool pool (''SELECT * FROM '' @ SchemaTable (entity_relation entityName)) opts names R"
    and "length R < 2 ^ 63" "k \<le> length R" "length R - k < n"
  shows "all_pages pool entityName opts n k = scan_rows names (map Inr (drop k R))"
  using assms(4,5)
proof (induction n arbitrary: k)
  case (Suc n)
  let ?p = "page opts k R"
  note one = QueryLatestEntity_page [OF assms(1,2) Suc.prems(1) assms(3)]
  show ?case
  proof (cases "k + length ?p < length R")
    case True
    have "all_pages pool entityName opts n (k + length ?p) = scan_rows names (map Inr (drop (k + length ?p) R))"
      using True Suc.prems(2) page_progress [OF True] by (intro Suc.IH) linarith+
    then show ?thesis
      using True scan_rows_length [of names "map Inr ?p"]
      by (subst page_rest [of k R opts])
        (cases "scan_rows names (map Inr ?p)"; simp add: one scan_rows_append)
  next
    case False
    then have "drop k R = ?p" by (subst page_rest [of k R opts]) simp
    then show ?thesis
      using False by (cases "scan_rows names (map Inr ?p)") (simp_all add: one)
  qed
qed simp


text \<open>A relation of three rows that is read with a limit of two.\<close>

definition three_rows :: "sql_value list list" where
  "three_rows = [[SqlUint 1, SqlUint 30], [SqlUint 1, SqlUint 20], [SqlUint 2, SqlUint 10]]"

definition two_at_a_time :: QueryOptions where
  "two_at_a_time = \<lparr>qo_ChainID = None, qo_Limit = 2, qo_Offset = 0, qo_OrderBy = [], qo_OrderDir = [],
     qo_Filters = []\<rparr>"

definition three_row_pool :: cross_pool where
  "three_row_pool =
     \<lparr>pool_QueryRow = \<lambda>_ _. Inr 3,
      pool_Query = \<lambda>query args.
        (let skipped = (\<lambda>off. ''SELECT * FROM crosschain.txs ORDER BY height DESC LIMIT 2'' @ off);
             k = (if query = skipped '' OFFSET 1'' then 1 else if query = skipped '' OFFSET 2'' then 2
                  else if query = skipped '' OFFSET 3'' then 3 else 0)
         in Inr \<lparr>rs_Fields = [''chain_id'', ''height''], rs_Rows = map Inr (take 2 (drop k three_rows)),
                 rs_EarlyErr = None, rs_Err = None\<rparr>),
      pool_Exec = \<lambda>_ _. None, pool_range = \<lambda>_ fs. fs\<rparr>"

definition txs_query :: string where
  "txs_query = ''SELECT * FROM '' @ SchemaTable (entity_relation ''txs'')"

lemma three_row_texts:
  "buildQueryWithOptions txs_query (two_at_a_time\<lparr>qo_Offset := 0\<rparr>) [] =
     (''SELECT * FROM crosschain.txs ORDER BY height DESC LIMIT 2'', [])"
  "buildQueryWithOptions txs_query (two_at_a_time\<lparr>qo_Offset := 1\<rparr>) [] =
     (''SELECT * FROM crosschain.txs ORDER BY height DESC LIMIT 2 OFFSET 1'', [])"
  "buildQueryWithOptions txs_query (two_at_a_time\<lparr>qo_Offset := 2\<rparr>) [] =
     (''SELECT * FROM crosschain.txs ORDER BY height DESC LIMIT 2 OFFSET 2'', [])"
  "buildQueryWithOptions txs_query (two_at_a_time\<lparr>qo_Offset := 3\<rparr>) [] =
     (''SELECT * FROM crosschain.txs ORDER BY height DESC LIMIT 2 OFFSET 3'', [])"
  by code_simp+

lemma three_row_limit: "unat (effective_limit (qo_Limit two_at_a_time)) = 2"
  by code_simp

lemma three_row_pool_honest:
  "honest_pool three_row_pool txs_query two_at_a_time
     [''chain_id'', ''height''] three_rows"
proof -
  have offsets: "k = 0 \<or> k = 1 \<or> k = 2 \<or> k = 3" if "k \<le> length three_rows" for k
    using that by (auto simp: three_rows_def)
  have filters: "qo_Filters two_at_a_time = []" by (simp add: two_at_a_time_def)
  show ?thesis
    unfolding honest_pool_def
  proof (intro allI impI)
    fix k assume "k \<le> length three_rows"
    from offsets [OF this] show "let opts = two_at_a_time\<lparr>qo_Offset := of_nat k\<rparr>;
          (countQuery, countArgs) = buildCountQueryWithOptions txs_query opts
            (pool_range three_row_pool 0 (qo_Filters opts));
          (query, args) = buildQueryWithOptions txs_query opts (pool_range three_row_pool 1 (qo_Filters opts))
      in pool_QueryRow three_row_pool countQuery countArgs = Inr (of_nat (length three_rows)) \<and>
         pool_Query three_row_pool query args =
           Inr \<lparr>rs_Fields = [''chain_id'', ''height''],
                rs_Rows = map Inr (take (unat (effective_limit (qo_Limit opts))) (drop k three_rows)),
                rs_EarlyErr = None, rs_Err = None\<rparr>"
      by (elim disjE)
        (simp_all add: three_row_texts three_row_limit filters three_row_pool_def three_rows_def Let_def split: prod.split)
  qed
qed


end
