(* ===== verification/Listener.thy ===== *)
theory Listener
  imports Indexer
begin

text \<open>
  The WebSocket listeners (internal/listener/websocket.go for root-chain notifications, blob.go for blobs):
  the subscription URL, the reading of messages, and the reconnection loop of \<open>Run\<close>. The network is a
  script: what each dial answers, and what each read of a connection returns. A script that is used up leaves
  the listener waiting. Parsing a URL and a message is the libraries'.
\<close>

section \<open>Configuration\<close>

record listener_config =
  lc_URL :: string
  lc_ChainID :: uint64
  lc_MaxRetries :: int
  lc_ReconnectDelay :: int

definition second_ns :: int where "second_ns = 1000000000"

text \<open>\<open>conn\<close> is non-nil or nil; the statistics are kept when a connection ends.\<close>

record listener =
  lis_config :: listener_config
  lis_conn :: bool
  lis_connectedAt :: time
  lis_messageCount :: uint64
  lis_lastMessageAt :: time

definition with_defaults :: "listener_config \<Rightarrow> listener_config" where
  "with_defaults config =
     (let config = (if lc_MaxRetries config \<le> 0 then config\<lparr>lc_MaxRetries := 25\<rparr> else config)
      in if lc_ReconnectDelay config \<le> 0 then config\<lparr>lc_ReconnectDelay := second_ns\<rparr> else config)"

definition NewListener :: "listener_config \<Rightarrow> listener" where
  "NewListener config =
     \<lparr>lis_config = with_defaults config, lis_conn = False, lis_connectedAt = 0, lis_messageCount = 0,
      lis_lastMessageAt = 0\<rparr>"

definition NewBlobListener :: "listener_config \<Rightarrow> listener" where
  "NewBlobListener config =
     \<lparr>lis_config = with_defaults config, lis_conn = False, lis_connectedAt = 0, lis_messageCount = 0,
      lis_lastMessageAt = 0\<rparr>"

section \<open>The subscription URL\<close>

record go_url =
  url_Scheme :: string
  url_Host :: string
  url_Path :: string
  url_RawQuery :: string

definition subscription_url :: "string \<Rightarrow> (string \<Rightarrow> go_error + go_url) \<Rightarrow> listener_config \<Rightarrow> go_error + go_url" where
  "subscription_url suffix parse config =
     (case parse (lc_URL config) of
        Inl err \<Rightarrow> Inl err
      | Inr parsed \<Rightarrow>
          (let host = (if url_Host parsed = [] then url_Path parsed else url_Host parsed);
               wsScheme = (if url_Scheme parsed = ''https'' \<or> url_Scheme parsed = ''wss'' then ''wss'' else ''ws'')
           in Inr \<lparr>url_Scheme = wsScheme, url_Host = host, url_Path = url_Path parsed @ suffix,
                   url_RawQuery = ''chainId='' @ FormatUint (lc_ChainID config)\<rparr>))"

definition buildURL :: "(string \<Rightarrow> go_error + go_url) \<Rightarrow> listener_config \<Rightarrow> go_error + go_url" where
  "buildURL = subscription_url ''/v1/subscribe-rc-info''"

definition blob_buildURL :: "(string \<Rightarrow> go_error + go_url) \<Rightarrow> listener_config \<Rightarrow> go_error + go_url" where
  "blob_buildURL = subscription_url ''/v1/subscribe-indexer-blob''"

section \<open>Reading messages\<close>

datatype socket_read = ReadCancelled | ReadFailed go_error | ReadData time bytes

text \<open>The messages that were read, and how \<open>listen\<close> returned unless it still waits. A message that cannot be
  parsed is skipped.\<close>

fun listen_loop ::
  "(bytes \<Rightarrow> go_error + 'i) \<Rightarrow> listener \<Rightarrow> socket_read list \<Rightarrow> listener \<times> 'i list \<times> go_error option" where
  "listen_loop unmarshal l [] = (l, [], None)"
| "listen_loop unmarshal l (ReadCancelled # reads) = (l, [], Some ContextCanceled)"
| "listen_loop unmarshal l (ReadFailed err # reads) = (l, [], Some (WrapErr ''read message'' err))"
| "listen_loop unmarshal l (ReadData now data # reads) =
     (case unmarshal data of
        Inl _ \<Rightarrow> listen_loop unmarshal l reads
      | Inr info \<Rightarrow>
          (let l = l\<lparr>lis_messageCount := lis_messageCount l + 1, lis_lastMessageAt := now\<rparr>;
               (l, infos, r) = listen_loop unmarshal l reads
           in (l, info # infos, r)))"

record RootChainInfo =
  rci_RootChainId :: uint64
  rci_Height :: uint64

text \<open>The arguments of the calls of \<open>onNewBlock\<close>.\<close>

definition ws_listen ::
  "(bytes \<Rightarrow> go_error + RootChainInfo) \<Rightarrow> listener \<Rightarrow> socket_read list \<Rightarrow>
   listener \<times> (uint64 \<times> uint64) list \<times> go_error option" where
  "ws_listen unmarshal l reads =
     (case listen_loop unmarshal l reads of
        (l, infos, r) \<Rightarrow> (l, map (\<lambda>info. (rci_RootChainId info, rci_Height info)) infos, r))"

text \<open>The blobs that \<open>onBlob\<close> is called with: its error is logged.\<close>

definition blob_listen ::
  "(bytes \<Rightarrow> go_error + fsm_IndexerBlobs) \<Rightarrow> listener \<Rightarrow> socket_read list \<Rightarrow>
   listener \<times> fsm_IndexerBlob list \<times> go_error option" where
  "blob_listen unmarshal l reads =
     (case listen_loop unmarshal l reads of (l, infos, r) \<Rightarrow> (l, collect ibs_Current infos, r))"

section \<open>Reconnecting\<close>

text \<open>What a dial answers: with a failure, whether the context ends during the wait after it.\<close>

datatype dial = DialCancelled | DialFailed go_error bool | Dialed time "socket_read list"

datatype run_end = Running | Returned go_error

record 'd run_result =
  run_listener :: listener
  run_delivered :: "'d list"
  run_waits :: "int list"
  run_end :: run_end

definition give_up :: "listener \<Rightarrow> go_error" where
  "give_up l = Errorf (''max retries ('' @ format_nat (nat (lc_MaxRetries (lis_config l))) @ '') reached'')"

text \<open>The loop from its \<open>attempt\<close>th round. After a lost connection the counter is set to zero and then
  incremented by the loop, and the next dial follows at once.\<close>

fun reconnect_loop ::
  "(listener \<Rightarrow> socket_read list \<Rightarrow> listener \<times> 'd list \<times> go_error option) \<Rightarrow> listener \<Rightarrow> int \<Rightarrow> dial list \<Rightarrow>
   'd run_result" where
  "reconnect_loop listen l attempt [] =
     \<lparr>run_listener = l, run_delivered = [], run_waits = [],
      run_end = (if attempt < lc_MaxRetries (lis_config l) then Running else Returned (give_up l))\<rparr>"
| "reconnect_loop listen l attempt (d # dials) =
     (if \<not> attempt < lc_MaxRetries (lis_config l)
      then \<lparr>run_listener = l, run_delivered = [], run_waits = [], run_end = Returned (give_up l)\<rparr>
      else (case d of
        DialCancelled \<Rightarrow>
          \<lparr>run_listener = l, run_delivered = [], run_waits = [], run_end = Returned ContextCanceled\<rparr>
      | DialFailed err cancelled \<Rightarrow>
          (let delay = (attempt + 1) * lc_ReconnectDelay (lis_config l)
           in if cancelled
              then \<lparr>run_listener = l, run_delivered = [], run_waits = [delay], run_end = Returned ContextCanceled\<rparr>
              else (let r = reconnect_loop listen l (attempt + 1) dials in r\<lparr>run_waits := delay # run_waits r\<rparr>))
      | Dialed now reads \<Rightarrow>
          (case listen (l\<lparr>lis_conn := True, lis_connectedAt := now, lis_messageCount := 0\<rparr>) reads of
             (l, ds, None) \<Rightarrow> \<lparr>run_listener = l, run_delivered = ds, run_waits = [], run_end = Running\<rparr>
           | (l, ds, Some err) \<Rightarrow>
               (if err = ContextCanceled
                then \<lparr>run_listener = l, run_delivered = ds, run_waits = [], run_end = Returned err\<rparr>
                else (let r = reconnect_loop listen (l\<lparr>lis_conn := False\<rparr>) (0 + 1) dials
                      in r\<lparr>run_delivered := ds @ run_delivered r\<rparr>)))))"

definition run_with ::
  "(go_error + go_url) \<Rightarrow> (listener \<Rightarrow> socket_read list \<Rightarrow> listener \<times> 'd list \<times> go_error option) \<Rightarrow> listener \<Rightarrow>
   dial list \<Rightarrow> 'd run_result" where
  "run_with url listen l dials =
     (case url of
        Inl err \<Rightarrow> \<lparr>run_listener = l, run_delivered = [], run_waits = [],
                    run_end = Returned (WrapErr ''build websocket url'' err)\<rparr>
      | Inr _ \<Rightarrow> reconnect_loop listen l 0 dials)"

definition ws_Run ::
  "(string \<Rightarrow> go_error + go_url) \<Rightarrow> (bytes \<Rightarrow> go_error + RootChainInfo) \<Rightarrow> listener \<Rightarrow> dial list \<Rightarrow>
   (uint64 \<times> uint64) run_result" where
  "ws_Run parse unmarshal l dials = run_with (buildURL parse (lis_config l)) (ws_listen unmarshal) l dials"

definition blob_Run ::
  "(string \<Rightarrow> go_error + go_url) \<Rightarrow> (bytes \<Rightarrow> go_error + fsm_IndexerBlobs) \<Rightarrow> listener \<Rightarrow> dial list \<Rightarrow>
   fsm_IndexerBlob run_result" where
  "blob_Run parse unmarshal l dials = run_with (blob_buildURL parse (lis_config l)) (blob_listen unmarshal) l dials"

definition listener_Close :: "listener \<Rightarrow> listener" where
  "listener_Close l = (if lis_conn l then l\<lparr>lis_conn := False\<rparr> else l)"

definition IsConnected :: "listener \<Rightarrow> bool" where
  "IsConnected l = lis_conn l"

text \<open>\<open>connected, uptime, messageCount, lastMessage\<close>\<close>

definition listener_Stats :: "time \<Rightarrow> listener \<Rightarrow> bool \<times> int \<times> uint64 \<times> time" where
  "listener_Stats now l =
     (lis_conn l, if lis_conn l then now - lis_connectedAt l else 0, lis_messageCount l, lis_lastMessageAt l)"

section \<open>The contract of a message loop\<close>

text \<open>A connection that is lost before the context ends.\<close>

definition connection_lost :: "socket_read list \<Rightarrow> bool" where
  "connection_lost reads \<longleftrightarrow> ReadCancelled \<notin> set reads \<and> (\<exists>e. ReadFailed e \<in> set reads)"

fun dial_failed :: "dial \<Rightarrow> bool" where
  "dial_failed (DialFailed err cancelled) = True"
| "dial_failed d = False"

text \<open>A network that never stays up and a context that never ends.\<close>

fun lossy :: "dial \<Rightarrow> bool" where
  "lossy DialCancelled = False"
| "lossy (DialFailed err cancelled) = (\<not> cancelled)"
| "lossy (Dialed now reads) = connection_lost reads"

text \<open>The dials that count against the limit: those that failed since the last connection, and one for the
  connection itself.\<close>

definition retries_from :: "int \<Rightarrow> dial list \<Rightarrow> int" where
  "retries_from a dials =
     (if list_all dial_failed dials then a + int (length dials)
      else 1 + int (length (takeWhile dial_failed (rev dials))))"

lemma retries_from_Nil [simp]: "retries_from a [] = a"
  by (simp add: retries_from_def)

lemma retries_from_Cons: "retries_from a (d # dials) = retries_from (if dial_failed d then a + 1 else 1) dials"
proof (cases "list_all dial_failed dials")
  case True
  then have "takeWhile dial_failed (rev dials) = rev dials" by (simp add: list_all_iff)
  with True show ?thesis
    by (simp add: retries_from_def) (simp add: takeWhile_append list_all_iff)
next
  case False
  then have "takeWhile dial_failed (rev dials @ [d]) = takeWhile dial_failed (rev dials)"
    by (auto simp: takeWhile_append1 list_all_iff)
  with False show ?thesis by (simp add: retries_from_def)
qed

locale message_loop =
  fixes listen :: "listener \<Rightarrow> socket_read list \<Rightarrow> listener \<times> 'd list \<times> go_error option"
  assumes keeps_config: "listen l reads = (l', ds, r) \<Longrightarrow> lis_config l' = lis_config l"
    and lost: "connection_lost reads \<Longrightarrow> \<exists>e. snd (snd (listen l reads)) = Some (WrapErr ''read message'' e)"
begin

lemma give_up_iff:
  assumes "list_all lossy dials"
  shows "run_end (reconnect_loop listen l a dials) =
    (if \<exists>n \<le> length dials. lc_MaxRetries (lis_config l) \<le> retries_from a (take n dials)
     then Returned (give_up l) else Running)"
  using assms
proof (induction dials arbitrary: l a)
  case Nil
  then show ?case by auto
next
  case (Cons d dials)
  have split_first: "(\<exists>n \<le> length (d # dials). P n) \<longleftrightarrow> P 0 \<or> (\<exists>n \<le> length dials. P (Suc n))" for P
    by (metis Suc_le_mono le0 length_Cons not0_implies_Suc)
  have prefixes: "(\<exists>n \<le> length (d # dials). m \<le> retries_from a (take n (d # dials))) \<longleftrightarrow>
      m \<le> a \<or> (\<exists>n \<le> length dials. m \<le> retries_from (if dial_failed d then a + 1 else 1) (take n dials))" for m
    unfolding split_first by (simp add: retries_from_Cons)
  show ?case
  proof (cases "a < lc_MaxRetries (lis_config l)")
    case True
    show ?thesis
    proof (cases d)
      case (DialFailed err cancelled)
      then show ?thesis
        using True Cons unfolding prefixes by (simp add: Let_def)
    next
      case (Dialed now reads)
      let ?l = "l\<lparr>lis_conn := True, lis_connectedAt := now, lis_messageCount := 0\<rparr>"
      obtain l' ds e where r: "listen ?l reads = (l', ds, Some (WrapErr ''read message'' e))"
        using lost [of reads ?l] Cons.prems Dialed by (cases "listen ?l reads") auto
      have "lis_config l' = lis_config l" using keeps_config [OF r] by simp
      then show ?thesis
        using True Cons Dialed r unfolding prefixes by (simp add: Let_def give_up_def)
    qed (use Cons.prems in simp)
  next
    case False
    then show ?thesis unfolding prefixes by simp
  qed
qed

end

lemma listen_loop_config: "lis_config (fst (listen_loop unmarshal l reads)) = lis_config l"
  by (induction unmarshal l reads rule: listen_loop.induct) (auto simp: Let_def split: sum.split prod.splits)

lemma listen_loop_lost:
  "connection_lost reads \<Longrightarrow> \<exists>e. snd (snd (listen_loop unmarshal l reads)) = Some (WrapErr ''read message'' e)"
  by (induction unmarshal l reads rule: listen_loop.induct)
    (auto simp: connection_lost_def Let_def split: sum.split prod.splits)

interpretation ws: message_loop "ws_listen unmarshal"
proof
  show "lis_config l' = lis_config l" if "ws_listen unmarshal l reads = (l', ds, r)" for l reads l' ds r
    using that listen_loop_config [of unmarshal l reads] by (auto simp: ws_listen_def split: prod.splits)
  show "\<exists>e. snd (snd (ws_listen unmarshal l reads)) = Some (WrapErr ''read message'' e)"
    if "connection_lost reads" for l reads
    using listen_loop_lost [OF that, of unmarshal l] by (auto simp: ws_listen_def split: prod.splits)
qed

interpretation blobs: message_loop "blob_listen unmarshal"
proof
  show "lis_config l' = lis_config l" if "blob_listen unmarshal l reads = (l', ds, r)" for l reads l' ds r
    using that listen_loop_config [of unmarshal l reads] by (auto simp: blob_listen_def split: prod.splits)
  show "\<exists>e. snd (snd (blob_listen unmarshal l reads)) = Some (WrapErr ''read message'' e)"
    if "connection_lost reads" for l reads
    using listen_loop_lost [OF that, of unmarshal l] by (auto simp: blob_listen_def split: prod.splits)
qed

text \<open>
  C31. On a network that loses every connection, a listener whose URL can be parsed gives up exactly when the
  dials that failed since the last connection reach the limit, where a connection already counts for one: after
  it one dial less is tried than before, and with a limit of one none at all. Otherwise it goes on.
\<close>

theorem listener_gives_up:
  assumes "parse (lc_URL (with_defaults config)) = Inr u" "list_all lossy dials"
  shows "run_end (ws_Run parse um (NewListener config) dials) =
      (if \<exists>n \<le> length dials. lc_MaxRetries (with_defaults config) \<le> retries_from 0 (take n dials)
       then Returned (give_up (NewListener config)) else Running) \<and>
    run_end (blob_Run parse ub (NewBlobListener config) dials) =
      (if \<exists>n \<le> length dials. lc_MaxRetries (with_defaults config) \<le> retries_from 0 (take n dials)
       then Returned (give_up (NewBlobListener config)) else Running)"
  using assms ws.give_up_iff [OF assms(2), of um "NewListener config" 0]
    blobs.give_up_iff [OF assms(2), of ub "NewBlobListener config" 0]
  by (simp_all add: ws_Run_def blob_Run_def run_with_def buildURL_def blob_buildURL_def subscription_url_def
      Let_def NewListener_def NewBlobListener_def)

definition one_retry :: listener_config where
  "one_retry = \<lparr>lc_URL = ''ws://node'', lc_ChainID = 5, lc_MaxRetries = 1, lc_ReconnectDelay = 0\<rparr>"

theorem listener_gives_up_witness:
  "run_end (ws_Run (\<lambda>_. Inr \<lparr>url_Scheme = ''ws'', url_Host = ''node'', url_Path = [], url_RawQuery = []\<rparr>)
      (\<lambda>_. Inl (Errorf ''eof'')) (NewListener one_retry) [Dialed 0 [ReadFailed (Errorf ''eof'')]]) =
    Returned (give_up (NewListener one_retry))"
  using listener_gives_up [THEN conjunct1, of "\<lambda>_. Inr \<lparr>url_Scheme = ''ws'', url_Host = ''node'', url_Path = [], url_RawQuery = []\<rparr>"
      one_retry _ "[Dialed 0 [ReadFailed (Errorf ''eof'')]]" "\<lambda>_. Inl (Errorf ''eof'')"]
  by (auto simp: connection_lost_def one_retry_def with_defaults_def retries_from_def)

end
