(* ===== verification/Concurrent.thy ===== *)
theory Concurrent
  imports IndexRuns
begin

text \<open>
  Several goroutines index the same block at once: the blob listener, the worker and a backfill all call
  \<open>IndexBlockWithData\<close> (internal/indexer/indexer.go), which takes no lock around its check, its transaction
  and its summary. The function is cut at its database calls into phases; a system of such calls takes the
  phases in any order. PostgreSQL makes each phase atomic.
\<close>

section \<open>One call in phases\<close>

datatype phase =
    Checking
  | Writing chain_DB BlockData
  | Summarizing chain_DB BlockData
  | Finishing
  | Finished "unit outcome"

fun next_phase ::
  "'m canopy_lib \<Rightarrow> index_env \<Rightarrow> 'm blob_BlockData \<Rightarrow> phase \<Rightarrow> indexer_state \<Rightarrow> phase \<times> indexer_state" where
  "next_phase cl env data Checking st =
     (case idx_chains st (bd_ChainID data) of
        None \<Rightarrow> (Finished (Fail ErrChainNotConfigured), st)
      | Some db \<Rightarrow>
     (case HasBlock (env_has env) (bd_Height data) (db_chain st (cdb_ChainID db)) of
        Fail err \<Rightarrow> (Finished (Fail (WrapErr ''check if block exists'' err)), st)
      | Panic \<Rightarrow> (Finished Panic, st)
      | Ok True \<Rightarrow> (Finished (Ok ()), st)
      | Ok False \<Rightarrow>
     (case convertToBlockData cl data [] of
        Fail err \<Rightarrow> (Finished (Fail err), st)
      | Panic \<Rightarrow> (Finished Panic, st)
      | Ok blockData \<Rightarrow> (Writing db blockData, st))))"
| "next_phase cl env data (Writing db blockData) st =
     (case writeBlockData (env_write env) blockData (db_chain st (cdb_ChainID db)) of
        (t, Fail err) \<Rightarrow> (Finished (Fail (WrapErr ''write data'' err)), set_chain (cdb_ChainID db) t st)
      | (t, Panic) \<Rightarrow> (Finished Panic, set_chain (cdb_ChainID db) t st)
      | (t, Ok _) \<Rightarrow> (Summarizing db blockData, set_chain (cdb_ChainID db) t st))"
| "next_phase cl env data (Summarizing db blockData) st =
     (case buildBlockSummary (env_summary env) blockData (db_chain st (cdb_ChainID db)) of
        Fail err \<Rightarrow> (Finished (Fail (WrapErr ''build block summary'' err)), st)
      | Panic \<Rightarrow> (Finished Panic, st)
      | Ok t \<Rightarrow> (Finishing, set_chain (cdb_ChainID db) t st))"
| "next_phase cl env data Finishing st =
     (Finished (Ok ()), finish_block env (bd_ChainID data) (bd_Height data) st)"
| "next_phase cl env data (Finished r) st = (Finished r, st)"

text \<open>Alone, the phases are the function.\<close>

fun phases :: "nat \<Rightarrow> 'm canopy_lib \<Rightarrow> index_env \<Rightarrow> 'm blob_BlockData \<Rightarrow> phase \<times> indexer_state \<Rightarrow> phase \<times> indexer_state" where
  "phases 0 cl env data ps = ps"
| "phases (Suc n) cl env data ps = phases n cl env data (next_phase cl env data (fst ps) (snd ps))"

lemma phases_Finished [simp]: "phases n cl env data (Finished r, st) = (Finished r, st)"
  by (induction n) simp_all

lemma set_chain_twice [simp]: "set_chain c t' (set_chain c t st) = set_chain c t' st"
  by (simp add: set_chain_def)

lemma phases_are_IndexBlockWithData:
  "phases 4 cl env data (Checking, st) =
     (case IndexBlockWithData cl env (Some data) st of (st', r) \<Rightarrow> (Finished r, st'))"
proof (cases "idx_chains st (bd_ChainID data)")
  case None
  then show ?thesis by (simp add: eval_nat_numeral IndexBlockWithData_def)
next
  case db: (Some db)
  let ?t = "db_chain st (cdb_ChainID db)"
  note def = eval_nat_numeral IndexBlockWithData_def db
  show ?thesis
  proof (cases "HasBlock (env_has env) (bd_Height data) ?t")
    case has: (Ok b)
    show ?thesis
    proof (cases b)
      case True
      then show ?thesis using has by (simp add: def del: HasBlock_Ok_iff)
    next
      case False
      show ?thesis
      proof (cases "convertToBlockData cl data []")
        case d: (Ok d)
        obtain t w where w: "writeBlockData (env_write env) d ?t = (t, w)" by fastforce
        show ?thesis
          using has False d w
          by (cases w; cases "buildBlockSummary (env_summary env) d t") (simp_all add: def del: HasBlock_Ok_iff)
      qed (use has False in \<open>simp_all add: def del: HasBlock_Ok_iff\<close>)
    qed
  qed (simp_all add: def del: HasBlock_Ok_iff HasBlock_not_Panic)
qed

section \<open>Many calls\<close>

text \<open>Each call has databases of its own: the failures that it meets.\<close>

inductive interleaving ::
  "'m canopy_lib \<Rightarrow> (nat \<Rightarrow> index_env) \<Rightarrow> 'm blob_BlockData \<Rightarrow> (nat \<Rightarrow> phase) \<times> indexer_state \<Rightarrow>
   (nat \<Rightarrow> phase) \<times> indexer_state \<Rightarrow> bool"
  for cl envs data s where
  start: "interleaving cl envs data s s"
| step: "interleaving cl envs data s (ps, st) \<Longrightarrow> next_phase cl (envs i) data (ps i) st = (p, st') \<Longrightarrow>
     interleaving cl envs data s (ps(i := p), st')"

inductive_cases interleavingE: "interleaving cl envs data s s'"

section \<open>What the interleavings can do\<close>

text \<open>The tables of the chain are \<open>t0\<close>, \<open>t0\<close> with the block, or those with the summary; which of them a phase
  needs.\<close>

fun phase_ok :: "chain_DB \<Rightarrow> BlockData \<Rightarrow> uint64 \<Rightarrow> chain_tables \<Rightarrow> chain_tables \<Rightarrow> phase \<Rightarrow> bool" where
  "phase_ok db d h t0 t Checking = True"
| "phase_ok db d h t0 t (Writing db' d') = (db' = db \<and> d' = d \<and> t_blocks t0 h = None)"
| "phase_ok db d h t0 t (Summarizing db' d') = (db' = db \<and> d' = d \<and> t_blocks t0 h = None \<and> t \<noteq> t0)"
| "phase_ok db d h t0 t Finishing = (t_blocks t0 h = None \<and> t = summarized d (written d t0))"
| "phase_ok db d h t0 t (Finished r) = (r = Ok () \<longrightarrow> t_blocks t h \<noteq> None)"

definition interleaving_ok ::
  "chain_DB \<Rightarrow> BlockData \<Rightarrow> 'm blob_BlockData \<Rightarrow> indexer_state \<Rightarrow> (nat \<Rightarrow> phase) \<times> indexer_state \<Rightarrow> bool" where
  "interleaving_ok db d data st0 s \<longleftrightarrow>
     (let t0 = db_chain st0 (cdb_ChainID db); t = db_chain (snd s) (cdb_ChainID db); h = bd_Height data
      in idx_chains (snd s) = idx_chains st0 \<and>
         (\<forall>c. c \<noteq> cdb_ChainID db \<longrightarrow> db_chain (snd s) c = db_chain st0 c) \<and>
         t \<in> {t0, written d t0, summarized d (written d t0)} \<and>
         (t_blocks t0 h \<noteq> None \<longrightarrow> t = t0) \<and>
         (\<forall>i. phase_ok db d h t0 t (fst s i)))"

lemma written_summarized: "written d (summarized d t) = summarized d (written d t)"
  by (simp add: summarized_def written_def)

lemma summarized_idem: "summarized d (summarized d t) = summarized d t"
  by (simp add: summarized_def)

text \<open>A write or a summary of another call keeps every phase.\<close>

lemma phase_ok_written:
  assumes "phase_ok db d h t0 t q" "t_blocks t0 h = None" "t_blocks (written d t) h \<noteq> None"
  shows "phase_ok db d h t0 (written d t) q"
  using assms by (cases q) (auto simp: written_summarized written_idem)

lemma phase_ok_summarized:
  assumes "phase_ok db d h t0 t q" "t_blocks t0 h = None" "t \<in> {written d t0, summarized d (written d t0)}"
    and "t_blocks (written d t0) h \<noteq> None"
  shows "phase_ok db d h t0 (summarized d t) q"
proof -
  have "t_blocks (summarized d t) h \<noteq> None" using assms(3,4) by auto
  then have "summarized d t \<noteq> t0" using assms(2) by auto
  then show ?thesis using assms by (cases q) (auto simp: summarized_idem)
qed

lemma interleaving_ok_move:
  assumes "interleaving_ok db d data st0 (ps, st)" "db_chain st' = db_chain st" "idx_chains st' = idx_chains st"
    and "phase_ok db d (bd_Height data) (db_chain st0 (cdb_ChainID db)) (db_chain st (cdb_ChainID db)) p"
  shows "interleaving_ok db d data st0 (ps(i := p), st')"
  using assms by (simp add: interleaving_ok_def Let_def)

lemma interleaving_ok_tables:
  assumes ok: "interleaving_ok db d data st0 (ps, st)" and new: "t_blocks (db_chain st0 (cdb_ChainID db)) (bd_Height data) = None"
    and t: "t \<in> {written d (db_chain st0 (cdb_ChainID db)), summarized d (written d (db_chain st0 (cdb_ChainID db)))}"
    and keep: "\<And>q. phase_ok db d (bd_Height data) (db_chain st0 (cdb_ChainID db)) (db_chain st (cdb_ChainID db)) q \<Longrightarrow>
      phase_ok db d (bd_Height data) (db_chain st0 (cdb_ChainID db)) t q"
    and p: "phase_ok db d (bd_Height data) (db_chain st0 (cdb_ChainID db)) t p"
  shows "interleaving_ok db d data st0 (ps(i := p), set_chain (cdb_ChainID db) t st)"
  using ok new t keep p by (simp add: interleaving_ok_def Let_def)

lemma next_phase_ok:
  assumes ok: "interleaving_ok db d data st0 (ps, st)" and run: "next_phase cl env data (ps i) st = (p, st')"
    and db: "idx_chains st0 (bd_ChainID data) = Some db" and header: "header_height data"
    and d: "convertToBlockData cl data [] = Ok d"
  shows "interleaving_ok db d data st0 (ps(i := p), st')"
proof -
  let ?old = "db_chain st0 (cdb_ChainID db)" and ?t = "db_chain st (cdb_ChainID db)" and ?h = "bd_Height data"
  note inv_facts = ok [unfolded interleaving_ok_def Let_def fst_conv snd_conv]
  have chains: "idx_chains st (bd_ChainID data) = Some db" using inv_facts db by simp
  have t: "?t \<in> {?old, written d ?old, summarized d (written d ?old)}"
    and old: "t_blocks ?old ?h \<noteq> None \<Longrightarrow> ?t = ?old" using inv_facts by blast+
  have pi: "phase_ok db d ?h ?old ?t (ps i)" using inv_facts by blast
  note stored = stored_block(1) [OF d header]
  have overlays: "written d ?t \<in> {written d ?old, summarized d (written d ?old)}"
    using t by (auto simp: written_idem written_summarized)
  show ?thesis
  proof (cases "ps i")
    case Checking
    then show ?thesis
      using run chains d old by (intro interleaving_ok_move [OF ok])
        (auto split: outcome.splits bool.splits simp del: HasBlock_Ok_iff dest: HasBlock_Ok_iff [THEN iffD1])
  next
    case (Writing db' d')
    then have w: "db' = db" "d' = d" "t_blocks ?old ?h = None" using pi by simp_all
    obtain t1 r where wrote: "writeBlockData (env_write env) d ?t = (t1, r)" by fastforce
    have p: "p = (case r of Ok _ \<Rightarrow> Summarizing db d | Fail err \<Rightarrow> Finished (Fail (WrapErr ''write data'' err))
        | Panic \<Rightarrow> Finished Panic)" and st': "st' = set_chain (cdb_ChainID db) t1 st"
      using run Writing w wrote by (auto split: outcome.splits)
    show ?thesis
    proof (cases "t1 = written d ?t")
      case True
      have "written d ?t \<noteq> ?old" using w(3) stored by metis
      then have "phase_ok db d ?h ?old t1 p"
        unfolding p True using w(3) by (simp split: outcome.split)
      with True show ?thesis
        unfolding st' using phase_ok_written [OF _ w(3) stored] overlays
        by (intro interleaving_ok_tables [OF ok w(3)]) auto
    next
      case False
      then have "t1 = ?t" using writeBlockData_cases [of "env_write env" d ?t] wrote by (metis fst_conv)
      moreover have "r \<noteq> Ok ()" using False wrote writeBlockData_Ok by blast
      ultimately show ?thesis
        unfolding st' p by (intro interleaving_ok_move [OF ok]) (auto split: outcome.split)
    qed
  next
    case (Summarizing db' d')
    then have w: "db' = db" "d' = d" "t_blocks ?old ?h = None" "?t \<noteq> ?old" using pi by simp_all
    then have t': "?t \<in> {written d ?old, summarized d (written d ?old)}" using t by blast
    show ?thesis
    proof (cases "buildBlockSummary (env_summary env) d ?t")
      case (Ok t1)
      then have t1: "t1 = summarized d ?t" by (rule buildBlockSummary_Ok)
      moreover have "summarized d ?t = summarized d (written d ?old)" using t' by (auto simp: summarized_idem)
      moreover have "p = Finishing" "st' = set_chain (cdb_ChainID db) t1 st" using run Summarizing w Ok by auto
      ultimately show ?thesis
        using phase_ok_summarized [OF _ w(3) t' stored] w(3)
        by (simp only:) (intro interleaving_ok_tables [OF ok w(3)], auto)
    next
      case (Fail err)
      then show ?thesis using run Summarizing w by (intro interleaving_ok_move [OF ok]) auto
    next
      case Panic
      then show ?thesis using run Summarizing w by (intro interleaving_ok_move [OF ok]) auto
    qed
  next
    case Finishing
    then show ?thesis using run pi stored t by (intro interleaving_ok_move [OF ok]) auto
  next
    case (Finished r)
    then show ?thesis using run pi by (intro interleaving_ok_move [OF ok]) auto
  qed
qed

lemma interleaving_ok_reached:
  assumes "interleaving cl envs data s s'" "interleaving_ok db d data st0 s"
    and "idx_chains st0 (bd_ChainID data) = Some db" "header_height data" "convertToBlockData cl data [] = Ok d"
  shows "interleaving_ok db d data st0 s'"
  using assms(1)
proof (induction rule: interleaving.induct)
  case start
  show ?case by (rule assms(2))
next
  case (step ps st i p st')
  then show ?case using next_phase_ok [OF _ _ assms(3-5)] by blast
qed

text \<open>
  C11. However many calls index the same block at once, with whatever failures and in whatever order their
  database calls interleave: the chain's tables are untouched, or have every row of the block, or those and its
  summary, as after one call; a block that was there stays as it is; a call that reports success has found or
  stored the block; a call that reaches the announcement has the summary in the tables; and no other chain is
  touched.
\<close>

theorem concurrent_runs:
  assumes "interleaving cl envs data (\<lambda>_. Checking, st) (ps, st')"
    and "idx_chains st (bd_ChainID data) = Some db" "header_height data" "convertToBlockData cl data [] = Ok d"
  shows "(let t = db_chain st (cdb_ChainID db); t' = db_chain st' (cdb_ChainID db); h = bd_Height data in
      t' \<in> {t, written d t, summarized d (written d t)} \<and> (t_blocks t h \<noteq> None \<longrightarrow> t' = t) \<and>
      (\<forall>i. ps i = Finished (Ok ()) \<longrightarrow> t_blocks t' h \<noteq> None) \<and>
      (\<forall>i. ps i = Finishing \<longrightarrow> t' = summarized d (written d t)))
    \<and> (\<forall>c. c \<noteq> cdb_ChainID db \<longrightarrow> db_chain st' c = db_chain st c)"
proof -
  have "interleaving_ok db d data st (\<lambda>_. Checking, st)" by (simp add: interleaving_ok_def Let_def)
  then have ok: "interleaving_ok db d data st (ps, st')" by (rule interleaving_ok_reached [OF assms(1) _ assms(2-4)])
  note inv_facts = ok [unfolded interleaving_ok_def Let_def fst_conv snd_conv]
  have "t_blocks (db_chain st' (cdb_ChainID db)) (bd_Height data) \<noteq> None" if "ps i = Finished (Ok ())" for i
    using inv_facts that by (metis phase_ok.simps(5))
  moreover have "db_chain st' (cdb_ChainID db) = summarized d (written d (db_chain st (cdb_ChainID db)))"
    if "ps i = Finishing" for i using inv_facts that by (metis phase_ok.simps(4))
  ultimately show ?thesis using inv_facts unfolding Let_def by blast
qed

text \<open>Two calls that both saw no block: the second writes the same rows again.\<close>

theorem concurrent_runs_witness:
  "\<exists>ps st' d. interleaving sample_lib (\<lambda>_. env_ok) (sample_data 5 7) (\<lambda>_. Checking, sample_state) (ps, st') \<and>
     ps 0 = Summarizing sample_chain d \<and> ps 1 = Summarizing sample_chain d \<and>
     db_chain st' 5 \<in> {empty_tables, written d empty_tables, summarized d (written d empty_tables)}"
proof -
  let ?run = "interleaving sample_lib (\<lambda>_. env_ok) (sample_data 5 7) (\<lambda>_. Checking, sample_state)"
  obtain d where d: "convertToBlockData sample_lib (sample_data 5 7) [] = Ok d"
    using convertToBlockData_Ok_iff [of sample_lib "sample_data 5 7" "[]"] by (auto simp: sample_block_def)
  have check: "next_phase sample_lib env_ok (sample_data 5 7) Checking sample_state = (Writing sample_chain d, sample_state)"
  proof -
    have has: "HasBlock (env_has env_ok) 7 empty_tables = Ok False" by (simp add: env_ok_def sql_ok_def empty_tables_def)
    show ?thesis by (simp add: has d del: HasBlock_Ok_iff)
  qed
  have db_write: "next_phase sample_lib env_ok (sample_data 5 7) (Writing sample_chain d) s =
      (Summarizing sample_chain d, set_chain 5 (written d (db_chain s 5)) s)" for s
    by (simp add: env_ok_def sql_ok_def writeBlockData_no_fault)
  note run = interleaving.step [where cl = sample_lib and data = "sample_data 5 7"]
  have "?run ((\<lambda>_. Checking)(0 := Writing sample_chain d), sample_state)"
    by (rule run [OF interleaving.start]) (simp add: check del: next_phase.simps(1))
  then have "?run ((\<lambda>_. Checking)(0 := Writing sample_chain d, 1 := Writing sample_chain d), sample_state)"
    by (rule run) (simp add: check del: next_phase.simps(1))
  then have "?run ((\<lambda>_. Checking)(0 := Writing sample_chain d, 1 := Writing sample_chain d, 0 := Summarizing sample_chain d),
      set_chain 5 (written d (db_chain sample_state 5)) sample_state)" (is "?run (?ps, ?st)")
    by (rule run) (simp add: db_write del: next_phase.simps(2))
  then have "?run (?ps(1 := Summarizing sample_chain d), set_chain 5 (written d (db_chain ?st 5)) ?st)"
    by (rule run) (simp add: db_write del: next_phase.simps(2))
  then obtain ps st' where "?run (ps, st')" "ps 0 = Summarizing sample_chain d" "ps 1 = Summarizing sample_chain d"
    by (rule that) simp_all
  moreover have "header_height (sample_data 5 7)"
    by (simp add: header_height_def sample_block_def sample_header_def)
  ultimately show ?thesis
    using concurrent_runs [of sample_lib "\<lambda>_. env_ok" "sample_data 5 7" sample_state ps st' sample_chain d] d
    by (auto simp: Let_def)
qed

end
