(* ===== verification/GoParse.thy ===== *)
theory GoParse
  imports GoText
begin

text \<open>
  The parsers of the Go standard library that the configuration and the HTTP API read text with:
  \<open>strconv.ParseUint(s, 10, 64)\<close>, \<open>strconv.Atoi\<close>, \<open>time.ParseDuration\<close>, and \<open>strings.TrimSpace\<close>,
  \<open>strings.TrimRight(s, "/")\<close> and \<open>utils.Dedup\<close> (pkg/utils/transform.go). Every caller asks only whether
  parsing failed, so a parser returns an option. A duration is its number of nanoseconds.
\<close>

section \<open>Numbers\<close>

definition ascii_digit :: "char \<Rightarrow> bool" where
  "ascii_digit c \<longleftrightarrow> c \<in> set ''0123456789''"

definition digit_val :: "char \<Rightarrow> nat" where
  "digit_val c = of_char c - 48"

fun parse_digits :: "nat \<Rightarrow> string \<Rightarrow> nat option" where
  "parse_digits n [] = Some n"
| "parse_digits n (c # cs) = (if ascii_digit c then parse_digits (10 * n + digit_val c) cs else None)"

definition ParseUint :: "string \<Rightarrow> uint64 option" where
  "ParseUint s =
     (if s = [] then None
      else case parse_digits 0 s of
        None \<Rightarrow> None
      | Some n \<Rightarrow> if n < 2 ^ 64 then Some (of_nat n) else None)"

text \<open>An \<open>int\<close> has 64 bits.\<close>

definition Atoi :: "string \<Rightarrow> int option" where
  "Atoi s =
     (let neg = (s \<noteq> [] \<and> List.hd s = CHR ''-'');
          ds = (if s \<noteq> [] \<and> (List.hd s = CHR ''-'' \<or> List.hd s = CHR ''+'') then tl s else s)
      in if ds = [] then None
         else case parse_digits 0 ds of
           None \<Rightarrow> None
         | Some n \<Rightarrow>
             (if neg then (if n \<le> 2 ^ 63 then Some (- int n) else None)
              else (if n < 2 ^ 63 then Some (int n) else None)))"

lemma digits_ok: "\<forall>n \<in> set [0..<10]. ascii_digit (hex_digit n) \<and> digit_val (hex_digit n) = n"
  by (simp add: upt_rec ascii_digit_def digit_val_def hex_digit_def hex_digits_def)

lemma hex_digit_is_digit: "n < 10 \<Longrightarrow> ascii_digit (hex_digit n) \<and> digit_val (hex_digit n) = n"
  using digits_ok by (simp del: set_upt add: set_upt)

lemma parse_digits_append:
  "parse_digits m (xs @ ys) =
     (case parse_digits m xs of None \<Rightarrow> None | Some n \<Rightarrow> parse_digits n ys)"
  by (induction m xs rule: parse_digits.induct) auto

lemma parse_digits_format_nat: "parse_digits 0 (format_nat n) = Some n"
proof (induction n rule: format_nat.induct)
  case (1 n)
  show ?case
  proof (cases "n < 10")
    case True
    then show ?thesis by (simp add: format_nat_single hex_digit_is_digit)
  next
    case False
    then have "n mod 10 < 10" "10 * (n div 10) + n mod 10 = n" by simp_all
    then show ?thesis
      using False 1 hex_digit_is_digit [of "n mod 10"] by (simp add: format_nat_more parse_digits_append)
  qed
qed

theorem parse_uint_round_trip: "ParseUint (FormatUint n) = Some n"
  using unsigned_less [of n] by (simp add: ParseUint_def FormatUint_def parse_digits_format_nat)

section \<open>Durations\<close>

fun leading_int :: "nat \<Rightarrow> string \<Rightarrow> (nat \<times> string) option" where
  "leading_int x [] = Some (x, [])"
| "leading_int x (c # cs) =
     (if \<not> ascii_digit c then Some (x, c # cs)
      else if x > 2 ^ 63 div 10 then None
      else if x * 10 + digit_val c > 2 ^ 63 then None
      else leading_int (x * 10 + digit_val c) cs)"

fun leading_fraction :: "nat \<Rightarrow> nat \<Rightarrow> bool \<Rightarrow> string \<Rightarrow> nat \<times> nat \<times> string" where
  "leading_fraction x scale overflow [] = (x, scale, [])"
| "leading_fraction x scale overflow (c # cs) =
     (if \<not> ascii_digit c then (x, scale, c # cs)
      else if overflow then leading_fraction x scale overflow cs
      else if x > (2 ^ 63 - 1) div 10 then leading_fraction x scale True cs
      else if x * 10 + digit_val c > 2 ^ 63 then leading_fraction x scale True cs
      else leading_fraction (x * 10 + digit_val c) (scale * 10) overflow cs)"

text \<open>The units; the two spellings of the microsecond that are not ASCII are given by their bytes.\<close>

definition duration_units :: "string \<rightharpoonup> nat" where
  "duration_units = map_of
     [(''ns'', 1), (''us'', 1000), ([CHR 0xC2, CHR 0xB5, CHR ''s''], 1000), ([CHR 0xCE, CHR 0xBC, CHR ''s''], 1000),
      (''ms'', 1000000), (''s'', 1000000000), (''m'', 60 * 1000000000), (''h'', 3600 * 1000000000)]"

definition unit_char :: "char \<Rightarrow> bool" where
  "unit_char c \<longleftrightarrow> \<not> (c = CHR ''.'' \<or> ascii_digit c)"

text \<open>One number with its unit. \<open>fmul f unit scale\<close> is \<open>uint64(float64(f) * (float64(unit) / scale))\<close>; its
  rounding is left to the argument.\<close>

definition duration_part :: "(nat \<Rightarrow> nat \<Rightarrow> nat \<Rightarrow> nat) \<Rightarrow> string \<Rightarrow> (nat \<times> string) option" where
  "duration_part fmul s =
     (if \<not> (s \<noteq> [] \<and> (List.hd s = CHR ''.'' \<or> ascii_digit (List.hd s))) then None
      else case leading_int 0 s of
        None \<Rightarrow> None
      | Some (v, s1) \<Rightarrow>
          (let pre = (length s \<noteq> length s1);
               dot = (s1 \<noteq> [] \<and> List.hd s1 = CHR ''.'');
               (f, scale, s2) = (if dot then leading_fraction 0 1 False (tl s1) else (0, 1, s1));
               post = (dot \<and> length (tl s1) \<noteq> length s2)
           in if \<not> pre \<and> \<not> post then None
              else let u = takeWhile unit_char s2; s3 = dropWhile unit_char s2
                   in if u = [] then None
                      else case duration_units u of
                        None \<Rightarrow> None
                      | Some unit \<Rightarrow>
                          (if v > 2 ^ 63 div unit then None
                           else let v = v * unit; v = (if f > 0 then v + fmul f unit scale else v)
                                in if v > 2 ^ 63 then None else Some (v, s3))))"

lemma leading_int_rest: "leading_int x s = Some (v, r) \<Longrightarrow> length r \<le> length s"
  by (induction x s rule: leading_int.induct) (auto split: if_splits)

lemma leading_fraction_rest: "leading_fraction x scale ov s = (f, sc, r) \<Longrightarrow> length r \<le> length s"
  by (induction x scale ov s rule: leading_fraction.induct) (auto split: if_splits)

lemma duration_part_shorter:
  assumes "duration_part fmul s = Some (v, r)"
  shows "length r < length s"
proof -
  obtain v1 s1 where s1: "leading_int 0 s = Some (v1, s1)"
    using assms by (auto simp: duration_part_def split: if_splits option.splits)
  define dot where "dot = (s1 \<noteq> [] \<and> List.hd s1 = CHR ''.'')"
  obtain f sc s2 where s2: "(if dot then leading_fraction 0 1 False (tl s1) else (0, 1, s1)) = (f, sc, s2)"
    by (metis prod_cases3)
  have "length s2 \<le> length s1"
  proof (cases dot)
    case True
    then have "leading_fraction 0 1 False (tl s1) = (f, sc, s2)" using s2 by simp
    then have "length s2 \<le> length (tl s1)" by (rule leading_fraction_rest)
    then show ?thesis by simp
  next
    case False
    then show ?thesis using s2 by simp
  qed
  then have le: "length s2 \<le> length s" using leading_int_rest [OF s1] by linarith
  have "takeWhile unit_char s2 \<noteq> []" and r: "r = dropWhile unit_char s2"
    using assms s2 unfolding duration_part_def s1 dot_def [symmetric]
    by (auto simp: Let_def s1 dot_def [symmetric] split: if_splits option.splits)
  then have "length r < length s2"
    by (cases s2) (auto split: if_splits simp: length_dropWhile_le le_imp_less_Suc)
  then show ?thesis using le by linarith
qed

text \<open>The sum of the parts wraps around; a part is at most 2 to the 63.\<close>

function duration_parts :: "(nat \<Rightarrow> nat \<Rightarrow> nat \<Rightarrow> nat) \<Rightarrow> nat \<Rightarrow> string \<Rightarrow> nat option" where
  "duration_parts fmul d s =
     (if s = [] then Some d
      else case duration_part fmul s of
        None \<Rightarrow> None
      | Some (v, rest) \<Rightarrow>
          (let d = (d + v) mod 2 ^ 64
           in if d > 2 ^ 63 then None else duration_parts fmul d rest))"
  by pat_completeness auto

termination
  by (relation "measure (\<lambda>(fmul, d, s). length s)") (auto dest: duration_part_shorter)

declare duration_parts.simps [simp del]

definition ParseDuration :: "(nat \<Rightarrow> nat \<Rightarrow> nat \<Rightarrow> nat) \<Rightarrow> string \<Rightarrow> int option" where
  "ParseDuration fmul s =
     (let neg = (s \<noteq> [] \<and> List.hd s = CHR ''-'');
          s = (if s \<noteq> [] \<and> (List.hd s = CHR ''-'' \<or> List.hd s = CHR ''+'') then tl s else s)
      in if s = ''0'' then Some 0
         else if s = [] then None
         else case duration_parts fmul 0 s of
           None \<Rightarrow> None
         | Some d \<Rightarrow>
             (if neg then Some (- int d) else if d > 2 ^ 63 - 1 then None else Some (int d)))"

text \<open>A negated duration of 2 to the 63 nanoseconds is the least \<open>int64\<close>; every result fits.\<close>

lemma duration_parts_le: "d \<le> 2 ^ 63 \<Longrightarrow> duration_parts fmul d s = Some v \<Longrightarrow> v \<le> 2 ^ 63"
proof (induction fmul d s rule: duration_parts.induct)
  case (1 fmul d s)
  show ?case
  proof (cases "s = []")
    case True
    then show ?thesis using 1 by (simp add: duration_parts.simps)
  next
    case False
    then obtain w rest where p: "duration_part fmul s = Some (w, rest)"
      and le: "\<not> (d + w) mod 2 ^ 64 > 2 ^ 63"
      and rec: "duration_parts fmul ((d + w) mod 2 ^ 64) rest = Some v"
      using 1(3) by (subst (asm) duration_parts.simps) (auto simp: Let_def split: if_splits option.splits prod.splits)
    show ?thesis using 1(1) [OF False p _ refl le] rec le by simp
  qed
qed

lemma ParseDuration_range:
  assumes "ParseDuration fmul s = Some d"
  shows "- (2 ^ 63) \<le> d \<and> d < 2 ^ 63"
  using assms duration_parts_le [of 0 fmul]
  by (fastforce simp: ParseDuration_def Let_def split: if_splits option.splits)

section \<open>Trimming\<close>

text \<open>The white space of \<open>unicode.IsSpace\<close>, in UTF-8.\<close>

definition space_texts :: "string list" where
  "space_texts = map (\<lambda>c. [c]) [CHR 0x09, CHR 0x0A, CHR 0x0B, CHR 0x0C, CHR 0x0D, CHR '' ''] @
     [[CHR 0xC2, CHR 0x85], [CHR 0xC2, CHR 0xA0], [CHR 0xE1, CHR 0x9A, CHR 0x80]] @
     map (\<lambda>c. [CHR 0xE2, CHR 0x80, c])
       [CHR 0x80, CHR 0x81, CHR 0x82, CHR 0x83, CHR 0x84, CHR 0x85, CHR 0x86, CHR 0x87, CHR 0x88, CHR 0x89,
        CHR 0x8A, CHR 0xA8, CHR 0xA9, CHR 0xAF] @
     [[CHR 0xE2, CHR 0x81, CHR 0x9F], [CHR 0xE3, CHR 0x80, CHR 0x80]]"

function trim_front :: "string list \<Rightarrow> string \<Rightarrow> string" where
  "trim_front sps s =
     (case find (\<lambda>p. p \<noteq> [] \<and> take (length p) s = p) sps of
        None \<Rightarrow> s
      | Some p \<Rightarrow> trim_front sps (drop (length p) s))"
  by pat_completeness auto

termination
proof (relation "measure (\<lambda>(sps, s). length s)")
  fix sps :: "string list" and s p :: string
  assume "find (\<lambda>p. p \<noteq> [] \<and> take (length p) s = p) sps = Some p"
  then have "p \<noteq> []" "take (length p) s = p" by (auto simp: find_Some_iff)
  then have "s \<noteq> []" "length p > 0" by auto
  then show "((sps, drop (length p) s), sps, s) \<in> measure (\<lambda>(sps, s). length s)" by simp
qed simp

declare trim_front.simps [simp del]

definition TrimSpace :: "string \<Rightarrow> string" where
  "TrimSpace s = rev (trim_front (map rev space_texts) (rev (trim_front space_texts s)))"

definition TrimRightSlash :: "string \<Rightarrow> string" where
  "TrimRightSlash s = rev (dropWhile (\<lambda>c. c = CHR ''/'') (rev s))"

definition dedup_step :: "(string \<Rightarrow> bool) \<times> string list \<Rightarrow> string \<Rightarrow> (string \<Rightarrow> bool) \<times> string list" where
  "dedup_step st e =
     (let (seen, out) = st; e = TrimRightSlash e
      in if \<not> seen e then (seen(e := True), out @ [e]) else (seen, out))"

definition Dedup :: "string list \<Rightarrow> string list" where
  "Dedup ins = snd (foldl dedup_step ((\<lambda>_. False), []) ins)"

lemma dedup_step_simps:
  "seen (TrimRightSlash e) \<Longrightarrow> dedup_step (seen, out) e = (seen, out)"
  "\<not> seen (TrimRightSlash e) \<Longrightarrow>
     dedup_step (seen, out) e = (seen(TrimRightSlash e := True), out @ [TrimRightSlash e])"
  by (simp_all add: dedup_step_def Let_def)

lemma Dedup_foldl:
  assumes "\<And>x. seen x \<longleftrightarrow> x \<in> set out" "distinct out"
  shows "distinct (snd (foldl dedup_step (seen, out) ins)) \<and>
    set (snd (foldl dedup_step (seen, out) ins)) = set out \<union> TrimRightSlash ` set ins"
  using assms
proof (induction ins arbitrary: seen out)
  case (Cons e ins)
  show ?case
  proof (cases "seen (TrimRightSlash e)")
    case True
    then show ?thesis using Cons.IH [OF Cons.prems] Cons.prems(1) by (auto simp: dedup_step_simps)
  next
    case False
    have seen: "(seen(TrimRightSlash e := True)) x \<longleftrightarrow> x \<in> set (out @ [TrimRightSlash e])" for x
      using Cons.prems(1) by simp
    have "distinct (out @ [TrimRightSlash e])" using Cons.prems False by simp
    from Cons.IH [of "seen(TrimRightSlash e := True)", OF seen this]
    show ?thesis using False by (simp add: dedup_step_simps del: fun_upd_apply)
  qed
qed simp

lemma Dedup_distinct: "distinct (Dedup ins)" and set_Dedup: "set (Dedup ins) = TrimRightSlash ` set ins"
  using Dedup_foldl [of "\<lambda>_. False" "[]" ins] by (simp_all add: Dedup_def)

end
