(* ===== verification/Api.thy ===== *)
theory Api
  imports GoParse RpcApi Registry
begin

text \<open>
  The chain management API (internal/api/handler): the router, the bearer token, and the handlers, on the
  chains table of the theory AdminDB. Reading a path template, JSON and the answers of the probed endpoints
  are arguments; a handler returns the table it leaves and its response. \<open>net/http\<close> runs a handler for each
  request; the sequence of requests is explicit.
\<close>

section \<open>Requests and responses\<close>

record http_request =
  rq_Method :: string
  rq_Path :: string
  rq_Authorization :: string
  rq_Query :: "string \<Rightarrow> string"
  rq_Body :: bytes

text \<open>An error is reported as a text, or as a text before the text of an error.\<close>

datatype response_body =
    BChains "admin_Chain list"
  | BChain admin_Chain
  | BError string
  | BErrorOf string go_error
  | BOk
  | BHealth

record http_response =
  rs_Status :: nat
  rs_Body :: response_body

text \<open>A decoded body: \<open>rpc_endpoints\<close> that is absent or null leaves a nil slice.\<close>

record chain_body =
  cb_Chain :: admin_Chain
  cb_NilEndpoints :: bool

record api_env =
  ae_token :: string
  ae_match :: "string \<Rightarrow> string \<Rightarrow> (string \<Rightarrow> string) option"
  ae_unrouted :: "http_request \<Rightarrow> http_response"
  ae_decode :: "bytes \<Rightarrow> go_error + chain_body"
  ae_fetch :: "string \<Rightarrow> go_error + uint64"
  ae_order :: "string list \<Rightarrow> string list"
  ae_now :: time
  ae_list_fault :: "go_error option"
  ae_get_fault :: "go_error option"
  ae_insert_fault :: "go_error option"
  ae_null_violation :: go_error

definition respond :: "nat \<Rightarrow> response_body \<Rightarrow> http_response" where
  "respond code body = \<lparr>rs_Status = code, rs_Body = body\<rparr>"

lemma respond_simps [simp]: "rs_Status (respond n b) = n" "rs_Body (respond n b) = b"
  by (simp_all add: respond_def)

definition endpoints_of :: "chain_body \<Rightarrow> string list" where
  "endpoints_of b = (if cb_NilEndpoints b then [] else adc_RPCEndpoints (cb_Chain b))"

text \<open>The column of the endpoints is NOT NULL, and a nil slice is written as NULL.\<close>

definition insert_chain ::
  "api_env \<Rightarrow> bool \<Rightarrow> admin_Chain \<Rightarrow> admin_Chain list \<Rightarrow> admin_Chain list \<times> unit outcome" where
  "insert_chain env nil c tbl =
     InsertChain (case ae_insert_fault env of
        Some err \<Rightarrow> Some err
      | None \<Rightarrow> if nil then Some (ae_null_violation env) else None) (ae_now env) c tbl"

text \<open>What \<open>InsertChain\<close> leaves in the chain it is given.\<close>

definition stamped :: "time \<Rightarrow> admin_Chain \<Rightarrow> admin_Chain" where
  "stamped now c =
     (let c = (if adc_CreatedAt c = zero_time then c\<lparr>adc_CreatedAt := now\<rparr> else c)
      in c\<lparr>adc_UpdatedAt := now\<rparr>)"

definition validate_endpoints :: "api_env \<Rightarrow> string list \<Rightarrow> uint64 outcome" where
  "validate_endpoints env eps = ValidateAndExtractChainID (ae_fetch env) (ae_order env eps) eps"

section \<open>Handlers\<close>

definition HandleChainsList ::
  "api_env \<Rightarrow> http_request \<Rightarrow> admin_Chain list \<Rightarrow> admin_Chain list \<times> http_response" where
  "HandleChainsList env rq tbl =
     (case ListChain (ae_list_fault env) (rq_Query rq ''deleted'' = ''true'') tbl of
        Ok rows \<Rightarrow> (tbl, respond 200 (BChains rows))
      | Fail err \<Rightarrow> (tbl, respond 500 (BErrorOf '''' err))
      | Panic \<Rightarrow> (tbl, respond 500 (BError '''')))"

text \<open>The chain id that an upsert works with: detected, or given and confirmed by the endpoints.\<close>

definition upsert_chain_id :: "api_env \<Rightarrow> chain_body \<Rightarrow> response_body + uint64" where
  "upsert_chain_id env b =
     (if adc_ChainID (cb_Chain b) = 0
      then (if length (endpoints_of b) = 0
            then Inl (BError ''either chain_id or rpc_endpoints must be provided'')
            else case validate_endpoints env (endpoints_of b) of
              Ok detected \<Rightarrow> Inr detected
            | Fail err \<Rightarrow> Inl (BErrorOf ''failed to validate RPC endpoints and detect chain ID: '' err)
            | Panic \<Rightarrow> Inl (BError ''''))
      else if length (endpoints_of b) > 0
      then (case validate_endpoints env (endpoints_of b) of
              Ok detected \<Rightarrow>
                (if detected \<noteq> adc_ChainID (cb_Chain b)
                 then Inl (BError (''chain ID mismatch: provided '' @ FormatUint (adc_ChainID (cb_Chain b)) @
                   '' but RPC endpoints report '' @ FormatUint detected))
                 else Inr (adc_ChainID (cb_Chain b)))
            | Fail err \<Rightarrow> Inl (BErrorOf ''failed to validate RPC endpoints: '' err)
            | Panic \<Rightarrow> Inl (BError ''''))
      else Inr (adc_ChainID (cb_Chain b)))"

definition HandleChainsUpsert ::
  "api_env \<Rightarrow> http_request \<Rightarrow> admin_Chain list \<Rightarrow> admin_Chain list \<times> http_response" where
  "HandleChainsUpsert env rq tbl =
     (case ae_decode env (rq_Body rq) of
        Inl err \<Rightarrow> (tbl, respond 400 (BError ''bad json''))
      | Inr b \<Rightarrow>
     (case upsert_chain_id env b of
        Inl err \<Rightarrow> (tbl, respond 400 err)
      | Inr chainID \<Rightarrow>
          (let chain = (cb_Chain b)\<lparr>adc_ChainID := chainID, adc_RPCEndpoints := endpoints_of b\<rparr>;
               chain = (if adc_ChainName chain = '''' then chain\<lparr>adc_ChainName := ''Chain '' @ FormatUint chainID\<rparr>
                  else chain)
           in case insert_chain env (cb_NilEndpoints b) chain tbl of
                (tbl', Ok _) \<Rightarrow> (tbl', respond 200 (BChain (stamped (ae_now env) chain)))
              | (tbl', Fail err) \<Rightarrow> (tbl', respond 500 (BErrorOf '''' err))
              | (tbl', Panic) \<Rightarrow> (tbl', respond 500 (BError '''')))))"

definition HandleChainDetail ::
  "api_env \<Rightarrow> (string \<Rightarrow> string) \<Rightarrow> http_request \<Rightarrow> admin_Chain list \<Rightarrow> admin_Chain list \<times> http_response" where
  "HandleChainDetail env vars rq tbl =
     (case ParseUint (vars ''id'') of
        None \<Rightarrow> (tbl, respond 400 (BError ''invalid chain ID''))
      | Some chainID \<Rightarrow>
     (case GetChain (ae_get_fault env) chainID tbl of
        Ok chain \<Rightarrow> (tbl, respond 200 (BChain chain))
      | _ \<Rightarrow> (tbl, respond 404 (BError ''not found''))))"

text \<open>The endpoints of a patch: \<open>None\<close> when the body has none.\<close>

definition patch_endpoints :: "chain_body \<Rightarrow> string list option" where
  "patch_endpoints b =
     (if cb_NilEndpoints b then None
      else Some (Dedup (filter (\<lambda>e. e \<noteq> '''') (map TrimSpace (adc_RPCEndpoints (cb_Chain b))))))"

definition patch_check :: "api_env \<Rightarrow> uint64 \<Rightarrow> string list option \<Rightarrow> response_body option" where
  "patch_check env chainID eps =
     (case eps of
        None \<Rightarrow> None
      | Some cleaned \<Rightarrow>
          (if length cleaned > 0
           then (case validate_endpoints env cleaned of
              Ok detected \<Rightarrow>
                (if detected \<noteq> chainID
                 then Some (BError (''chain ID mismatch: chain is '' @ FormatUint chainID @
                   '' but RPC endpoints report '' @ FormatUint detected))
                 else None)
            | Fail err \<Rightarrow> Some (BErrorOf ''failed to validate RPC endpoints: '' err)
            | Panic \<Rightarrow> Some (BError ''''))
           else None))"

definition apply_patch :: "chain_body \<Rightarrow> admin_Chain \<Rightarrow> admin_Chain" where
  "apply_patch b cur =
     (let patch = cb_Chain b;
          cur = (if adc_ChainName patch \<noteq> '''' then cur\<lparr>adc_ChainName := TrimSpace (adc_ChainName patch)\<rparr> else cur);
          cur = (if adc_Notes patch \<noteq> '''' then cur\<lparr>adc_Notes := TrimSpace (adc_Notes patch)\<rparr> else cur);
          cur = (case patch_endpoints b of None \<Rightarrow> cur | Some cleaned \<Rightarrow> cur\<lparr>adc_RPCEndpoints := cleaned\<rparr>)
      in if adc_Paused patch \<noteq> adc_Paused cur then cur\<lparr>adc_Paused := adc_Paused patch\<rparr> else cur)"

definition HandleChainPatch ::
  "api_env \<Rightarrow> (string \<Rightarrow> string) \<Rightarrow> http_request \<Rightarrow> admin_Chain list \<Rightarrow> admin_Chain list \<times> http_response" where
  "HandleChainPatch env vars rq tbl =
     (case ParseUint (vars ''id'') of
        None \<Rightarrow> (tbl, respond 400 (BError ''invalid chain ID''))
      | Some chainID \<Rightarrow>
     (case GetChain (ae_get_fault env) chainID tbl of
        Ok cur \<Rightarrow>
          (case ae_decode env (rq_Body rq) of
             Inl err \<Rightarrow> (tbl, respond 400 (BError ''bad json''))
           | Inr b \<Rightarrow>
          (case patch_check env chainID (patch_endpoints b) of
             Some err \<Rightarrow> (tbl, respond 400 err)
           | None \<Rightarrow>
          (case insert_chain env False (apply_patch b cur) tbl of
             (tbl', Ok _) \<Rightarrow> (tbl', respond 200 BOk)
           | (tbl', Fail err) \<Rightarrow> (tbl', respond 500 (BErrorOf '''' err))
           | (tbl', Panic) \<Rightarrow> (tbl', respond 500 (BError '''')))))
      | _ \<Rightarrow> (tbl, respond 404 (BError ''not found''))))"

definition HandleChainDelete ::
  "api_env \<Rightarrow> (string \<Rightarrow> string) \<Rightarrow> http_request \<Rightarrow> admin_Chain list \<Rightarrow> admin_Chain list \<times> http_response" where
  "HandleChainDelete env vars rq tbl =
     (case ParseUint (vars ''id'') of
        None \<Rightarrow> (tbl, respond 400 (BError ''invalid chain ID''))
      | Some chainID \<Rightarrow>
     (case GetChain (ae_get_fault env) chainID tbl of
        Ok chain \<Rightarrow>
          (case insert_chain env False (chain\<lparr>adc_Deleted := 1\<rparr>) tbl of
             (tbl', Ok _) \<Rightarrow> (tbl', respond 200 BOk)
           | (tbl', _) \<Rightarrow> (tbl', respond 500 (BError ''failed to delete chain'')))
      | _ \<Rightarrow> (tbl, respond 404 (BError ''chain not found''))))"

definition HandleHealth :: "admin_Chain list \<Rightarrow> admin_Chain list \<times> http_response" where
  "HandleHealth tbl = (tbl, respond 200 BHealth)"

section \<open>The router\<close>

datatype api_route = RHealth | RList | RUpsert | RDetail | RPatch | RDelete

text \<open>The registered routes, in order: the path template, the method, and the handler with its token check.\<close>

definition api_routes :: "(string \<times> string \<times> api_route) list" where
  "api_routes =
     [(''/api/health'', ''GET'', RHealth), (''/api/chains'', ''GET'', RList), (''/api/chains'', ''POST'', RUpsert),
      (''/api/chains/{id}'', ''GET'', RDetail), (''/api/chains/{id}'', ''PATCH'', RPatch),
      (''/api/chains/{id}'', ''DELETE'', RDelete)]"

definition run_route ::
  "api_env \<Rightarrow> (string \<Rightarrow> string) \<Rightarrow> api_route \<Rightarrow> http_request \<Rightarrow> admin_Chain list \<Rightarrow> admin_Chain list \<times> http_response" where
  "run_route env vars r rq =
     (case r of
        RHealth \<Rightarrow> HandleHealth
      | RList \<Rightarrow> HandleChainsList env rq
      | RUpsert \<Rightarrow> HandleChainsUpsert env rq
      | RDetail \<Rightarrow> HandleChainDetail env vars rq
      | RPatch \<Rightarrow> HandleChainPatch env vars rq
      | RDelete \<Rightarrow> HandleChainDelete env vars rq)"

definition RequireAuth ::
  "api_env \<Rightarrow> (http_request \<Rightarrow> admin_Chain list \<Rightarrow> admin_Chain list \<times> http_response) \<Rightarrow>
   http_request \<Rightarrow> admin_Chain list \<Rightarrow> admin_Chain list \<times> http_response" where
  "RequireAuth env next_handler rq tbl =
     (if rq_Authorization rq \<noteq> ''Bearer '' @ ae_token env then (tbl, respond 401 (BError ''unauthorized''))
      else next_handler rq tbl)"

definition serve ::
  "api_env \<Rightarrow> http_request \<Rightarrow> admin_Chain list \<Rightarrow> admin_Chain list \<times> http_response" where
  "serve env rq tbl =
     (case find (\<lambda>(template, meth, r). ae_match env template (rq_Path rq) \<noteq> None \<and> meth = rq_Method rq) api_routes of
        None \<Rightarrow> (tbl, ae_unrouted env rq)
      | Some (template, meth, r) \<Rightarrow>
          (let vars = the (ae_match env template (rq_Path rq))
           in if r = RHealth then run_route env vars r rq tbl
              else RequireAuth env (run_route env vars r) rq tbl))"

text \<open>A sequence of requests, each with what the outside answers it.\<close>

fun serve_all :: "(api_env \<times> http_request) list \<Rightarrow> admin_Chain list \<Rightarrow> admin_Chain list \<times> http_response list" where
  "serve_all [] tbl = (tbl, [])"
| "serve_all ((env, rq) # rqs) tbl =
     (let (tbl, rs) = serve env rq tbl; (tbl, rss) = serve_all rqs tbl in (tbl, rs # rss))"

section \<open>What the handlers do to the table\<close>

abbreviation row_of :: "admin_Chain list \<Rightarrow> uint64 \<Rightarrow> admin_Chain option" where
  "row_of tbl c \<equiv> find (\<lambda>r. adc_ChainID r = c) tbl"

lemma stamped_simps [simp]:
  "adc_ChainID (stamped now c) = adc_ChainID c" "adc_ChainName (stamped now c) = adc_ChainName c"
  "adc_RPCEndpoints (stamped now c) = adc_RPCEndpoints c" "adc_Paused (stamped now c) = adc_Paused c"
  "adc_Deleted (stamped now c) = adc_Deleted c" "adc_Notes (stamped now c) = adc_Notes c"
  by (simp_all add: stamped_def Let_def)

text \<open>What the row of the written chain becomes.\<close>

definition merged :: "time \<Rightarrow> admin_Chain \<Rightarrow> admin_Chain option \<Rightarrow> admin_Chain" where
  "merged now c old = (case old of
     None \<Rightarrow> stamped now c
   | Some o' \<Rightarrow> (stamped now c)\<lparr>adc_CreatedAt := adc_CreatedAt o'\<rparr>)"

lemma merged_simps [simp]:
  "adc_ChainID (merged now c old) = adc_ChainID c" "adc_ChainName (merged now c old) = adc_ChainName c"
  "adc_RPCEndpoints (merged now c old) = adc_RPCEndpoints c" "adc_Paused (merged now c old) = adc_Paused c"
  "adc_Deleted (merged now c old) = adc_Deleted c" "adc_Notes (merged now c old) = adc_Notes c"
  by (simp_all add: merged_def split: option.split)

lemma InsertChain_stamped:
  "InsertChain fault now c tbl =
     (case fault of Some err \<Rightarrow> (tbl, Fail err)
      | None \<Rightarrow> (upsert_row adc_ChainID (\<lambda>old new. new\<lparr>adc_CreatedAt := adc_CreatedAt old\<rparr>) (stamped now c) tbl, Ok ()))"
  by (simp add: InsertChain_def stamped_def Let_def split: option.split)

lemma insert_chain_cases:
  obtains (failed) e where "insert_chain env nil c tbl = (tbl, Fail e)"
  | (stored) tbl' where "insert_chain env nil c tbl = (tbl', Ok ())" "\<not> nil"
      "\<And>k. row_of tbl' k = (if k = adc_ChainID c then Some (merged (ae_now env) c (row_of tbl k)) else row_of tbl k)"
      "adc_ChainID ` set tbl' = insert (adc_ChainID c) (adc_ChainID ` set tbl)"
      "chains_ok tbl \<Longrightarrow> chains_ok tbl'"
proof (cases "(case ae_insert_fault env of Some err \<Rightarrow> Some err | None \<Rightarrow> if nil then Some (ae_null_violation env) else None)")
  case (Some e)
  then have "insert_chain env nil c tbl = (tbl, Fail e)" by (simp add: insert_chain_def InsertChain_stamped)
  then show ?thesis by (rule failed)
next
  case None
  let ?m = "\<lambda>old new. new\<lparr>adc_CreatedAt := adc_CreatedAt old\<rparr>"
  let ?tbl' = "upsert_row adc_ChainID ?m (stamped (ae_now env) c) tbl"
  show ?thesis
  proof (rule stored [of ?tbl'])
    show ins: "insert_chain env nil c tbl = (?tbl', Ok ())"
      using None by (simp add: insert_chain_def InsertChain_stamped)
    show "\<not> nil" using None by (auto split: option.splits if_splits)
    show "row_of ?tbl' k = (if k = adc_ChainID c then Some (merged (ae_now env) c (row_of tbl k)) else row_of tbl k)" for k
      by (subst find_upsert_row) (simp_all add: merged_def)
    show "adc_ChainID ` set ?tbl' = insert (adc_ChainID c) (adc_ChainID ` set tbl)"
      by (subst set_map_upsert_row) simp_all
    show "chains_ok ?tbl'" if "chains_ok tbl"
      using that unfolding chains_ok_def by (intro distinct_upsert_row) simp_all
  qed
qed

lemma insert_chain_failed:
  "insert_chain env nil c tbl = (tbl', Fail e) \<Longrightarrow> tbl' = tbl" "insert_chain env nil c tbl \<noteq> (tbl', Panic)"
  by (rule insert_chain_cases [of env nil c tbl]; simp)+

lemma GetChain_Ok_iff [simp]: "GetChain fault c tbl = Ok a \<longleftrightarrow> fault = None \<and> row_of tbl c = Some a"
  by (auto simp: GetChain_def split: option.splits)

lemma row_of_id: "row_of tbl c = Some a \<Longrightarrow> adc_ChainID a = c"
  by (auto simp: find_Some_iff)

lemma row_of_None_iff: "row_of tbl c = None \<longleftrightarrow> c \<notin> adc_ChainID ` set tbl"
  by (auto simp: find_None_iff)

lemma row_of_mem: "chains_ok tbl \<Longrightarrow> row_of tbl c = Some a \<longleftrightarrow> a \<in> set tbl \<and> adc_ChainID a = c"
proof
  assume ok: "chains_ok tbl" and a: "a \<in> set tbl \<and> adc_ChainID a = c"
  then obtain b where b: "row_of tbl c = Some b" by (cases "row_of tbl c") (auto simp: row_of_None_iff)
  then have "b \<in> set tbl" "adc_ChainID b = c" by (auto simp: find_Some_iff)
  then have "b = a" using ok a by (auto simp: chains_ok_def distinct_map inj_on_def)
  then show "row_of tbl c = Some a" using b by simp
qed (auto simp: find_Some_iff)

text \<open>Every handler leaves the table as it is, or writes one row that was decided on.\<close>

inductive stores :: "admin_Chain list \<Rightarrow> admin_Chain list \<Rightarrow> bool" where
  same: "stores tbl tbl"
| written: "insert_chain env nil c tbl = (tbl', Ok ()) \<Longrightarrow> stores tbl tbl'"

lemma insert_chain_stores: "insert_chain env nil c tbl = (tbl', r) \<Longrightarrow> stores tbl tbl'"
  by (rule insert_chain_cases [of env nil c tbl]) (auto intro: stores.intros)

lemma run_route_stores: "run_route env vars r rq tbl = (tbl', resp) \<Longrightarrow> stores tbl tbl'"
  by (auto simp: run_route_def HandleHealth_def HandleChainsList_def HandleChainsUpsert_def HandleChainDetail_def
      HandleChainPatch_def HandleChainDelete_def Let_def
      split: api_route.splits outcome.splits option.splits sum.splits prod.splits
      intro: stores.same insert_chain_stores)

lemma serve_stores: "serve env rq tbl = (tbl', resp) \<Longrightarrow> stores tbl tbl'"
  by (auto simp: serve_def RequireAuth_def Let_def split: option.splits prod.splits if_splits
      intro: stores.same run_route_stores)

section \<open>Properties\<close>

text \<open>
  C35. A request whose Authorization header is not the bearer token changes nothing and learns nothing: the
  answer is the health check's, the refusal, or the router's own answer for a request without a route.
\<close>

theorem api_needs_token:
  assumes "rq_Authorization rq \<noteq> ''Bearer '' @ ae_token env" "serve env rq tbl = (tbl', resp)"
  shows "tbl' = tbl \<and> resp \<in> {respond 401 (BError ''unauthorized''), respond 200 BHealth, ae_unrouted env rq}"
  using assms
  by (auto simp: serve_def RequireAuth_def Let_def run_route_def HandleHealth_def
      split: option.splits prod.splits if_splits)

text \<open>What a sequence of requests keeps of a row.\<close>

definition keeps_rows :: "admin_Chain list \<Rightarrow> admin_Chain list \<Rightarrow> bool" where
  "keeps_rows tbl tbl' \<longleftrightarrow>
     (\<forall>k a. row_of tbl k = Some a \<longrightarrow> (\<exists>a'. row_of tbl' k = Some a' \<and> adc_CreatedAt a' = adc_CreatedAt a))"

lemma keeps_rows_trans: "keeps_rows a b \<Longrightarrow> keeps_rows b c \<Longrightarrow> keeps_rows a c"
  unfolding keeps_rows_def by metis

lemma stores_keeps:
  assumes "stores tbl tbl'"
  shows "keeps_rows tbl tbl'" and "chains_ok tbl \<Longrightarrow> chains_ok tbl'"
proof -
  have "keeps_rows tbl tbl' \<and> (chains_ok tbl \<longrightarrow> chains_ok tbl')" using assms
  proof cases
    case same
    then show ?thesis by (simp add: keeps_rows_def)
  next
    case (written env nil c)
    then show ?thesis
      by (cases rule: insert_chain_cases [of env nil c tbl]) (auto simp: keeps_rows_def merged_def)
  qed
  then show "keeps_rows tbl tbl'" "chains_ok tbl \<Longrightarrow> chains_ok tbl'" by blast+
qed

text \<open>
  C36. Whatever requests arrive, with whatever faults and answers from outside: every request is answered, the
  table keeps its primary key, no registered chain ever disappears from it (a deletion is a mark), and the time
  at which a chain was registered never changes.
\<close>

theorem api_history:
  assumes "chains_ok tbl" "serve_all rqs tbl = (tbl', rss)"
  shows "length rss = length rqs \<and> chains_ok tbl' \<and>
    (\<forall>k a. row_of tbl k = Some a \<longrightarrow> (\<exists>a'. row_of tbl' k = Some a' \<and> adc_CreatedAt a' = adc_CreatedAt a))"
  unfolding keeps_rows_def [symmetric] using assms
proof (induction rqs arbitrary: tbl tbl' rss)
  case Nil
  then show ?case by (simp add: keeps_rows_def)
next
  case (Cons er rqs)
  obtain env rq where er: "er = (env, rq)" by fastforce
  obtain tbl1 rs where one: "serve env rq tbl = (tbl1, rs)" by fastforce
  obtain tbl2 rss2 where rest: "serve_all rqs tbl1 = (tbl2, rss2)" by fastforce
  have "tbl' = tbl2" "rss = rs # rss2" using Cons.prems(2) by (simp_all add: er one rest)
  then show ?case
    using Cons.IH [OF _ rest] stores_keeps [OF serve_stores [OF one]] Cons.prems(1) keeps_rows_trans by auto
qed

lemma HandleChainPatch_stored:
  assumes "HandleChainPatch env vars rq tbl = (tbl', resp)" "rs_Status resp = 200"
  obtains c cur b where "ParseUint (vars ''id'') = Some c" "row_of tbl c = Some cur"
    "ae_decode env (rq_Body rq) = Inr b" "patch_check env c (patch_endpoints b) = None"
    "insert_chain env False (apply_patch b cur) tbl = (tbl', Ok ())"
proof -
  obtain c where c: "ParseUint (vars ''id'') = Some c"
    using assms by (auto simp: HandleChainPatch_def split: option.splits)
  obtain cur where cur: "GetChain (ae_get_fault env) c tbl = Ok cur"
    using assms by (auto simp: HandleChainPatch_def c split: outcome.splits)
  obtain b where b: "ae_decode env (rq_Body rq) = Inr b"
    using assms by (auto simp: HandleChainPatch_def c cur split: sum.splits)
  have check: "patch_check env c (patch_endpoints b) = None"
    using assms by (auto simp: HandleChainPatch_def c cur b patch_check_def split: option.splits outcome.splits if_splits)
  have "insert_chain env False (apply_patch b cur) tbl = (tbl', Ok ())"
    using assms by (auto simp: HandleChainPatch_def c cur b check split: prod.splits outcome.splits)
  then show ?thesis using that c cur b check by simp
qed

text \<open>
  C37. A patch that succeeds rewrites one row and no other: it keeps the chain's id, its mark of deletion and
  its time of registration; name and notes change only when the body has them; endpoints change only when the
  body has them, to trimmed, distinct ones without a final slash, which (if there are any) all that answered
  agree on the chain's id; and the pause flag becomes the body's, so a body that does not mention it resumes a
  paused chain. A patch that does not succeed changes nothing.
\<close>

theorem patch_result:
  assumes "HandleChainPatch env vars rq tbl = (tbl', resp)"
  shows "(rs_Status resp \<noteq> 200 \<longrightarrow> tbl' = tbl) \<and>
    (rs_Status resp = 200 \<longrightarrow> (\<exists>c cur b. ParseUint (vars ''id'') = Some c \<and> row_of tbl c = Some cur \<and>
       ae_decode env (rq_Body rq) = Inr b \<and>
       row_of tbl' c = Some
         \<lparr>adc_ChainID = c,
          adc_ChainName = (if adc_ChainName (cb_Chain b) = '''' then adc_ChainName cur
             else TrimSpace (adc_ChainName (cb_Chain b))),
          adc_RPCEndpoints = (case patch_endpoints b of None \<Rightarrow> adc_RPCEndpoints cur | Some cleaned \<Rightarrow> cleaned),
          adc_Paused = adc_Paused (cb_Chain b), adc_Deleted = adc_Deleted cur,
          adc_Notes = (if adc_Notes (cb_Chain b) = '''' then adc_Notes cur else TrimSpace (adc_Notes (cb_Chain b))),
          adc_CreatedAt = adc_CreatedAt cur, adc_UpdatedAt = ae_now env\<rparr> \<and>
       (\<forall>cleaned. patch_endpoints b = Some cleaned \<longrightarrow>
          distinct cleaned \<and> (cleaned \<noteq> [] \<longrightarrow> validate_endpoints env cleaned = Ok c)) \<and>
       (\<forall>k. k \<noteq> c \<longrightarrow> row_of tbl' k = row_of tbl k)))"
proof (cases "rs_Status resp = 200")
  case False
  then have "tbl' = tbl" using assms
    by (auto simp: HandleChainPatch_def split: option.splits outcome.splits sum.splits prod.splits
        dest: insert_chain_failed(1) simp: insert_chain_failed(2))
  then show ?thesis using False by simp
next
  case True
  obtain c cur b where p: "ParseUint (vars ''id'') = Some c" "row_of tbl c = Some cur"
    "ae_decode env (rq_Body rq) = Inr b" "patch_check env c (patch_endpoints b) = None"
    "insert_chain env False (apply_patch b cur) tbl = (tbl', Ok ())"
    by (rule HandleChainPatch_stored [OF assms True])
  have id: "adc_ChainID cur = c" by (rule row_of_id) fact
  have idp: "adc_ChainID (apply_patch b cur) = c" by (simp add: apply_patch_def Let_def id split: option.split)
  have rows: "row_of tbl' k = (if k = c then Some (merged (ae_now env) (apply_patch b cur) (Some cur)) else row_of tbl k)" for k
    by (rule insert_chain_cases [of env False "apply_patch b cur" tbl]) (use p idp in auto)
  have eps: "patch_endpoints b = Some cleaned \<Longrightarrow> distinct cleaned \<and> (cleaned \<noteq> [] \<longrightarrow> validate_endpoints env cleaned = Ok c)" for cleaned
    using p(4) by (auto simp: patch_endpoints_def patch_check_def Dedup_distinct split: if_splits outcome.splits)
  have row: "merged (ae_now env) (apply_patch b cur) (Some cur) =
     \<lparr>adc_ChainID = c,
      adc_ChainName = (if adc_ChainName (cb_Chain b) = '''' then adc_ChainName cur
         else TrimSpace (adc_ChainName (cb_Chain b))),
      adc_RPCEndpoints = (case patch_endpoints b of None \<Rightarrow> adc_RPCEndpoints cur | Some cleaned \<Rightarrow> cleaned),
      adc_Paused = adc_Paused (cb_Chain b), adc_Deleted = adc_Deleted cur,
      adc_Notes = (if adc_Notes (cb_Chain b) = '''' then adc_Notes cur else TrimSpace (adc_Notes (cb_Chain b))),
      adc_CreatedAt = adc_CreatedAt cur, adc_UpdatedAt = ae_now env\<rparr>"
    using id by (simp add: merged_def stamped_def apply_patch_def Let_def split: option.split)
  show ?thesis
    by (rule conjI, simp add: True, rule impI, rule exI [of _ c], rule exI [of _ cur], rule exI [of _ b])
      (simp add: p(1-3) rows row eps)
qed


section \<open>A sample API\<close>

definition sample_body :: chain_body where
  "sample_body = \<lparr>cb_Chain = (sample_chain_row 0 [] 0)\<lparr>adc_ChainName := '' main ''\<rparr>, cb_NilEndpoints = True\<rparr>"

definition sample_api :: api_env where
  "sample_api = \<lparr>ae_token = ''t'',
     ae_match = (\<lambda>template path. if template = ''/api/chains'' \<and> path = ''/api/chains'' then Some (\<lambda>_. '''')
        else if template = ''/api/chains/{id}'' \<and> path = ''/api/chains/1'' then Some (\<lambda>_. ''1'') else None),
     ae_unrouted = (\<lambda>_. respond 404 (BError ''page'')), ae_decode = (\<lambda>_. Inr sample_body), ae_fetch = (\<lambda>_. Inr 1),
     ae_order = (\<lambda>eps. eps), ae_now = 9, ae_list_fault = None, ae_get_fault = None, ae_insert_fault = None,
     ae_null_violation = Errorf ''null''\<rparr>"

definition sample_request :: "string \<Rightarrow> string \<Rightarrow> http_request" where
  "sample_request meth auth = \<lparr>rq_Method = meth, rq_Path = ''/api/chains/1'', rq_Authorization = auth,
     rq_Query = (\<lambda>_. ''''), rq_Body = []\<rparr>"

theorem api_needs_token_witness:
  "fst (serve sample_api (sample_request ''DELETE'' ''Bearer x'') sample_chain_table) = sample_chain_table"
proof -
  obtain tbl' resp where run: "serve sample_api (sample_request ''DELETE'' ''Bearer x'') sample_chain_table = (tbl', resp)"
    by fastforce
  have "rq_Authorization (sample_request ''DELETE'' ''Bearer x'') \<noteq> ''Bearer '' @ ae_token sample_api"
    by (simp add: sample_request_def sample_api_def)
  from api_needs_token [OF this run] show ?thesis by (simp add: run)
qed

theorem api_history_witness:
  "case serve_all [(sample_api, sample_request ''DELETE'' ''Bearer t''), (sample_api, sample_request ''GET'' ''x'')]
      sample_chain_table of (tbl', rss) \<Rightarrow>
     length rss = 2 \<and> chains_ok tbl' \<and> (\<exists>a. row_of tbl' 1 = Some a \<and> adc_CreatedAt a = 0)"
proof -
  let ?rqs = "[(sample_api, sample_request ''DELETE'' ''Bearer t''), (sample_api, sample_request ''GET'' ''x'')]"
  obtain tbl' rss where run: "serve_all ?rqs sample_chain_table = (tbl', rss)" by fastforce
  have row: "row_of sample_chain_table 1 = Some (sample_chain_row 1 [''http://new''] 0)"
    by (simp add: sample_chain_table_def sample_chain_row_def)
  have len: "length ?rqs = 2" by simp
  from api_history [OF sample_registry_ok(2) run] row show ?thesis
    unfolding run prod.case len by (force simp: sample_chain_row_def)
qed

lemma parse_one: "ParseUint ''1'' = Some 1"
  using parse_uint_round_trip [of 1] by (simp add: FormatUint_def format_nat_single hex_digit_def hex_digits_def)

theorem patch_result_witness:
  "\<exists>tbl' a. HandleChainPatch sample_api (\<lambda>_. ''1'') (sample_request ''PATCH'' ''Bearer t'')
      [sample_chain_row 1 [''u''] 1] = (tbl', respond 200 BOk) \<and>
     row_of tbl' 1 = Some a \<and> adc_Paused a = 0 \<and> adc_ChainName a = ''main''"
proof -
  let ?rq = "sample_request ''PATCH'' ''Bearer t''"
  let ?tbl = "[sample_chain_row 1 [''u''] 1]"
  obtain tbl' where run: "HandleChainPatch sample_api (\<lambda>_. ''1'') ?rq ?tbl = (tbl', respond 200 BOk)"
    by (simp add: HandleChainPatch_def parse_one GetChain_def sample_api_def sample_chain_row_def sample_body_def
        patch_endpoints_def patch_check_def insert_chain_def InsertChain_def Let_def)
  have "TrimSpace '' main '' = ''main''"
    by (simp add: TrimSpace_def space_texts_def trim_front.simps)
  then show ?thesis using patch_result [OF run] run
    by (auto simp: parse_one sample_api_def sample_body_def sample_chain_row_def patch_endpoints_def)
qed


end
