(* ===== verification/Entities.thy ===== *)
theory Entities
  imports Schema "HOL-Library.Char_ord" "HOL-Library.List_Lexorder" "HOL-Library.Sublist"
begin

text \<open>
  The entity names (pkg/db/entities/entities.go). An \<open>Entity\<close> is its text; the package checks its own list
  when it is initialized. The exported list is \<open>AllEntities\<close> here.
\<close>

type_synonym Entity = string

definition StagingSuffix :: string where "StagingSuffix = ''_staging''"

definition Blocks :: Entity where "Blocks = ''blocks''"
definition Transactions :: Entity where "Transactions = ''txs''"
definition BlockSummaries :: Entity where "BlockSummaries = ''block_summaries''"
definition Accounts :: Entity where "Accounts = ''accounts''"
definition Events :: Entity where "Events = ''events''"
definition Orders :: Entity where "Orders = ''orders''"
definition Pools :: Entity where "Pools = ''pools''"
definition DexPrices :: Entity where "DexPrices = ''dex_prices''"
definition DexOrders :: Entity where "DexOrders = ''dex_orders''"
definition DexDeposits :: Entity where "DexDeposits = ''dex_deposits''"
definition DexWithdrawals :: Entity where "DexWithdrawals = ''dex_withdrawals''"
definition PoolPointsByHolder_entity :: Entity where "PoolPointsByHolder_entity = ''pool_points_by_holder''"
definition Params_entity :: Entity where "Params_entity = ''params''"
definition Validators :: Entity where "Validators = ''validators''"
definition ValidatorNonSigningInfo_entity :: Entity where
  "ValidatorNonSigningInfo_entity = ''validator_non_signing_info''"
definition ValidatorDoubleSigningInfo_entity :: Entity where
  "ValidatorDoubleSigningInfo_entity = ''validator_double_signing_info''"
definition Committees :: Entity where "Committees = ''committees''"
definition CommitteeValidators :: Entity where "CommitteeValidators = ''committee_validators''"
definition CommitteePayments :: Entity where "CommitteePayments = ''committee_payments''"
definition PollSnapshots :: Entity where "PollSnapshots = ''poll_snapshots''"
definition Supply_entity :: Entity where "Supply_entity = ''supply''"

lemmas entity_names = Blocks_def Transactions_def BlockSummaries_def Accounts_def Events_def Orders_def Pools_def
  DexPrices_def DexOrders_def DexDeposits_def DexWithdrawals_def PoolPointsByHolder_entity_def Params_entity_def
  Validators_def ValidatorNonSigningInfo_entity_def ValidatorDoubleSigningInfo_entity_def Committees_def
  CommitteeValidators_def CommitteePayments_def PollSnapshots_def Supply_entity_def

definition allEntities :: "Entity list" where
  "allEntities =
     [Blocks, Transactions, BlockSummaries, Accounts, Events, Orders, Pools, DexPrices, DexOrders, DexDeposits,
      DexWithdrawals, PoolPointsByHolder_entity, Params_entity, Validators, ValidatorNonSigningInfo_entity,
      ValidatorDoubleSigningInfo_entity, Committees, CommitteeValidators, CommitteePayments, PollSnapshots,
      Supply_entity]"

definition entitySet :: "Entity \<Rightarrow> bool" where
  "entitySet = flag_all (\<lambda>e. e) allEntities"

text \<open>\<open>strings.Contains\<close>\<close>

fun Contains :: "string \<Rightarrow> string \<Rightarrow> bool" where
  "Contains s sub = (take (length sub) s = sub \<or> (case s of [] \<Rightarrow> False | _ # s' \<Rightarrow> Contains s' sub))"

declare Contains.simps [simp del]

text \<open>The package's initialization panics on a bad name.\<close>

fun check_entities :: "Entity list \<Rightarrow> unit outcome" where
  "check_entities [] = Ok ()"
| "check_entities (e # es) =
     (if e = '''' then Panic
      else if Contains e ''_staging'' then Panic
      else if Contains e '' '' then Panic
      else check_entities es)"

definition entity_String :: "Entity \<Rightarrow> string" where "entity_String e = e"

definition TableName :: "Entity \<Rightarrow> string" where "TableName e = e"

definition StagingTableName :: "Entity \<Rightarrow> string" where "StagingTableName e = e @ StagingSuffix"

definition IsValid :: "Entity \<Rightarrow> bool" where "IsValid e = entitySet e"

definition bytes_of_string :: "string \<Rightarrow> bytes" where
  "bytes_of_string s = map (\<lambda>c. of_nat (of_char c)) s"

definition string_of_bytes :: "bytes \<Rightarrow> string" where
  "string_of_bytes bs = map (\<lambda>b. char_of (unat b)) bs"

definition MarshalText :: "Entity \<Rightarrow> bytes \<times> go_error option" where
  "MarshalText e = (bytes_of_string e, None)"

text \<open>The new value of the receiver, and the error. \<open>quote\<close> is the \<open>%q\<close> of the message.\<close>

definition UnmarshalText :: "(string \<Rightarrow> string) \<Rightarrow> bytes \<Rightarrow> Entity \<Rightarrow> Entity \<times> go_error option" where
  "UnmarshalText quote text e =
     (let entity = string_of_bytes text
      in if \<not> IsValid entity then (e, Some (Errorf (''invalid entity: '' @ quote (string_of_bytes text))))
         else (entity, None))"

definition AllEntities :: "Entity list" where "AllEntities = allEntities"

definition AllStrings :: "string list" where "AllStrings = map entity_String allEntities"

definition Count :: int where "Count = int (length allEntities)"

fun strings_Join :: "string list \<Rightarrow> string \<Rightarrow> string" where
  "strings_Join [] sep = ''''"
| "strings_Join [s] sep = s"
| "strings_Join (s # ss) sep = s @ sep @ strings_Join ss sep"

definition validEntitiesString :: string where
  "validEntitiesString = strings_Join (sort AllStrings) '', ''"

definition FromString :: "(string \<Rightarrow> string) \<Rightarrow> string \<Rightarrow> Entity outcome" where
  "FromString quote s =
     (if \<not> IsValid s then Fail (Errorf (''unknown entity '' @ quote s @ '', valid entities: '' @ validEntitiesString))
      else Ok s)"

definition MustFromString :: "(string \<Rightarrow> string) \<Rightarrow> string \<Rightarrow> Entity outcome" where
  "MustFromString quote s = (case FromString quote s of Ok e \<Rightarrow> Ok e | _ \<Rightarrow> Panic)"

definition entitiesWithoutStaging :: "Entity \<Rightarrow> bool" where
  "entitiesWithoutStaging = (\<lambda>_. False)(PollSnapshots := True)"

definition AllWithStaging :: "Entity list" where
  "AllWithStaging = filter (\<lambda>e. \<not> entitiesWithoutStaging e) allEntities"

definition HasStaging :: "Entity \<Rightarrow> bool" where
  "HasStaging e \<longleftrightarrow> \<not> entitiesWithoutStaging e"

section \<open>Facts\<close>

lemma distinct_allEntities: "distinct allEntities"
  by (simp add: allEntities_def entity_names)

lemma IsValid_iff: "IsValid e \<longleftrightarrow> e \<in> set allEntities"
  by (simp add: IsValid_def entitySet_def)

lemma string_of_bytes_of_string: "string_of_bytes (bytes_of_string s) = s"
proof -
  have "char_of (unat (of_nat (of_char c) :: byte)) = c" for c :: char
    by (simp add: unat_of_nat)
  then show ?thesis by (simp add: string_of_bytes_def bytes_of_string_def comp_def)
qed

lemma Contains_append: "Contains (s @ t) t"
  by (induction s) (subst Contains.simps, simp)+

lemma Contains_staging: "Contains (StagingTableName e) ''_staging''"
  using Contains_append [of e "''_staging''"] by (simp add: StagingTableName_def StagingSuffix_def)

lemma check_entities_Ok:
  "check_entities es = Ok () \<longleftrightarrow> (\<forall>e \<in> set es. e \<noteq> '''' \<and> \<not> Contains e ''_staging'' \<and> \<not> Contains e '' '')"
  by (induction es) auto

lemma check_allEntities: "check_entities allEntities = Ok ()"
  by (simp add: allEntities_def entity_names Contains.simps)

text \<open>
  Unmarshalling accepts exactly the texts of the listed entities, and gives back what marshalling wrote;
  the name of a staging table is never an entity's name and determines its entity. The listed names are the
  names of the tables of a chain but one: the proposal snapshots have a table and no entity.
\<close>

theorem entity_texts:
  "(\<forall>e e0 q. UnmarshalText q (fst (MarshalText e)) e0 = (e, None) \<longleftrightarrow> e \<in> set AllEntities) \<and>
   (\<forall>s q. FromString q s = Ok s \<longleftrightarrow> s \<in> set AllStrings) \<and>
   (\<forall>e. \<not> IsValid (StagingTableName e)) \<and>
   (\<forall>e e'. StagingTableName e = StagingTableName e' \<longleftrightarrow> e = e') \<and>
   insert ''proposal_snapshots'' (set (map TableName AllEntities)) = set (map st_Name chain_schema) \<and>
   ''proposal_snapshots'' \<notin> set AllEntities"
proof (intro conjI allI)
  fix e e0 :: Entity and q
  show "UnmarshalText q (fst (MarshalText e)) e0 = (e, None) \<longleftrightarrow> e \<in> set AllEntities"
    by (simp add: UnmarshalText_def MarshalText_def string_of_bytes_of_string IsValid_iff AllEntities_def)
next
  fix s q
  show "FromString q s = Ok s \<longleftrightarrow> s \<in> set AllStrings"
    by (simp add: FromString_def IsValid_iff AllStrings_def entity_String_def)
next
  fix e
  show "\<not> IsValid (StagingTableName e)"
    using check_allEntities Contains_staging unfolding check_entities_Ok IsValid_iff by blast
next
  fix e e' :: Entity
  show "StagingTableName e = StagingTableName e' \<longleftrightarrow> e = e'" by (simp add: StagingTableName_def)
next
  show "insert ''proposal_snapshots'' (set (map TableName AllEntities)) = set (map st_Name chain_schema)"
    by (simp add: AllEntities_def allEntities_def entity_names TableName_def chain_schema_def chain_table_names
        insert_commute)
next
  show "''proposal_snapshots'' \<notin> set AllEntities" by (simp add: AllEntities_def allEntities_def entity_names)
qed

end
