(* ===== verification/ChainQueries.thy ===== *)
theory ChainQueries
  imports ChainStore
begin

text \<open>
  The public interface of a chain's store (pkg/db/postgres/chain/store.go) as one operation per method, and
  the queries of queries.go that return lists. A list query reads the rows that satisfy its condition in the
  order of its ORDER BY, which for texts is the collation of the database; how the rows are listed is an
  argument, with its law stated as \<open>scans\<close>.
\<close>

section \<open>Store methods\<close>

text \<open>One statement, or a batch in an implicit transaction: a failure leaves the tables unchanged.\<close>

definition lift_stmt :: "(chain_tables \<Rightarrow> chain_tables outcome) \<Rightarrow> chain_tables \<Rightarrow> chain_tables \<times> unit outcome" where
  "lift_stmt f s =
     (case f s of Ok s' \<Rightarrow> (s', Ok ()) | Fail e \<Rightarrow> (s, Fail e) | Panic \<Rightarrow> (s, Panic))"

datatype store_op =
    InsertAccounts "Account list"
  | InsertBlocks Block
  | InsertTransactions "Transaction list"
  | InsertBlockSummaries BlockSummary
  | InsertEvents "Event list"
  | InsertDexPrices "DexPrice list"
  | InsertPools "Pool list"
  | InsertOrders "Order list"
  | InsertDexOrders "DexOrder list"
  | InsertDexDeposits "DexDeposit list"
  | InsertDexWithdrawals "DexWithdrawal list"
  | InsertPoolPointsByHolder "PoolPointsByHolder list"
  | InsertParams Params
  | InsertValidators "Validator list"
  | InsertValidatorNonSigningInfo "ValidatorNonSigningInfo list"
  | InsertValidatorDoubleSigningInfo "ValidatorDoubleSigningInfo list"
  | InsertCommittees "Committee list"
  | InsertCommitteeValidators "CommitteeValidator list"
  | InsertCommitteePayments "CommitteePayment list"
  | InsertPollSnapshots "PollSnapshot list"
  | InsertProposalSnapshots "ProposalSnapshot list"
  | InsertSupply "Supply list"
  | PromoteEntity string uint64
  | CleanEntityStaging string uint64
  | CleanAllEntitiesStaging "string list" uint64
  | CleanStagingBatch "uint64 list"
  | Delete_Block uint64
  | DeleteTransactions uint64

text \<open>\<open>InsertSupply\<close> inserts each supply with a statement of its own, and stops at the first failure.\<close>

fun insert_each :: "sql_env \<Rightarrow> nat \<Rightarrow> Supply list \<Rightarrow> chain_tables \<Rightarrow> chain_tables \<times> unit outcome" where
  "insert_each env i [] s = (s, Ok ())"
| "insert_each env i (r # rs) s =
     (case insertSupply (env\<lparr>sql_statement := \<lambda>t _. sql_statement env t i\<rparr>) r s of
        Ok s' \<Rightarrow> insert_each env (i + 1) rs s'
      | Fail e \<Rightarrow> (s, Fail e)
      | Panic \<Rightarrow> (s, Panic))"

definition run_store_op :: "sql_env \<Rightarrow> store_op \<Rightarrow> chain_tables \<Rightarrow> chain_tables \<times> unit outcome" where
  "run_store_op env op =
     (case op of
        InsertSupply x \<Rightarrow> insert_each env 0 x
      | InsertAccounts x \<Rightarrow> lift_stmt (insertAccounts env x)
      | InsertBlocks x \<Rightarrow> lift_stmt (insertBlock env x)
      | InsertTransactions x \<Rightarrow> lift_stmt (insertTransactions env x)
      | InsertBlockSummaries x \<Rightarrow> lift_stmt (insertBlockSummary env x)
      | InsertEvents x \<Rightarrow> lift_stmt (insertEvents env x)
      | InsertDexPrices x \<Rightarrow> lift_stmt (insertDexPrices env x)
      | InsertPools x \<Rightarrow> lift_stmt (insertPools env x)
      | InsertOrders x \<Rightarrow> lift_stmt (insertOrders env x)
      | InsertDexOrders x \<Rightarrow> lift_stmt (insertDexOrders env x)
      | InsertDexDeposits x \<Rightarrow> lift_stmt (insertDexDeposits env x)
      | InsertDexWithdrawals x \<Rightarrow> lift_stmt (insertDexWithdrawals env x)
      | InsertPoolPointsByHolder x \<Rightarrow> lift_stmt (insertPoolPointsByHolder env x)
      | InsertParams x \<Rightarrow> lift_stmt (insertParams env x)
      | InsertValidators x \<Rightarrow> lift_stmt (insertValidators env x)
      | InsertValidatorNonSigningInfo x \<Rightarrow> lift_stmt (insertValidatorNonSigningInfo env x)
      | InsertValidatorDoubleSigningInfo x \<Rightarrow> lift_stmt (insertValidatorDoubleSigningInfo env x)
      | InsertCommittees x \<Rightarrow> lift_stmt (insertCommittees env x)
      | InsertCommitteeValidators x \<Rightarrow> lift_stmt (insertCommitteeValidators env x)
      | InsertCommitteePayments x \<Rightarrow> lift_stmt (insertCommitteePayments env x)
      | InsertPollSnapshots x \<Rightarrow> lift_stmt (insertPollSnapshots env x)
      | InsertProposalSnapshots x \<Rightarrow> lift_stmt (insertProposalSnapshots env x)
      | PromoteEntity e h \<Rightarrow> (\<lambda>s. (s, Ok ()))
      | CleanEntityStaging e h \<Rightarrow> (\<lambda>s. (s, Ok ()))
      | CleanAllEntitiesStaging es h \<Rightarrow> (\<lambda>s. (s, Ok ()))
      | CleanStagingBatch hs \<Rightarrow> (\<lambda>s. (s, Ok ()))
      | Delete_Block h \<Rightarrow> DeleteBlock env h
      | DeleteTransactions h \<Rightarrow> lift_stmt (deleteTransactionsAtHeight env h))"

text \<open>The methods of the interface that PostgreSQL does not have.\<close>

definition DescribeTable :: "string \<Rightarrow> 'a list outcome" where
  "DescribeTable tableName = Fail ErrNotImplemented"

definition GetTableSchema :: "string \<Rightarrow> 'a list outcome" where
  "GetTableSchema tableName = Fail ErrNotImplemented"

definition GetTableDataPaginated :: "string \<Rightarrow> int \<Rightarrow> int \<Rightarrow> uint64 option \<Rightarrow> uint64 option \<Rightarrow> 'a list outcome" where
  "GetTableDataPaginated tableName limit offset fromHeight toHeight = Fail ErrNotImplemented"

section \<open>List queries\<close>

text \<open>\<open>scan cols P s\<close> lists the events that satisfy \<open>P\<close>, ordered by \<open>cols\<close>.\<close>

type_synonym event_scan = "string list \<Rightarrow> (Event \<Rightarrow> bool) \<Rightarrow> chain_tables \<Rightarrow> Event list"

definition scans :: "event_scan \<Rightarrow> chain_tables \<Rightarrow> bool" where
  "scans scan s \<longleftrightarrow> (\<forall>cols P. set (scan cols P s) = {e \<in> ran (t_events s). P e} \<and> distinct (scan cols P s))"

definition query_list :: "sql_env \<Rightarrow> string \<Rightarrow> 'a list \<Rightarrow> 'a list outcome" where
  "query_list env msg rows =
     (case sql_query env of Some err \<Rightarrow> Fail (WrapErr msg err) | None \<Rightarrow> Ok rows)"

text \<open>\<open>by_height\<close> lists the blocks with the highest first.\<close>

definition GetHighestBlockBeforeTime ::
  "sql_env \<Rightarrow> (chain_tables \<Rightarrow> Block list) \<Rightarrow> string \<Rightarrow> time \<Rightarrow> chain_tables \<Rightarrow> Block outcome" where
  "GetHighestBlockBeforeTime env by_height shown targetTime s =
     (case query_row env (find (\<lambda>b. blk_Time b \<le> targetTime) (by_height s)) of
        Inl err \<Rightarrow> (if err = sql_ErrNoRows
           then Fail (Errorf (''no block found before time '' @ shown))
           else Fail (WrapErr ''failed to get highest block before time'' err))
      | Inr b \<Rightarrow> Ok b)"

definition GetEventsByTypeAndHeight ::
  "sql_env \<Rightarrow> event_scan \<Rightarrow> uint64 \<Rightarrow> bool \<Rightarrow> string list \<Rightarrow> chain_tables \<Rightarrow> Event list outcome" where
  "GetEventsByTypeAndHeight env scan height staging eventTypes s =
     (if length eventTypes = 0 then Fail (Errorf ''at least one event type must be specified'')
      else query_list env ''failed to query events''
        (scan [''event_type'', ''address''] (\<lambda>e. evr_Height e = height \<and> evr_EventType e \<in> set eventTypes) s))"

record EventRewardSlash =
  ers_Address :: string
  ers_Amount :: int64
  ers_Type :: string

record EventLifecycle =
  elc_Address :: string
  elc_EventType :: string

record EventWithOrderID =
  eoi_OrderID :: string
  eoi_EventType :: string

record EventDexBatch =
  edb_OrderID :: string
  edb_EventType :: string
  edb_Amount :: int64

definition GetRewardSlashEvents ::
  "sql_env \<Rightarrow> event_scan \<Rightarrow> uint64 \<Rightarrow> bool \<Rightarrow> chain_tables \<Rightarrow> EventRewardSlash list outcome" where
  "GetRewardSlashEvents env scan height staging s =
     query_list env ''failed to query reward/slash events''
       (map (\<lambda>e. \<lparr>ers_Address = evr_Address e, ers_Amount = evr_Amount e, ers_Type = evr_EventType e\<rparr>)
         (scan [''address'']
           (\<lambda>e. evr_Height e = height \<and> evr_EventType e \<in> set [''EventReward'', ''EventSlash'']) s))"

definition GetValidatorLifecycleEvents ::
  "sql_env \<Rightarrow> event_scan \<Rightarrow> uint64 \<Rightarrow> bool \<Rightarrow> chain_tables \<Rightarrow> EventLifecycle list outcome" where
  "GetValidatorLifecycleEvents env scan height staging s =
     query_list env ''failed to query lifecycle events''
       (map (\<lambda>e. \<lparr>elc_Address = evr_Address e, elc_EventType = evr_EventType e\<rparr>)
         (scan [''address'']
           (\<lambda>e. evr_Height e = height \<and>
              evr_EventType e \<in> set [''EventAutoPause'', ''EventAutoBeginUnstaking'', ''EventAutoFinishUnstaking'']) s))"

definition GetOrderBookSwapEvents ::
  "sql_env \<Rightarrow> event_scan \<Rightarrow> uint64 \<Rightarrow> bool \<Rightarrow> chain_tables \<Rightarrow> EventWithOrderID list outcome" where
  "GetOrderBookSwapEvents env scan height staging s =
     query_list env ''failed to query order book swap events''
       (map (\<lambda>e. \<lparr>eoi_OrderID = evr_OrderID e, eoi_EventType = evr_EventType e\<rparr>)
         (scan [''order_id'']
           (\<lambda>e. evr_Height e = height \<and> evr_EventType e = ''EventOrderBookSwap'' \<and> evr_OrderID e \<noteq> '''') s))"

definition GetDexOrderEvents ::
  "sql_env \<Rightarrow> event_scan \<Rightarrow> uint64 \<Rightarrow> bool \<Rightarrow> chain_tables \<Rightarrow> EventWithOrderID list outcome" where
  "GetDexOrderEvents env scan height staging s =
     query_list env ''failed to query DEX order events''
       (map (\<lambda>e. \<lparr>eoi_OrderID = evr_OrderID e, eoi_EventType = evr_EventType e\<rparr>)
         (scan [''order_id'']
           (\<lambda>e. evr_Height e = height \<and> evr_EventType e = ''EventDexSwap'' \<and> evr_OrderID e \<noteq> '''') s))"

text \<open>\<open>GROUP BY event_type\<close>: a type without a row is not a key of the map.\<close>

definition GetEventCountsByType ::
  "sql_env \<Rightarrow> event_scan \<Rightarrow> uint64 \<Rightarrow> bool \<Rightarrow> string list \<Rightarrow> chain_tables \<Rightarrow> (string \<rightharpoonup> uint64) outcome" where
  "GetEventCountsByType env scan height staging eventTypes s =
     (if length eventTypes = 0 then Fail (Errorf ''at least one event type must be specified'')
      else case sql_query env of
        Some err \<Rightarrow> Fail (WrapErr ''failed to query event counts'' err)
      | None \<Rightarrow>
          (let rows = scan [] (\<lambda>e. evr_Height e = height \<and> evr_EventType e \<in> set eventTypes) s;
               counts = map (\<lambda>t. (t, of_nat (length (filter (\<lambda>e. evr_EventType e = t) rows))))
                 (remdups (map evr_EventType rows))
           in Ok (foldl (\<lambda>m (t, n). m(t \<mapsto> n)) Map.empty counts)))"

definition GetDexBatchEvents ::
  "sql_env \<Rightarrow> event_scan \<Rightarrow> uint64 \<Rightarrow> bool \<Rightarrow> chain_tables \<Rightarrow> EventDexBatch list outcome" where
  "GetDexBatchEvents env scan height staging s =
     query_list env ''failed to query DEX batch events''
       (map (\<lambda>e. \<lparr>edb_OrderID = evr_OrderID e, edb_EventType = evr_EventType e, edb_Amount = evr_Amount e\<rparr>)
         (scan [''order_id'']
           (\<lambda>e. evr_Height e = height \<and>
              evr_EventType e \<in> set [''EventDexLiquidityDeposit'', ''EventDexLiquidityWithdraw'', ''EventDexSwap''] \<and>
              evr_OrderID e \<noteq> '''') s))"

section \<open>Trying again\<close>

text \<open>The contract of a store method: a first try, successful or not, and a second one that succeeds leave
  what one successful try leaves.\<close>

locale retryable =
  fixes try_op :: "sql_env \<Rightarrow> chain_tables \<Rightarrow> chain_tables \<times> unit outcome"
    and target :: "chain_tables \<Rightarrow> chain_tables"
  assumes no_fault: "try_op sql_ok s = (target s, Ok ())"
    and ok_target: "try_op env s = (s', Ok ()) \<Longrightarrow> s' = target s"
    and absorbs: "target (fst (try_op env s)) = target s"
begin

lemma retry: "try_op env' (fst (try_op env s)) = (s2, Ok ()) \<Longrightarrow> s2 = fst (try_op sql_ok s)"
  using ok_target [of env' "fst (try_op env s)" s2] absorbs by (simp add: no_fault)

end

context upsert_op begin

lemma lift_no_fault: "lift_stmt (insert_op sql_ok x) s = (overlay x s, Ok ())"
  by (simp add: lift_stmt_def insert_no_fault sql_ok_def)

lemma lift_Ok: "lift_stmt (insert_op env x) s = (s', Ok ()) \<Longrightarrow> s' = overlay x s"
  by (auto simp: lift_stmt_def dest: insert_Ok split: outcome.splits)

lemma lift_absorbs: "overlay x (fst (lift_stmt (insert_op env x) s)) = overlay x s"
  by (auto simp: lift_stmt_def overlay_idem dest: insert_Ok split: outcome.split)

end

sublocale upsert_op \<subseteq> again: retryable "\<lambda>env. lift_stmt (insert_op env x)" "overlay x" for x
  by unfold_locales (simp_all add: lift_no_fault lift_Ok lift_absorbs)

text \<open>Supplies one by one: what is left is the overlay of a prefix.\<close>

definition supply_overlay :: "Supply list \<Rightarrow> chain_tables \<Rightarrow> chain_tables" where
  "supply_overlay rows = t_supply_update (\<lambda>t. t ++ index_by supply_key rows)"

lemma supply_overlay_Nil [simp]: "supply_overlay [] s = s"
  by (simp add: supply_overlay_def)

lemma supply_overlay_append: "supply_overlay ys (supply_overlay xs s) = supply_overlay (xs @ ys) s"
  by (simp add: supply_overlay_def index_by_append map_add_assoc comp_def)

lemma supply_overlay_prefix: "supply_overlay (xs @ ys) (supply_overlay xs s) = supply_overlay (xs @ ys) s"
proof -
  have "(t ++ index_by supply_key xs) ++ index_by supply_key (xs @ ys) = t ++ index_by supply_key (xs @ ys)" for t
    by (simp add: index_by_append)
  then show ?thesis by (simp add: supply_overlay_def comp_def)
qed

lemma insert_each_prefix:
  "\<exists>xs ys. rows = xs @ ys \<and> fst (insert_each env i rows s) = supply_overlay xs s \<and>
     (snd (insert_each env i rows s) = Ok () \<longrightarrow> ys = [])"
proof (induction rows arbitrary: i s)
  case (Cons r rs)
  let ?env = "env\<lparr>sql_statement := \<lambda>t _. sql_statement env t i\<rparr>"
  show ?case
  proof (cases "insertSupply ?env r s")
    case (Ok s')
    then have s': "s' = supply_overlay [r] s" using insertSupply.insert_Ok by (simp add: supply_overlay_def)
    obtain xs ys where "rs = xs @ ys" "fst (insert_each env (i + 1) rs s') = supply_overlay xs s'"
      "snd (insert_each env (i + 1) rs s') = Ok () \<longrightarrow> ys = []"
      using Cons.IH by blast
    then show ?thesis using Ok s' supply_overlay_append [of xs "[r]" s]
      by (intro exI [of _ "r # xs"] exI [of _ ys]) simp
  next
    case (Fail e)
    then show ?thesis by (intro exI [of _ "[]"] exI [of _ "r # rs"]) simp
  next
    case Panic
    then show ?thesis by (intro exI [of _ "[]"] exI [of _ "r # rs"]) simp
  qed
qed simp

lemma insert_each_no_fault: "insert_each sql_ok i rows s = (supply_overlay rows s, Ok ())"
proof (induction rows arbitrary: i s)
  case (Cons r rs)
  have "insertSupply (sql_ok\<lparr>sql_statement := \<lambda>t _. sql_statement sql_ok t i\<rparr>) r s = Ok (supply_overlay [r] s)"
    by (subst insertSupply.insert_no_fault) (simp_all add: sql_ok_def supply_overlay_def)
  then show ?case using Cons.IH supply_overlay_append [of rs "[r]" s] by simp
qed simp

interpretation supplies: retryable "\<lambda>env. insert_each env 0 rows" "supply_overlay rows" for rows
proof
  show "insert_each sql_ok 0 rows s = (supply_overlay rows s, Ok ())" for s by (rule insert_each_no_fault)
  fix env s
  obtain xs ys where eq: "rows = xs @ ys" "fst (insert_each env 0 rows s) = supply_overlay xs s"
    "snd (insert_each env 0 rows s) = Ok () \<longrightarrow> ys = []"
    using insert_each_prefix by blast
  show "s' = supply_overlay rows s" if "insert_each env 0 rows s = (s', Ok ())" for s'
    using eq that by auto
  show "supply_overlay rows (fst (insert_each env 0 rows s)) = supply_overlay rows s"
    unfolding eq(2) unfolding eq(1) by (rule supply_overlay_prefix)
qed

lemma delete_where_idem: "delete_where ht P (delete_where ht P t) = delete_where ht P t"
  by (rule ext) (simp add: delete_where_def)

lemma cleared_idem: "cleared P (cleared P s) = cleared P s"
  by (simp add: cleared_def delete_where_idem)

interpretation delete_block: retryable "\<lambda>env. DeleteBlock env h" "cleared (\<lambda>x. x = h)" for h
proof
  show "DeleteBlock sql_ok h s = (cleared (\<lambda>x. x = h) s, Ok ())" for s
    unfolding DeleteBlock_def by (rule DeleteAllAtHeight_no_fault) (simp_all add: sql_ok_def)
  show "s' = cleared (\<lambda>x. x = h) s" if "DeleteBlock env h s = (s', Ok ())" for env s s'
    using that unfolding DeleteBlock_def by (rule DeleteAllAtHeight_Ok)
  show "cleared (\<lambda>x. x = h) (fst (DeleteBlock env h s)) = cleared (\<lambda>x. x = h) s" for env s
    using DeleteAllAtHeight_cases [of env h s] by (auto simp: DeleteBlock_def cleared_idem)
qed

interpretation delete_txs: retryable "\<lambda>env. lift_stmt (deleteTransactionsAtHeight env h)"
  "\<lambda>s. s\<lparr>t_txs := delete_at fst h (t_txs s)\<rparr>" for h
proof -
  have idem: "delete_at fst h (delete_at fst h t) = delete_at fst h t" for t :: "uint64 \<times> string \<rightharpoonup> Transaction"
    by (rule ext) (simp add: delete_at_def)
  show "retryable (\<lambda>env. lift_stmt (deleteTransactionsAtHeight env h)) (\<lambda>s. s\<lparr>t_txs := delete_at fst h (t_txs s)\<rparr>)"
    by unfold_locales
      (auto simp: lift_stmt_def deleteTransactionsAtHeight_def delete_stmt_def sql_ok_def idem split: option.splits)
qed

text \<open>
  C32. Every method of a chain's store can be tried again: whatever the first try did, after a second one that
  succeeds the tables are what a single try without a fault would have left. This holds also where the first
  try stored a part (supplies are inserted one by one) or lost the answer to its commit.
\<close>

theorem store_retry:
  assumes "run_store_op env' op (fst (run_store_op env op s)) = (s2, Ok ())"
  shows "s2 = fst (run_store_op sql_ok op s)"
proof (cases op)
  case (InsertAccounts x)
  then show ?thesis using assms insertAccounts.again.retry by (simp add: run_store_op_def)
next
  case (InsertSupply x)
  then show ?thesis using assms supplies.retry by (simp add: run_store_op_def)
next
  case (Delete_Block h)
  then show ?thesis using assms delete_block.retry by (simp add: run_store_op_def)
next
  case (DeleteTransactions h)
  then show ?thesis using assms delete_txs.retry by (simp add: run_store_op_def)
qed (use assms insertBlock.again.retry insertTransactions.again.retry insertBlockSummary.again.retry
    insertEvents.again.retry insertDexPrices.again.retry insertPools.again.retry insertOrders.again.retry
    insertDexOrders.again.retry insertDexDeposits.again.retry insertDexWithdrawals.again.retry
    insertPoolPointsByHolder.again.retry insertParams.again.retry insertValidators.again.retry
    insertValidatorNonSigningInfo.again.retry insertValidatorDoubleSigningInfo.again.retry
    insertCommittees.again.retry insertCommitteeValidators.again.retry insertCommitteePayments.again.retry
    insertPollSnapshots.again.retry insertProposalSnapshots.again.retry in \<open>simp_all add: run_store_op_def\<close>)

definition supply_at :: "uint64 \<Rightarrow> Supply" where
  "supply_at h = \<lparr>sup_Total = 100, sup_Staked = 40, sup_DelegatedOnly = 10, sup_Height = h, sup_HeightTime = 0\<rparr>"

definition second_fails :: sql_env where
  "second_fails = sql_ok\<lparr>sql_statement := \<lambda>_ i. if i = 1 then Some (Errorf ''x'') else None\<rparr>"

lemma second_fails_stores_one:
  "fst (run_store_op second_fails (InsertSupply [supply_at 1, supply_at 2]) empty_tables) =
     supply_overlay [supply_at 1] empty_tables"
proof -
  have "insertSupply (second_fails\<lparr>sql_statement := \<lambda>t _. sql_statement second_fails t 0\<rparr>) (supply_at 1) empty_tables =
      Ok (supply_overlay [supply_at 1] empty_tables)"
    by (subst insertSupply.insert_no_fault) (simp_all add: second_fails_def supply_overlay_def)
  then show ?thesis
    by (simp add: run_store_op_def insertSupply_def execOne_def second_fails_def)
qed

theorem store_retry_witness:
  "run_store_op sql_ok (InsertSupply [supply_at 1, supply_at 2])
     (fst (run_store_op second_fails (InsertSupply [supply_at 1, supply_at 2]) empty_tables)) =
     (fst (run_store_op sql_ok (InsertSupply [supply_at 1, supply_at 2]) empty_tables), Ok ()) \<and>
   t_supply (fst (run_store_op second_fails (InsertSupply [supply_at 1, supply_at 2]) empty_tables)) 2 = None"
proof -
  let ?op = "InsertSupply [supply_at 1, supply_at 2]"
  obtain s2 where again: "run_store_op sql_ok ?op (fst (run_store_op second_fails ?op empty_tables)) = (s2, Ok ())"
    by (simp add: run_store_op_def insert_each_no_fault del: insert_each.simps)
  have "index_by supply_key [supply_at 1] 2 = None"
    by (simp add: index_by_None_iff supply_key_def supply_at_def)
  then have "t_supply (fst (run_store_op second_fails ?op empty_tables)) 2 = None"
    by (simp only: second_fails_stores_one) (simp add: supply_overlay_def empty_tables_def)
  then show ?thesis using again store_retry [OF again] by simp
qed

section \<open>What the event queries return\<close>

lemma scansD:
  assumes "scans scan s"
  shows "set (scan cols P s) = {e \<in> ran (t_events s). P e}" "distinct (scan cols P s)"
  using assms by (simp_all add: scans_def)

lemma foldl_pairs: "foldl (\<lambda>m (t, n). m(t \<mapsto> n)) m0 (map (\<lambda>t. (t, f t)) ts) k =
    (if k \<in> set ts then Some (f k) else m0 k)"
  by (induction ts arbitrary: m0) auto

lemma scan_count:
  assumes "scans scan s"
  shows "length (filter Q (scan cols P s)) = card {e \<in> ran (t_events s). P e \<and> Q e}"
proof -
  have "length (filter Q (scan cols P s)) = card (set (filter Q (scan cols P s)))"
    by (rule distinct_card [symmetric], rule distinct_filter, rule scansD(2) [OF assms])
  then show ?thesis by (simp add: scansD(1) [OF assms] conj_ac)
qed

text \<open>
  The event queries of one height: the list holds each stored event of the height whose type was asked for,
  once; the counts have a type as a key exactly when the list has an event of it, with the number of those
  events; asking for no type is refused by both.
\<close>

theorem event_queries:
  assumes "scans scan s" "sql_query env = None"
  shows "(if types = []
     then GetEventsByTypeAndHeight env scan h st types s = Fail (Errorf ''at least one event type must be specified'') \<and>
       GetEventCountsByType env scan h st types s = Fail (Errorf ''at least one event type must be specified'')
     else \<exists>rows m. GetEventsByTypeAndHeight env scan h st types s = Ok rows \<and>
       set rows = {e \<in> ran (t_events s). evr_Height e = h \<and> evr_EventType e \<in> set types} \<and> distinct rows \<and>
       GetEventCountsByType env scan h st types s = Ok m \<and>
       (\<forall>t. m t = (if t \<in> evr_EventType ` set rows
          then Some (of_nat (length (filter (\<lambda>e. evr_EventType e = t) rows))) else None)))"
proof (cases "types = []")
  case False
  let ?P = "\<lambda>e. evr_Height e = h \<and> evr_EventType e \<in> set types"
  let ?rows = "scan [''event_type'', ''address''] ?P s"
  let ?grouped = "scan [] ?P s"
  have same: "length (filter (\<lambda>e. evr_EventType e = t) ?grouped) = length (filter (\<lambda>e. evr_EventType e = t) ?rows)" for t
    by (simp add: scan_count [OF assms(1)])
  have types: "evr_EventType ` set ?grouped = evr_EventType ` set ?rows" by (simp add: scansD(1) [OF assms(1)])
  let ?m = "foldl (\<lambda>m (t, n). m(t \<mapsto> n)) Map.empty
      (map (\<lambda>t. (t, of_nat (length (filter (\<lambda>e. evr_EventType e = t) ?grouped)) :: uint64))
        (remdups (map evr_EventType ?grouped)))"
  have counts: "GetEventCountsByType env scan h st types s = Ok ?m"
    using False by (simp add: GetEventCountsByType_def assms(2) Let_def)
  have m: "\<forall>t. ?m t = (if t \<in> evr_EventType ` set ?rows
      then Some (of_nat (length (filter (\<lambda>e. evr_EventType e = t) ?rows))) else None)"
    unfolding foldl_pairs by (simp only: set_remdups set_map types same) simp
  have list: "GetEventsByTypeAndHeight env scan h st types s = Ok ?rows"
    using False by (simp add: GetEventsByTypeAndHeight_def query_list_def assms(2))
  show ?thesis unfolding if_not_P [OF False]
    by (rule exI [of _ ?rows], rule exI [of _ ?m], intro conjI)
      (rule list, rule scansD [OF assms(1)], rule scansD [OF assms(1)], rule counts, rule m)
qed (simp add: GetEventsByTypeAndHeight_def GetEventCountsByType_def)

text \<open>The event types that the summary and the DEX converters know (internal/indexer). The queries for rewards,
  lifecycle, swaps and DEX batches ask for other names, so on such events they return nothing.\<close>

definition recognised_types :: "string list" where
  "recognised_types =
     [''reward'', ''slash'', ''dex_liquidity_deposit'', ''dex_liquidity_withdraw'', ''dex_swap'', ''order_book_swap'',
      ''automatic_pause'', ''automatic_begin_unstaking'', ''automatic_finish_unstaking'',
      ''dex-swap'', ''dex-liquidity-deposit'', ''dex-liquidity-withdraw'']"

lemma scan_empty:
  assumes "scans scan s" "\<And>e. e \<in> ran (t_events s) \<Longrightarrow> \<not> P e"
  shows "scan cols P s = []"
proof -
  have "set (scan cols P s) = {}" using scansD(1) [OF assms(1)] assms(2) by auto
  then show ?thesis by simp
qed

theorem fixed_event_queries_empty:
  assumes "scans scan s" "sql_query env = None" "\<forall>e \<in> ran (t_events s). evr_EventType e \<in> set recognised_types"
  shows "GetRewardSlashEvents env scan h st s = Ok [] \<and> GetValidatorLifecycleEvents env scan h st s = Ok [] \<and>
    GetOrderBookSwapEvents env scan h st s = Ok [] \<and> GetDexOrderEvents env scan h st s = Ok [] \<and>
    GetDexBatchEvents env scan h st s = Ok []"
proof -
  have none: "scan cols P s = []" if "\<And>e. evr_EventType e \<in> set recognised_types \<Longrightarrow> \<not> P e" for cols P
    using assms(3) that by (intro scan_empty [OF assms(1)]) blast
  show ?thesis
    unfolding GetRewardSlashEvents_def GetValidatorLifecycleEvents_def GetOrderBookSwapEvents_def
      GetDexOrderEvents_def GetDexBatchEvents_def query_list_def assms(2)
    by (subst none, force simp: recognised_types_def)+ simp
qed

theorem highest_block_before:
  assumes "sql_query env = None" "set (by_height s) = ran (t_blocks s)"
    "sorted_wrt (\<lambda>a b. blk_Height a > blk_Height b) (by_height s)"
  shows "case GetHighestBlockBeforeTime env by_height shown target s of
      Ok b \<Rightarrow> b \<in> ran (t_blocks s) \<and> blk_Time b \<le> target \<and>
        (\<forall>b' \<in> ran (t_blocks s). blk_Time b' \<le> target \<longrightarrow> blk_Height b' \<le> blk_Height b)
    | Fail err \<Rightarrow> \<forall>b \<in> ran (t_blocks s). blk_Time b > target
    | Panic \<Rightarrow> False"
proof (cases "find (\<lambda>b. blk_Time b \<le> target) (by_height s)")
  case None
  then have "\<forall>b \<in> ran (t_blocks s). blk_Time b > target" by (simp add: find_None_iff assms(2) not_le)
  then show ?thesis
    by (simp add: GetHighestBlockBeforeTime_def query_row_def assms(1) None pgx_ErrNoRows_def sql_ErrNoRows_def)
next
  case (Some b)
  then obtain i where i: "i < length (by_height s)" "by_height s ! i = b" "blk_Time b \<le> target"
    "\<And>j. j < i \<Longrightarrow> \<not> blk_Time (by_height s ! j) \<le> target"
    by (auto simp: find_Some_iff)
  have "blk_Height b' \<le> blk_Height b" if b': "b' \<in> ran (t_blocks s)" "blk_Time b' \<le> target" for b'
  proof -
    obtain j where j: "j < length (by_height s)" "by_height s ! j = b'"
      using b'(1) assms(2) by (metis in_set_conv_nth)
    then have "i \<le> j" using i(4) [of j] b'(2) by (cases "j < i") auto
    then show ?thesis using assms(3) i(1,2) j by (cases "i = j") (auto simp: sorted_wrt_iff_nth_less less_imp_le)
  qed
  moreover have "b \<in> ran (t_blocks s)" using i(1,2) assms(2) nth_mem by metis
  ultimately show ?thesis using i(3)
    by (simp add: GetHighestBlockBeforeTime_def query_row_def assms(1) Some)
qed

end
