(* ===== verification/Config.thy ===== *)
theory Config
  imports GoParse Backfill Registry
begin

text \<open>
  Configuration from the environment: \<open>config.Load\<close> (internal/config/config.go), \<open>backfill.LoadConfig\<close>
  (internal/backfill/config.go) with the flags of cmd/backfill, \<open>utils.Env\<close> and \<open>utils.EnvInt\<close>, the sizes
  of the connection pools (pkg/db/postgres/client.go), and the rediscovery loop of cmd/indexer that takes its
  interval from there. An environment maps a name to its text, empty when it is not set. \<open>fmul\<close> is the
  floating point multiplication of \<open>ParseDuration\<close>.
\<close>

type_synonym environment = "string \<Rightarrow> string"
type_synonym fraction = "nat \<Rightarrow> nat \<Rightarrow> nat \<Rightarrow> nat"

section \<open>Reading one variable\<close>

text \<open>\<open>if v := os.Getenv(key); v != "" { if n, err := parse(v); err == nil { cfg.Field = n } }\<close>\<close>

definition override :: "(string \<Rightarrow> 'a option) \<Rightarrow> string \<Rightarrow> ('a \<Rightarrow> 'c \<Rightarrow> 'c) \<Rightarrow> 'c \<Rightarrow> 'c" where
  "override parse v upd cfg =
     (if v \<noteq> '''' then (case parse v of None \<Rightarrow> cfg | Some n \<Rightarrow> upd n cfg) else cfg)"

definition truthy :: "string \<Rightarrow> bool" where
  "truthy v \<longleftrightarrow> v = ''true'' \<or> v = ''1''"

definition Env :: "environment \<Rightarrow> string \<Rightarrow> string \<Rightarrow> string" where
  "Env env key def = (if env key = '''' then def else env key)"

definition EnvInt :: "environment \<Rightarrow> string \<Rightarrow> int \<Rightarrow> int" where
  "EnvInt env key def =
     (if env key \<noteq> ''''
      then (case Atoi (env key) of None \<Rightarrow> def | Some n \<Rightarrow> if n > 0 then n else def)
      else def)"

section \<open>The indexer's configuration\<close>

record indexer_config =
  cfg_RPCRPS :: int
  cfg_RPCBurst :: int
  cfg_PostgresURL :: string
  cfg_RedisURL :: string
  cfg_BlocksTopic :: string
  cfg_ConsumerGroup :: string
  cfg_WorkerConcurrency :: int
  cfg_WSEnabled :: bool
  cfg_WSMaxRetries :: int
  cfg_WSReconnectDelay :: int
  cfg_WSBlobEnabled :: bool
  cfg_WSBlobURL :: string
  cfg_WSBlobChainID :: uint64
  cfg_WSBlobAutoSubscribe :: bool
  cfg_LogLevel :: string
  cfg_BackfillCheckInterval :: int
  cfg_ChainRediscoveryInterval :: int
  cfg_HTTPEnabled :: bool
  cfg_HTTPAddr :: string
  cfg_AdminToken :: string

definition config_defaults :: indexer_config where
  "config_defaults =
     \<lparr>cfg_RPCRPS = 500, cfg_RPCBurst = 1000, cfg_PostgresURL = '''', cfg_RedisURL = '''',
      cfg_BlocksTopic = ''blocks-to-index'', cfg_ConsumerGroup = ''indexer-workers'', cfg_WorkerConcurrency = 1,
      cfg_WSEnabled = True, cfg_WSMaxRetries = 25, cfg_WSReconnectDelay = second, cfg_WSBlobEnabled = False,
      cfg_WSBlobURL = '''', cfg_WSBlobChainID = 0, cfg_WSBlobAutoSubscribe = False, cfg_LogLevel = ''info'',
      cfg_BackfillCheckInterval = 0, cfg_ChainRediscoveryInterval = 0, cfg_HTTPEnabled = False,
      cfg_HTTPAddr = '''', cfg_AdminToken = ''''\<rparr>"

text \<open>The overrides, in the order of the code.\<close>

definition load_rpc_redis :: "environment \<Rightarrow> indexer_config \<Rightarrow> indexer_config" where
  "load_rpc_redis env cfg =
     (let cfg = override Atoi (env ''RPC_RPS'') (\<lambda>n. cfg_RPCRPS_update (\<lambda>_. n)) cfg;
          cfg = override Atoi (env ''RPC_BURST'') (\<lambda>n. cfg_RPCBurst_update (\<lambda>_. n)) cfg;
          cfg = override Some (env ''BLOCKS_TOPIC'') (\<lambda>v. cfg_BlocksTopic_update (\<lambda>_. v)) cfg;
          cfg = override Some (env ''CONSUMER_GROUP'') (\<lambda>v. cfg_ConsumerGroup_update (\<lambda>_. v)) cfg
      in override Atoi (env ''WORKER_CONCURRENCY'') (\<lambda>n. cfg_WorkerConcurrency_update (\<lambda>_. n)) cfg)"

definition load_websocket :: "fraction \<Rightarrow> environment \<Rightarrow> indexer_config \<Rightarrow> indexer_config" where
  "load_websocket fmul env cfg =
     (let cfg = override Some (env ''WS_ENABLED'') (\<lambda>v. cfg_WSEnabled_update (\<lambda>_. truthy v)) cfg;
          cfg = override Atoi (env ''WS_MAX_RETRIES'') (\<lambda>n. cfg_WSMaxRetries_update (\<lambda>_. n)) cfg;
          cfg = override (ParseDuration fmul) (env ''WS_RECONNECT_DELAY'')
            (\<lambda>d. cfg_WSReconnectDelay_update (\<lambda>_. d)) cfg;
          cfg = override Some (env ''WS_BLOB_ENABLED'') (\<lambda>v. cfg_WSBlobEnabled_update (\<lambda>_. truthy v)) cfg;
          cfg = cfg\<lparr>cfg_WSBlobURL := env ''WS_BLOB_URL''\<rparr>;
          cfg = override ParseUint (env ''WS_BLOB_CHAIN_ID'') (\<lambda>n. cfg_WSBlobChainID_update (\<lambda>_. n)) cfg
      in if env ''WS_BLOB_AUTO_SUBSCRIBE'' \<noteq> ''''
         then cfg\<lparr>cfg_WSBlobAutoSubscribe := truthy (env ''WS_BLOB_AUTO_SUBSCRIBE'')\<rparr>
         else cfg\<lparr>cfg_WSBlobAutoSubscribe := True\<rparr>)"

definition load_intervals :: "fraction \<Rightarrow> environment \<Rightarrow> indexer_config \<Rightarrow> indexer_config" where
  "load_intervals fmul env cfg =
     (let cfg = override Some (env ''LOG_LEVEL'') (\<lambda>v. cfg_LogLevel_update (\<lambda>_. v)) cfg;
          cfg = override (ParseDuration fmul) (env ''BACKFILL_CHECK_INTERVAL'')
            (\<lambda>d. cfg_BackfillCheckInterval_update (\<lambda>_. d)) cfg
      in if env ''CHAIN_REDISCOVERY_INTERVAL'' \<noteq> ''''
         then (case ParseDuration fmul (env ''CHAIN_REDISCOVERY_INTERVAL'') of
                 None \<Rightarrow> cfg
               | Some d \<Rightarrow> cfg\<lparr>cfg_ChainRediscoveryInterval := d\<rparr>)
         else cfg\<lparr>cfg_ChainRediscoveryInterval := 5 * second\<rparr>)"

definition load_blob_defaults :: "indexer_config \<Rightarrow> indexer_config" where
  "load_blob_defaults cfg =
     (let cfg = (if cfg_WSBlobURL cfg = '''' \<and> cfg_WSBlobEnabled cfg
            then cfg\<lparr>cfg_WSBlobURL := ''http://host.docker.internal:50002''\<rparr> else cfg)
      in if cfg_WSBlobChainID cfg = 0 \<and> cfg_WSBlobEnabled cfg then cfg\<lparr>cfg_WSBlobChainID := 1\<rparr> else cfg)"

definition load_http :: "environment \<Rightarrow> indexer_config \<Rightarrow> indexer_config" where
  "load_http env cfg =
     (let cfg = override Some (env ''HTTP_ENABLED'') (\<lambda>v. cfg_HTTPEnabled_update (\<lambda>_. truthy v)) cfg;
          cfg = cfg\<lparr>cfg_HTTPAddr := env ''HTTP_ADDR''\<rparr>;
          cfg = (if cfg_HTTPAddr cfg = '''' then cfg\<lparr>cfg_HTTPAddr := '':8080''\<rparr> else cfg);
          cfg = cfg\<lparr>cfg_AdminToken := env ''ADMIN_TOKEN''\<rparr>
      in if cfg_AdminToken cfg = '''' then cfg\<lparr>cfg_AdminToken := ''devtoken''\<rparr> else cfg)"

definition Load :: "fraction \<Rightarrow> environment \<Rightarrow> indexer_config outcome" where
  "Load fmul env =
     (let cfg = config_defaults\<lparr>cfg_PostgresURL := env ''POSTGRES_URL''\<rparr>
      in if cfg_PostgresURL cfg = '''' then Fail (Errorf ''POSTGRES_URL is required'')
         else let cfg = cfg\<lparr>cfg_RedisURL := env ''REDIS_URL''\<rparr>
              in if cfg_RedisURL cfg = '''' then Fail (Errorf ''REDIS_URL is required'')
                 else Ok (load_http env (load_blob_defaults (load_intervals fmul env (load_websocket fmul env
                        (load_rpc_redis env cfg))))))"

section \<open>The rediscovery loop\<close>

text \<open>\<open>runChainRediscovery\<close> with as many ticks as come before the context is done. The discovery of a round
  is an argument; its error is only logged. A ticker panics on an interval that is not positive.\<close>

fun discovery_ticks :: "(nat \<Rightarrow> 's \<Rightarrow> 's \<times> unit outcome) \<Rightarrow> nat \<Rightarrow> nat \<Rightarrow> 's \<Rightarrow> 's \<times> unit outcome" where
  "discovery_ticks rediscover i 0 s = (s, Ok ())"
| "discovery_ticks rediscover i (Suc n) s =
     (case rediscover i s of
        (s', Panic) \<Rightarrow> (s', Panic)
      | (s', _) \<Rightarrow> discovery_ticks rediscover (i + 1) n s')"

definition runChainRediscovery ::
  "(nat \<Rightarrow> 's \<Rightarrow> 's \<times> unit outcome) \<Rightarrow> int \<Rightarrow> nat \<Rightarrow> 's \<Rightarrow> 's \<times> unit outcome" where
  "runChainRediscovery rediscover interval ticks s =
     (case rediscover 0 s of
        (s', Panic) \<Rightarrow> (s', Panic)
      | (s', _) \<Rightarrow>
          (if interval \<le> 0 then (s', Panic) else discovery_ticks rediscover 1 ticks s'))"

section \<open>The backfiller's configuration\<close>

definition override_positive :: "string \<Rightarrow> (int \<Rightarrow> 'c \<Rightarrow> 'c) \<Rightarrow> 'c \<Rightarrow> 'c" where
  "override_positive v upd cfg =
     override (\<lambda>v. case Atoi v of None \<Rightarrow> None | Some n \<Rightarrow> if n > 0 then Some n else None) v upd cfg"

definition LoadConfig :: "fraction \<Rightarrow> environment \<Rightarrow> backfill_config" where
  "LoadConfig fmul env =
     (let cfg = DefaultConfig;
          cfg = override_positive (env ''BACKFILL_BATCH_SIZE'') (\<lambda>n. bfc_BatchSize_update (\<lambda>_. n)) cfg;
          cfg = override_positive (env ''BACKFILL_CONCURRENCY'') (\<lambda>n. bfc_Concurrency_update (\<lambda>_. n)) cfg;
          cfg = override ParseUint (env ''BACKFILL_START_HEIGHT'') (\<lambda>n. bfc_StartHeight_update (\<lambda>_. n)) cfg;
          cfg = override ParseUint (env ''BACKFILL_END_HEIGHT'') (\<lambda>n. bfc_EndHeight_update (\<lambda>_. n)) cfg;
          cfg = (if truthy (env ''BACKFILL_DRY_RUN'') then cfg\<lparr>bfc_DryRun := True\<rparr> else cfg);
          cfg = override (ParseDuration fmul) (env ''BACKFILL_PROGRESS_INTERVAL'')
            (\<lambda>d. bfc_ProgressInterval_update (\<lambda>_. d)) cfg;
          cfg = override (ParseDuration fmul) (env ''BACKFILL_GAP_CHECK_INTERVAL'')
            (\<lambda>d. bfc_GapCheckInterval_update (\<lambda>_. d)) cfg
      in if truthy (env ''BACKFILL_USE_BLOBS'') then cfg\<lparr>bfc_UseBlobs := True\<rparr> else cfg)"

section \<open>Pool sizes\<close>

record PoolConfig =
  pc_MinConns :: int32
  pc_MaxConns :: int32
  pc_ConnMaxLifetime :: int
  pc_ConnMaxIdleTime :: int
  pc_Component :: string

definition GetPoolConfigForComponent :: "string \<Rightarrow> PoolConfig" where
  "GetPoolConfigForComponent component =
     (let (minConns, maxConns) =
        (if component = ''indexer_admin'' then (2, 15)
         else if component = ''indexer_chain'' then (5, 40)
         else if component = ''admin'' then (2, 10)
         else if component = ''admin_chain'' then (2, 5)
         else if component = ''controller'' then (2, 10)
         else if component = ''crosschain'' then (2, 10)
         else (2, 20))
      in \<lparr>pc_MinConns = minConns, pc_MaxConns = maxConns, pc_ConnMaxLifetime = 5 * 60 * second,
          pc_ConnMaxIdleTime = 2 * 60 * second, pc_Component = component\<rparr>)"

definition SanitizeName :: "string \<Rightarrow> string" where
  "SanitizeName name = name"

definition ParseConnMaxLifetime :: "fraction \<Rightarrow> environment \<Rightarrow> string \<Rightarrow> int" where
  "ParseConnMaxLifetime fmul env lifetimeStr =
     (case (if lifetimeStr \<noteq> '''' then ParseDuration fmul lifetimeStr else None) of
        Some d \<Rightarrow> d
      | None \<Rightarrow>
     (case (if env ''POSTGRES_CONN_MAX_LIFETIME'' \<noteq> ''''
            then ParseDuration fmul (env ''POSTGRES_CONN_MAX_LIFETIME'') else None) of
        Some d \<Rightarrow> d
      | None \<Rightarrow> 1 * 3600 * second))"

section \<open>What a loaded configuration holds\<close>

lemma load_rpc_redis_keeps [simp]:
  "cfg_ChainRediscoveryInterval (load_rpc_redis env cfg) = cfg_ChainRediscoveryInterval cfg"
  by (simp add: load_rpc_redis_def override_def Let_def split: option.split)

lemma load_websocket_keeps [simp]:
  "cfg_ChainRediscoveryInterval (load_websocket fmul env cfg) = cfg_ChainRediscoveryInterval cfg"
  by (simp add: load_websocket_def override_def Let_def split: option.split)

lemma load_blob_defaults_facts [simp]:
  "cfg_ChainRediscoveryInterval (load_blob_defaults cfg) = cfg_ChainRediscoveryInterval cfg"
  "cfg_WSBlobEnabled (load_blob_defaults cfg) = cfg_WSBlobEnabled cfg"
  "cfg_WSBlobEnabled cfg \<Longrightarrow> cfg_WSBlobURL (load_blob_defaults cfg) \<noteq> '''' \<and> cfg_WSBlobChainID (load_blob_defaults cfg) \<noteq> 0"
  by (simp_all add: load_blob_defaults_def Let_def)

lemma load_http_keeps [simp]:
  "cfg_ChainRediscoveryInterval (load_http env cfg) = cfg_ChainRediscoveryInterval cfg"
  "cfg_WSBlobEnabled (load_http env cfg) = cfg_WSBlobEnabled cfg"
  "cfg_WSBlobURL (load_http env cfg) = cfg_WSBlobURL cfg"
  "cfg_WSBlobChainID (load_http env cfg) = cfg_WSBlobChainID cfg"
  "cfg_AdminToken (load_http env cfg) = (if env ''ADMIN_TOKEN'' = '''' then ''devtoken'' else env ''ADMIN_TOKEN'')"
  "cfg_HTTPAddr (load_http env cfg) = (if env ''HTTP_ADDR'' = '''' then '':8080'' else env ''HTTP_ADDR'')"
  by (simp_all add: load_http_def override_def Let_def)

lemma load_intervals_interval:
  "cfg_ChainRediscoveryInterval (load_intervals fmul env cfg) =
     (if env ''CHAIN_REDISCOVERY_INTERVAL'' = '''' then 5 * second
      else case ParseDuration fmul (env ''CHAIN_REDISCOVERY_INTERVAL'') of
        None \<Rightarrow> cfg_ChainRediscoveryInterval cfg | Some d \<Rightarrow> d)"
  by (simp add: load_intervals_def override_def Let_def split: option.split)

lemma Load_Ok_iff:
  "Load fmul env = Ok cfg \<longleftrightarrow> env ''POSTGRES_URL'' \<noteq> '''' \<and> env ''REDIS_URL'' \<noteq> '''' \<and>
     cfg = load_http env (load_blob_defaults (load_intervals fmul env (load_websocket fmul env (load_rpc_redis env
       (config_defaults\<lparr>cfg_PostgresURL := env ''POSTGRES_URL'', cfg_RedisURL := env ''REDIS_URL''\<rparr>)))))"
  by (auto simp: Load_def Let_def config_defaults_def)

text \<open>An interval that the ticker accepts comes from an unset variable or from a positive duration.\<close>

definition interval_set :: "fraction \<Rightarrow> environment \<Rightarrow> bool" where
  "interval_set fmul env \<longleftrightarrow> env ''CHAIN_REDISCOVERY_INTERVAL'' = '''' \<or>
     (case ParseDuration fmul (env ''CHAIN_REDISCOVERY_INTERVAL'') of None \<Rightarrow> False | Some d \<Rightarrow> d > 0)"

lemma Load_interval:
  "Load fmul env = Ok cfg \<Longrightarrow> cfg_ChainRediscoveryInterval cfg > 0 \<longleftrightarrow> interval_set fmul env"
  by (auto simp: Load_Ok_iff load_intervals_interval interval_set_def config_defaults_def second_def
      split: option.split)

section \<open>Discovery over time\<close>

text \<open>Everything a round of discovery gets from outside.\<close>

record round_env =
  rnd_env :: registry_env
  rnd_fault :: "go_error option"
  rnd_table :: "admin_Chain list"
  rnd_remove :: "registry \<Rightarrow> uint64 list"
  rnd_add :: "uint64 list"

definition discovery_round :: "(nat \<Rightarrow> round_env) \<Rightarrow> nat \<Rightarrow> registry \<Rightarrow> registry \<times> unit outcome" where
  "discovery_round rounds i r =
     Rediscover (rnd_env (rounds i)) (rnd_fault (rounds i)) (rnd_table (rounds i)) (rnd_remove (rounds i) r)
       (rnd_add (rounds i)) r"

definition after_rounds :: "(nat \<Rightarrow> round_env) \<Rightarrow> nat \<Rightarrow> registry \<Rightarrow> registry" where
  "after_rounds rounds n r = fold (\<lambda>i r. fst (discovery_round rounds i r)) [0..<n] r"

lemma Rediscover_no_Panic: "snd (Rediscover env fault tbl rm add r) \<noteq> Panic"
  by (simp add: Rediscover_def ListChain_def Let_def split: option.split)

lemma discovery_ticks_run:
  assumes "\<And>i s. snd (d i s) \<noteq> Panic"
  shows "discovery_ticks d i n s = (fold (\<lambda>j s. fst (d j s)) [i..<i + n] s, Ok ())"
proof (induction n arbitrary: i s)
  case (Suc n)
  obtain s' r where d: "d i s = (s', r)" by fastforce
  then have "discovery_ticks d i (Suc n) s = discovery_ticks d (Suc i) n s'"
    using assms [of i s] by (cases r) simp_all
  moreover have "[i..<i + Suc n] = i # [Suc i..<Suc i + n]" by (simp add: upt_conv_Cons del: upt_Suc)
  ultimately show ?case using d Suc.IH [of "Suc i" s'] by (simp del: upt_Suc discovery_ticks.simps)
qed simp

lemma runChainRediscovery_run:
  assumes "\<And>i s. snd (d i s) \<noteq> Panic"
  shows "runChainRediscovery d interval n s =
    (if interval > 0 then (fold (\<lambda>j s. fst (d j s)) [0..<Suc n] s, Ok ()) else (fst (d 0 s), Panic))"
proof -
  obtain s' r where d: "d 0 s = (s', r)" by fastforce
  moreover have "[0..<Suc n] = 0 # [Suc 0..<Suc 0 + n]" by (simp add: upt_conv_Cons del: upt_Suc)
  ultimately show ?thesis
    using assms [of 0 s] discovery_ticks_run [of d 1 n s', OF assms]
    by (cases r) (simp_all add: runChainRediscovery_def del: upt_Suc discovery_ticks.simps)
qed

text \<open>
  The indexer survives its first discovery exactly when CHAIN_REDISCOVERY_INTERVAL is unset or a positive
  duration: a text that is no duration, or a duration of zero, is accepted by \<open>Load\<close>, leaves the interval at
  zero, and the ticker panics after the chains have been registered once. Otherwise the loop runs one round at
  the start and one for each tick.
\<close>

theorem rediscovery_interval:
  assumes "Load fmul env = Ok cfg"
  shows "runChainRediscovery (discovery_round rounds) (cfg_ChainRediscoveryInterval cfg) ticks r =
    (if interval_set fmul env then (after_rounds rounds (Suc ticks) r, Ok ())
     else (after_rounds rounds 1 r, Panic))"
  unfolding after_rounds_def Load_interval [OF assms, symmetric]
  by (subst runChainRediscovery_run)
    (simp_all add: discovery_round_def Rediscover_no_Panic upt_conv_Cons [of 0 "Suc 0"] del: upt_Suc)

definition sample_environment :: environment where
  "sample_environment = (\<lambda>_. '''')(''POSTGRES_URL'' := ''p'', ''REDIS_URL'' := ''r'',
     ''CHAIN_REDISCOVERY_INTERVAL'' := ''30'')"

lemma sample_not_a_duration: "\<not> interval_set fmul sample_environment"
  by (simp add: interval_set_def sample_environment_def ParseDuration_def duration_parts.simps duration_part_def
      ascii_digit_def digit_val_def unit_char_def duration_units_def Let_def)

theorem rediscovery_interval_witness:
  "snd (runChainRediscovery (discovery_round rounds)
     (cfg_ChainRediscoveryInterval (case Load (\<lambda>f u s. f * u div s) sample_environment of Ok c \<Rightarrow> c)) 3 r) = Panic"
proof -
  obtain cfg where cfg: "Load (\<lambda>f u s. f * u div s) sample_environment = Ok cfg"
    by (simp add: Load_Ok_iff sample_environment_def)
  show ?thesis unfolding cfg outcome.case rediscovery_interval [OF cfg] by (simp add: sample_not_a_duration)
qed

text \<open>The rounds of a history: every table has its primary key, the loops go through the two maps.\<close>

definition rounds_ok :: "(nat \<Rightarrow> round_env) \<Rightarrow> bool" where
  "rounds_ok rounds \<longleftrightarrow> (\<forall>i. chains_ok (rnd_table (rounds i)) \<and>
     (\<forall>r. set (rnd_remove (rounds i) r) = dom (idx_chains (reg_idx r))) \<and>
     set (rnd_add (rounds i)) = active_ids (rnd_table (rounds i)))"

lemma rounds_okD:
  assumes "rounds_ok rounds"
  shows "chains_ok (rnd_table (rounds i))" "set (rnd_remove (rounds i) r) = dom (idx_chains (reg_idx r))"
    "set (rnd_add (rounds i)) = active_ids (rnd_table (rounds i))"
  using assms by (simp_all add: rounds_ok_def)

lemma discovery_round_facts:
  assumes "rounds_ok rounds" "registry_ok r"
  shows "registry_ok (fst (discovery_round rounds i r))"
    and "rnd_fault (rounds i) = None \<Longrightarrow> HasChain c (fst (discovery_round rounds i r)) \<longleftrightarrow>
      c \<in> active_ids (rnd_table (rounds i)) \<and> (HasChain c r \<or> chain_db_fault (rnd_env (rounds i)) c = None)"
    and "rnd_fault (rounds i) = None \<Longrightarrow> reg_running (fst (discovery_round rounds i r)) n = Some (c, url) \<Longrightarrow>
      c \<in> active_ids (rnd_table (rounds i))"
    and "rnd_fault (rounds i) \<noteq> None \<Longrightarrow> fst (discovery_round rounds i r) = r"
proof -
  obtain r' res where run: "discovery_round rounds i r = (r', res)" by fastforce
  show fault: "rnd_fault (rounds i) \<noteq> None \<Longrightarrow> fst (discovery_round rounds i r) = r"
    by (auto simp: discovery_round_def Rediscover_def ListChain_def)
  have none: "rnd_fault (rounds i) = None \<Longrightarrow>
      Rediscover (rnd_env (rounds i)) None (rnd_table (rounds i)) (rnd_remove (rounds i) r) (rnd_add (rounds i)) r = (r', res)"
    using run by (simp add: discovery_round_def)
  note facts = rediscover_facts [OF assms(2) rounds_okD [OF assms(1)] none]
  show "registry_ok (fst (discovery_round rounds i r))"
    using facts(2) fault assms(2) run by (cases "rnd_fault (rounds i)") auto
  show "HasChain c (fst (discovery_round rounds i r)) \<longleftrightarrow>
      c \<in> active_ids (rnd_table (rounds i)) \<and> (HasChain c r \<or> chain_db_fault (rnd_env (rounds i)) c = None)"
    if "rnd_fault (rounds i) = None"
    using facts(3) [OF that] run by simp
  show "c \<in> active_ids (rnd_table (rounds i))"
    if "rnd_fault (rounds i) = None" "reg_running (fst (discovery_round rounds i r)) n = Some (c, url)"
    using facts(6) [OF that(1)] that(2) run by simp
qed

lemma after_rounds_Suc: "after_rounds rounds (Suc n) r = fst (discovery_round rounds n (after_rounds rounds n r))"
  by (simp add: after_rounds_def)

lemma after_rounds_ok:
  "rounds_ok rounds \<Longrightarrow> registry_ok r \<Longrightarrow> registry_ok (after_rounds rounds n r)"
  by (induction n) (simp_all add: after_rounds_Suc discovery_round_facts(1), simp add: after_rounds_def)

text \<open>
  C34. With a positive interval the indexer follows the admin table: after any number of ticks, failed ones
  included, the registry is consistent, and when the last round could read the table, every configured chain
  and every running listener belongs to a chain that is active in it, and every active chain whose database
  opens is configured.
\<close>

theorem discovery_follows_table:
  assumes "Load fmul env = Ok cfg" "interval_set fmul env" "rounds_ok rounds" "registry_ok r"
    and run: "runChainRediscovery (discovery_round rounds) (cfg_ChainRediscoveryInterval cfg) ticks r = (r', res)"
  shows "res = Ok () \<and> registry_ok r' \<and>
    (rnd_fault (rounds ticks) = None \<longrightarrow>
       (\<forall>c. HasChain c r' \<longrightarrow> c \<in> active_ids (rnd_table (rounds ticks))) \<and>
       (\<forall>n c url. reg_running r' n = Some (c, url) \<longrightarrow> c \<in> active_ids (rnd_table (rounds ticks))) \<and>
       (\<forall>c \<in> active_ids (rnd_table (rounds ticks)).
          chain_db_fault (rnd_env (rounds ticks)) c = None \<longrightarrow> HasChain c r'))"
proof -
  have r': "r' = fst (discovery_round rounds ticks (after_rounds rounds ticks r))" "res = Ok ()"
  proof -
    have "runChainRediscovery (discovery_round rounds) (cfg_ChainRediscoveryInterval cfg) ticks r =
        (after_rounds rounds (Suc ticks) r, Ok ())"
      unfolding after_rounds_def
      using Load_interval [OF assms(1)] assms(2)
      by (subst runChainRediscovery_run) (simp_all add: discovery_round_def Rediscover_no_Panic del: upt_Suc)
    then show "r' = fst (discovery_round rounds ticks (after_rounds rounds ticks r))" "res = Ok ()"
      using run by (simp_all add: after_rounds_Suc)
  qed
  note facts = discovery_round_facts [OF assms(3) after_rounds_ok [OF assms(3,4)], of ticks]
  show ?thesis unfolding r' using facts(1-3) by blast
qed

definition plain_environment :: environment where
  "plain_environment = (\<lambda>_. '''')(''POSTGRES_URL'' := ''p'', ''REDIS_URL'' := ''r'')"

text \<open>The second round cannot read the table.\<close>

definition sample_rounds :: "nat \<Rightarrow> round_env" where
  "sample_rounds i = \<lparr>rnd_env = sample_registry_env (\<lambda>_. None),
     rnd_fault = (if i = 1 then Some (Errorf ''down'') else None), rnd_table = sample_chain_table,
     rnd_remove = (\<lambda>r. sorted_list_of_set (dom (idx_chains (reg_idx r)))), rnd_add = [3, 1]\<rparr>"

lemma sample_rounds_ok: "rounds_ok sample_rounds"
  using sample_registry_ok(2,4) by (simp add: rounds_ok_def sample_rounds_def)

theorem discovery_follows_table_witness:
  "\<exists>cfg r'. Load (\<lambda>f u s. f * u div s) plain_environment = Ok cfg \<and>
     runChainRediscovery (discovery_round sample_rounds) (cfg_ChainRediscoveryInterval cfg) 2 sample_registry = (r', Ok ()) \<and>
     HasChain 3 r' \<and> \<not> HasChain 2 r'"
proof -
  obtain cfg where cfg: "Load (\<lambda>f u s. f * u div s) plain_environment = Ok cfg"
    by (simp add: Load_Ok_iff plain_environment_def)
  obtain r' res where run: "runChainRediscovery (discovery_round sample_rounds)
      (cfg_ChainRediscoveryInterval cfg) 2 sample_registry = (r', res)" by fastforce
  have "interval_set (\<lambda>f u s. f * u div s) plain_environment" by (simp add: interval_set_def plain_environment_def)
  note all = discovery_follows_table [OF cfg this sample_rounds_ok sample_registry_ok(1) run]
  have "rnd_fault (sample_rounds 2) = None" "rnd_table (sample_rounds 2) = sample_chain_table"
    "chain_db_fault (rnd_env (sample_rounds 2)) 3 = None"
    by (simp_all add: sample_rounds_def sample_registry_env_def)
  moreover have "3 \<in> active_ids sample_chain_table" "2 \<notin> active_ids sample_chain_table"
    by (simp_all flip: sample_registry_ok(4))
  ultimately show ?thesis using all run cfg by (metis (no_types, lifting))
qed

section \<open>The other settings\<close>

lemma loaded_config:
  assumes "Load fmul env = Ok cfg"
  shows "cfg_AdminToken cfg = (if env ''ADMIN_TOKEN'' = '''' then ''devtoken'' else env ''ADMIN_TOKEN'')"
    and "cfg_HTTPAddr cfg \<noteq> ''''"
    and "cfg_WSBlobEnabled cfg \<Longrightarrow> cfg_WSBlobURL cfg \<noteq> '''' \<and> cfg_WSBlobChainID cfg \<noteq> 0"
  using assms by (simp_all add: Load_Ok_iff)

text \<open>The limits of the backfiller are positive whatever the environment says; its intervals are what the
  environment says, also when a ticker panics on them.\<close>

lemma override_positive_keeps:
  "P cfg \<Longrightarrow> (\<And>n c. n > 0 \<Longrightarrow> P c \<Longrightarrow> P (upd n c)) \<Longrightarrow> P (override_positive v upd cfg)"
  by (auto simp: override_positive_def override_def split: option.splits if_splits)

lemma override_keeps: "P cfg \<Longrightarrow> (\<And>n c. P c \<Longrightarrow> P (upd n c)) \<Longrightarrow> P (override parse v upd cfg)"
  by (auto simp: override_def split: option.split)

lemma LoadConfig_keeps:
  assumes "P DefaultConfig" "\<And>n c. n > 0 \<Longrightarrow> P c \<Longrightarrow> P (c\<lparr>bfc_BatchSize := n\<rparr>)"
    "\<And>n c. n > 0 \<Longrightarrow> P c \<Longrightarrow> P (c\<lparr>bfc_Concurrency := n\<rparr>)"
    "\<And>n c. P c \<Longrightarrow> P (c\<lparr>bfc_StartHeight := n\<rparr>)" "\<And>n c. P c \<Longrightarrow> P (c\<lparr>bfc_EndHeight := n\<rparr>)"
    "\<And>c. P c \<Longrightarrow> P (c\<lparr>bfc_DryRun := True\<rparr>)" "\<And>d c. P c \<Longrightarrow> P (c\<lparr>bfc_ProgressInterval := d\<rparr>)"
    "\<And>d c. P c \<Longrightarrow> P (c\<lparr>bfc_GapCheckInterval := d\<rparr>)" "\<And>c. P c \<Longrightarrow> P (c\<lparr>bfc_UseBlobs := True\<rparr>)"
  shows "P (LoadConfig fmul env)"
  unfolding LoadConfig_def Let_def
  by (auto intro!: assms override_keeps [where P = P] override_positive_keeps [where P = P])

lemma LoadConfig_positive: "bfc_BatchSize (LoadConfig fmul env) > 0 \<and> bfc_Concurrency (LoadConfig fmul env) > 0"
  by (rule LoadConfig_keeps [where P = "\<lambda>cfg. bfc_BatchSize cfg > 0 \<and> bfc_Concurrency cfg > 0"])
    (simp_all add: DefaultConfig_def)

end
