(* ===== verification/Commands.thy ===== *)
theory Commands
  imports Config
begin

text \<open>
  The backfill command (cmd/backfill/main.go): which chains it works on, its configuration from the environment
  and the flags, the one-time mode with its exit code, and the worker mode, where goroutines for the chains are
  started and cancelled as the admin table changes. A goroutine of the worker mode ends some time after it was
  cancelled; that it does so between two ticks, or later, is a step of its own.
\<close>

section \<open>Flags and chains\<close>

record backfill_flags =
  fl_dryRun :: bool
  fl_startHeight :: uint64
  fl_endHeight :: uint64
  fl_batchSize :: int
  fl_concurrency :: int
  fl_chainID :: uint64
  fl_once :: bool

definition apply_flags :: "backfill_flags \<Rightarrow> backfill_config \<Rightarrow> backfill_config" where
  "apply_flags fl cfg =
     (let cfg = (if fl_dryRun fl then cfg\<lparr>bfc_DryRun := True\<rparr> else cfg);
          cfg = (if fl_startHeight fl > 0 then cfg\<lparr>bfc_StartHeight := fl_startHeight fl\<rparr> else cfg);
          cfg = (if fl_endHeight fl > 0 then cfg\<lparr>bfc_EndHeight := fl_endHeight fl\<rparr> else cfg);
          cfg = (if fl_batchSize fl > 0 then cfg\<lparr>bfc_BatchSize := fl_batchSize fl\<rparr> else cfg)
      in if fl_concurrency fl > 0 then cfg\<lparr>bfc_Concurrency := fl_concurrency fl\<rparr> else cfg)"

type_synonym chain_config = "uint64 \<times> string"

definition active_configs :: "admin_Chain list \<Rightarrow> chain_config list" where
  "active_configs adminChains = collect (\<lambda>c.
     if adc_Deleted c = 1 \<or> adc_Paused c = 1 \<or> length (adc_RPCEndpoints c) = 0 then None
     else Some (adc_ChainID c, adc_RPCEndpoints c ! 0)) adminChains"

definition select_chains :: "backfill_flags \<Rightarrow> chain_config list \<Rightarrow> chain_config list option" where
  "select_chains fl allChains =
     (if fl_chainID fl > 0
      then (case find (\<lambda>c. fst c = fl_chainID fl) allChains of None \<Rightarrow> None | Some c \<Rightarrow> Some [c])
      else Some allChains)"

text \<open>Adding the chains to the indexer; the first failure ends the process. Each chain gets a client.\<close>

fun add_chains ::
  "registry_env \<Rightarrow> chain_config list \<Rightarrow> registry \<Rightarrow> (uint64 \<rightharpoonup> string list) \<Rightarrow> (registry \<times> (uint64 \<rightharpoonup> string list)) option" where
  "add_chains env [] r clients = Some (r, clients)"
| "add_chains env ((chainID, url) # cs) r clients =
     (case AddChain env chainID url r of
        (r', Ok _) \<Rightarrow> add_chains env cs r' (clients(chainID \<mapsto> dedup [url]))
      | _ \<Rightarrow> None)"

text \<open>The command up to its two modes; \<open>None\<close> is \<open>os.Exit(1)\<close>.\<close>

definition prepare_backfill ::
  "fraction \<Rightarrow> environment \<Rightarrow> backfill_flags \<Rightarrow> registry_env \<Rightarrow> go_error option \<Rightarrow> admin_Chain list \<Rightarrow> registry \<Rightarrow>
   (chain_config list \<times> registry \<times> (uint64 \<rightharpoonup> string list) \<times> backfill_config) option" where
  "prepare_backfill fmul env fl renv list_fault tbl r =
     (case Load fmul env of
        Ok cfg \<Rightarrow>
          (case ListChain list_fault False tbl of
             Ok adminChains \<Rightarrow>
               (let allChains = active_configs adminChains
                in if length allChains = 0 then None
                   else case select_chains fl allChains of
                     None \<Rightarrow> None
                   | Some selected \<Rightarrow>
                       (case add_chains renv selected r Map.empty of
                          None \<Rightarrow> None
                        | Some (r', clients) \<Rightarrow> Some (selected, r', clients, apply_flags fl (LoadConfig fmul env))))
           | _ \<Rightarrow> None)
      | _ \<Rightarrow> None)"

section \<open>One-time mode\<close>

text \<open>What \<open>Run\<close> returned for each chain, in the order in which the goroutines stored it; an error is only
  logged, unless the context is done.\<close>

definition once_results ::
  "bool \<Rightarrow> (uint64 \<times> backfill_result option \<times> go_error option) list \<Rightarrow> (uint64 \<rightharpoonup> backfill_result option)" where
  "once_results ctx_done rs = foldl (\<lambda>m (chainID, result, err).
     if err \<noteq> None \<and> \<not> ctx_done then m else m(chainID \<mapsto> result)) Map.empty rs"

record once_totals =
  tot_Missing :: uint64
  tot_Processed :: uint64
  tot_Succeeded :: uint64
  tot_Failed :: uint64

text \<open>\<open>order\<close> is the iteration order of the map. The result is the printed totals and the exit code.\<close>

definition run_once ::
  "bool \<Rightarrow> uint64 list \<Rightarrow> (uint64 \<times> backfill_result option \<times> go_error option) list \<Rightarrow> once_totals \<times> int" where
  "run_once ctx_done order rs =
     (let results = once_results ctx_done rs;
          totals = foldl (\<lambda>t c. case results c of
              Some (Some res) \<Rightarrow>
                \<lparr>tot_Missing = tot_Missing t + bfr_TotalMissing res,
                 tot_Processed = tot_Processed t + bfr_TotalProcessed res,
                 tot_Succeeded = tot_Succeeded t + bfr_TotalSucceeded res,
                 tot_Failed = tot_Failed t + bfr_TotalFailed res\<rparr>
            | _ \<Rightarrow> t)
            \<lparr>tot_Missing = 0, tot_Processed = 0, tot_Succeeded = 0, tot_Failed = 0\<rparr> order
      in (totals, if tot_Failed totals > 0 then 1 else 0))"

section \<open>Worker mode\<close>

text \<open>Goroutines are numbered. \<open>wk_active\<close> is the map of cancel functions.\<close>

record worker_state =
  wk_active :: "uint64 \<rightharpoonup> nat"
  wk_running :: "nat \<rightharpoonup> uint64"
  wk_cancelled :: "nat \<Rightarrow> bool"
  wk_next :: nat
  wk_clients :: "uint64 \<rightharpoonup> string list"
  wk_registry :: registry

definition start_backfill :: "registry_env \<Rightarrow> chain_config \<Rightarrow> worker_state \<Rightarrow> worker_state" where
  "start_backfill env c w =
     (let (chainID, url) = c
      in if wk_active w chainID \<noteq> None then w
         else let w = (if wk_clients w chainID = None
                 then w\<lparr>wk_clients := (wk_clients w)(chainID \<mapsto> dedup [url])\<rparr> else w)
              in case (if HasChain chainID (wk_registry w) then (wk_registry w, Ok ())
                       else AddChain env chainID url (wk_registry w)) of
                   (r, Ok _) \<Rightarrow>
                     w\<lparr>wk_registry := r, wk_active := (wk_active w)(chainID \<mapsto> wk_next w),
                       wk_running := (wk_running w)(wk_next w \<mapsto> chainID), wk_next := wk_next w + 1\<rparr>
                 | (r, _) \<Rightarrow> w\<lparr>wk_registry := r\<rparr>)"

definition stop_removed :: "(uint64 \<Rightarrow> bool) \<Rightarrow> uint64 list \<Rightarrow> worker_state \<Rightarrow> worker_state" where
  "stop_removed keep order w = foldl (\<lambda>w c.
     case wk_active w c of
       None \<Rightarrow> w
     | Some n \<Rightarrow>
         (if keep c then w
          else w\<lparr>wk_cancelled := (wk_cancelled w)(n := True), wk_active := (wk_active w)(c := None)\<rparr>)) w order"

text \<open>One tick; \<open>order\<close> is the iteration order of the map of active backfills.\<close>

definition worker_tick ::
  "registry_env \<Rightarrow> uint64 \<Rightarrow> go_error option \<Rightarrow> admin_Chain list \<Rightarrow> (worker_state \<Rightarrow> uint64 list) \<Rightarrow>
   worker_state \<Rightarrow> worker_state" where
  "worker_tick env restrictID fault tbl order w =
     (case DiscoverActiveChains fault tbl of
        Ok cs \<Rightarrow>
          (let keep = flag_all fst (filter (\<lambda>c. restrictID = 0 \<or> fst c = restrictID) cs);
               w = foldl (\<lambda>w c. if keep (fst c) then start_backfill env c w else w) w cs
           in stop_removed keep (order w) w)
      | _ \<Rightarrow> w)"

text \<open>The deferred function of a goroutine deletes the entry of its chain, whichever goroutine that belongs to.\<close>

definition finish_goroutine :: "nat \<Rightarrow> uint64 \<Rightarrow> worker_state \<Rightarrow> worker_state" where
  "finish_goroutine n c w =
     w\<lparr>wk_active := (wk_active w)(c := None), wk_running := (wk_running w)(n := None)\<rparr>"

definition start_initial :: "registry_env \<Rightarrow> uint64 \<Rightarrow> chain_config list \<Rightarrow> worker_state \<Rightarrow> worker_state" where
  "start_initial env restrictID cs w =
     foldl (\<lambda>w c. if restrictID = 0 \<or> fst c = restrictID then start_backfill env c w else w) w cs"

inductive worker_step :: "uint64 \<Rightarrow> worker_state \<Rightarrow> worker_state \<Rightarrow> bool" for restrictID where
  tick: "\<forall>w. set (order w) = dom (wk_active w) \<Longrightarrow>
    worker_step restrictID w (worker_tick env restrictID fault tbl order w)"
| finished: "wk_running w n = Some c \<Longrightarrow> wk_cancelled w n \<Longrightarrow>
    worker_step restrictID w (finish_goroutine n c w)"

text \<open>Histories in which every cancelled goroutine has ended before the next tick.\<close>

inductive prompt_run :: "uint64 \<Rightarrow> worker_state \<Rightarrow> worker_state \<Rightarrow> bool" for restrictID w0 where
  start: "prompt_run restrictID w0 w0"
| tick: "prompt_run restrictID w0 w \<Longrightarrow> \<forall>n c. wk_running w n = Some c \<longrightarrow> \<not> wk_cancelled w n \<Longrightarrow>
    \<forall>w. set (order w) = dom (wk_active w) \<Longrightarrow>
    prompt_run restrictID w0 (worker_tick env restrictID fault tbl order w)"
| finished: "prompt_run restrictID w0 w \<Longrightarrow> wk_running w n = Some c \<Longrightarrow> wk_cancelled w n \<Longrightarrow>
    prompt_run restrictID w0 (finish_goroutine n c w)"

section \<open>Invariants of the worker mode\<close>

lemma AddChain_HasChain:
  assumes "AddChain env c url r = (r', res)"
  shows "HasChain k r \<Longrightarrow> HasChain k r'" and "res = Ok () \<Longrightarrow> HasChain c r'"
    and "chain_db_fault env c = None \<Longrightarrow> setup_fault env c = None \<Longrightarrow> \<not> HasChain c r \<Longrightarrow> res = Ok ()"
  using assms by (auto simp: AddChain_def NewWithPoolConfig_def HasChain_def Let_def split: option.splits if_splits)

text \<open>An entry of the map is the handle of a goroutine that runs for its chain and was not cancelled.\<close>

definition worker_ok :: "worker_state \<Rightarrow> bool" where
  "worker_ok w \<longleftrightarrow>
     (\<forall>c n. wk_active w c = Some n \<longrightarrow> wk_running w n = Some c \<and> \<not> wk_cancelled w n) \<and>
     (\<forall>n. n \<ge> wk_next w \<longrightarrow> wk_running w n = None \<and> \<not> wk_cancelled w n) \<and>
     (\<forall>n c. wk_running w n = Some c \<longrightarrow> HasChain c (wk_registry w) \<and> wk_clients w c \<noteq> None)"

lemma worker_okD:
  assumes "worker_ok w"
  shows "wk_active w c = Some n \<Longrightarrow> wk_running w n = Some c" "wk_active w c = Some n \<Longrightarrow> \<not> wk_cancelled w n"
    "n \<ge> wk_next w \<Longrightarrow> wk_running w n = None" "n \<ge> wk_next w \<Longrightarrow> \<not> wk_cancelled w n"
    "wk_running w n = Some c \<Longrightarrow> HasChain c (wk_registry w)" "wk_running w n = Some c \<Longrightarrow> wk_clients w c \<noteq> None"
  using assms unfolding worker_ok_def by blast+

text \<open>One goroutine for each chain, and no entry for a chain whose goroutine was cancelled.\<close>

definition exclusive :: "worker_state \<Rightarrow> bool" where
  "exclusive w \<longleftrightarrow>
     (\<forall>n c. wk_running w n = Some c \<longrightarrow> wk_active w c = (if wk_cancelled w n then None else Some n)) \<and>
     (\<forall>n m c. wk_running w n = Some c \<longrightarrow> wk_running w m = Some c \<longrightarrow> n = m)"

definition all_alive :: "worker_state \<Rightarrow> bool" where
  "all_alive w \<longleftrightarrow> (\<forall>n c. wk_running w n = Some c \<longrightarrow> \<not> wk_cancelled w n)"

lemma start_backfill_cases:
  obtains (idle) "start_backfill env (c, url) w = w" "wk_active w c \<noteq> None"
  | (failed) w1 where "start_backfill env (c, url) w = w1" "wk_active w c = None"
      "wk_active w1 = wk_active w" "wk_running w1 = wk_running w" "wk_cancelled w1 = wk_cancelled w"
      "wk_next w1 = wk_next w" "\<And>k. wk_clients w k \<noteq> None \<Longrightarrow> wk_clients w1 k \<noteq> None"
      "\<And>k. HasChain k (wk_registry w) \<Longrightarrow> HasChain k (wk_registry w1)"
      "\<not> HasChain c (wk_registry w)" "chain_db_fault env c \<noteq> None \<or> setup_fault env c \<noteq> None"
  | (started) w1 where "start_backfill env (c, url) w = w1" "wk_active w c = None"
      "wk_active w1 = (wk_active w)(c \<mapsto> wk_next w)" "wk_running w1 = (wk_running w)(wk_next w \<mapsto> c)"
      "wk_cancelled w1 = wk_cancelled w" "wk_next w1 = wk_next w + 1" "wk_clients w1 c \<noteq> None"
      "\<And>k. wk_clients w k \<noteq> None \<Longrightarrow> wk_clients w1 k \<noteq> None"
      "\<And>k. HasChain k (wk_registry w) \<Longrightarrow> HasChain k (wk_registry w1)" "HasChain c (wk_registry w1)"
proof (cases "wk_active w c")
  case (Some n)
  then show ?thesis using idle by (simp add: start_backfill_def)
next
  case None
  show ?thesis
  proof (cases "HasChain c (wk_registry w)")
    case True
    show ?thesis by (rule started [of "start_backfill env (c, url) w"]) (use True None in \<open>simp_all add: start_backfill_def Let_def\<close>)
  next
    case False
    obtain r res where add: "AddChain env c url (wk_registry w) = (r, res)" by fastforce
    note facts = AddChain_HasChain [OF add]
    show ?thesis
    proof (cases "res = Ok ()")
      case True
      show ?thesis
        by (rule started [of "start_backfill env (c, url) w"]) (use True None False add facts in \<open>simp_all add: start_backfill_def Let_def\<close>)
    next
      case bad: False
      show ?thesis
        by (rule failed [of "start_backfill env (c, url) w"]) (use bad None False add facts in
            \<open>auto simp: start_backfill_def Let_def split: outcome.splits\<close>)
    qed
  qed
qed

lemma start_backfill_ok:
  assumes "worker_ok w"
  shows "worker_ok (start_backfill env (c, url) w)"
proof (cases rule: start_backfill_cases [of env c url w])
  case idle
  then show ?thesis using assms by simp
next
  case (failed w1)
  then show ?thesis using assms unfolding failed(1) worker_ok_def by auto
next
  case (started w1)
  have "n \<noteq> wk_next w" if "wk_active w k = Some n" for k n using that assms by (force simp: worker_ok_def)
  then show ?thesis using assms started unfolding started(1) worker_ok_def by auto
qed

lemma start_backfill_exclusive:
  assumes "worker_ok w" "exclusive w" "all_alive w"
  shows "exclusive (start_backfill env (c, url) w) \<and> all_alive (start_backfill env (c, url) w)"
proof (cases rule: start_backfill_cases [of env c url w])
  case idle
  then show ?thesis using assms by simp
next
  case (failed w1)
  then show ?thesis using assms(2,3) unfolding failed(1) exclusive_def all_alive_def by simp
next
  case (started w1)
  have fresh: "\<not> wk_cancelled w (wk_next w)" "wk_running w (wk_next w) = None"
    using assms(1) by (auto simp: worker_ok_def)
  have none: "wk_running w n \<noteq> Some c" for n
    using assms(2,3) started(2) by (auto simp: exclusive_def all_alive_def)
  show ?thesis
    unfolding started(1) exclusive_def all_alive_def started(3,4,5)
    using assms(2,3) fresh none by (auto simp: exclusive_def all_alive_def)
qed

lemma stop_removed_Cons:
  "stop_removed keep (c # cs) w = stop_removed keep cs
     (case wk_active w c of
        None \<Rightarrow> w
      | Some n \<Rightarrow>
          (if keep c then w
           else w\<lparr>wk_cancelled := (wk_cancelled w)(n := True), wk_active := (wk_active w)(c := None)\<rparr>))"
  by (simp add: stop_removed_def)

lemma stop_removed_Nil [simp]: "stop_removed keep [] w = w"
  by (simp add: stop_removed_def)

lemma stop_one_ok:
  assumes "worker_ok w" "wk_active w c = Some n"
  shows "worker_ok (w\<lparr>wk_cancelled := (wk_cancelled w)(n := True), wk_active := (wk_active w)(c := None)\<rparr>)"
proof -
  have run: "wk_running w n = Some c" by (rule worker_okD(1) [OF assms])
  have only: "k = c" if "wk_active w k = Some n" for k
    using worker_okD(1) [OF assms(1) that] run by simp
  have less: "n < wk_next w" using worker_okD(3) [OF assms(1), of n] run by (cases "n < wk_next w") auto
  let ?w = "w\<lparr>wk_cancelled := (wk_cancelled w)(n := True), wk_active := (wk_active w)(c := None)\<rparr>"
  have "wk_running w m = Some k \<and> \<not> ((wk_cancelled w)(n := True)) m"
    if "((wk_active w)(c := None)) k = Some m" for k m
  proof -
    from that have k: "k \<noteq> c" "wk_active w k = Some m" by (auto split: if_splits)
    then have "m \<noteq> n" using only by auto
    then show ?thesis using worker_okD(1,2) [OF assms(1) k(2)] by simp
  qed
  moreover have "wk_running w m = None \<and> \<not> ((wk_cancelled w)(n := True)) m" if "m \<ge> wk_next w" for m
    using that less worker_okD(3,4) [OF assms(1) that] by auto
  ultimately show ?thesis using worker_okD(5,6) [OF assms(1)]
    unfolding worker_ok_def by (simp del: fun_upd_apply)
qed

lemma stop_one_exclusive:
  assumes "worker_ok w" "exclusive w" "wk_active w c = Some n"
  shows "exclusive (w\<lparr>wk_cancelled := (wk_cancelled w)(n := True), wk_active := (wk_active w)(c := None)\<rparr>)"
proof -
  have "wk_running w n = Some c" using assms by (simp add: worker_ok_def)
  then show ?thesis using assms(2,3) by (auto simp: exclusive_def split: if_splits)
qed

lemma stop_removed_ok: "worker_ok w \<Longrightarrow> worker_ok (stop_removed keep cs w)"
  by (induction cs arbitrary: w) (simp_all add: stop_removed_Cons stop_one_ok split: option.split)

lemma stop_removed_exclusive: "worker_ok w \<Longrightarrow> exclusive w \<Longrightarrow> exclusive (stop_removed keep cs w)"
  by (induction cs arbitrary: w) (simp_all add: stop_removed_Cons stop_one_ok stop_one_exclusive split: option.split)

lemma stop_removed_active:
  "wk_active (stop_removed keep cs w) c = (if c \<in> set cs \<and> \<not> keep c then None else wk_active w c)"
  by (induction cs arbitrary: w) (auto simp: stop_removed_Cons split: option.split)

lemma stop_removed_registry [simp]: "wk_registry (stop_removed keep cs w) = wk_registry w"
  by (induction cs arbitrary: w) (auto simp: stop_removed_Cons split: option.split)

text \<open>Starting the chains of a list, those that satisfy \<open>P\<close>.\<close>

abbreviation start_all where
  "start_all env P cs w \<equiv> foldl (\<lambda>w c. if P (fst c) then start_backfill env c w else w) w cs"

lemma start_all_ok: "worker_ok w \<Longrightarrow> worker_ok (start_all env P cs w)"
  by (induction cs arbitrary: w) (auto simp: start_backfill_ok)

lemma start_all_exclusive:
  "worker_ok w \<Longrightarrow> exclusive w \<Longrightarrow> all_alive w \<Longrightarrow>
     exclusive (start_all env P cs w) \<and> all_alive (start_all env P cs w)"
  by (induction cs arbitrary: w) (auto simp: start_backfill_ok start_backfill_exclusive)

definition has_entry :: "worker_state \<Rightarrow> uint64 \<Rightarrow> bool" where
  "has_entry w k \<longleftrightarrow> wk_active w k \<noteq> None"

definition can_start :: "registry_env \<Rightarrow> worker_state \<Rightarrow> uint64 \<Rightarrow> bool" where
  "can_start env w k \<longleftrightarrow> HasChain k (wk_registry w) \<or> chain_db_fault env k = None \<and> setup_fault env k = None"

lemma start_backfill_active:
  "has_entry w k \<Longrightarrow> has_entry (start_backfill env c w) k"
  "can_start env w k \<Longrightarrow> can_start env (start_backfill env c w) k"
  "can_start env w (fst c) \<Longrightarrow> has_entry (start_backfill env c w) (fst c)"
  unfolding has_entry_def can_start_def
  by (cases c; rule start_backfill_cases [of env "fst c" "snd c" w]; auto)+

lemma start_all_active: "has_entry w k \<Longrightarrow> has_entry (start_all env P cs w) k"
  by (induction cs arbitrary: w) (simp_all add: start_backfill_active(1))

lemma start_all_started:
  "k \<in> fst ` set cs \<Longrightarrow> P k \<Longrightarrow> can_start env w k \<Longrightarrow> has_entry (start_all env P cs w) k"
proof (induction cs arbitrary: w)
  case (Cons c cs)
  show ?case
  proof (cases "k = fst c")
    case True
    then have "has_entry (start_backfill env c w) k" using start_backfill_active(3) Cons.prems(3) by simp
    from start_all_active [OF this] show ?thesis using True Cons.prems(2) by simp
  next
    case False
    then have "k \<in> fst ` set cs" using Cons.prems(1) by simp
    from Cons.IH [OF this Cons.prems(2)] show ?thesis
      using start_backfill_active(2) Cons.prems(3) by (cases "P (fst c)") simp_all
  qed
qed simp

definition fresh_worker :: "registry \<Rightarrow> (uint64 \<rightharpoonup> string list) \<Rightarrow> worker_state" where
  "fresh_worker r clients = \<lparr>wk_active = Map.empty, wk_running = Map.empty, wk_cancelled = (\<lambda>_. False), wk_next = 0,
     wk_clients = clients, wk_registry = r\<rparr>"

text \<open>The chains that a tick is to serve.\<close>

definition wanted :: "uint64 \<Rightarrow> admin_Chain list \<Rightarrow> uint64 \<Rightarrow> bool" where
  "wanted restrictID tbl c \<longleftrightarrow> c \<in> active_ids tbl \<and> (restrictID = 0 \<or> c = restrictID)"

lemma DiscoverActiveChains_ids:
  obtains cs where "DiscoverActiveChains None tbl = Ok cs" "fst ` set cs = active_ids tbl"
proof -
  obtain rows where rows: "ListChain None False tbl = Ok rows" by (simp add: ListChain_def)
  then have "DiscoverActiveChains None tbl =
      Ok (map (\<lambda>c. (adc_ChainID c, adc_RPCEndpoints c ! 0)) (filter chain_active rows))"
    by (simp add: DiscoverActiveChains_def)
  moreover have "fst ` set (map (\<lambda>c. (adc_ChainID c, adc_RPCEndpoints c ! 0)) (filter chain_active rows)) = active_ids tbl"
    using ListChain_active [OF rows] by (simp add: active_ids_def image_image)
  ultimately show ?thesis by (rule that)
qed

lemma worker_tick_run:
  obtains cs where "fst ` set cs = active_ids tbl"
    "worker_tick env restrictID None tbl order w =
       stop_removed (wanted restrictID tbl) (order (start_all env (wanted restrictID tbl) cs w))
         (start_all env (wanted restrictID tbl) cs w)"
proof -
  obtain cs where cs: "DiscoverActiveChains None tbl = Ok cs" "fst ` set cs = active_ids tbl"
    by (rule DiscoverActiveChains_ids)
  have keep: "flag_all fst (filter (\<lambda>c. restrictID = 0 \<or> fst c = restrictID) cs) = wanted restrictID tbl"
    by (rule ext) (auto simp: wanted_def cs(2) [symmetric])
  show ?thesis by (rule that [of cs]) (simp_all add: cs worker_tick_def keep Let_def)
qed

lemma worker_tick_failed: "worker_tick env restrictID (Some e) tbl order w = w"
  by (simp add: worker_tick_def DiscoverActiveChains_def ListChain_def)

lemma worker_tick_ok: "worker_ok w \<Longrightarrow> worker_ok (worker_tick env restrictID fault tbl order w)"
proof (cases fault)
  case None
  assume ok: "worker_ok w"
  show ?thesis unfolding None
    by (rule worker_tick_run [of tbl env restrictID order w]) (simp add: stop_removed_ok start_all_ok ok)
qed (simp add: worker_tick_failed)

lemma worker_tick_exclusive:
  assumes "worker_ok w" "exclusive w" "all_alive w"
  shows "exclusive (worker_tick env restrictID fault tbl order w)"
proof (cases fault)
  case None
  show ?thesis unfolding None
    by (rule worker_tick_run [of tbl env restrictID order w])
      (simp add: stop_removed_exclusive start_all_ok start_all_exclusive assms)
qed (simp add: worker_tick_failed assms)

lemma finish_goroutine_ok: "worker_ok w \<Longrightarrow> worker_ok (finish_goroutine n c w)"
  if "wk_running w n = Some c" "wk_cancelled w n"
  using that by (auto simp: worker_ok_def finish_goroutine_def)

lemma finish_goroutine_exclusive: "exclusive w \<Longrightarrow> exclusive (finish_goroutine n c w)"
  if "wk_running w n = Some c" "wk_cancelled w n"
  using that unfolding exclusive_def finish_goroutine_def by (auto split: if_splits)

lemma worker_step_ok: "worker_step restrictID w w' \<Longrightarrow> worker_ok w \<Longrightarrow> worker_ok w'"
  by (induction rule: worker_step.induct) (simp_all add: worker_tick_ok finish_goroutine_ok)

lemma worker_steps_ok: "(worker_step restrictID)\<^sup>*\<^sup>* w w' \<Longrightarrow> worker_ok w \<Longrightarrow> worker_ok w'"
  by (induction rule: rtranclp_induct) (simp_all add: worker_step_ok)

lemma fresh_worker_ok: "worker_ok (fresh_worker r clients)" "exclusive (fresh_worker r clients)"
    "all_alive (fresh_worker r clients)"
  by (simp_all add: worker_ok_def exclusive_def all_alive_def fresh_worker_def)

lemma start_initial_ok: "worker_ok w \<Longrightarrow> worker_ok (start_initial env restrictID cs w)"
  unfolding start_initial_def by (rule start_all_ok [where P = "\<lambda>c. restrictID = 0 \<or> c = restrictID"])

lemma start_initial_exclusive:
  "worker_ok w \<Longrightarrow> exclusive w \<Longrightarrow> all_alive w \<Longrightarrow> exclusive (start_initial env restrictID cs w)"
  unfolding start_initial_def
  by (rule start_all_exclusive [where P = "\<lambda>c. restrictID = 0 \<or> c = restrictID", THEN conjunct1])


text \<open>
  C40. As long as every cancelled goroutine has ended before the next tick, no chain is backfilled twice at the
  same time: two goroutines never run for one chain, and a goroutine that was not cancelled is the one the map
  of backfills has for its chain.
\<close>

theorem worker_exclusive:
  assumes "prompt_run restrictID (start_initial env restrictID cs (fresh_worker r clients)) w"
    and "wk_running w n = Some c"
  shows "(wk_running w m = Some c \<longrightarrow> n = m) \<and> (\<not> wk_cancelled w n \<longrightarrow> wk_active w c = Some n)"
proof -
  have "worker_ok w \<and> exclusive w" using assms(1)
  proof (induction rule: prompt_run.induct)
    case start
    show ?case by (simp add: start_initial_ok start_initial_exclusive fresh_worker_ok)
  next
    case (tick w order env fault tbl)
    then have "all_alive w" by (simp add: all_alive_def)
    then show ?case using tick by (simp add: worker_tick_ok worker_tick_exclusive)
  next
    case (finished w n c)
    then show ?case by (simp add: finish_goroutine_ok finish_goroutine_exclusive)
  qed
  then show ?thesis using assms(2) by (auto simp: exclusive_def)
qed

section \<open>Sample histories\<close>

definition key_order :: "worker_state \<Rightarrow> uint64 list" where
  "key_order w = sorted_list_of_set (dom (wk_active w))"

lemma set_key_order: "\<forall>w. set (key_order w) = dom (wk_active w)"
  by (simp add: key_order_def)

abbreviation "sample_env_ok \<equiv> sample_registry_env (\<lambda>_. None)"

definition first_worker :: worker_state where
  "first_worker = start_initial sample_env_ok 0 [(1, ''u'')] (fresh_worker sample_registry Map.empty)"

lemma has_one: "HasChain 1 sample_registry"
  by (simp add: HasChain_def sample_registry_def)

lemma first_worker_eq:
  "first_worker = \<lparr>wk_active = [1 \<mapsto> 0], wk_running = [0 \<mapsto> 1], wk_cancelled = (\<lambda>_. False), wk_next = 1,
     wk_clients = [1 \<mapsto> dedup [''u'']], wk_registry = sample_registry\<rparr>"
  by (simp add: first_worker_def start_initial_def start_backfill_def fresh_worker_def has_one)


theorem worker_exclusive_witness:
  "wk_running first_worker 0 = Some 1 \<and> wk_active first_worker 1 = Some 0"
proof -
  have run: "wk_running first_worker 0 = Some 1" by (simp add: first_worker_eq)
  have "prompt_run 0 (start_initial sample_env_ok 0 [(1, ''u'')] (fresh_worker sample_registry Map.empty)) first_worker"
    unfolding first_worker_def by (rule prompt_run.start)
  from worker_exclusive [OF this run] show ?thesis using run by (simp add: first_worker_eq)
qed

text \<open>Without that condition a chain can be backfilled twice at the same time: chain 1 is removed and comes back
  while its cancelled goroutine is still busy; when that one ends it deletes the entry of its successor, and
  the next tick starts a third one beside it.\<close>

definition one_row :: "admin_Chain list" where
  "one_row = [sample_chain_row 1 [''u''] 0]"

lemma tick_empty:
  "worker_tick sample_env_ok 0 None [] key_order first_worker =
     first_worker\<lparr>wk_cancelled := (\<lambda>_. False)(0 := True), wk_active := Map.empty\<rparr>"
  by (simp add: worker_tick_def DiscoverActiveChains_def ListChain_def flag_all_def stop_removed_def key_order_def
      first_worker_eq)

lemma Discover_one: "DiscoverActiveChains None one_row = Ok [(1, ''u'')]"
  by (simp add: DiscoverActiveChains_def ListChain_def one_row_def sample_chain_row_def chain_active_def)

lemma tick_one:
  assumes "wk_active w = Map.empty" "HasChain 1 (wk_registry w)" "wk_clients w 1 \<noteq> None"
  shows "worker_tick env 0 None one_row key_order w =
    w\<lparr>wk_active := [1 \<mapsto> wk_next w], wk_running := (wk_running w)(wk_next w \<mapsto> 1), wk_next := wk_next w + 1\<rparr>"
  using assms by (auto simp: worker_tick_def Discover_one start_backfill_def stop_removed_def key_order_def Let_def)

theorem worker_duplicates:
  "\<exists>w n m. (worker_step 0)\<^sup>*\<^sup>* first_worker w \<and> n \<noteq> m \<and> wk_running w n = Some 1 \<and> wk_running w m = Some 1 \<and>
     \<not> wk_cancelled w n \<and> \<not> wk_cancelled w m"
proof -
  define w1 where "w1 = worker_tick sample_env_ok 0 None [] key_order first_worker"
  define w2 where "w2 = worker_tick sample_env_ok 0 None one_row key_order w1"
  define w3 where "w3 = finish_goroutine 0 1 w2"
  define w4 where "w4 = worker_tick sample_env_ok 0 None one_row key_order w3"
  have w1: "w1 = first_worker\<lparr>wk_cancelled := (\<lambda>_. False)(0 := True), wk_active := Map.empty\<rparr>"
    unfolding w1_def by (rule tick_empty)
  have w2: "w2 = w1\<lparr>wk_active := [1 \<mapsto> 1], wk_running := [0 \<mapsto> 1, 1 \<mapsto> 1], wk_next := 2\<rparr>"
    unfolding w2_def by (subst tick_one) (simp_all add: w1 first_worker_eq has_one)
  have w3: "w3 = w2\<lparr>wk_active := Map.empty, wk_running := [1 \<mapsto> 1]\<rparr>"
    by (auto simp: w3_def finish_goroutine_def w2 w1 first_worker_eq)
  have w4: "wk_running w4 = [1 \<mapsto> 1, 2 \<mapsto> 1]" "wk_cancelled w4 = (\<lambda>_. False)(0 := True)"
    unfolding w4_def by (subst tick_one; simp add: w3 w2 w1 first_worker_eq has_one)+
  have "worker_step 0 first_worker w1" unfolding w1_def by (rule worker_step.tick) (rule set_key_order)
  moreover have "worker_step 0 w1 w2" unfolding w2_def by (rule worker_step.tick) (rule set_key_order)
  moreover have "worker_step 0 w2 w3" unfolding w3_def
    by (rule worker_step.finished) (simp_all add: w2 w1)
  moreover have "worker_step 0 w3 w4" unfolding w4_def by (rule worker_step.tick) (rule set_key_order)
  ultimately have "(worker_step 0)\<^sup>*\<^sup>* first_worker w4"
    by (meson converse_rtranclp_into_rtranclp r_into_rtranclp)
  then show ?thesis by (intro exI [of _ w4] exI [of _ 1] exI [of _ 2]) (simp add: w4)
qed

text \<open>The one-time mode reports success when every run ended with an error.\<close>

lemma once_results_errors:
  "\<forall>x \<in> set rs. snd (snd x) \<noteq> None \<Longrightarrow> once_results False rs = Map.empty"
  unfolding once_results_def by (induction rs) auto

theorem once_hides_errors:
  assumes "\<forall>x \<in> set rs. snd (snd x) \<noteq> None"
  shows "run_once False order rs =
    (\<lparr>tot_Missing = 0, tot_Processed = 0, tot_Succeeded = 0, tot_Failed = 0\<rparr>, 0)"
proof -
  have "foldl (\<lambda>t c. case Map.empty c of Some (Some res) \<Rightarrow> f t res | _ \<Rightarrow> t) z order = z" for f and z :: once_totals
    by (induction order) simp_all
  then show ?thesis by (simp add: run_once_def once_results_errors [OF assms])
qed

text \<open>Flags never make a limit of the backfiller non-positive.\<close>

lemma apply_flags_positive:
  "bfc_BatchSize (apply_flags fl (LoadConfig fmul env)) > 0 \<and> bfc_Concurrency (apply_flags fl (LoadConfig fmul env)) > 0"
  using LoadConfig_positive [of fmul env] by (simp add: apply_flags_def Let_def)

text \<open>The command and the other components do not agree on which chains are active: a pause flag other than 0
  and 1 keeps a chain out of discovery but not out of the command.\<close>

lemma active_configs_paused:
  assumes "adc_Deleted c = 0" "adc_Paused c = 2" "adc_RPCEndpoints c \<noteq> []"
  shows "active_configs [c] = [(adc_ChainID c, adc_RPCEndpoints c ! 0)] \<and> \<not> chain_active c"
  using assms by (simp add: active_configs_def chain_active_def)

section \<open>The command's runs end\<close>

lemma run_batches_total:
  "bfc_Concurrency cfg \<noteq> 0 \<Longrightarrow> run_batches env cfg index blocks chainID endHeight i cur s r \<noteq> None"
proof (induction env cfg index blocks chainID endHeight i cur s r rule: run_batches.induct)
  case (1 env cfg index blocks chainID endHeight i cur s r)
  show ?case
    by (subst run_batches.simps) (use 1 in \<open>auto split: option.split outcome.split prod.split\<close>)
qed

lemma prepare_backfill_config:
  "prepare_backfill fmul env fl renv fault tbl r = Some (sel, r', clients, cfg) \<Longrightarrow> cfg = apply_flags fl (LoadConfig fmul env)"
  by (auto simp: prepare_backfill_def Let_def split: outcome.splits option.splits if_splits)

text \<open>
  Whatever the environment and the flags say, a run of the backfill command comes to an end: the limits it
  works with are positive. With the flag for a dry run it stores nothing.
\<close>

theorem backfill_command_ends:
  assumes "prepare_backfill fmul env fl renv fault tbl r = Some (sel, r', clients, cfg)"
  shows "bfc_BatchSize cfg > 0 \<and>
    (\<exists>s' out. backfill_Run benv cfg index blocks c s = Some (s', out) \<and> (fl_dryRun fl \<longrightarrow> s' = s))"
proof -
  have cfg: "cfg = apply_flags fl (LoadConfig fmul env)" by (rule prepare_backfill_config [OF assms])
  then have pos: "bfc_BatchSize cfg > 0" "bfc_Concurrency cfg \<noteq> 0"
    using apply_flags_positive [of fl fmul env] by auto
  have dry: "fl_dryRun fl \<Longrightarrow> bfc_DryRun cfg" by (simp add: cfg apply_flags_def Let_def)
  obtain s' out where run: "backfill_Run benv cfg index blocks c s = Some (s', out)"
    using run_batches_total [OF pos(2)]
    by (fastforce simp: backfill_Run_def Let_def split: outcome.splits if_splits)
  moreover have "fl_dryRun fl \<Longrightarrow> s' = s"
    using run dry by (auto simp: backfill_Run_def Let_def split: outcome.splits if_splits)
  ultimately show ?thesis using pos(1) by blast
qed

definition sample_flags :: backfill_flags where
  "sample_flags = \<lparr>fl_dryRun = True, fl_startHeight = 0, fl_endHeight = 0, fl_batchSize = 0, fl_concurrency = 0,
     fl_chainID = 0, fl_once = True\<rparr>"

theorem backfill_command_ends_witness:
  "\<exists>sel r' clients cfg out. prepare_backfill (\<lambda>f u s. f * u div s) plain_environment sample_flags sample_env_ok None one_row
      (sample_registry\<lparr>reg_idx := no_chain_state\<rparr>) = Some (sel, r', clients, cfg) \<and>
     backfill_Run benv cfg index blocks 1 s = Some (s, out)"
proof -
  have "active_configs one_row = [(1, ''u'')]" "ListChain None False one_row = Ok one_row"
    by (simp_all add: active_configs_def one_row_def sample_chain_row_def ListChain_def)
  then obtain sel r' clients cfg where prep:
    "prepare_backfill (\<lambda>f u s. f * u div s) plain_environment sample_flags sample_env_ok None one_row
      (sample_registry\<lparr>reg_idx := no_chain_state\<rparr>) = Some (sel, r', clients, cfg)"
    by (simp add: prepare_backfill_def Load_def plain_environment_def config_defaults_def Let_def select_chains_def
        sample_flags_def AddChain_def NewWithPoolConfig_def sample_registry_env_def no_chain_state_def)
  have "fl_dryRun sample_flags" by (simp add: sample_flags_def)
  then show ?thesis using backfill_command_ends [OF prep, of benv index blocks 1 s] prep by blast
qed

end
