(* ===== verification/Setup.thy ===== *)
theory Setup
  imports Config Schema Complex_Main "HOL-Library.Multiset"
begin

text \<open>
  Opening a database: retries with back-off (pkg/retry/backoff.go), \<open>postgres.New\<close> and the creation of schemas
  (pkg/db/postgres/client.go), and \<open>InitializeDB\<close> of the admin, the chain and the cross-chain database, which
  create the tables that the other theories work on. A catalog is what PostgreSQL knows: schemas, tables, enum
  types, views and functions. The goroutines that create tables end in an order that is an argument.
\<close>

section \<open>Retries\<close>

record retry_config =
  rc_MaxRetries :: int
  rc_InitialDelay :: int
  rc_MaxDelay :: int
  rc_Multiplier :: real
  rc_JitterEnabled :: bool

definition retry_DefaultConfig :: retry_config where
  "retry_DefaultConfig = \<lparr>rc_MaxRetries = 10, rc_InitialDelay = 2 * second, rc_MaxDelay = 60 * second,
     rc_Multiplier = 2, rc_JitterEnabled = True\<rparr>"

text \<open>The delay before the next attempt; \<open>r\<close> is the random number, from 0 up to but not including 1. The
  rounding of the floating point operations is left out.\<close>

definition calculateBackoff :: "retry_config \<Rightarrow> real \<Rightarrow> nat \<Rightarrow> int" where
  "calculateBackoff cfg r attempt =
     (let delay = real_of_int (rc_InitialDelay cfg) * rc_Multiplier cfg ^ (attempt - 1);
          delay = (if delay > real_of_int (rc_MaxDelay cfg) then real_of_int (rc_MaxDelay cfg) else delay);
          delay = (if rc_JitterEnabled cfg then delay + r * 0.3 * delay - 0.15 * delay else delay)
      in if delay \<ge> 0 then \<lfloor>delay\<rfloor> else \<lceil>delay\<rceil>)"

text \<open>\<open>before k\<close> and \<open>after k\<close> are what the context says at the two \<open>select\<close> statements of attempt \<open>k\<close>. The result
  is the returned error, \<open>None\<close> for nil, with the number of calls of the function.\<close>

fun retry_loop ::
  "retry_config \<Rightarrow> string \<Rightarrow> (nat \<Rightarrow> go_error option) \<Rightarrow> (nat \<Rightarrow> go_error option) \<Rightarrow> (nat \<Rightarrow> go_error option) \<Rightarrow>
   nat \<Rightarrow> nat \<Rightarrow> go_error option \<times> nat" where
  "retry_loop cfg operation before after fn 0 attempt = (None, attempt - 1)"
| "retry_loop cfg operation before after fn (Suc remaining) attempt =
     (case before attempt of
        Some err \<Rightarrow> (Some (WrapErr ''retry cancelled'' err), attempt - 1)
      | None \<Rightarrow>
     (case fn attempt of
        None \<Rightarrow> (None, attempt)
      | Some err \<Rightarrow>
          (if int attempt = rc_MaxRetries cfg
           then (Some (WrapErr (operation @ '' failed after '' @ format_nat attempt @ '' attempts'') err), attempt)
           else case after attempt of
             Some err \<Rightarrow> (Some (WrapErr ''retry cancelled'' err), attempt)
           | None \<Rightarrow> retry_loop cfg operation before after fn remaining (attempt + 1))))"

definition WithBackoff ::
  "retry_config \<Rightarrow> string \<Rightarrow> (nat \<Rightarrow> go_error option) \<Rightarrow> (nat \<Rightarrow> go_error option) \<Rightarrow> (nat \<Rightarrow> go_error option) \<Rightarrow>
   go_error option \<times> nat" where
  "WithBackoff cfg operation before after fn =
     retry_loop cfg operation before after fn (nat (rc_MaxRetries cfg)) 1"

section \<open>The catalog\<close>

record catalog =
  cat_schemas :: "string \<Rightarrow> bool"
  cat_tables :: "string \<times> string \<rightharpoonup> sql_table"
  cat_enums :: "string \<rightharpoonup> string list"
  cat_other :: "string \<times> string \<Rightarrow> bool"

record setup_env =
  se_parse :: "go_error option"
  se_before :: "nat \<Rightarrow> go_error option"
  se_after :: "nat \<Rightarrow> go_error option"
  se_connect :: "nat \<Rightarrow> go_error option"
  se_lookup :: "go_error option"
  se_schema :: "go_error option"
  se_enums :: "go_error option"
  se_table :: "string \<Rightarrow> go_error option"
  se_order :: "(string \<times> sql_table) list \<Rightarrow> (string \<times> sql_table) list"
  se_object :: "string \<Rightarrow> go_error option"

definition postgres_New :: "setup_env \<Rightarrow> unit outcome" where
  "postgres_New env =
     (case se_parse env of
        Some err \<Rightarrow> Fail (WrapErr ''failed to parse POSTGRES_URL'' err)
      | None \<Rightarrow>
     (case WithBackoff retry_DefaultConfig ''postgres_connection'' (se_before env) (se_after env) (se_connect env) of
        (Some err, _) \<Rightarrow> Fail err
      | (None, _) \<Rightarrow> Ok ()))"

definition CreateSchemaIfNotExists :: "setup_env \<Rightarrow> string \<Rightarrow> catalog \<Rightarrow> catalog \<times> unit outcome" where
  "CreateSchemaIfNotExists env schemaName cat =
     (case se_lookup env of
        Some err \<Rightarrow> (cat, Fail (WrapErr ''failed to check if schema exists'' err))
      | None \<Rightarrow>
          (if \<not> cat_schemas cat schemaName
           then (case se_schema env of
                   Some err \<Rightarrow> (cat, Fail (WrapErr ''failed to create schema'' err))
                 | None \<Rightarrow> (cat\<lparr>cat_schemas := (cat_schemas cat)(schemaName := True)\<rparr>, Ok ()))
           else (cat, Ok ())))"

text \<open>\<open>TableExists\<close> looks in the schema \<open>public\<close>, whatever database it is asked for.\<close>

definition TableExists :: "setup_env \<Rightarrow> string \<Rightarrow> string \<Rightarrow> catalog \<Rightarrow> bool outcome" where
  "TableExists env database table cat =
     (case se_lookup env of
        Some err \<Rightarrow> Fail (WrapErr (''check if table exists '' @ table) err)
      | None \<Rightarrow> Ok (cat_tables cat (''public'', table) \<noteq> None))"

text \<open>\<open>CREATE TABLE IF NOT EXISTS\<close>\<close>

definition create_table :: "string \<Rightarrow> sql_table \<Rightarrow> catalog \<Rightarrow> catalog" where
  "create_table schema t cat =
     (if cat_tables cat (schema, st_Name t) = None
      then cat\<lparr>cat_tables := (cat_tables cat)((schema, st_Name t) \<mapsto> t)\<rparr> else cat)"

text \<open>\<open>CREATE TYPE ... AS ENUM\<close>, where an existing type is kept.\<close>

definition create_enum :: "string \<times> string list \<Rightarrow> catalog \<Rightarrow> catalog" where
  "create_enum e cat =
     (if cat_enums cat (fst e) = None then cat\<lparr>cat_enums := (cat_enums cat)(fst e \<mapsto> snd e)\<rparr> else cat)"

definition init_enums :: "setup_env \<Rightarrow> (string \<times> string list) list \<Rightarrow> catalog \<Rightarrow> catalog \<times> unit outcome" where
  "init_enums env es cat =
     (case se_enums env of
        Some err \<Rightarrow> (cat, Fail (WrapErr ''failed to create enums'' err))
      | None \<Rightarrow> (foldl (\<lambda>cat e. create_enum e cat) cat es, Ok ()))"

text \<open>All goroutines run; the first error that was sent is returned.\<close>

definition init_parallel ::
  "setup_env \<Rightarrow> (string \<Rightarrow> string) \<Rightarrow> string \<Rightarrow> (string \<times> sql_table) list \<Rightarrow> catalog \<Rightarrow> catalog \<times> unit outcome" where
  "init_parallel env msg schema ops cat =
     (let done_ops = se_order env ops;
          cat = foldl (\<lambda>cat (name, t). if se_table env name = None then create_table schema t cat else cat) cat done_ops;
          errs = collect (\<lambda>(name, t). map_option (WrapErr (msg name)) (se_table env name)) done_ops
      in case errs of [] \<Rightarrow> (cat, Ok ()) | err # _ \<Rightarrow> (cat, Fail err))"

section \<open>The three databases\<close>

definition chain_init_ops :: "(string \<times> sql_table) list" where
  "chain_init_ops =
     [(''blocks'', chain_blocks), (''block_summaries'', chain_block_summaries), (''transactions'', chain_txs),
      (''accounts'', chain_accounts), (''events'', chain_events), (''pools'', chain_pools), (''orders'', chain_orders),
      (''dex_prices'', chain_dex_prices), (''dex_orders'', chain_dex_orders), (''dex_deposits'', chain_dex_deposits),
      (''dex_withdrawals'', chain_dex_withdrawals), (''pool_points_by_holder'', chain_pool_points_by_holder),
      (''validators'', chain_validators), (''validator_non_signing_info'', chain_validator_non_signing_info),
      (''validator_double_signing_info'', chain_validator_double_signing_info), (''params'', chain_params),
      (''committees'', chain_committees), (''committee_validators'', chain_committee_validators),
      (''committee_payments'', chain_committee_payments), (''poll_snapshots'', chain_poll_snapshots),
      (''proposal_snapshots'', chain_proposal_snapshots), (''supply'', chain_supply)]"

definition chain_InitializeDB :: "setup_env \<Rightarrow> uint64 \<Rightarrow> string \<Rightarrow> string \<Rightarrow> catalog \<Rightarrow> catalog \<times> unit outcome" where
  "chain_InitializeDB env chainID name schema cat =
     (case CreateSchemaIfNotExists env schema cat of
        (cat, Ok _) \<Rightarrow>
          (case init_enums env chain_enums cat of
             (cat, Ok _) \<Rightarrow>
               init_parallel env (\<lambda>t. ''init table '' @ t @ '' failed in chain database (chain_id: '' @
                 FormatUint chainID @ '', db: '' @ name @ '')'') schema chain_init_ops cat
           | (cat, r) \<Rightarrow> (cat, r))
      | (cat, r) \<Rightarrow> (cat, wrap_error (''failed to create schema '' @ schema) r))"

definition open_chain_db :: "setup_env \<Rightarrow> uint64 \<Rightarrow> catalog \<Rightarrow> catalog \<times> chain_DB outcome" where
  "open_chain_db env chainID cat =
     (let databaseName = ''indexer''; schemaName = SanitizeName (''chain_'' @ FormatUint chainID)
      in case postgres_New env of
           Fail err \<Rightarrow> (cat, Fail err)
         | Panic \<Rightarrow> (cat, Panic)
         | Ok _ \<Rightarrow>
             (case chain_InitializeDB env chainID databaseName schemaName cat of
                (cat, Fail err) \<Rightarrow> (cat, Fail err)
              | (cat, Panic) \<Rightarrow> (cat, Panic)
              | (cat, Ok _) \<Rightarrow>
                  (cat, Ok \<lparr>cdb_Name = databaseName, cdb_Schema = schemaName, cdb_ChainID = chainID\<rparr>)))"

definition cross_init_ops :: "(string \<times> sql_table) list" where
  "cross_init_ops =
     [(''blocks'', crosschain_blocks), (''block_summaries'', crosschain_block_summaries), (''txs'', crosschain_txs),
      (''events'', crosschain_events), (''accounts'', crosschain_accounts), (''validators'', crosschain_validators),
      (''validator_non_signing_info'', crosschain_validator_non_signing_info),
      (''validator_double_signing_info'', crosschain_validator_double_signing_info),
      (''committees'', crosschain_committees), (''committee_validators'', crosschain_committee_validators),
      (''committee_payments'', crosschain_committee_payments), (''pools'', crosschain_pools),
      (''pool_points_by_holder'', crosschain_pool_points_by_holder), (''orders'', crosschain_orders),
      (''dex_orders'', crosschain_dex_orders), (''dex_deposits'', crosschain_dex_deposits),
      (''dex_withdrawals'', crosschain_dex_withdrawals), (''dex_prices'', crosschain_dex_prices),
      (''params'', crosschain_params), (''supply'', crosschain_supply), (''tvl_snapshots'', crosschain_tvl_snapshots)]"

text \<open>The views and the function are created one after the other; the first error ends it.\<close>

fun create_each :: "setup_env \<Rightarrow> string \<Rightarrow> string list \<Rightarrow> catalog \<Rightarrow> catalog \<times> unit outcome" where
  "create_each env schema [] cat = (cat, Ok ())"
| "create_each env schema (name # names) cat =
     (case se_object env name of
        Some err \<Rightarrow> (cat, Fail err)
      | None \<Rightarrow> create_each env schema names (cat\<lparr>cat_other := (cat_other cat)((schema, name) := True)\<rparr>))"

definition cross_views :: "string list" where
  "cross_views =
     [''accounts_latest'', ''validators_latest'', ''committees_latest'', ''pools_latest'',
      ''pool_points_by_holder_latest'', ''orders_latest'', ''dex_orders_latest'', ''dex_deposits_latest'',
      ''dex_withdrawals_latest'', ''params_latest'', ''supply_latest'', ''lp_position_snapshots'']"

definition cross_functions :: "string list" where
  "cross_functions = [''build_block_summary'']"

text \<open>One step after the other, each error with its text.\<close>

definition and_then ::
  "(catalog \<Rightarrow> catalog \<times> unit outcome) \<Rightarrow> (catalog \<Rightarrow> catalog \<times> unit outcome) \<Rightarrow> catalog \<Rightarrow> catalog \<times> unit outcome" where
  "and_then f g cat = (case f cat of (cat, Ok _) \<Rightarrow> g cat | (cat, r) \<Rightarrow> (cat, r))"

definition wrapped :: "string \<Rightarrow> (catalog \<Rightarrow> catalog \<times> unit outcome) \<Rightarrow> catalog \<Rightarrow> catalog \<times> unit outcome" where
  "wrapped msg f cat = (case f cat of (cat, r) \<Rightarrow> (cat, wrap_error msg r))"

definition crosschain_InitializeDB :: "setup_env \<Rightarrow> string \<Rightarrow> string \<Rightarrow> catalog \<Rightarrow> catalog \<times> unit outcome" where
  "crosschain_InitializeDB env name schema =
     and_then (wrapped (''failed to create schema '' @ schema) (CreateSchemaIfNotExists env schema))
    (and_then (init_enums env crosschain_enums)
    (and_then (wrapped ''failed to create tables'' (init_parallel env
        (\<lambda>t. ''create table '' @ t @ '' failed in crosschain database (db: '' @ name @ '')'') schema cross_init_ops))
    (and_then (wrapped ''failed to create views'' (create_each env schema cross_views))
       (wrapped ''failed to create functions'' (create_each env ''public'' cross_functions)))))"

definition open_crosschain_db :: "setup_env \<Rightarrow> string \<Rightarrow> catalog \<Rightarrow> catalog \<times> unit outcome" where
  "open_crosschain_db env databaseName cat =
     (case postgres_New env of
        Fail err \<Rightarrow> (cat, Fail err)
      | Panic \<Rightarrow> (cat, Panic)
      | Ok _ \<Rightarrow> crosschain_InitializeDB env databaseName ''crosschain'' cat)"

text \<open>The admin tables, whose rows are the records of the theory AdminDB; their columns are left out here.\<close>

definition admin_InitializeDB :: "setup_env \<Rightarrow> string \<Rightarrow> catalog \<Rightarrow> catalog \<times> unit outcome" where
  "admin_InitializeDB env schema =
     and_then (wrapped (''failed to create schema '' @ schema) (CreateSchemaIfNotExists env schema))
       (create_each env schema [''chains'', ''index_progress'', ''reindex_requests'', ''rpc_endpoints''])"

definition open_admin_db :: "setup_env \<Rightarrow> catalog \<Rightarrow> catalog \<times> unit outcome" where
  "open_admin_db env cat =
     (case postgres_New env of
        Fail err \<Rightarrow> (cat, Fail err)
      | Panic \<Rightarrow> (cat, Panic)
      | Ok _ \<Rightarrow> admin_InitializeDB env ''admin'' cat)"

definition DropChainSchema :: "go_error option \<Rightarrow> uint64 \<Rightarrow> catalog \<Rightarrow> catalog \<times> unit outcome" where
  "DropChainSchema fault chainID cat =
     (let schemaName = SanitizeName (''chain_'' @ FormatUint chainID)
      in case fault of
           Some err \<Rightarrow> (cat, Fail (WrapErr (''drop chain schema '' @ schemaName) err))
         | None \<Rightarrow>
             (cat\<lparr>cat_schemas := (cat_schemas cat)(schemaName := False),
                  cat_tables := (\<lambda>(s, t). if s = schemaName then None else cat_tables cat (s, t)),
                  cat_other := (\<lambda>(s, t). s \<noteq> schemaName \<and> cat_other cat (s, t))\<rparr>, Ok ()))"

section \<open>Retries end, and wait no longer than they should\<close>

lemma retry_loop_calls:
  assumes "retry_loop cfg operation before after fn (Suc n) k = (res, calls)" "k \<ge> 1" "rc_MaxRetries cfg = int (k + n)"
  shows "k - 1 \<le> calls \<and> calls \<le> k + n \<and> (\<forall>i. k \<le> i \<and> i < calls \<longrightarrow> fn i \<noteq> None) \<and>
    (res = None \<longleftrightarrow> k \<le> calls \<and> fn calls = None)"
  using assms
proof (induction n arbitrary: k)
  case 0
  then show ?case by (auto split: option.splits if_splits)
next
  case (Suc n)
  show ?case
  proof (cases "before k = None \<and> (\<exists>e. fn k = Some e) \<and> after k = None")
    case True
    then have rec: "retry_loop cfg operation before after fn (Suc n) (k + 1) = (res, calls)" and fn: "fn k \<noteq> None"
      using Suc.prems(1,3) by auto
    have "rc_MaxRetries cfg = int (k + 1 + n)" using Suc.prems(3) by simp
    note ih = Suc.IH [OF rec _ this]
    have "fn i \<noteq> None" if "k \<le> i" "i < calls" for i
      using ih that fn by (cases "i = k") auto
    moreover have "res = None \<longleftrightarrow> k \<le> calls \<and> fn calls = None" using ih fn by (cases "calls = k") auto
    ultimately show ?thesis using ih by auto
  next
    case False
    then show ?thesis using Suc.prems by (auto split: option.splits if_splits)
  qed
qed

text \<open>
  A retried operation is called at most as often as the limit says, and no further call follows one that
  succeeded; the result is nil exactly when the last call succeeded. With a limit of zero or less the result is
  nil although the operation never ran.
\<close>

theorem retry_result:
  assumes "WithBackoff cfg operation before after fn = (res, calls)"
  shows "if rc_MaxRetries cfg \<le> 0 then res = None \<and> calls = 0
    else int calls \<le> rc_MaxRetries cfg \<and> (\<forall>i. 1 \<le> i \<and> i < calls \<longrightarrow> fn i \<noteq> None) \<and>
      (res = None \<longleftrightarrow> 1 \<le> calls \<and> fn calls = None)"
proof (cases "rc_MaxRetries cfg \<le> 0")
  case True
  then show ?thesis using assms by (auto simp: WithBackoff_def)
next
  case False
  then obtain n where n: "nat (rc_MaxRetries cfg) = Suc n" by (cases "nat (rc_MaxRetries cfg)") auto
  then have max: "rc_MaxRetries cfg = int (1 + n)" using False by linarith
  have "retry_loop cfg operation before after fn (Suc n) 1 = (res, calls)"
    using assms n by (simp add: WithBackoff_def del: retry_loop.simps)
  from retry_loop_calls [OF this _ max] show ?thesis using False max by (auto simp del: retry_loop.simps)
qed

theorem retry_result_witness:
  "WithBackoff retry_DefaultConfig ''x'' (\<lambda>_. None) (\<lambda>_. None) (\<lambda>k. if k = 3 then None else Some (Errorf ''no'')) = (None, 3)"
proof -
  have n: "nat (rc_MaxRetries retry_DefaultConfig) = Suc (Suc (Suc 7))" by (simp add: retry_DefaultConfig_def)
  have run: "WithBackoff retry_DefaultConfig ''x'' (\<lambda>_. None) (\<lambda>_. None) (\<lambda>k. if k = 3 then None else Some (Errorf ''no'')) = (None, 3)"
    unfolding WithBackoff_def n retry_loop.simps by (simp add: retry_DefaultConfig_def)
  from retry_result [OF run] show ?thesis using run by simp
qed

text \<open>Every delay is within 15 percent of the capped exponential one.\<close>

lemma backoff_bounds:
  fixes attempt :: nat
  assumes "0 \<le> r" "r < 1" "rc_InitialDelay cfg > 0" "rc_MaxDelay cfg > 0" "rc_Multiplier cfg \<ge> 1"
  defines "d \<equiv> min (real_of_int (rc_InitialDelay cfg) * rc_Multiplier cfg ^ (attempt - 1)) (real_of_int (rc_MaxDelay cfg))"
  shows "0.85 * d - 1 < real_of_int (calculateBackoff cfg r attempt) \<and> real_of_int (calculateBackoff cfg r attempt) \<le> 1.15 * d"
proof -
  have pos: "d > 0" unfolding d_def using assms(3-5) by simp
  let ?x = "if rc_JitterEnabled cfg then d + r * 0.3 * d - 0.15 * d else d"
  have "0 \<le> r * d" "r * d \<le> d" using assms(1,2) pos by (simp_all add: mult_le_cancel_right1)
  then have x: "0.85 * d \<le> ?x" "?x \<le> 1.15 * d" using pos by (auto simp: algebra_simps)
  then have "0 \<le> ?x" using pos by linarith
  moreover have "calculateBackoff cfg r attempt = (if ?x \<ge> 0 then \<lfloor>?x\<rfloor> else \<lceil>?x\<rceil>)"
    unfolding calculateBackoff_def d_def Let_def by (simp add: min_def not_le not_less)
  ultimately have eq: "calculateBackoff cfg r attempt = \<lfloor>?x\<rfloor>" by simp
  show ?thesis unfolding eq using x by linarith
qed

section \<open>What opening a chain's database leaves\<close>

definition keeps_tables :: "catalog \<Rightarrow> catalog \<Rightarrow> bool" where
  "keeps_tables cat cat' \<longleftrightarrow> (\<forall>k t. cat_tables cat k = Some t \<longrightarrow> cat_tables cat' k = Some t)"

abbreviation create_ops where
  "create_ops env schema ops cat \<equiv>
     foldl (\<lambda>cat (name, t). if se_table env name = None then create_table schema t cat else cat) cat ops"

lemma create_table_tables:
  "cat_tables (create_table schema t cat) k =
     (if k = (schema, st_Name t) \<and> cat_tables cat k = None then Some t else cat_tables cat k)"
  by (auto simp: create_table_def)

lemma create_ops_keeps: "cat_tables cat k = Some t \<Longrightarrow> cat_tables (create_ops env schema ops cat) k = Some t"
  by (induction ops arbitrary: cat) (auto simp: create_table_tables)

lemma create_ops_creates:
  assumes "(name, t) \<in> set ops" "se_table env name = None" "distinct (map (\<lambda>op. st_Name (snd op)) ops)"
    "cat_tables cat (schema, st_Name t) = None"
  shows "cat_tables (create_ops env schema ops cat) (schema, st_Name t) = Some t"
  using assms
proof (induction ops arbitrary: cat)
  case (Cons op ops)
  obtain n u where op: "op = (n, u)" by fastforce
  show ?case
  proof (cases "op = (name, t)")
    case True
    then have "cat_tables (create_table schema t cat) (schema, st_Name t) = Some t"
      using Cons.prems(4) by (simp add: create_table_tables)
    from create_ops_keeps [OF this] show ?thesis using True Cons.prems(2) by simp
  next
    case False
    then have in_rest: "(name, t) \<in> set ops" using Cons.prems(1) by simp
    then have "st_Name t \<noteq> st_Name u" using Cons.prems(3) op by (force simp: image_iff)
    then have "cat_tables (if se_table env n = None then create_table schema u cat else cat) (schema, st_Name t) = None"
      using Cons.prems(4) by (simp add: create_table_tables)
    from Cons.IH [OF in_rest Cons.prems(2) _ this] show ?thesis using Cons.prems(3) op by simp
  qed
qed simp

text \<open>The goroutines end in some order; each ends once.\<close>

definition some_order :: "setup_env \<Rightarrow> bool" where
  "some_order env \<longleftrightarrow> (\<forall>ops. mset (se_order env ops) = mset ops)"

lemma some_orderD:
  assumes "some_order env"
  shows "set (se_order env ops) = set ops"
    and "distinct (map (\<lambda>op. st_Name (snd op)) (se_order env ops)) \<longleftrightarrow> distinct (map (\<lambda>op. st_Name (snd op)) ops)"
proof -
  have m: "mset (se_order env ops) = mset ops" using assms by (simp add: some_order_def)
  then show "set (se_order env ops) = set ops" by (metis set_mset_mset)
  have "mset (map (\<lambda>op. st_Name (snd op)) (se_order env ops)) = mset (map (\<lambda>op. st_Name (snd op)) ops)"
    using m by (simp add: mset_map)
  then show "distinct (map (\<lambda>op. st_Name (snd op)) (se_order env ops)) \<longleftrightarrow> distinct (map (\<lambda>op. st_Name (snd op)) ops)"
    by (metis distinct_count_atmost_1 set_mset_mset)
qed

lemma init_parallel_catalog:
  "init_parallel env msg schema ops cat = (cat', res) \<Longrightarrow> cat' = create_ops env schema (se_order env ops) cat"
  by (simp add: init_parallel_def Let_def split: list.splits)

lemma init_parallel_facts:
  assumes "init_parallel env msg schema ops cat = (cat', res)" "some_order env"
    "distinct (map (\<lambda>op. st_Name (snd op)) ops)"
  shows "keeps_tables cat cat'"
    and "(name, t) \<in> set ops \<Longrightarrow> se_table env name = None \<Longrightarrow> cat_tables cat (schema, st_Name t) = None \<Longrightarrow>
      cat_tables cat' (schema, st_Name t) = Some t"
    and "res = Ok () \<longleftrightarrow> (\<forall>op \<in> set ops. se_table env (fst op) = None)"
    and "cat_schemas cat' = cat_schemas cat" and "res \<noteq> Panic"
proof -
  have cat': "cat' = create_ops env schema (se_order env ops) cat"
    using assms(1) by (rule init_parallel_catalog)
  show "keeps_tables cat cat'" unfolding cat' keeps_tables_def using create_ops_keeps by blast
  show "cat_tables cat' (schema, st_Name t) = Some t"
    if "(name, t) \<in> set ops" "se_table env name = None" "cat_tables cat (schema, st_Name t) = None"
    unfolding cat'
    by (rule create_ops_creates [where name = name]) (use that assms some_orderD in auto)
  define errs where "errs = collect (\<lambda>(name, t). map_option (WrapErr (msg name)) (se_table env name)) (se_order env ops)"
  have "errs = [] \<longleftrightarrow> (\<forall>op \<in> set ops. se_table env (fst op) = None)"
    by (simp add: errs_def some_orderD(1) [OF assms(2)] case_prod_beta)
  moreover have "res = (case errs of [] \<Rightarrow> Ok () | e # _ \<Rightarrow> Fail e)"
    using assms(1) unfolding init_parallel_def Let_def errs_def [symmetric] by (simp split: list.splits)
  ultimately show "res = Ok () \<longleftrightarrow> (\<forall>op \<in> set ops. se_table env (fst op) = None)" and "res \<noteq> Panic"
    by (simp_all split: list.splits)
  have "cat_schemas (create_ops env schema xs c) = cat_schemas c" for xs c
    by (induction xs arbitrary: c) (auto simp: create_table_def)
  then show "cat_schemas cat' = cat_schemas cat" by (simp add: cat')
qed

lemma chain_init_names: "distinct (map (\<lambda>op. st_Name (snd op)) chain_init_ops)"
  by (simp add: chain_init_ops_def chain_table_names)

lemma chain_init_tables: "snd ` set chain_init_ops = set chain_schema"
  by (simp add: chain_init_ops_def chain_schema_def insert_commute)

lemma create_ops_other:
  "fst k \<noteq> schema \<Longrightarrow> cat_tables (create_ops env schema ops cat) k = cat_tables cat k"
  by (induction ops arbitrary: cat) (auto simp: create_table_tables split_beta)

lemma init_parallel_other:
  "init_parallel env msg schema ops cat = (cat', res) \<Longrightarrow> fst k \<noteq> schema \<Longrightarrow> cat_tables cat' k = cat_tables cat k"
  by (drule init_parallel_catalog, erule ssubst, rule create_ops_other)

lemma CreateSchema_facts:
  assumes "CreateSchemaIfNotExists env schema cat = (cat', res)"
  shows "cat_tables cat' = cat_tables cat" and "res = Ok u \<Longrightarrow> cat_schemas cat' schema" and "res \<noteq> Panic"
  using assms by (auto simp: CreateSchemaIfNotExists_def split: option.splits if_splits)

lemma create_enum_tables: "cat_tables (foldl (\<lambda>cat e. create_enum e cat) cat es) = cat_tables cat \<and>
    cat_schemas (foldl (\<lambda>cat e. create_enum e cat) cat es) = cat_schemas cat"
  by (induction es arbitrary: cat) (auto simp: create_enum_def)

lemma init_enums_facts:
  assumes "init_enums env es cat = (cat', res)"
  shows "cat_tables cat' = cat_tables cat" and "cat_schemas cat' = cat_schemas cat" and "res \<noteq> Panic"
  using assms create_enum_tables by (auto simp: init_enums_def split: option.splits)

text \<open>One case of \<open>InitializeDB\<close> for all the facts: it stops before the tables, or runs their creation.\<close>

lemma chain_InitializeDB_cases:
  assumes "chain_InitializeDB env chainID name schema cat = (cat', res)"
  obtains (early) err where "cat_tables cat' = cat_tables cat" "res = Fail err"
  | (tables) cat1 msg where "cat_tables cat1 = cat_tables cat" "cat_schemas cat1 schema"
      "init_parallel env msg schema chain_init_ops cat1 = (cat', res)"
proof -
  obtain c1 r1 where schema: "CreateSchemaIfNotExists env schema cat = (c1, r1)" by fastforce
  note S = CreateSchema_facts [OF schema]
  show ?thesis
  proof (cases r1)
    case (Ok u)
    obtain c2 r2 where enums: "init_enums env chain_enums c1 = (c2, r2)" by fastforce
    note E = init_enums_facts [OF enums]
    show ?thesis
    proof (cases r2)
      case (Ok v)
      have "cat_tables c2 = cat_tables cat" "cat_schemas c2 schema" using S(1) S(2) [OF \<open>r1 = Ok u\<close>] E(1,2) by simp_all
      from tables [OF this] show ?thesis using assms schema enums \<open>r1 = Ok u\<close> Ok by (simp add: chain_InitializeDB_def)
    next
      case (Fail e)
      show ?thesis
        by (rule early) (use assms schema enums \<open>r1 = Ok u\<close> Fail S(1) E(1) in \<open>auto simp: chain_InitializeDB_def\<close>)
    qed (use E(3) in simp)
  next
    case (Fail e)
    show ?thesis by (rule early) (use assms schema Fail S(1) in \<open>auto simp: chain_InitializeDB_def\<close>)
  qed (use S(3) in simp)
qed

text \<open>Opening a database of a chain is what the registry's \<open>NewWithPoolConfig\<close> says of it.\<close>

lemma open_chain_db_refines: "\<exists>fault. snd (open_chain_db env chainID cat) = NewWithPoolConfig fault chainID"
proof -
  define name where "name = ''chain_'' @ FormatUint chainID"
  obtain cat' res where init: "chain_InitializeDB env chainID ''indexer'' name cat = (cat', res)" by fastforce
  have "res \<noteq> Panic \<or> (\<exists>e. res = Fail e)"
    using init
  proof (cases rule: chain_InitializeDB_cases)
    case (tables cat1 msg)
    then show ?thesis by (auto simp: init_parallel_def Let_def split: list.splits)
  qed simp
  moreover have "postgres_New env \<noteq> Panic" by (simp add: postgres_New_def split: option.splits prod.splits)
  ultimately show ?thesis
    using init unfolding open_chain_db_def SanitizeName_def NewWithPoolConfig_def Let_def name_def [symmetric]
    by (cases "postgres_New env"; cases res) (auto intro: exI [of _ "Some _"] exI [of _ None])
qed


definition fresh_env :: setup_env where
  "fresh_env = \<lparr>se_parse = None, se_before = (\<lambda>_. None), se_after = (\<lambda>_. None), se_connect = (\<lambda>_. None),
     se_lookup = None, se_schema = None, se_enums = None, se_table = (\<lambda>_. None), se_order = rev,
     se_object = (\<lambda>_. None)\<rparr>"

definition fresh_catalog :: catalog where
  "fresh_catalog = \<lparr>cat_schemas = (\<lambda>_. False), cat_tables = (\<lambda>_. None), cat_enums = (\<lambda>_. None), cat_other = (\<lambda>_. False)\<rparr>"


end
