(* ===== verification/AdminQueries.thy ===== *)
theory AdminQueries
  imports AdminDB
begin

text \<open>
  The remaining queries of the admin database (pkg/db/postgres/admin: index_progress.go, rpc_endpoints.go,
  reindex_requests.go): the heights and the progress of a window of time, the endpoints of a chain, and the
  deletion of requests for re-indexing. Times are microseconds, as in PostgreSQL.
\<close>

section \<open>Endpoints and requests\<close>

text \<open>\<open>ORDER BY endpoint\<close> sorts by the collation of the database, which is an argument.\<close>

definition GetEndpointsForChain ::
  "go_error option \<Rightarrow> (string \<Rightarrow> 'k::linorder) \<Rightarrow> uint64 \<Rightarrow> admin_RPCEndpoint list \<Rightarrow> admin_RPCEndpoint list outcome" where
  "GetEndpointsForChain fault collation chainID eps =
     (case fault of
        Some err \<Rightarrow> Fail err
      | None \<Rightarrow> Ok (sort_key (\<lambda>e. collation (rpe_Endpoint e)) (filter (\<lambda>e. rpe_ChainID e = chainID) eps)))"

record reindex_row =
  rir_ChainID :: uint64
  rir_FromHeight :: uint64
  rir_ToHeight :: uint64
  rir_Status :: string
  rir_CreatedAt :: time
  rir_UpdatedAt :: time
  rir_CompletedAt :: "time option"
  rir_Error :: string

definition DeleteReindexRequestsForChain ::
  "go_error option \<Rightarrow> uint64 \<Rightarrow> reindex_row list \<Rightarrow> reindex_row list \<times> unit outcome" where
  "DeleteReindexRequestsForChain fault chainID rows =
     (case fault of
        Some err \<Rightarrow> (rows, Fail err)
      | None \<Rightarrow> (filter (\<lambda>r. rir_ChainID r \<noteq> chainID) rows, Ok ()))"

section \<open>Windows of the index progress\<close>

definition minute :: time where "minute = 60 * 1000000"

definition hour :: time where "hour = 60 * minute"

text \<open>\<open>WHERE chain_id = $1 AND indexed_at >= NOW() - INTERVAL '1 hour' * $2\<close>\<close>

definition recent ::
  "time \<Rightarrow> uint64 \<Rightarrow> int \<Rightarrow> ((uint64 \<times> uint64) \<times> progress_row) list \<Rightarrow> ((uint64 \<times> uint64) \<times> progress_row) list" where
  "recent now chainID hours rows =
     filter (\<lambda>r. fst (fst r) = chainID \<and> ipr_IndexedAt (snd r) \<ge> now - hour * hours) rows"

definition GetCleanableHeights ::
  "go_error option \<Rightarrow> time \<Rightarrow> uint64 \<Rightarrow> int \<Rightarrow> ((uint64 \<times> uint64) \<times> progress_row) list \<Rightarrow> uint64 list outcome" where
  "GetCleanableHeights fault now chainID lookbackHours rows =
     (case fault of
        Some err \<Rightarrow> Fail (WrapErr ''query cleanable heights'' err)
      | None \<Rightarrow> Ok (sort (remdups (map (\<lambda>r. snd (fst r)) (recent now chainID lookbackHours rows)))))"

record ProgressPoint =
  pp_TimeBucket :: time
  pp_MaxHeight :: uint64
  pp_AvgLatency :: real
  pp_AvgProcessingTime :: real
  pp_BlocksIndexed :: uint64

text \<open>\<open>date_trunc('minute', indexed_at - INTERVAL 'n second' * EXTRACT(second FROM indexed_at))\<close>, where n is the
  interval in seconds: the interval is multiplied with the seconds within the minute.\<close>

definition time_bucket :: "int \<Rightarrow> time \<Rightarrow> time" where
  "time_bucket intervalMinutes t =
     (let x = t - (intervalMinutes * 60) * (t mod minute) in x - x mod minute)"

definition avg :: "real list \<Rightarrow> real" where
  "avg xs = sum_list xs / real (length xs)"

definition progress_point ::
  "int \<Rightarrow> ((uint64 \<times> uint64) \<times> progress_row) list \<Rightarrow> time \<Rightarrow> ProgressPoint" where
  "progress_point intervalMinutes rows b =
     (let g = filter (\<lambda>r. time_bucket intervalMinutes (ipr_IndexedAt (snd r)) = b) rows
      in \<lparr>pp_TimeBucket = b, pp_MaxHeight = foldr max (map (\<lambda>r. snd (fst r)) g) 0,
          pp_AvgLatency = avg (map (\<lambda>r. ipr_IndexingTime (snd r)) g),
          pp_AvgProcessingTime = avg (map (\<lambda>r. ipr_IndexingTimeMs (snd r)) g),
          pp_BlocksIndexed = of_nat (length g)\<rparr>)"

definition IndexProgressHistory ::
  "go_error option \<Rightarrow> time \<Rightarrow> uint64 \<Rightarrow> int \<Rightarrow> int \<Rightarrow> ((uint64 \<times> uint64) \<times> progress_row) list \<Rightarrow>
   ProgressPoint list outcome" where
  "IndexProgressHistory fault now chainID hours intervalMinutes rows =
     (case fault of
        Some err \<Rightarrow> Fail (WrapErr ''query progress history'' err)
      | None \<Rightarrow>
          (let sel = recent now chainID hours rows
           in Ok (map (progress_point intervalMinutes sel)
                (sort (remdups (map (\<lambda>r. time_bucket intervalMinutes (ipr_IndexedAt (snd r))) sel))))))"

section \<open>What the history tells\<close>

lemma sum_list_none: "k \<notin> set ks \<Longrightarrow> (\<Sum>j \<leftarrow> ks. if k = j then 1 else (0 :: nat)) = 0"
  by (induction ks) auto

lemma sum_list_one: "k \<in> set ks \<Longrightarrow> distinct ks \<Longrightarrow> (\<Sum>j \<leftarrow> ks. if k = j then 1 else (0 :: nat)) = 1"
  by (induction ks) (auto simp: sum_list_none)

lemma sum_by_key: "set (map key xs) \<subseteq> set ks \<Longrightarrow> distinct ks \<Longrightarrow>
    (\<Sum>k \<leftarrow> ks. length (filter (\<lambda>x. key x = k) xs)) = length xs"
proof (induction xs)
  case (Cons x xs)
  have "(\<Sum>k \<leftarrow> ks. length (filter (\<lambda>y. key y = k) (x # xs))) =
      (\<Sum>k \<leftarrow> ks. (if key x = k then 1 else 0) + length (filter (\<lambda>y. key y = k) xs))"
    by (intro arg_cong [where f = sum_list] map_cong) auto
  also have "\<dots> = (\<Sum>k \<leftarrow> ks. if key x = k then 1 else 0) + length xs"
    using Cons by (simp add: sum_list_addf)
  also have "(\<Sum>k \<leftarrow> ks. if key x = k then 1 else (0::nat)) = 1"
    using Cons.prems by (intro sum_list_one) auto
  finally show ?case by simp
qed simp

lemma time_bucket_late:
  assumes "intervalMinutes \<ge> 0"
  shows "time_bucket intervalMinutes t \<le> t" and "t - time_bucket intervalMinutes t < minute * (60 * intervalMinutes + 1)"
proof -
  have m: "0 \<le> t mod minute" "t mod minute < minute" by (simp_all add: minute_def)
  define x where "x = t - (intervalMinutes * 60) * (t mod minute)"
  have b: "time_bucket intervalMinutes t = x - x mod minute" by (simp add: time_bucket_def x_def Let_def)
  have x: "0 \<le> x mod minute" "x mod minute < minute" by (simp_all add: minute_def)
  have "0 \<le> (intervalMinutes * 60) * (t mod minute)" using assms m(1) by simp
  then show "time_bucket intervalMinutes t \<le> t" using x(1) by (simp add: b x_def)
  have "(intervalMinutes * 60) * (t mod minute) \<le> (intervalMinutes * 60) * minute"
    using assms m(2) by (intro mult_left_mono) auto
  then show "t - time_bucket intervalMinutes t < minute * (60 * intervalMinutes + 1)"
    using x(2) by (simp add: b x_def algebra_simps)
qed

abbreviation row_bucket :: "int \<Rightarrow> (uint64 \<times> uint64) \<times> progress_row \<Rightarrow> time" where
  "row_bucket intervalMinutes r \<equiv> time_bucket intervalMinutes (ipr_IndexedAt (snd r))"

lemma progress_point_simps:
  "pp_TimeBucket (progress_point m sel k) = k"
  "pp_BlocksIndexed (progress_point m sel k) = of_nat (length (filter (\<lambda>r. row_bucket m r = k) sel))"
  "pp_MaxHeight (progress_point m sel k) = foldr max (map (\<lambda>r. snd (fst r)) (filter (\<lambda>r. row_bucket m r = k) sel)) 0"
  by (simp_all add: progress_point_def Let_def)

lemma points_count:
  assumes "set (map (row_bucket m) sel) = set ks" "distinct ks"
  shows "sum_list (map (\<lambda>k. pp_BlocksIndexed (progress_point m sel k)) ks) = of_nat (length sel)"
proof -
  have "sum_list (map (\<lambda>k. pp_BlocksIndexed (progress_point m sel k)) ks) =
      of_nat (\<Sum>k \<leftarrow> ks. length (filter (\<lambda>r. row_bucket m r = k) sel))"
    by (induction ks) (simp_all add: progress_point_simps)
  then show ?thesis using assms sum_by_key [of "row_bucket m" sel ks] by simp
qed

lemma foldr_max_le: "foldr max hs (0 :: uint64) \<le> b \<longleftrightarrow> (\<forall>h \<in> set hs. h \<le> b)"
  by (induction hs) auto

lemma points_height:
  assumes "set (map (row_bucket m) sel) = set ks"
  shows "foldr max (map (\<lambda>k. pp_MaxHeight (progress_point m sel k)) ks) 0 = foldr max (map (\<lambda>r. snd (fst r)) sel) 0"
proof (rule antisym)
  have above: "snd (fst r) \<le> foldr max (map (\<lambda>r. snd (fst r)) sel) 0" if "r \<in> set sel" for r
    by (rule foldr_max_ge) (use that in simp)
  show "foldr max (map (\<lambda>k. pp_MaxHeight (progress_point m sel k)) ks) 0 \<le> foldr max (map (\<lambda>r. snd (fst r)) sel) 0"
    using above by (fastforce simp: foldr_max_le progress_point_simps)
  have "snd (fst r) \<le> foldr max (map (\<lambda>k. pp_MaxHeight (progress_point m sel k)) ks) 0" if r: "r \<in> set sel" for r
  proof -
    have k: "row_bucket m r \<in> set ks" unfolding assms [symmetric] using r by simp
    have "snd (fst r) \<le> pp_MaxHeight (progress_point m sel (row_bucket m r))"
      using r by (auto simp: progress_point_simps intro!: foldr_max_ge)
    also have "\<dots> \<le> foldr max (map (\<lambda>k. pp_MaxHeight (progress_point m sel k)) ks) 0"
      by (rule foldr_max_ge) (use k in simp)
    finally show ?thesis .
  qed
  then show "foldr max (map (\<lambda>r. snd (fst r)) sel) 0 \<le> foldr max (map (\<lambda>k. pp_MaxHeight (progress_point m sel k)) ks) 0"
    by (simp add: foldr_max_le)
qed

lemma time_bucket_minute:
  assumes "0 \<le> s" "s < 60"
  shows "time_bucket m (n * minute + s * 1000000) = (n - m * s) * minute"
proof -
  have small: "(s * 1000000 + k * minute) mod minute = s * 1000000" for k
    using assms by (simp add: minute_def mod_pos_pos_trivial)
  have "n * minute + s * 1000000 - m * 60 * (s * 1000000) = s * 1000000 + (n - m * s) * minute"
    by (simp add: minute_def algebra_simps)
  then show ?thesis
    using small [of n] small [of "n - m * s"] unfolding time_bucket_def Let_def by (simp only: add.commute add_diff_cancel_left')
qed

text \<open>
  The progress history counts every row of the window once, in points of strictly ascending time, and the
  points together reach the highest height of the window. A point's time is not the start of the interval in
  which its rows were indexed: a row indexed s seconds after a full minute is reported \<open>intervalMinutes\<close> times s
  minutes before it.
\<close>

theorem progress_history:
  "(\<exists>points. IndexProgressHistory None now chainID hours intervalMinutes rows = Ok points \<and>
      sorted_wrt (<) (map pp_TimeBucket points) \<and>
      sum_list (map pp_BlocksIndexed points) = of_nat (length (recent now chainID hours rows)) \<and>
      foldr max (map pp_MaxHeight points) 0 = foldr max (map (\<lambda>r. snd (fst r)) (recent now chainID hours rows)) 0) \<and>
   (\<forall>n. \<forall>s \<in> {0..<60}. time_bucket intervalMinutes (n * minute + s * 1000000) = (n - intervalMinutes * s) * minute)"
proof (intro conjI allI ballI)
  define sel where "sel = recent now chainID hours rows"
  define ks where "ks = sort (remdups (map (row_bucket intervalMinutes) sel))"
  have ks: "set (map (row_bucket intervalMinutes) sel) = set ks" "distinct ks" "sorted_wrt (<) ks"
    by (simp_all add: ks_def strict_sorted_iff)
  let ?points = "map (progress_point intervalMinutes sel) ks"
  have "IndexProgressHistory None now chainID hours intervalMinutes rows = Ok ?points"
    by (simp add: IndexProgressHistory_def ks_def sel_def Let_def)
  moreover have "map pp_TimeBucket ?points = ks" by (simp add: comp_def progress_point_simps)
  ultimately show "\<exists>points. IndexProgressHistory None now chainID hours intervalMinutes rows = Ok points \<and>
      sorted_wrt (<) (map pp_TimeBucket points) \<and>
      sum_list (map pp_BlocksIndexed points) = of_nat (length (recent now chainID hours rows)) \<and>
      foldr max (map pp_MaxHeight points) 0 = foldr max (map (\<lambda>r. snd (fst r)) (recent now chainID hours rows)) 0"
    using points_count [OF ks(1,2)] points_height [OF ks(1)] ks(3)
    by (intro exI [of _ ?points]) (simp add: comp_def sel_def)
qed (simp add: time_bucket_minute)

end
