(* ===== verification/SummarySql.thy ===== *)
theory SummarySql
  imports SummaryProps
begin

text \<open>
  The PL/pgSQL function \<open>build_block_summary\<close> that opening the cross-chain database installs
  (pkg/db/postgres/crosschain/functions.go), a second implementation of the block summary of the theory
  Summary: it counts the synchronized rows of a chain instead of the converted data, and merges its row with
  the summary that is already there. The rows of the cross-chain tables that belong to one chain are lists.
\<close>

record chain_rows =
  cr_blocks :: "Block list"
  cr_txs :: "Transaction list"
  cr_accounts :: "Account list"
  cr_events :: "Event list"
  cr_validators :: "Validator list"
  cr_non_signing :: "ValidatorNonSigningInfo list"
  cr_double_signing :: "ValidatorDoubleSigningInfo list"
  cr_committees :: "CommitteeRow list"
  cr_committee_validators :: "CommitteeValidator list"
  cr_committee_payments :: "CommitteePayment list"
  cr_pools :: "Pool list"
  cr_holders :: "PoolPointsByHolder list"
  cr_orders :: "Order list"
  cr_dex_prices :: "DexPrice list"
  cr_dex_orders :: "DexOrder list"
  cr_dex_deposits :: "DexDeposit list"
  cr_dex_withdrawals :: "DexWithdrawal list"
  cr_params :: "Params list"
  cr_supply :: "Supply list"

text \<open>\<open>WHERE height = p_height\<close>, and the rows at a height whose key has no row at the height before.\<close>

definition rows_of :: "uint64 \<Rightarrow> ('r \<Rightarrow> uint64) \<Rightarrow> 'r list \<Rightarrow> 'r list" where
  "rows_of h height rows = filter (\<lambda>r. height r = h) rows"

definition new_rows :: "uint64 \<Rightarrow> ('r \<Rightarrow> uint64) \<Rightarrow> ('r \<Rightarrow> 'k) \<Rightarrow> 'r list \<Rightarrow> uint32" where
  "new_rows h height key rows =
     count_if (\<lambda>r. height r = h \<and> \<not> (h \<noteq> 0 \<and> list_ex (\<lambda>prev. height prev = h - 1 \<and> key prev = key r) rows)) rows"

abbreviation size_of :: "'r list \<Rightarrow> uint32" where
  "size_of rows \<equiv> count_if (\<lambda>_. True) rows"

section \<open>The sections of the function\<close>

definition known_messages :: "string list" where
  "known_messages =
     [''send'', ''stake'', ''unstake'', ''editStake'', ''startPoll'', ''votePoll'', ''lockOrder'', ''closeOrder'',
      ''pause'', ''unpause'', ''changeParameter'', ''daoTransfer'', ''certificateResults'', ''subsidy'',
      ''createOrder'', ''editOrder'', ''deleteOrder'', ''dexLimitOrder'', ''dexLiquidityDeposit'',
      ''dexLiquidityWithdraw'']"

definition sql_count_txs :: "Transaction list \<Rightarrow> BlockSummary \<Rightarrow> BlockSummary" where
  "sql_count_txs txs s =
     (let n = (\<lambda>m. count_if (\<lambda>t. tx_MessageType t = m) txs)
      in s\<lparr>bs_NumTxs := size_of txs, bs_NumTxsSend := n ''send'', bs_NumTxsStake := n ''stake'',
           bs_NumTxsUnstake := n ''unstake'', bs_NumTxsEditStake := n ''editStake'',
           bs_NumTxsStartPoll := n ''startPoll'', bs_NumTxsVotePoll := n ''votePoll'',
           bs_NumTxsLockOrder := n ''lockOrder'', bs_NumTxsCloseOrder := n ''closeOrder'',
           bs_NumTxsUnknown := count_if (\<lambda>t. tx_MessageType t \<notin> set known_messages) txs,
           bs_NumTxsPause := n ''pause'', bs_NumTxsUnpause := n ''unpause'',
           bs_NumTxsChangeParameter := n ''changeParameter'', bs_NumTxsDaoTransfer := n ''daoTransfer'',
           bs_NumTxsCertificateResults := n ''certificateResults'', bs_NumTxsSubsidy := n ''subsidy'',
           bs_NumTxsCreateOrder := n ''createOrder'', bs_NumTxsEditOrder := n ''editOrder'',
           bs_NumTxsDeleteOrder := n ''deleteOrder'', bs_NumTxsDexLimitOrder := n ''dexLimitOrder'',
           bs_NumTxsDexLiquidityDeposit := n ''dexLiquidityDeposit'',
           bs_NumTxsDexLiquidityWithdraw := n ''dexLiquidityWithdraw''\<rparr>)"

definition sql_count_accounts :: "uint64 \<Rightarrow> chain_rows \<Rightarrow> BlockSummary \<Rightarrow> BlockSummary" where
  "sql_count_accounts h c s =
     s\<lparr>bs_NumAccounts := size_of (rows_of h acct_Height (cr_accounts c)),
       bs_NumAccountsNew := new_rows h acct_Height acct_Address (cr_accounts c)\<rparr>"

definition sql_count_events :: "Event list \<Rightarrow> BlockSummary \<Rightarrow> BlockSummary" where
  "sql_count_events es s =
     (let n = (\<lambda>m. count_if (\<lambda>e. evr_EventType e = m) es)
      in s\<lparr>bs_NumEvents := size_of es, bs_NumEventsReward := n ''reward'', bs_NumEventsSlash := n ''slash'',
           bs_NumEventsDexLiquidityDeposit := n ''dex-liquidity-deposit'',
           bs_NumEventsDexLiquidityWithdraw := n ''dex-liquidity-withdraw'', bs_NumEventsDexSwap := n ''dex-swap'',
           bs_NumEventsOrderBookSwap := n ''order-book-swap'', bs_NumEventsAutomaticPause := n ''automatic-pause'',
           bs_NumEventsAutomaticBeginUnstaking := n ''automatic-begin-unstaking'',
           bs_NumEventsAutomaticFinishUnstaking := n ''automatic-finish-unstaking''\<rparr>)"

definition sql_count_validators :: "uint64 \<Rightarrow> chain_rows \<Rightarrow> BlockSummary \<Rightarrow> BlockSummary" where
  "sql_count_validators h c s =
     (let vs = rows_of h vld_Height (cr_validators c)
      in s\<lparr>bs_NumValidators := size_of vs,
           bs_NumValidatorsActive := count_if (\<lambda>v. vld_Status v = ''active'') vs,
           bs_NumValidatorsPaused := count_if (\<lambda>v. vld_Status v = ''paused'') vs,
           bs_NumValidatorsUnstaking := count_if (\<lambda>v. vld_Status v = ''unstaking'') vs,
           bs_NumValidatorsNew := new_rows h vld_Height vld_Address (cr_validators c),
           bs_NumValidatorNonSigningInfo := size_of (rows_of h vns_Height (cr_non_signing c)),
           bs_NumValidatorNonSigningInfoNew := new_rows h vns_Height vns_Address (cr_non_signing c),
           bs_NumValidatorDoubleSigningInfo := size_of (rows_of h vds_Height (cr_double_signing c))\<rparr>)"

definition sql_count_committees :: "uint64 \<Rightarrow> chain_rows \<Rightarrow> BlockSummary \<Rightarrow> BlockSummary" where
  "sql_count_committees h c s =
     (let cs = rows_of h cmr_Height (cr_committees c)
      in s\<lparr>bs_NumCommittees := size_of cs,
           bs_NumCommitteesSubsidized := count_if cmr_Subsidized cs,
           bs_NumCommitteesRetired := count_if cmr_Retired cs,
           bs_NumCommitteesNew := new_rows h cmr_Height cmr_ChainID (cr_committees c),
           bs_NumCommitteeValidators := size_of (rows_of h cmv_Height (cr_committee_validators c)),
           bs_NumCommitteePayments := size_of (rows_of h cmp_Height (cr_committee_payments c))\<rparr>)"

definition sql_count_pools :: "uint64 \<Rightarrow> chain_rows \<Rightarrow> BlockSummary \<Rightarrow> BlockSummary" where
  "sql_count_pools h c s =
     s\<lparr>bs_NumPools := size_of (rows_of h pol_Height (cr_pools c)),
       bs_NumPoolsNew := new_rows h pol_Height pol_PoolID (cr_pools c),
       bs_NumDexPoolPointsHolders := size_of (rows_of h pph_Height (cr_holders c)),
       bs_NumDexPoolPointsHoldersNew := new_rows h pph_Height (\<lambda>r. (pph_Address r, pph_PoolID r)) (cr_holders c)\<rparr>"

definition sql_count_orders :: "uint64 \<Rightarrow> chain_rows \<Rightarrow> BlockSummary \<Rightarrow> BlockSummary" where
  "sql_count_orders h c s =
     (let os = rows_of h ord_Height (cr_orders c)
      in s\<lparr>bs_NumOrders := size_of os,
           bs_NumOrdersOpen := count_if (\<lambda>r. ord_Status r = ''open'') os,
           bs_NumOrdersFilled := count_if (\<lambda>r. ord_Status r = ''complete'') os,
           bs_NumOrdersCancelled := count_if (\<lambda>r. ord_Status r = ''canceled'') os,
           bs_NumOrdersNew := new_rows h ord_Height ord_OrderID (cr_orders c)\<rparr>)"

definition sql_count_dex :: "uint64 \<Rightarrow> chain_rows \<Rightarrow> BlockSummary \<Rightarrow> BlockSummary" where
  "sql_count_dex h c s =
     (let os = rows_of h dxo_Height (cr_dex_orders c); ds = rows_of h dxd_Height (cr_dex_deposits c);
          ws = rows_of h dxw_Height (cr_dex_withdrawals c)
      in s\<lparr>bs_NumDexPrices := size_of (rows_of h dpx_Height (cr_dex_prices c)),
           bs_NumDexOrders := size_of os,
           bs_NumDexOrdersFuture := count_if (\<lambda>r. dxo_State r = ''future'') os,
           bs_NumDexOrdersLocked := count_if (\<lambda>r. dxo_State r = ''locked'') os,
           bs_NumDexOrdersComplete := count_if (\<lambda>r. dxo_State r = ''complete'') os,
           bs_NumDexOrdersSuccess := count_if (\<lambda>r. dxo_State r = ''complete'' \<and> dxo_Success r) os,
           bs_NumDexOrdersFailed := count_if (\<lambda>r. dxo_State r = ''complete'' \<and> \<not> dxo_Success r) os,
           bs_NumDexDeposits := size_of ds,
           bs_NumDexDepositsPending := count_if (\<lambda>r. dxd_State r = ''pending'') ds,
           bs_NumDexDepositsLocked := count_if (\<lambda>r. dxd_State r = ''locked'') ds,
           bs_NumDexDepositsComplete := count_if (\<lambda>r. dxd_State r = ''complete'') ds,
           bs_NumDexWithdrawals := size_of ws,
           bs_NumDexWithdrawalsPending := count_if (\<lambda>r. dxw_State r = ''pending'') ws,
           bs_NumDexWithdrawalsLocked := count_if (\<lambda>r. dxw_State r = ''locked'') ws,
           bs_NumDexWithdrawalsComplete := count_if (\<lambda>r. dxw_State r = ''complete'') ws\<rparr>)"

definition sql_params_supply :: "uint64 \<Rightarrow> chain_rows \<Rightarrow> BlockSummary \<Rightarrow> BlockSummary" where
  "sql_params_supply h c s =
     summary_supply (case rows_of h sup_Height (cr_supply c) of [] \<Rightarrow> None | p # _ \<Rightarrow> Some p)
       (s\<lparr>bs_ParamsChanged := rows_of h prm_Height (cr_params c) \<noteq> []\<rparr>)"

text \<open>The row that the function inserts, before its counters are set.\<close>

definition blank_summary :: "uint64 \<Rightarrow> time \<Rightarrow> uint64 \<Rightarrow> BlockSummary" where
  "blank_summary h t totalTxs = \<lparr>
     bs_Height = h, bs_HeightTime = t, bs_TotalTransactions = totalTxs, bs_NumTxs = 0, bs_NumTxsSend = 0,
     bs_NumTxsStake = 0, bs_NumTxsUnstake = 0, bs_NumTxsEditStake = 0, bs_NumTxsStartPoll = 0,
     bs_NumTxsVotePoll = 0, bs_NumTxsLockOrder = 0, bs_NumTxsCloseOrder = 0, bs_NumTxsUnknown = 0,
     bs_NumTxsPause = 0, bs_NumTxsUnpause = 0, bs_NumTxsChangeParameter = 0, bs_NumTxsDaoTransfer = 0,
     bs_NumTxsCertificateResults = 0, bs_NumTxsSubsidy = 0, bs_NumTxsCreateOrder = 0, bs_NumTxsEditOrder = 0,
     bs_NumTxsDeleteOrder = 0, bs_NumTxsDexLimitOrder = 0, bs_NumTxsDexLiquidityDeposit = 0,
     bs_NumTxsDexLiquidityWithdraw = 0, bs_NumAccounts = 0, bs_NumAccountsNew = 0, bs_NumEvents = 0,
     bs_NumEventsReward = 0, bs_NumEventsSlash = 0, bs_NumEventsDexLiquidityDeposit = 0,
     bs_NumEventsDexLiquidityWithdraw = 0, bs_NumEventsDexSwap = 0, bs_NumEventsOrderBookSwap = 0,
     bs_NumEventsAutomaticPause = 0, bs_NumEventsAutomaticBeginUnstaking = 0,
     bs_NumEventsAutomaticFinishUnstaking = 0, bs_NumOrders = 0, bs_NumOrdersNew = 0, bs_NumOrdersOpen = 0,
     bs_NumOrdersFilled = 0, bs_NumOrdersCancelled = 0, bs_NumPools = 0, bs_NumPoolsNew = 0,
     bs_NumDexPrices = 0, bs_NumDexOrders = 0, bs_NumDexOrdersFuture = 0, bs_NumDexOrdersLocked = 0,
     bs_NumDexOrdersComplete = 0, bs_NumDexOrdersSuccess = 0, bs_NumDexOrdersFailed = 0, bs_NumDexDeposits = 0,
     bs_NumDexDepositsPending = 0, bs_NumDexDepositsLocked = 0, bs_NumDexDepositsComplete = 0,
     bs_NumDexWithdrawals = 0, bs_NumDexWithdrawalsPending = 0, bs_NumDexWithdrawalsLocked = 0,
     bs_NumDexWithdrawalsComplete = 0, bs_NumDexPoolPointsHolders = 0, bs_NumDexPoolPointsHoldersNew = 0,
     bs_ParamsChanged = False, bs_NumValidators = 0, bs_NumValidatorsNew = 0, bs_NumValidatorsActive = 0,
     bs_NumValidatorsPaused = 0, bs_NumValidatorsUnstaking = 0, bs_NumValidatorNonSigningInfo = 0,
     bs_NumValidatorNonSigningInfoNew = 0, bs_NumValidatorDoubleSigningInfo = 0, bs_NumCommittees = 0,
     bs_NumCommitteesNew = 0, bs_NumCommitteesSubsidized = 0, bs_NumCommitteesRetired = 0,
     bs_NumCommitteeValidators = 0, bs_NumCommitteePayments = 0, bs_SupplyChanged = False, bs_SupplyTotal = 0,
     bs_SupplyStaked = 0, bs_SupplyDelegatedOnly = 0\<rparr>"

definition sql_summary :: "uint64 \<Rightarrow> time \<Rightarrow> chain_rows \<Rightarrow> BlockSummary" where
  "sql_summary h t c =
     (let totalTxs = (case rows_of h blk_Height (cr_blocks c) of [] \<Rightarrow> 0 | b # _ \<Rightarrow> blk_TotalTxs b)
      in sql_params_supply h c (sql_count_dex h c (sql_count_orders h c (sql_count_pools h c
           (sql_count_committees h c (sql_count_validators h c (sql_count_events (rows_of h evr_Height (cr_events c))
           (sql_count_accounts h c (sql_count_txs (rows_of h tx_Height (cr_txs c)) (blank_summary h t totalTxs))))))))))"

text \<open>\<open>INSERT ... ON CONFLICT (chain_id, height) DO UPDATE\<close>: of a row that is there, eight columns are replaced.\<close>

definition build_block_summary ::
  "uint64 \<Rightarrow> time \<Rightarrow> chain_rows \<Rightarrow> (uint64 \<rightharpoonup> BlockSummary) \<Rightarrow> (uint64 \<rightharpoonup> BlockSummary)" where
  "build_block_summary h t c summaries =
     (let s = sql_summary h t c
      in summaries(h \<mapsto> (case summaries h of
           None \<Rightarrow> s
         | Some old \<Rightarrow> old\<lparr>bs_TotalTransactions := bs_TotalTransactions s, bs_NumTxs := bs_NumTxs s,
             bs_NumAccounts := bs_NumAccounts s, bs_NumEvents := bs_NumEvents s,
             bs_NumValidators := bs_NumValidators s, bs_NumCommittees := bs_NumCommittees s,
             bs_NumPools := bs_NumPools s, bs_SupplyTotal := bs_SupplyTotal s\<rparr>)))"

section \<open>The two implementations\<close>

lemmas sql_sections = sql_count_txs_def sql_count_accounts_def sql_count_events_def sql_count_validators_def
  sql_count_committees_def sql_count_pools_def sql_count_orders_def sql_count_dex_def

lemma sql_supply_simps:
  "bs_SupplyTotal (sql_params_supply h c s) =
     (case rows_of h sup_Height (cr_supply c) of [] \<Rightarrow> bs_SupplyTotal s | p # _ \<Rightarrow> sup_Total p)"
  "bs_TotalTransactions (sql_params_supply h c s) = bs_TotalTransactions s"
  "bs_NumTxs (sql_params_supply h c s) = bs_NumTxs s" "bs_NumEvents (sql_params_supply h c s) = bs_NumEvents s"
  "bs_NumAccounts (sql_params_supply h c s) = bs_NumAccounts s"
  "bs_NumValidators (sql_params_supply h c s) = bs_NumValidators s"
  "bs_NumCommittees (sql_params_supply h c s) = bs_NumCommittees s"
  "bs_NumPools (sql_params_supply h c s) = bs_NumPools s"
  "dex_counts (sql_params_supply h c s) = dex_counts s" "order_counts (sql_params_supply h c s) = order_counts s"
  "validator_counts (sql_params_supply h c s) = validator_counts s"
  by (simp_all add: sql_params_supply_def summary_supply_def count_groups split: list.split)

text \<open>What the counting loops of the code leave alone.\<close>

definition kept :: "BlockSummary \<Rightarrow> uint64 \<times> uint64 \<times> uint32 list" where
  "kept s = (bs_TotalTransactions s, bs_SupplyTotal s,
     [bs_NumAccounts s, bs_NumValidators s, bs_NumCommittees s, bs_NumPools s])"

lemma kept_loops:
  "kept (foldl count_tx s txs) = kept s" "kept (foldl count_event s es) = kept s"
  "kept (foldl count_dex_order s xs) = kept s" "kept (foldl count_dex_deposit s ds) = kept s"
  "kept (foldl count_dex_withdrawal s ws) = kept s" "kept (foldl count_order s rs) = kept s"
  "kept (foldl count_validator s vs) = kept s"
  by (rule foldl_frame; simp add: kept_def count_tx_def count_event_def count_dex_order_def count_dex_deposit_def
      count_dex_withdrawal_def count_order_def count_validator_def Let_def)+

lemma kept_summarize:
  "kept (summarize d) = (blk_TotalTxs (ibd_Block d), case ibd_Supply d of None \<Rightarrow> 0 | Some p \<Rightarrow> sup_Total p,
     [of_nat (length (ibd_Accounts d)), of_nat (length (ibd_Validators d)), of_nat (length (ibd_Committees d)),
      of_nat (length (ibd_Pools d))])"
proof -
  have spl: "kept (summary_supply p s) = (bs_TotalTransactions s,
      case p of None \<Rightarrow> bs_SupplyTotal s | Some q \<Rightarrow> sup_Total q,
      [bs_NumAccounts s, bs_NumValidators s, bs_NumCommittees s, bs_NumPools s])" for p s
    by (simp add: kept_def summary_supply_def split: option.split)
  have k: "kept (foldl count_validator (foldl count_order (foldl count_dex_withdrawal (foldl count_dex_deposit
      (foldl count_dex_order (foldl count_event (foldl count_tx (summary_init d) (ibd_Transactions d)) (ibd_Events d))
      (ibd_DexOrders d)) (ibd_DexDeposits d)) (ibd_DexWithdrawals d)) (ibd_Orders d)) (ibd_Validators d)) =
      kept (summary_init d)" (is "kept ?s = _")
    by (simp only: kept_loops)
  then have "bs_TotalTransactions ?s = blk_TotalTxs (ibd_Block d)" "bs_SupplyTotal ?s = 0"
    "bs_NumAccounts ?s = of_nat (length (ibd_Accounts d))" "bs_NumValidators ?s = of_nat (length (ibd_Validators d))"
    "bs_NumCommittees ?s = of_nat (length (ibd_Committees d))" "bs_NumPools ?s = of_nat (length (ibd_Pools d))"
    unfolding kept_def by (simp_all add: summary_init_def)
  then show ?thesis unfolding summarize_def Let_def spl by (simp split: option.split)
qed

text \<open>The rows of the chain at a height are those that a block's data were written to.\<close>

definition synced_rows :: "uint64 \<Rightarrow> BlockData \<Rightarrow> chain_rows \<Rightarrow> bool" where
  "synced_rows h d c \<longleftrightarrow>
     rows_of h blk_Height (cr_blocks c) = [ibd_Block d] \<and>
     rows_of h acct_Height (cr_accounts c) = ibd_Accounts d \<and>
     rows_of h vld_Height (cr_validators c) = ibd_Validators d \<and>
     rows_of h cmr_Height (cr_committees c) = map committee_db_row (ibd_Committees d) \<and>
     rows_of h pol_Height (cr_pools c) = ibd_Pools d \<and>
     rows_of h ord_Height (cr_orders c) = ibd_Orders d \<and>
     rows_of h dxo_Height (cr_dex_orders c) = ibd_DexOrders d \<and>
     rows_of h sup_Height (cr_supply c) = opt_rows (ibd_Supply d)"

lemma sql_groups:
  assumes "synced_rows h d c"
  shows "dex_counts (sql_summary h t c) = dex_counts (summarize d)"
    and "order_counts (sql_summary h t c) = order_counts (summarize d)"
    and "validator_counts (sql_summary h t c) = validator_counts (summarize d)"
  using assms unfolding summarize_counts sql_summary_def Let_def sql_supply_simps synced_rows_def
  by (simp_all add: count_groups sql_sections of_nat_length_count_if Let_def)

lemma sql_kept:
  assumes "synced_rows h d c"
  shows "kept (sql_summary h t c) = kept (summarize d)"
  using assms unfolding kept_summarize unfolding kept_def sql_summary_def Let_def sql_supply_simps synced_rows_def
  by (simp add: sql_sections blank_summary_def Let_def count_if_def opt_rows_def split: option.split)

lemma sql_sizes:
  "bs_NumTxs (sql_summary h t c) = size_of (rows_of h tx_Height (cr_txs c))"
  "bs_NumEvents (sql_summary h t c) = size_of (rows_of h evr_Height (cr_events c))"
  unfolding sql_summary_def Let_def sql_supply_simps by (simp_all add: sql_sections Let_def)

text \<open>
  On the synchronized rows of a block both implementations count orders, DEX orders and validators in the same
  way, state by state. But a block that was indexed has a summary, and of that the database function replaces
  only eight columns: six keep their value, the numbers of transactions and of events become the numbers of
  stored rows, and no counter that the code leaves at zero is ever filled.
\<close>

theorem summary_implementations:
  assumes "synced_rows h d c"
  shows "dex_counts (sql_summary h t c) = dex_counts (summarize d) \<and>
    order_counts (sql_summary h t c) = order_counts (summarize d) \<and>
    validator_counts (sql_summary h t c) = validator_counts (summarize d) \<and>
    build_block_summary h t c (summaries(h \<mapsto> summarize d)) = summaries(h \<mapsto> (summarize d)\<lparr>
      bs_NumTxs := of_nat (length (rows_of h tx_Height (cr_txs c))),
      bs_NumEvents := of_nat (length (rows_of h evr_Height (cr_events c)))\<rparr>)"
proof (intro conjI)
  have kept: "bs_TotalTransactions (sql_summary h t c) = bs_TotalTransactions (summarize d)"
    "bs_SupplyTotal (sql_summary h t c) = bs_SupplyTotal (summarize d)"
    "bs_NumAccounts (sql_summary h t c) = bs_NumAccounts (summarize d)"
    "bs_NumValidators (sql_summary h t c) = bs_NumValidators (summarize d)"
    "bs_NumCommittees (sql_summary h t c) = bs_NumCommittees (summarize d)"
    "bs_NumPools (sql_summary h t c) = bs_NumPools (summarize d)"
    using sql_kept [OF assms, of t] by (simp_all add: kept_def)
  show "build_block_summary h t c (summaries(h \<mapsto> summarize d)) = summaries(h \<mapsto> (summarize d)\<lparr>
      bs_NumTxs := of_nat (length (rows_of h tx_Height (cr_txs c))),
      bs_NumEvents := of_nat (length (rows_of h evr_Height (cr_events c)))\<rparr>)"
    unfolding build_block_summary_def Let_def kept sql_sizes of_nat_length_count_if by simp
qed (rule sql_groups [OF assms])+

end
