(* ===== verification/Spec2Isabelle.thy ===== *)
theory Spec2Isabelle
  imports Histories ConversionProps AdminDB Reachable SummaryProps RpcApi Worker SyncedIndexing CrossQueryProps
    Listener Concurrent Api Entities ChainQueries Commands Setup AdminQueries SummarySql
begin

text \<open>
  The block indexer of the Canopy network: a verification development.

  \<^bold>\<open>The program.\<close> The indexer follows several chains. For each it asks a node for the blob of a height (the block
  and the state before and after it), converts it to table rows and writes them, in one transaction, to a
  PostgreSQL schema of its own (\<open>chain_<id>\<close>). Most tables are snapshots on change: an entity has a row only at
  the heights at which it changed. A block arrives over a WebSocket, from a queue (Redis) or from the
  backfiller, which looks for missing heights. The chains are rows of an admin table, which an HTTP API edits
  and which is read again every few seconds; triggers copy the rows of all chains to a cross-chain schema that
  serves queries. The parts meet as follows: internal/indexer calls pkg/rpc (blobs), pkg/blob (decoding),
  pkg/transform (conversion), pkg/db/postgres/chain (writes), pkg/db/postgres/admin (progress) and
  internal/publisher (announcement); internal/worker, internal/listener and internal/backfill call
  internal/indexer; internal/api edits what \<open>Rediscover\<close> of internal/indexer reads; cmd/ ties them together.

  \<^bold>\<open>How the model is built.\<close> A struct is a record whose fields carry a prefix of the struct and keep the order of
  the source, a Go integer is a word of its width (\<open>int\<close> for Go's \<open>int\<close> and for durations), an error is a
  value: \<open>outcome\<close> is \<open>Ok\<close>, \<open>Fail\<close> with the error, or \<open>Panic\<close>. A loop over a slice that appends is
  \<open>collect\<close> or \<open>map\<close>, one that fills a map is \<open>index_by\<close>. A table is a map from its primary key to the row, so
  an insert with ON CONFLICT is a map update. State is passed explicitly. What is not code of the repository is an
  argument: the messages and decoders of the canopy library (\<open>canopy_lib\<close>, \<open>blob_codec\<close>), what the database
  answers to each statement (\<open>sql_env\<close>, \<open>index_env\<close>, \<open>setup_env\<close>), what the network answers (\<open>rpc_env\<close>, dials
  of a listener, \<open>api_env\<close>), clocks, the order in which Go iterates a map or runs goroutines, and the floating
  point product in \<open>time.ParseDuration\<close>. A law needed of such an argument is a named hypothesis of the theorem
  that uses it, and each such theorem is applied to a concrete instance in its witness (theory Samples).

  \<^bold>\<open>Which theory models what.\<close>

  \<^item> Prelude, GoText, GoParse: Go's types, outcomes and loop shapes; the formatting and parsing of numbers, hex
    and durations; \<open>Dedup\<close> of pkg/utils.
  \<^item> CanopyTypes, Models, CrossModels: the node's messages, the row structs of pkg/db/models and of
    pkg/db/postgres/crosschain/store.go.
  \<^item> SnapshotChange: the contract of snapshot-on-change storage, as the locales \<open>change_log\<close>,
    \<open>minimal_change_log\<close>, \<open>snapshot_diff\<close>, \<open>exact_snapshot_diff\<close> and \<open>counter_log\<close>: looking up the latest row
    at or below a height returns the entity as it was at that height.
  \<^item> ConvSnapshots, ConvPools, ConvParams, ConvValidators, ConvDex, Convert:
    internal/indexer/conversions.go; every change-detecting converter interprets one of these locales.
  \<^item> Transform (pkg/transform), Blob (pkg/blob).
  \<^item> ChainStore, ChainQueries: pkg/db/postgres/chain (inserts.go, deletes.go, queries.go, store.go) and the
    transaction of pkg/db/postgres/client.go. The locale \<open>upsert_op\<close> is the contract of an insert; every insert
    interprets it. The locale \<open>retryable\<close>, which it gives, is the contract of a store method that may be tried
    again.
  \<^item> Summary, Indexer: \<open>buildBlockSummary\<close>, \<open>IndexBlockWithData\<close>, \<open>IndexBlock\<close> of internal/indexer/indexer.go.
  \<^item> Queue, Worker: internal/publisher and internal/worker.
  \<^item> RpcClient, RpcApi: pkg/rpc (fail-over, circuit breaker, token bucket, cache, paging) and
    internal/rpc/validation.go.
  \<^item> AdminDB, AdminQueries, Registry, Config, Api: pkg/db/postgres/admin; \<open>AddChain\<close>, \<open>RemoveChain\<close>, \<open>Rediscover\<close>, \<open>Close\<close>
    of the indexer; internal/config, the configuration of internal/backfill, and the rediscovery loop of
    cmd/indexer; internal/api/handler.
  \<^item> Gaps, Backfill, Commands: internal/backfill and cmd/backfill. The locale \<open>gap_filler\<close> (theory
    BackfillProps) is what the backfiller relies on; it is interpreted on \<open>IndexBlock\<close>.
  \<^item> SummarySql: the function \<open>build_block_summary\<close> of pkg/db/postgres/crosschain/functions.go, compared with
    \<open>buildBlockSummary\<close>.
  \<^item> Columns, Schema, CrossSync, CrossQuery: the column definitions, the CREATE TABLE statements of both schemas as
    tables of typed columns, the triggers and bulk copies between them, and the query builder and the typed
    queries of pkg/db/postgres/crosschain.
  \<^item> Listener: internal/listener. The locale \<open>message_loop\<close> is interpreted on both listeners.
  \<^item> Entities (pkg/db/entities), Setup (pkg/retry, opening the three databases).
  \<^item> TimeTravel, Histories, ConversionProps, IndexRuns, Concurrent, Reachable, SummaryProps, BackfillProps,
    CrossSyncProps, SyncedIndexing, CrossQueryProps: properties that span components.
\<close>

text \<open>
  \<^bold>\<open>What the groups of properties show.\<close>

  \<^item> Time travel (Histories): after any set of heights was indexed, in whatever order, the historical query on
    accounts, validators, committees, pools, holders, orders, prices, signing counters, parameters and the
    supply returns what the chain's state was, for every height up to the last one of an unbroken range. The
    proof composes the converter's locale, the upserts, the transaction and the indexing of a range
    (\<open>entity_history\<close>).
  \<^item> Runs (IndexRuns, Concurrent, Reachable): a block is written as a whole or not at all, also when runs on it
    interleave; a second run changes nothing; deletion undoes indexing; the order of the heights does not
    matter; every announced height is stored. What does not hold is stated as well: a failed summary is never
    repaired, and installed synchronization triggers reject most blocks (SyncedIndexing).
  \<^item> Conversions and types (ConversionProps, SummaryProps, Schema, CrossSyncProps): the rows of the DEX phases
    and of validators, the counters of the summary, and which statements fit the declared tables.
  \<^item> Network (RpcClient, RpcApi, Listener): bounds of the token bucket, the cycle of the breaker, fail-over as a
    search for the first success, completeness of paging, and when a listener gives up.
  \<^item> Operation (Worker, Registry, Config, Api, BackfillProps, Commands, ChainQueries, Setup): acknowledged
    messages are stored blocks; the registry, the listeners and the backfills follow the admin table; the API
    changes what it says and nothing without the token; a backfill ends and fills its range; store methods can
    be tried again; opening a database never alters a table.

  \<^bold>\<open>Recursion and bounds.\<close> The functions are total. The batches of a backfill (\<open>run_batches\<close>) end because
    each batch starts above the last, with the distance to the end of the range as measure; a concurrency of
    zero, with which the code waits forever, is the result \<open>None\<close>, and \<open>backfill_returns\<close> and
    \<open>backfill_command_ends\<close> show that it does not occur with the configurations that the program loads. A
    loop over the network (\<open>reconnect_loop\<close>) recurses over the script of dials it is given, a periodic loop
    (\<open>discovery_ticks\<close>) over the number of its ticks, and \<open>retry_loop\<close> over the attempts that
    \<open>MaxRetries\<close> leaves. Parsing a duration or trimming a text ends by the length of the rest.

  \<^bold>\<open>Not modelled.\<close> The SQL of the analytic views, of which only names and columns
  appear; indexes, permissions and the planner; the pool of connections beyond its configuration; rounding
  of floating point numbers (delays of a retry, columns of analytic rows); JSON, protobuf and the router,
  which are arguments; logging, metrics, printing, signal handling and the wiring in the two
  \<open>main\<close> functions; \<open>HashOrRead\<close> and \<open>DrainAndClose\<close> of pkg/utils.
  Goroutines run one after the other in an order that is an argument, except in Concurrent (runs of one
  block step by step) and Commands (goroutines that outlive their cancellation).
\<close>

end
